(* ===== verification/Prelude.thy ===== *)
theory Prelude
  imports Main "HOL-Library.Char_ord" "HOL-Library.List_Lexorder"
begin

text \<open>
  Shared vocabulary of the development: the Python values and string methods that the
  build-support scripts use, and the generic facts about them.

  Python text is modelled as \<^typ>\<open>string\<close>, one \<^typ>\<open>char\<close> per code point, so
  the model covers text whose code points lie below 256 (Latin-1).  Character classes
  (\<open>str.isspace\<close>, \<open>str.isalnum\<close>, \<open>str.lower\<close>) are written out for that
  range.  Python integers are \<^typ>\<open>int\<close>, or \<^typ>\<open>nat\<close> where the code keeps
  them non-negative; an index that can be \<open>-1\<close> is an \<^typ>\<open>int\<close>.
\<close>

named_theorems py_simps \<open>unfolding and length facts of the Python string model\<close>

section \<open>Exceptions and results\<close>

datatype py_error =
    IndexError
  | KeyError
  | AttributeError
  | AssertionError
  | ValueError string
  | SystemExit int
  | NameError
  | OSError
  | CalledProcessError
  | UnicodeDecodeError
  | ReError  \<comment> \<open>\<open>re.error\<close>\<close>
  | Killed  \<comment> \<open>not an exception: the process is ended by a signal\<close>
  | NoReturn  \<comment> \<open>not an exception: the run does not end\<close>

type_synonym 'a py = "py_error + 'a"

definition py_bind :: "'a py \<Rightarrow> ('a \<Rightarrow> 'b py) \<Rightarrow> 'b py" where
  "py_bind m f = (case m of Inl e \<Rightarrow> Inl e | Inr x \<Rightarrow> f x)"

lemma py_bind_simps [simp]:
  "py_bind (Inl e) f = Inl e"
  "py_bind (Inr x) f = f x"
  by (simp_all add: py_bind_def)

lemma py_bind_Inr_iff: "py_bind m f = Inr y \<longleftrightarrow> (\<exists>x. m = Inr x \<and> f x = Inr y)"
  by (cases m) simp_all

text \<open>A predicate of the exception and one of the result: one rule per construct of the code.\<close>

definition outcome :: "(py_error \<Rightarrow> bool) \<Rightarrow> ('a \<Rightarrow> bool) \<Rightarrow> 'a py \<Rightarrow> bool" where
  "outcome E P r \<longleftrightarrow> (case r of Inl e \<Rightarrow> E e | Inr x \<Rightarrow> P x)"

lemma outcome_simps [simp]: "outcome E P (Inr x) \<longleftrightarrow> P x" "outcome E P (Inl e) \<longleftrightarrow> E e"
  by (simp_all add: outcome_def)

lemma outcome_rules:
  "P x \<Longrightarrow> outcome E P (Inr x)" "E e \<Longrightarrow> outcome E P (Inl e)"
  "(b \<Longrightarrow> outcome E P m) \<Longrightarrow> (\<not> b \<Longrightarrow> outcome E P m') \<Longrightarrow> outcome E P (if b then m else m')"
  by simp_all

lemma outcome_option:
  "(x = None \<Longrightarrow> outcome E P m) \<Longrightarrow> (\<And>a. x = Some a \<Longrightarrow> outcome E P (k a))
     \<Longrightarrow> outcome E P (case x of None \<Rightarrow> m | Some a \<Rightarrow> k a)"
  by (cases x) simp_all

lemma outcome_bind:
  "outcome E Q m \<Longrightarrow> (\<And>x. m = Inr x \<Longrightarrow> Q x \<Longrightarrow> outcome E P (k x)) \<Longrightarrow> outcome E P (py_bind m k)"
  by (cases m) simp_all

lemma outcome_weaken:
  "outcome E P r \<Longrightarrow> (\<And>e. E e \<Longrightarrow> E' e) \<Longrightarrow> (\<And>x. P x \<Longrightarrow> P' x) \<Longrightarrow> outcome E' P' r"
  by (cases r) simp_all

text \<open>\<open>xs[i]\<close>: a negative index counts from the end, an index out of range raises.\<close>

definition py_nth :: "'a list \<Rightarrow> int \<Rightarrow> 'a py" where
  "py_nth xs i =
     (if i \<ge> 0 then (if nat i < length xs then Inr (xs ! nat i) else Inl IndexError)
      else if nat (- i) \<le> length xs then Inr (xs ! (length xs - nat (- i)))
      else Inl IndexError)"

lemma py_nth_nonneg: "0 \<le> i \<Longrightarrow> i < int (length xs) \<Longrightarrow> py_nth xs i = Inr (xs ! nat i)"
  by (simp add: py_nth_def)

lemma py_nth_of_nat [simp]: "i < length xs \<Longrightarrow> py_nth xs (int i) = Inr (xs ! i)"
  by (simp add: py_nth_def)

section \<open>Characters\<close>

abbreviation chr_code :: "char \<Rightarrow> nat" where
  "chr_code \<equiv> of_char"

definition isspace :: "char \<Rightarrow> bool" where
  "isspace c \<longleftrightarrow> (let n = chr_code c in
     (9 \<le> n \<and> n \<le> 13) \<or> (28 \<le> n \<and> n \<le> 32) \<or> n = 133 \<or> n = 160)"

definition isdigit :: "char \<Rightarrow> bool" where
  "isdigit c \<longleftrightarrow> (let n = chr_code c in 48 \<le> n \<and> n \<le> 57)"

definition isalnum :: "char \<Rightarrow> bool" where
  "isalnum c \<longleftrightarrow> (let n = chr_code c in
     (48 \<le> n \<and> n \<le> 57) \<or> (65 \<le> n \<and> n \<le> 90) \<or> (97 \<le> n \<and> n \<le> 122)
     \<or> n = 170 \<or> n = 178 \<or> n = 179 \<or> n = 181 \<or> n = 185 \<or> n = 186
     \<or> (188 \<le> n \<and> n \<le> 190) \<or> (192 \<le> n \<and> n \<le> 255 \<and> n \<noteq> 215 \<and> n \<noteq> 247))"

definition isword :: "char \<Rightarrow> bool" where
  "isword c \<longleftrightarrow> isalnum c \<or> c = CHR ''_''"

definition chr_lower :: "char \<Rightarrow> char" where
  "chr_lower c = (let n = chr_code c in
     if (65 \<le> n \<and> n \<le> 90) \<or> (192 \<le> n \<and> n \<le> 222 \<and> n \<noteq> 215)
     then char_of (n + 32) else c)"

text \<open>Only applied to ASCII letters, digits and underscores by the code.\<close>

definition chr_upper :: "char \<Rightarrow> char" where
  "chr_upper c = (let n = chr_code c in
     if 97 \<le> n \<and> n \<le> 122 then char_of (n - 32) else c)"

section \<open>String methods\<close>

fun startswith :: "string \<Rightarrow> string \<Rightarrow> bool" where
  "startswith s [] = True"
| "startswith [] (p # ps) = False"
| "startswith (c # cs) (p # ps) = (c = p \<and> startswith cs ps)"

definition endswith :: "string \<Rightarrow> string \<Rightarrow> bool" where
  "endswith s p = startswith (rev s) (rev p)"

lemma startswith_iff: "startswith s p \<longleftrightarrow> (\<exists>t. s = p @ t)"
  by (induction s p rule: startswith.induct) auto

lemma startswith_append [simp]: "startswith (p @ t) p"
  by (auto simp: startswith_iff)

lemma startswith_append_single:
  "xs \<noteq> [] \<Longrightarrow> startswith (xs @ ys) [c] \<longleftrightarrow> startswith xs [c]"
  by (cases xs) auto

lemma startswith_length: "startswith s p \<Longrightarrow> length p \<le> length s"
  by (auto simp: startswith_iff)

lemma startswith_take_drop: "startswith s p \<Longrightarrow> s = p @ drop (length p) s"
  by (auto simp: startswith_iff)

lemma endswith_iff: "endswith s p \<longleftrightarrow> (\<exists>t. s = t @ p)"
proof
  assume "endswith s p"
  then obtain t where "rev s = rev p @ t"
    by (auto simp: endswith_def startswith_iff)
  then have "s = rev t @ p" by (metis rev_append rev_rev_ident)
  then show "\<exists>t. s = t @ p" by blast
next
  assume "\<exists>t. s = t @ p"
  then show "endswith s p" by (auto simp: endswith_def)
qed

text \<open>\<open>s.find(p)\<close> as an option; Python's \<open>-1\<close> is \<^const>\<open>None\<close>.\<close>

fun find_opt :: "string \<Rightarrow> string \<Rightarrow> nat option" where
  "find_opt [] p = (if p = [] then Some 0 else None)"
| "find_opt (c # cs) p =
     (if startswith (c # cs) p then Some 0 else map_option Suc (find_opt cs p))"

definition py_find :: "string \<Rightarrow> string \<Rightarrow> int" where
  "py_find s p = (case find_opt s p of None \<Rightarrow> -1 | Some i \<Rightarrow> int i)"

lemma find_opt_Some:
  "find_opt s p = Some i \<Longrightarrow> i + length p \<le> length s \<and> startswith (drop i s) p"
proof (induction s arbitrary: i)
  case (Cons c cs)
  then show ?case
    by (auto split: if_splits dest: startswith_length)
qed (auto split: if_splits)

lemma find_opt_split:
  assumes "find_opt s p = Some i"
  shows "s = take i s @ p @ drop (i + length p) s"
proof -
  from find_opt_Some [OF assms] obtain t where t: "drop i s = p @ t"
    by (auto simp: startswith_iff)
  then have "drop (i + length p) s = t"
    by (metis add.commute append_eq_conv_conj drop_drop)
  with t show ?thesis by (metis append_take_drop_id)
qed

lemma find_opt_least:
  "find_opt s p = Some i \<Longrightarrow> j < i \<Longrightarrow> \<not> startswith (drop j s) p"
proof (induction s arbitrary: i j)
  case (Cons c cs)
  then show ?case
    by (cases j) (auto split: if_splits)
qed (auto split: if_splits)

lemma find_opt_None: "find_opt s p = None \<longleftrightarrow> (\<forall>i \<le> length s. \<not> startswith (drop i s) p)"
proof (induction s)
  case Nil
  then show ?case by (cases p) auto
next
  case (Cons c cs)
  have "(\<forall>i \<le> length (c # cs). \<not> startswith (drop i (c # cs)) p) \<longleftrightarrow>
    \<not> startswith (c # cs) p \<and> (\<forall>i \<le> length cs. \<not> startswith (drop i cs) p)"
    (is "?L \<longleftrightarrow> ?R")
  proof
    assume L: ?L
    have "\<not> startswith (drop i cs) p" if "i \<le> length cs" for i
      using L [rule_format, of "Suc i"] that by simp
    moreover have "\<not> startswith (c # cs) p" using L [rule_format, of 0] by simp
    ultimately show ?R by blast
  next
    assume ?R
    then show ?L by (auto simp: drop_Cons split: nat.split)
  qed
  with Cons.IH show ?case by simp
qed


lemma py_find_nonneg_iff: "0 \<le> py_find s p \<longleftrightarrow> (\<exists>i. find_opt s p = Some i)"
  by (simp add: py_find_def split: option.split)

text \<open>\<open>sub in s\<close> on strings.\<close>

definition contains :: "string \<Rightarrow> string \<Rightarrow> bool" where
  "contains s p \<longleftrightarrow> find_opt s p \<noteq> None"

lemma contains_iff: "contains s p \<longleftrightarrow> (\<exists>a b. s = a @ p @ b)"
proof
  assume "contains s p"
  then show "\<exists>a b. s = a @ p @ b"
    unfolding contains_def using find_opt_split by blast
next
  assume "\<exists>a b. s = a @ p @ b"
  then obtain a b where s: "s = a @ p @ b" by blast
  then have "startswith (drop (length a) s) p" "length a \<le> length s" by simp_all
  then show "contains s p" unfolding contains_def find_opt_None by blast
qed

text \<open>
  \<open>s.count(p)\<close> and \<open>s.replace(p, r)\<close> scan from the left and skip the whole
  occurrence; the code only calls them with a non-empty \<open>p\<close>.
\<close>

function py_count :: "string \<Rightarrow> string \<Rightarrow> nat" where
  "py_count s p =
     (if p = [] then length s + 1
      else if s = [] then 0
      else if startswith s p then Suc (py_count (drop (length p) s) p)
      else py_count (tl s) p)"
  by pat_completeness auto
termination
  by (relation "measure (\<lambda>(s, p). length s)") auto

declare py_count.simps [simp del]

function py_replace :: "string \<Rightarrow> string \<Rightarrow> string \<Rightarrow> string" where
  "py_replace s p r =
     (if p = [] \<or> s = [] then s
      else if startswith s p then r @ py_replace (drop (length p) s) p r
      else hd s # py_replace (tl s) p r)"
  by pat_completeness auto
termination
  by (relation "measure (\<lambda>(s, p, r). length s)") auto

declare py_replace.simps [simp del]

lemma py_count_char: "py_count s [c] = count_list s c"
proof (induction s)
  case Nil
  then show ?case by (simp add: py_count.simps)
next
  case (Cons x s)
  then show ?case by (subst py_count.simps) simp
qed

lemma py_replace_char:
  "py_replace s [c] [d] = map (\<lambda>x. if x = c then d else x) s"
proof (induction s)
  case Nil
  then show ?case by (simp add: py_replace.simps)
next
  case (Cons x s)
  then show ?case by (subst py_replace.simps) simp
qed

lemma py_replace_id: "\<not> contains s p \<Longrightarrow> py_replace s p r = s"
proof (induction s)
  case Nil
  then show ?case by (simp add: py_replace.simps)
next
  case (Cons x s)
  then have "\<not> startswith (x # s) p" and "\<not> contains s p"
    by (auto simp: contains_def split: if_splits)
  with Cons.IH show ?case by (subst py_replace.simps) simp
qed

fun split_on :: "char \<Rightarrow> string \<Rightarrow> string list" where
  "split_on d [] = [[]]"
| "split_on d (c # cs) =
     (if c = d then [] # split_on d cs
      else (case split_on d cs of [] \<Rightarrow> [[c]] | w # ws \<Rightarrow> (c # w) # ws))"

fun join :: "string \<Rightarrow> string list \<Rightarrow> string" where
  "join sep [] = []"
| "join sep [x] = x"
| "join sep (x # y # ys) = x @ sep @ join sep (y # ys)"

lemma split_on_neq_Nil [simp]: "split_on d s \<noteq> []"
  by (induction s) (auto split: list.splits)

lemma join_split_on [simp]: "join [d] (split_on d s) = s"
proof (induction s)
  case (Cons c cs)
  obtain w ws where ws: "split_on d cs = w # ws"
    by (cases "split_on d cs") auto
  with Cons show ?case by (cases ws) auto
qed simp

lemma split_on_no_sep: "w \<in> set (split_on d s) \<Longrightarrow> d \<notin> set w"
proof (induction s arbitrary: w)
  case (Cons c cs)
  then show ?case by (auto split: if_splits list.splits)
qed simp

definition lstrip :: "string \<Rightarrow> string" where
  "lstrip s = dropWhile isspace s"

definition rstrip :: "string \<Rightarrow> string" where
  "rstrip s = rev (dropWhile isspace (rev s))"

definition strip :: "string \<Rightarrow> string" where
  "strip s = rstrip (lstrip s)"

lemma length_lstrip: "length (lstrip s) \<le> length s"
  by (simp add: lstrip_def length_dropWhile_le)

lemma length_rstrip: "length (rstrip s) \<le> length s"
  unfolding rstrip_def by (metis length_dropWhile_le length_rev)

lemma set_rstrip: "set (rstrip s) \<subseteq> set s"
  unfolding rstrip_def by (metis set_dropWhileD set_rev subsetI)

lemma rstrip_prefix: "\<exists>w. s = rstrip s @ w \<and> (\<forall>c \<in> set w. isspace c)"
proof -
  have "s = rev (takeWhile isspace (rev s) @ dropWhile isspace (rev s))" by simp
  also have "\<dots> = rstrip s @ rev (takeWhile isspace (rev s))"
    by (simp add: rstrip_def del: takeWhile_dropWhile_id)
  finally show ?thesis by (metis set_rev set_takeWhileD)
qed

text \<open>\<open>s.split()\<close>: maximal runs of non-space characters.\<close>

function split_ws :: "string \<Rightarrow> string list" where
  "split_ws s =
     (let t = lstrip s in
      if t = [] then []
      else takeWhile (\<lambda>c. \<not> isspace c) t # split_ws (dropWhile (\<lambda>c. \<not> isspace c) t))"
  by pat_completeness auto
termination
proof (relation "measure length", goal_cases)
  case 1
  show ?case by simp
next
  case (2 s x)
  then obtain c cs where t: "lstrip s = c # cs" by (cases "lstrip s") auto
  then have "\<not> isspace c"
    unfolding lstrip_def by (metis dropWhile_eq_Cons_conv)
  then have "length (dropWhile (\<lambda>c. \<not> isspace c) (c # cs)) \<le> length cs"
    by (simp add: length_dropWhile_le)
  moreover have "length cs < length s"
    using length_lstrip [of s] t by simp
  ultimately show ?case using 2 t by simp
qed

declare split_ws.simps [simp del]

definition lower :: "string \<Rightarrow> string" where
  "lower s = map chr_lower s"

definition upper :: "string \<Rightarrow> string" where
  "upper s = map chr_upper s"

text \<open>Decimal text of a number, as \<open>str(n)\<close> and \<open>'%d'\<close> print it.\<close>

fun nat_str :: "nat \<Rightarrow> string" where
  "nat_str n = (if n < 10 then [char_of (48 + n)] else nat_str (n div 10) @ [char_of (48 + n mod 10)])"

declare nat_str.simps [simp del]

definition int_str :: "int \<Rightarrow> string" where
  "int_str i = (if i < 0 then CHR ''-'' # nat_str (nat (- i)) else nat_str (nat i))"

section \<open>Python sets as duplicate-free lists\<close>

text \<open>
  A \<open>set\<close> of strings is a list without duplicates; only membership and the
  operations below are used by the code.
\<close>

definition set_add :: "'a \<Rightarrow> 'a list \<Rightarrow> 'a list" where
  "set_add x xs = (if x \<in> set xs then xs else xs @ [x])"

lemma set_set_add [simp]: "set (set_add x xs) = insert x (set xs)"
  by (auto simp: set_add_def)

lemma distinct_set_add [simp]: "distinct xs \<Longrightarrow> distinct (set_add x xs)"
  by (simp add: set_add_def)

end
