(* ===== verification/Py_Regex.thy ===== *)
theory Py_Regex
  imports Prelude
begin

text \<open>
  The part of Python's \<open>re\<close> module that the scripts rely on: an abstract syntax of
  compiled patterns, a backtracking matcher that lists every way to match in the order in
  which \<open>re\<close> tries them, and \<open>match\<close>, \<open>search\<close> and \<open>sub\<close> on top of it.

  A matcher state is \<open>(pre, suf, caps)\<close>: the text before the current position in
  reverse, the text after it, and the captures so far, newest first.  The first element of
  the result list is the match \<open>re\<close> reports.  The reference semantics is the
  inductive relation \<open>rm\<close>, and \<open>mt_rm\<close> says that the matcher finds exactly
  the derivable matches.
\<close>

section \<open>Patterns\<close>

datatype citem =
    CC char
  | CR char char
  | CSpace
  | CNSpace
  | CDigit
  | CWord
  | CNWord

fun in_item :: "char \<Rightarrow> citem \<Rightarrow> bool" where
  "in_item c (CC d) = (c = d)"
| "in_item c (CR a b) = (chr_code a \<le> chr_code c \<and> chr_code c \<le> chr_code b)"
| "in_item c CSpace = isspace c"
| "in_item c CNSpace = (\<not> isspace c)"
| "in_item c CDigit = isdigit c"
| "in_item c CWord = isword c"
| "in_item c CNWord = (\<not> isword c)"

fun in_items :: "char \<Rightarrow> citem list \<Rightarrow> bool" where
  "in_items c [] = False"
| "in_items c (i # is) = (in_item c i \<or> in_items c is)"

datatype regexp =
    Eps
  | Str string
  | Any
  | Cls bool "citem list"  \<comment> \<open>\<open>Cls True\<close> is a negated class\<close>
  | Seq regexp regexp
  | Alt regexp regexp
  | Star regexp
  | LStar regexp  \<comment> \<open>lazy repetition\<close>
  | Grp nat regexp
  | Bol
  | Eol
  | Wordb
  | Look bool regexp  \<comment> \<open>\<open>Look False\<close> is a negative lookahead\<close>
  | Back nat

text \<open>Abbreviations for the shapes that patterns are made of.\<close>

abbreviation Spc :: regexp where "Spc \<equiv> Cls False [CSpace]"
abbreviation NSpc :: regexp where "NSpc \<equiv> Cls False [CNSpace]"
abbreviation Dig :: regexp where "Dig \<equiv> Cls False [CDigit]"
abbreviation Wrd :: regexp where "Wrd \<equiv> Cls False [CWord]"
abbreviation NWrd :: regexp where "NWrd \<equiv> Cls False [CNWord]"
abbreviation In :: "citem list \<Rightarrow> regexp" where "In is \<equiv> Cls False is"
abbreviation NotIn :: "citem list \<Rightarrow> regexp" where "NotIn is \<equiv> Cls True is"
abbreviation Opt :: "regexp \<Rightarrow> regexp" where "Opt r \<equiv> Alt r Eps"
abbreviation Plus :: "regexp \<Rightarrow> regexp" where "Plus r \<equiv> Seq r (Star r)"

fun Seqs :: "regexp list \<Rightarrow> regexp" where
  "Seqs [] = Eps"
| "Seqs [r] = r"
| "Seqs (r # q # rs) = Seq r (Seqs (q # rs))"

fun Alts :: "regexp list \<Rightarrow> regexp" where
  "Alts [] = Eps"
| "Alts [r] = r"
| "Alts (r # q # rs) = Alt r (Alts (q # rs))"

section \<open>The matcher\<close>

type_synonym caps = "(nat \<times> nat \<times> string) list"
type_synonym mstate = "string \<times> string \<times> caps"

abbreviation msuf :: "mstate \<Rightarrow> string" where "msuf st \<equiv> fst (snd st)"

definition newline :: char where "newline = CHR 0x0A"

fun cls_step :: "(char \<Rightarrow> bool) \<Rightarrow> mstate \<Rightarrow> mstate list" where
  "cls_step P (p, [], c) = []"
| "cls_step P (p, x # xs, c) = (if P x then [(x # p, xs, c)] else [])"

definition at_wordb :: "string \<Rightarrow> string \<Rightarrow> bool" where
  "at_wordb p s \<longleftrightarrow>
     (case p of [] \<Rightarrow> False | x # _ \<Rightarrow> isword x) \<noteq> (case s of [] \<Rightarrow> False | x # _ \<Rightarrow> isword x)"

function mt :: "regexp \<Rightarrow> mstate \<Rightarrow> mstate list" where
  "mt Eps st = [st]"
| "mt (Str w) (p, s, c) =
     (if startswith s w then [(rev w @ p, drop (length w) s, c)] else [])"
| "mt Any st = cls_step (\<lambda>x. x \<noteq> newline) st"
| "mt (Cls neg is) st = cls_step (\<lambda>x. in_items x is \<noteq> neg) st"
| "mt (Seq a b) st = concat (map (mt b) (mt a st))"
| "mt (Alt a b) st = mt a st @ mt b st"
| "mt (Star r) st =
     concat (map (\<lambda>st'. if length (msuf st') < length (msuf st) then mt (Star r) st' else [])
       (mt r st)) @ [st]"
| "mt (LStar r) st =
     st # concat (map (\<lambda>st'. if length (msuf st') < length (msuf st) then mt (LStar r) st' else [])
       (mt r st))"
| "mt (Grp n r) (p, s, c) =
     map (\<lambda>(p', s', c'). (p', s', (n, length p, take (length s - length s') s) # c'))
       (mt r (p, s, c))"
| "mt Bol (p, s, c) = (if p = [] then [(p, s, c)] else [])"
| "mt Eol (p, s, c) = (if s = [] \<or> s = [newline] then [(p, s, c)] else [])"
| "mt Wordb (p, s, c) = (if at_wordb p s then [(p, s, c)] else [])"
| "mt (Look pos r) (p, s, c) =
     (case mt r (p, s, c) of
        [] \<Rightarrow> (if pos then [] else [(p, s, c)])
      | (_, _, c') # _ \<Rightarrow> (if pos then [(p, s, c')] else []))"
| "mt (Back n) (p, s, c) =
     (case map_of c n of
        None \<Rightarrow> []
      | Some (_, w) \<Rightarrow> (if startswith s w then [(rev w @ p, drop (length w) s, c)] else []))"
  by pat_completeness auto
termination
  by (relation "measures [\<lambda>(r, st). size r, \<lambda>(r, st). length (msuf st)]") auto

declare mt.simps(7,8) [simp del]


section \<open>Match objects, match, search and sub\<close>

record match_obj =
  m_start :: nat
  m_text :: string  \<comment> \<open>\<open>group(0)\<close>\<close>
  m_caps :: caps

definition m_end :: "match_obj \<Rightarrow> nat" where
  "m_end m = m_start m + length (m_text m)"

definition group :: "match_obj \<Rightarrow> nat \<Rightarrow> string option" where
  "group m n = (if n = 0 then Some (m_text m) else map_option snd (map_of (m_caps m) n))"

text \<open>The text of a group that took part in the match, empty otherwise.\<close>

definition group_text :: "match_obj \<Rightarrow> nat \<Rightarrow> string" where
  "group_text m n = (case group m n of None \<Rightarrow> [] | Some w \<Rightarrow> w)"

definition match_at :: "regexp \<Rightarrow> string \<Rightarrow> string \<Rightarrow> match_obj option" where
  "match_at r p s =
     (case mt r (p, s, []) of
        [] \<Rightarrow> None
      | (_, s', c) # _ \<Rightarrow>
          Some \<lparr>m_start = length p, m_text = take (length s - length s') s, m_caps = c\<rparr>)"

definition re_match :: "regexp \<Rightarrow> string \<Rightarrow> match_obj option" where
  "re_match r s = match_at r [] s"

fun search_from :: "regexp \<Rightarrow> string \<Rightarrow> string \<Rightarrow> match_obj option" where
  "search_from r p [] = match_at r p []"
| "search_from r p (x # xs) =
     (case match_at r p (x # xs) of None \<Rightarrow> search_from r (x # p) xs | Some m \<Rightarrow> Some m)"

definition re_search :: "regexp \<Rightarrow> string \<Rightarrow> match_obj option" where
  "re_search r s = search_from r [] s"

text \<open>
  \<open>sub\<close> with a constant replacement: a non-empty match is replaced and scanning goes
  on after it; at an empty match the replacement is inserted and one character copied.
\<close>

function sub_from :: "regexp \<Rightarrow> string \<Rightarrow> string \<Rightarrow> string \<Rightarrow> string" where
  "sub_from r rep p s =
     (case match_at r p s of
        None \<Rightarrow> (case s of [] \<Rightarrow> [] | x # xs \<Rightarrow> x # sub_from r rep (x # p) xs)
      | Some m \<Rightarrow>
          (let n = length (m_text m) in
           if n = 0 then rep @ (case s of [] \<Rightarrow> [] | x # xs \<Rightarrow> x # sub_from r rep (x # p) xs)
           else if s = [] then rep
           else rep @ sub_from r rep (rev (take n s) @ p) (drop n s)))"
  by pat_completeness auto
termination
  by (relation "measure (\<lambda>(r, rep, p, s). length s)") auto

declare sub_from.simps [simp del]

definition re_sub :: "regexp \<Rightarrow> string \<Rightarrow> string \<Rightarrow> string" where
  "re_sub r rep s = sub_from r rep [] s"

section \<open>Reference semantics\<close>

inductive rm :: "regexp \<Rightarrow> mstate \<Rightarrow> mstate \<Rightarrow> bool" where
  rm_Eps: "rm Eps st st"
| rm_Str: "rm (Str w) (p, w @ s, c) (rev w @ p, s, c)"
| rm_Any: "x \<noteq> newline \<Longrightarrow> rm Any (p, x # s, c) (x # p, s, c)"
| rm_Cls: "in_items x is \<noteq> neg \<Longrightarrow> rm (Cls neg is) (p, x # s, c) (x # p, s, c)"
| rm_Seq: "rm a st st1 \<Longrightarrow> rm b st1 st2 \<Longrightarrow> rm (Seq a b) st st2"
| rm_Alt1: "rm a st st1 \<Longrightarrow> rm (Alt a b) st st1"
| rm_Alt2: "rm b st st1 \<Longrightarrow> rm (Alt a b) st st1"
| rm_Star0: "rm (Star r) st st"
| rm_Star1: "rm r st st1 \<Longrightarrow> length (msuf st1) < length (msuf st) \<Longrightarrow> rm (Star r) st1 st2
    \<Longrightarrow> rm (Star r) st st2"
| rm_LStar0: "rm (LStar r) st st"
| rm_LStar1: "rm r st st1 \<Longrightarrow> length (msuf st1) < length (msuf st) \<Longrightarrow> rm (LStar r) st1 st2
    \<Longrightarrow> rm (LStar r) st st2"
| rm_Grp: "rm r (p, s, c) (p', s', c') \<Longrightarrow>
    rm (Grp n r) (p, s, c) (p', s', (n, length p, take (length s - length s') s) # c')"
| rm_Bol: "rm Bol ([], s, c) ([], s, c)"
| rm_Eol: "s = [] \<or> s = [newline] \<Longrightarrow> rm Eol (p, s, c) (p, s, c)"
| rm_Wordb: "at_wordb p s \<Longrightarrow> rm Wordb (p, s, c) (p, s, c)"
| rm_Look1: "mt r (p, s, c) = (p', s', c') # ms \<Longrightarrow> rm r (p, s, c) (p', s', c') \<Longrightarrow>
    rm (Look True r) (p, s, c) (p, s, c')"
| rm_Look0: "mt r (p, s, c) = [] \<Longrightarrow> rm (Look False r) (p, s, c) (p, s, c)"
| rm_Back: "map_of c n = Some (i, w) \<Longrightarrow> rm (Back n) (p, w @ s, c) (rev w @ p, s, c)"

lemma cls_step_iff: "st' \<in> set (cls_step P st) \<longleftrightarrow>
    (\<exists>p x xs c. st = (p, x # xs, c) \<and> P x \<and> st' = (x # p, xs, c))"
  by (cases "(P, st)" rule: cls_step.cases) auto

lemma mt_Star_iff: "st' \<in> set (mt (Star r) st) \<longleftrightarrow> st' = st \<or>
    (\<exists>st1 \<in> set (mt r st). length (msuf st1) < length (msuf st) \<and> st' \<in> set (mt (Star r) st1))"
  by (subst mt.simps(7)) (auto split: if_splits)

lemma mt_LStar_iff: "st' \<in> set (mt (LStar r) st) \<longleftrightarrow> st' = st \<or>
    (\<exists>st1 \<in> set (mt r st). length (msuf st1) < length (msuf st) \<and> st' \<in> set (mt (LStar r) st1))"
  by (subst mt.simps(8)) (auto split: if_splits)

lemmas mt_Star_cases = mt_Star_iff [THEN iffD1]
lemmas mt_Star_self = mt_Star_iff [THEN iffD2, OF disjI1, OF refl]
lemmas mt_Star_step = mt_Star_iff [THEN iffD2, OF disjI2]
lemmas mt_LStar_cases = mt_LStar_iff [THEN iffD1]
lemmas mt_LStar_self = mt_LStar_iff [THEN iffD2, OF disjI1, OF refl]
lemmas mt_LStar_step = mt_LStar_iff [THEN iffD2, OF disjI2]

lemma mt_sound: "st' \<in> set (mt r st) \<Longrightarrow> rm r st st'"
proof (induction r st arbitrary: st' rule: mt.induct)
  case (2 w p s c)
  then show ?case by (auto split: if_splits simp: startswith_iff intro: rm_Str)
next
  case (5 a b st)
  then obtain st1 where "st1 \<in> set (mt a st)" "st' \<in> set (mt b st1)" by auto
  with "5.IH" show ?case by (blast intro: rm_Seq)
next
  case (13 pos r p s c)
  show ?case
  proof (cases "mt r (p, s, c)")
    case Nil
    with "13.prems" show ?thesis by (auto intro: rm_Look0 split: if_splits)
  next
    case (Cons st ms)
    obtain p' s' c' where st: "st = (p', s', c')" by (cases st)
    with Cons "13.IH" have "rm r (p, s, c) (p', s', c')" by simp
    with Cons st "13.prems" show ?thesis by (auto intro: rm_Look1 split: if_splits)
  qed
next
  case (7 r st)
  from mt_Star_cases [OF "7.prems"] show ?case using "7.IH" rm_Star0 rm_Star1 by blast
next
  case (8 r st)
  from mt_LStar_cases [OF "8.prems"] show ?case using "8.IH" rm_LStar0 rm_LStar1 by blast
next
  case (14 n p s c)
  then show ?case
    by (auto simp: startswith_iff intro: rm_Back [OF sym] split: option.splits if_splits)
qed (auto intro: rm.intros simp: cls_step_iff split: if_splits list.splits)

lemma mt_complete: "rm r st st' \<Longrightarrow> st' \<in> set (mt r st)"
proof (induction rule: rm.induct)
  case (rm_Grp r p s c p' s' c' n)
  then show ?case by (auto intro!: image_eqI [where x = "(p', s', c')"])
next
  case (rm_Star1 r st st1 st2)
  then show ?case by (blast intro: mt_Star_step)
next
  case (rm_LStar1 r st st1 st2)
  then show ?case by (blast intro: mt_LStar_step)
qed (auto simp: cls_step_iff mt_Star_self mt_LStar_self)

lemma mt_rm: "st' \<in> set (mt r st) \<longleftrightarrow> rm r st st'"
  using mt_sound mt_complete by blast

text \<open>A match consumes a prefix of the text ahead of it.\<close>

lemma rm_consumes: "rm r st st' \<Longrightarrow>
    (\<exists>w. msuf st = w @ msuf st' \<and> fst st' = rev w @ fst st)"
proof (induction rule: rm.induct)
  case (rm_Seq a st st1 b st2)
  then obtain u v where "msuf st = u @ v @ msuf st2" "fst st2 = rev v @ rev u @ fst st" by auto
  then show ?case by (intro exI [of _ "u @ v"]) simp
next
  case (rm_Star1 r st st1 st2)
  then obtain u v where "msuf st = u @ v @ msuf st2" "fst st2 = rev v @ rev u @ fst st" by auto
  then show ?case by (intro exI [of _ "u @ v"]) simp
next
  case (rm_LStar1 r st st1 st2)
  then obtain u v where "msuf st = u @ v @ msuf st2" "fst st2 = rev v @ rev u @ fst st" by auto
  then show ?case by (intro exI [of _ "u @ v"]) simp
qed auto


inductive_simps rm_Eps_iff: "rm Eps st st'"
inductive_simps rm_Str_iff: "rm (Str w) (p, s, c) st'"
inductive_simps rm_Any_iff: "rm Any (p, s, c) st'"
inductive_simps rm_Cls_iff: "rm (Cls neg is) (p, s, c) st'"
inductive_simps rm_Seq_iff: "rm (Seq a b) st st'"
inductive_simps rm_Alt_iff: "rm (Alt a b) st st'"
inductive_simps rm_Grp_iff: "rm (Grp n r) (p, s, c) st'"
inductive_simps rm_Bol_iff: "rm Bol (p, s, c) st'"
inductive_simps rm_Eol_iff: "rm Eol (p, s, c) st'"
inductive_simps rm_Wordb_iff: "rm Wordb (p, s, c) st'"

lemmas rm_iffs = rm_Eps_iff rm_Str_iff rm_Any_iff rm_Cls_iff rm_Seq_iff rm_Alt_iff rm_Grp_iff
  rm_Bol_iff rm_Eol_iff rm_Wordb_iff

text \<open>A repeated one-character pattern consumes any run of its characters.\<close>

definition one_char :: "regexp \<Rightarrow> (char \<Rightarrow> bool) \<Rightarrow> bool" where
  "one_char r P \<longleftrightarrow> (\<forall>p s c st'. rm r (p, s, c) st' \<longleftrightarrow>
     (\<exists>x xs. s = x # xs \<and> P x \<and> st' = (x # p, xs, c)))"

lemma one_char_Any: "one_char Any (\<lambda>x. x \<noteq> newline)"
  by (auto simp: one_char_def rm_Any_iff)

lemma one_char_Cls: "one_char (Cls neg is) (\<lambda>x. in_items x is \<noteq> neg)"
  by (auto simp: one_char_def rm_Cls_iff)

lemma rm_Star_one_charD:
  assumes "rm (Star r) (p, s, c) st'" and P: "one_char r P"
  shows "\<exists>w s'. s = w @ s' \<and> (\<forall>x \<in> set w. P x) \<and> st' = (rev w @ p, s', c)"
  using assms(1)
proof (induction "Star r" "(p, s, c)" st' arbitrary: p s c rule: rm.induct)
  case (rm_Star1 st1 st2)
  from P rm_Star1.hyps(1) obtain x xs where x: "s = x # xs" "P x" "st1 = (x # p, xs, c)"
    unfolding one_char_def by blast
  with rm_Star1 obtain w s' where "xs = w @ s'" "\<forall>y \<in> set w. P y" "st2 = (rev w @ x # p, s', c)"
    by blast
  with x show ?case by (intro exI [of _ "x # w"] exI [of _ s']) simp
qed simp

lemma rm_Star_one_charI:
  "one_char r P \<Longrightarrow> (\<forall>x \<in> set w. P x) \<Longrightarrow> rm (Star r) (p, w @ s', c) (rev w @ p, s', c)"
proof (induction w arbitrary: p)
  case Nil
  then show ?case by (simp add: rm_Star0)
next
  case (Cons x w)
  then have "rm r (p, (x # w) @ s', c) (x # p, w @ s', c)" by (auto simp: one_char_def)
  moreover have "rm (Star r) (x # p, w @ s', c) (rev w @ x # p, s', c)" using Cons by simp
  ultimately show ?case using rm_Star1 by fastforce
qed

lemma rm_Star_one_char:
  "one_char r P \<Longrightarrow> rm (Star r) (p, s, c) st' \<longleftrightarrow>
    (\<exists>w s'. s = w @ s' \<and> (\<forall>x \<in> set w. P x) \<and> st' = (rev w @ p, s', c))"
  using rm_Star_one_charD rm_Star_one_charI by blast

lemmas rm_Star_Cls = rm_Star_one_char [OF one_char_Cls]
lemmas rm_Star_Any = rm_Star_one_char [OF one_char_Any]

section \<open>What match and search report\<close>

lemma match_at_None_iff: "match_at r p s = None \<longleftrightarrow> (\<forall>st'. \<not> rm r (p, s, []) st')"
proof -
  have "match_at r p s = None \<longleftrightarrow> set (mt r (p, s, [])) = {}"
    by (auto simp: match_at_def split: list.split)
  then show ?thesis by (auto simp: mt_rm [symmetric])
qed

lemma match_at_SomeD:
  assumes "match_at r p s = Some m"
  shows "\<exists>s'. s = m_text m @ s' \<and> m_start m = length p
    \<and> rm r (p, s, []) (rev (m_text m) @ p, s', m_caps m)"
proof -
  obtain p' s' c ms where mt: "mt r (p, s, []) = (p', s', c) # ms"
    and m: "m = \<lparr>m_start = length p, m_text = take (length s - length s') s, m_caps = c\<rparr>"
    using assms by (auto simp: match_at_def split: list.splits)
  have rm: "rm r (p, s, []) (p', s', c)" by (simp add: mt_rm [symmetric] mt)
  from rm_consumes [OF this] obtain w where "s = w @ s'" "p' = rev w @ p" by auto
  with rm m show ?thesis by auto
qed

lemma re_match_None_iff: "re_match r s = None \<longleftrightarrow> (\<forall>st'. \<not> rm r ([], s, []) st')"
  by (simp add: re_match_def match_at_None_iff)

lemma re_match_SomeD:
  "re_match r s = Some m \<Longrightarrow>
    \<exists>s'. s = m_text m @ s' \<and> m_start m = 0 \<and> rm r ([], s, []) (rev (m_text m), s', m_caps m)"
  using match_at_SomeD [of r "[]" s m] by (simp add: re_match_def)

lemma search_from_SomeD:
  "search_from r p s = Some m \<Longrightarrow>
    \<exists>a b. s = a @ b \<and> match_at r (rev a @ p) b = Some m
      \<and> (\<forall>a' b'. s = a' @ b' \<and> length a' < length a \<longrightarrow> match_at r (rev a' @ p) b' = None)"
proof (induction r p s rule: search_from.induct)
  case (2 r p x xs)
  show ?case
  proof (cases "match_at r p (x # xs)")
    case None
    with 2 obtain a b where ab: "xs = a @ b" "match_at r (rev a @ x # p) b = Some m"
      and least: "\<And>a' b'. xs = a' @ b' \<and> length a' < length a \<Longrightarrow> match_at r (rev a' @ x # p) b' = None"
      by auto
    have "match_at r (rev a' @ p) b' = None" if "x # xs = a' @ b' \<and> length a' < length (x # a)" for a' b'
      using that None least by (cases a') auto
    with ab show ?thesis by (intro exI [of _ "x # a"] exI [of _ b]) simp
  next
    case (Some m')
    with 2 show ?thesis by (intro exI [of _ "[]"] exI [of _ "x # xs"]) simp
  qed
qed simp

lemma search_from_None_iff:
  "search_from r p s = None \<longleftrightarrow> (\<forall>a b. s = a @ b \<longrightarrow> match_at r (rev a @ p) b = None)"
proof (induction r p s rule: search_from.induct)
  case (2 r p x xs)
  have "(\<forall>a b. x # xs = a @ b \<longrightarrow> match_at r (rev a @ p) b = None) \<longleftrightarrow>
      match_at r p (x # xs) = None \<and> (\<forall>a b. xs = a @ b \<longrightarrow> match_at r (rev a @ x # p) b = None)"
    (is "?L \<longleftrightarrow> ?R")
  proof
    assume L: ?L
    have "match_at r (rev a @ x # p) b = None" if "xs = a @ b" for a b
      using L [rule_format, of "x # a" b] that by simp
    moreover have "match_at r p (x # xs) = None" using L [rule_format, of "[]" "x # xs"] by simp
    ultimately show ?R by blast
  next
    assume ?R
    then show ?L by (auto simp: Cons_eq_append_conv)
  qed
  with 2 show ?case by (simp split: option.split)
qed simp


section \<open>How much a pattern consumes\<close>

fun minw :: "regexp \<Rightarrow> nat" where
  "minw (Str w) = length w"
| "minw Any = 1"
| "minw (Cls neg is) = 1"
| "minw (Seq a b) = minw a + minw b"
| "minw (Alt a b) = min (minw a) (minw b)"
| "minw (Grp n r) = minw r"
| "minw _ = 0"

lemma rm_minw: "rm r st st' \<Longrightarrow> length (msuf st') + minw r \<le> length (msuf st)"
  by (induction rule: rm.induct) auto

lemma rm_suf_le: "rm r st st' \<Longrightarrow> length (msuf st') \<le> length (msuf st)"
  using rm_minw [of r st st'] by linarith

lemma match_at_minw: "match_at r p s = Some m \<Longrightarrow> minw r \<le> length (m_text m)"
  using match_at_SomeD [of r p s m] rm_minw [of r "(p, s, [])"] by fastforce

lemma rm_Seq_Str_first: "rm (Seq (Str w) r) (p, s, c) st' \<Longrightarrow> startswith s w"
  by (auto simp: rm_Seq_iff rm_Str_iff)

lemma rm_Str_last: "rm (Str w) st (p', s', c') \<Longrightarrow> startswith p' (rev w)"
  by (cases st) (auto simp: rm_Str_iff)

section \<open>Where captures come from\<close>

text \<open>The bodies of the groups numbered \<open>n\<close>, and the text a group captured.\<close>

fun grps :: "nat \<Rightarrow> regexp \<Rightarrow> regexp set" where
  "grps n (Seq a b) = grps n a \<union> grps n b"
| "grps n (Alt a b) = grps n a \<union> grps n b"
| "grps n (Star r) = grps n r"
| "grps n (LStar r) = grps n r"
| "grps n (Grp m r) = (if m = n then {r} else {}) \<union> grps n r"
| "grps n (Look b r) = grps n r"
| "grps n _ = {}"

lemma rm_caps_from:
  "rm r st st' \<Longrightarrow> (n, i, w) \<in> set (snd (snd st')) \<Longrightarrow>
    (n, i, w) \<in> set (snd (snd st)) \<or>
    (\<exists>q \<in> grps n r. \<exists>p0 s0 c0 c1. rm q (p0, w @ s0, c0) (rev w @ p0, s0, c1))"
proof (induction rule: rm.induct)
  case (rm_Grp r p s c p' s' c' m)
  show ?case
  proof (cases "(n, i, w) \<in> set c'")
    case True
    with rm_Grp show ?thesis by auto
  next
    case False
    with rm_Grp.prems have nw: "m = n" "w = take (length s - length s') s" by auto
    from rm_consumes [OF rm_Grp.hyps] obtain v where "s = v @ s'" "p' = rev v @ p" by auto
    with nw rm_Grp.hyps show ?thesis by auto
  qed
qed auto

lemma match_at_group:
  assumes "match_at r p s = Some m" and "group m n = Some w" and "0 < n"
  shows "\<exists>q \<in> grps n r. \<exists>p0 s0 c0 c1. rm q (p0, w @ s0, c0) (rev w @ p0, s0, c1)"
proof -
  from match_at_SomeD [OF assms(1)] obtain s'
    where rm: "rm r (p, s, []) (rev (m_text m) @ p, s', m_caps m)" by blast
  from assms(2,3) obtain i where "(n, i, w) \<in> set (m_caps m)"
    by (auto simp: group_def split: if_splits dest: map_of_SomeD)
  with rm_caps_from [OF rm, of n i w] show ?thesis by simp
qed

lemmas re_match_group = match_at_group [where p = "[]", folded re_match_def]

lemma re_search_group:
  assumes "re_search r s = Some m" and "group m n = Some w" and "0 < n"
  shows "\<exists>q \<in> grps n r. \<exists>p0 s0 c0 c1. rm q (p0, w @ s0, c0) (rev w @ p0, s0, c1)"
proof -
  from assms(1) obtain a b where "match_at r (rev a) b = Some m"
    using search_from_SomeD [of r "[]" s m] by (auto simp: re_search_def)
  from match_at_group [OF this assms(2,3)] show ?thesis .
qed


section \<open>Taking matches apart\<close>

lemma rm_split: "rm r (p, s, c) st' \<Longrightarrow> \<exists>u s1 c1. s = u @ s1 \<and> st' = (rev u @ p, s1, c1)"
  using rm_consumes [of r "(p, s, c)" st'] by (cases st') auto

lemma rm_SeqE:
  assumes "rm (Seq a b) (p, s, c) st'"
  obtains u s1 c1 where "s = u @ s1" "rm a (p, u @ s1, c) (rev u @ p, s1, c1)"
    "rm b (rev u @ p, s1, c1) st'"
proof -
  from assms obtain st1 where a: "rm a (p, s, c) st1" and b: "rm b st1 st'"
    by (auto simp: rm_Seq_iff)
  from rm_split [OF a] obtain u s1 c1 where "s = u @ s1" "st1 = (rev u @ p, s1, c1)" by blast
  with a b that show thesis by blast
qed

lemma rm_GrpE:
  assumes "rm (Grp n r) (p, u @ s1, c) (rev u @ p, s1, c')"
  obtains c1 where "rm r (p, u @ s1, c) (rev u @ p, s1, c1)" "c' = (n, length p, u) # c1"
  using assms by (auto simp: rm_Grp_iff)

fun grp_free :: "regexp \<Rightarrow> bool" where
  "grp_free (Seq a b) = (grp_free a \<and> grp_free b)"
| "grp_free (Alt a b) = (grp_free a \<and> grp_free b)"
| "grp_free (Star r) = grp_free r"
| "grp_free (LStar r) = grp_free r"
| "grp_free (Grp n r) = False"
| "grp_free (Look b r) = grp_free r"
| "grp_free _ = True"

lemma rm_grp_free: "rm r st st' \<Longrightarrow> grp_free r \<Longrightarrow> snd (snd st') = snd (snd st)"
  by (induction rule: rm.induct) auto

lemma rm_grp_freeD: "rm r (p, s, c) (p', s', c') \<Longrightarrow> grp_free r \<Longrightarrow> c' = c"
  using rm_grp_free [of r "(p, s, c)" "(p', s', c')"] by simp

text \<open>A captured text is never longer than the text that was matched against.\<close>

lemma rm_caps_length:
  "rm r st st' \<Longrightarrow> (n, i, w) \<in> set (snd (snd st')) \<Longrightarrow>
    (n, i, w) \<in> set (snd (snd st)) \<or> length w \<le> length (msuf st)"
proof (induction rule: rm.induct)
  case (rm_Seq a st st1 b st2)
  then show ?case using rm_suf_le [of a st st1] by fastforce
qed auto

lemma re_match_group_length:
  assumes "re_match r s = Some m" and "group m n = Some w"
  shows "length w \<le> length s"
proof -
  from re_match_SomeD [OF assms(1)] obtain s' where s: "s = m_text m @ s'"
    and rm: "rm r ([], s, []) (rev (m_text m), s', m_caps m)" by blast
  show ?thesis
  proof (cases "n = 0")
    case True
    then have "w = m_text m" using assms(2) by (simp add: group_def)
    then show ?thesis using s by (metis length_append le_add1)
  next
    case False
    then obtain i where "(n, i, w) \<in> set (m_caps m)"
      using assms(2) by (auto simp: group_def dest: map_of_SomeD)
    with rm_caps_length [OF rm, of n i w] show ?thesis by simp
  qed
qed

text \<open>A literal that every match of a pattern contains.\<close>

fun req :: "string \<Rightarrow> regexp \<Rightarrow> bool" where
  "req v (Str w) = contains w v"
| "req v (Seq a b) = (req v a \<or> req v b)"
| "req v (Alt a b) = (req v a \<and> req v b)"
| "req v (Grp n r) = req v r"
| "req v _ = False"

lemma contains_append1: "contains s v \<Longrightarrow> contains (s @ t) v"
  by (metis append_assoc contains_iff)

lemma contains_append2: "contains t v \<Longrightarrow> contains (s @ t) v"
  by (metis append_assoc contains_iff)

lemma rm_req: "rm r st st' \<Longrightarrow> req v r \<Longrightarrow> contains (msuf st) v"
proof (induction rule: rm.induct)
  case (rm_Seq a st st1 b st2)
  from rm_consumes [OF rm_Seq.hyps(1)] obtain w where "msuf st = w @ msuf st1" by blast
  with rm_Seq show ?case by (auto intro: contains_append2)
qed (auto intro: contains_append1)

lemma re_search_req:
  assumes "\<not> contains s v" and "req v r"
  shows "re_search r s = None"
proof (rule ccontr)
  assume "re_search r s \<noteq> None"
  then obtain m where "search_from r [] s = Some m" by (auto simp: re_search_def)
  from search_from_SomeD [OF this] obtain a b where "s = a @ b" "match_at r (rev a) b = Some m"
    by auto
  with match_at_SomeD [OF this(2)] have "contains b v" using rm_req [of r "(rev a, b, [])" _ v] assms(2)
    by fastforce
  with \<open>s = a @ b\<close> assms(1) show False by (simp add: contains_append2)
qed

lemma sub_from_no_match:
  "search_from r p s = None \<Longrightarrow> sub_from r rep p s = s"
proof (induction r p s rule: search_from.induct)
  case (1 r p)
  then show ?case by (simp add: sub_from.simps)
next
  case (2 r p x xs)
  then show ?case by (subst sub_from.simps) (simp split: option.splits)
qed

lemma re_sub_no_match: "re_search r s = None \<Longrightarrow> re_sub r rep s = s"
  by (simp add: re_search_def re_sub_def sub_from_no_match)

text \<open>Deleting the matches of a pattern that never matches empty text.\<close>

lemma length_sub_from_empty: "0 < minw r \<Longrightarrow> length (sub_from r [] p s) \<le> length s"
proof (induction r "[] :: string" p s rule: sub_from.induct)
  case (1 r p s)
  show ?case
  proof (cases "match_at r p s")
    case None
    with 1 show ?thesis by (subst sub_from.simps) (auto split: list.split)
  next
    case (Some m)
    with match_at_minw [of r p s m] 1(4) have n: "m_text m \<noteq> []" by auto
    moreover have "length (m_text m) \<le> length s"
      using match_at_SomeD [OF Some] by (metis length_append le_add1)
    ultimately show ?thesis using 1(3) [OF Some refl] Some 1(4)
      by (subst sub_from.simps) (auto simp: Let_def)
  qed
qed


section \<open>Patterns that are a sequence of flat parts\<close>

text \<open>
  Most patterns of the code are a sequence of parts none of which nests a group.  A match of
  such a pattern cuts the text into one segment per part, and the captures are the segments
  of the grouped parts.
\<close>

fun flat_part :: "regexp \<Rightarrow> bool" where
  "flat_part (Grp n r) = grp_free r"
| "flat_part r = grp_free r"

fun part_caps :: "regexp \<Rightarrow> nat \<Rightarrow> string \<Rightarrow> caps" where
  "part_caps (Grp n r) i u = [(n, i, u)]"
| "part_caps r i u = []"

fun seg_caps :: "regexp list \<Rightarrow> nat \<Rightarrow> string list \<Rightarrow> caps" where
  "seg_caps (r # rs) i (u # us) = seg_caps rs (i + length u) us @ part_caps r i u"
| "seg_caps _ i _ = []"

definition seg_ok :: "regexp \<Rightarrow> string \<Rightarrow> bool" where
  "seg_ok r u \<longleftrightarrow> (\<exists>p t c c'. rm r (p, u @ t, c) (rev u @ p, t, c'))"

lemma seg_ok_minw: "seg_ok r u \<Longrightarrow> minw r \<le> length u"
  unfolding seg_ok_def using rm_minw by fastforce

lemma seg_ok_Grp: "seg_ok (Grp n r) u \<longleftrightarrow> seg_ok r u"
  unfolding seg_ok_def by (auto simp: rm_Grp_iff)

lemma seg_ok_Str: "seg_ok (Str w) u \<longleftrightarrow> u = w"
  unfolding seg_ok_def by (auto simp: rm_Str_iff)

lemma seg_ok_Cls: "seg_ok (Cls neg is) u \<longleftrightarrow> (\<exists>x. u = [x] \<and> in_items x is \<noteq> neg)"
  unfolding seg_ok_def by (auto simp: rm_Cls_iff)

lemma seg_ok_Star_Cls: "seg_ok (Star (Cls neg is)) u \<longleftrightarrow> (\<forall>x \<in> set u. in_items x is \<noteq> neg)"
  unfolding seg_ok_def by (auto simp: rm_Star_Cls)

lemma seg_ok_Star_Any: "seg_ok (Star Any) u \<longleftrightarrow> newline \<notin> set u"
  unfolding seg_ok_def by (auto simp: rm_Star_Any)

lemma seg_ok_Eol: "seg_ok Eol u \<longleftrightarrow> u = []"
  unfolding seg_ok_def by (auto simp: rm_Eol_iff)

lemma seg_ok_Bol: "seg_ok Bol u \<longleftrightarrow> u = []"
  unfolding seg_ok_def by (auto simp: rm_Bol_iff)

lemma seg_ok_Wordb: "seg_ok Wordb u \<Longrightarrow> u = []"
  unfolding seg_ok_def by (auto simp: rm_Wordb_iff)

lemmas seg_oks = seg_ok_Grp seg_ok_Str seg_ok_Cls seg_ok_Star_Cls seg_ok_Star_Any seg_ok_Eol
  seg_ok_Bol

lemma rm_flat_part:
  assumes "rm r (p, u @ s', c) (rev u @ p, s', c')" and "flat_part r"
  shows "c' = part_caps r (length p) u @ c"
proof (cases r)
  case (Grp n r0)
  with assms show ?thesis by (auto elim!: rm_GrpE dest: rm_grp_freeD)
qed (use assms in \<open>auto dest: rm_grp_freeD\<close>)

lemma rm_Seqs_segments:
  assumes "rm (Seqs rs) (p, s, c) (p', s', c')" and "\<forall>r \<in> set rs. flat_part r"
  shows "\<exists>us. list_all2 seg_ok rs us \<and> s = concat us @ s' \<and> c' = seg_caps rs (length p) us @ c"
  using assms
proof (induction rs arbitrary: p s c rule: Seqs.induct)
  case 1
  then show ?case by (auto simp: rm_Eps_iff)
next
  case (2 r)
  from rm_split [OF "2.prems"(1) [unfolded Seqs.simps]] obtain u where u: "s = u @ s'" "p' = rev u @ p" by auto
  with "2.prems" have "seg_ok r u" by (auto simp: seg_ok_def)
  with 2 u rm_flat_part [of r p u s' c c'] show ?case
    by (intro exI [of _ "[u]"]) simp
next
  case (3 r r' rs)
  from "3.prems"(1) have "rm (Seq r (Seqs (r' # rs))) (p, s, c) (p', s', c')" by simp
  then obtain u s1 c1 where u: "s = u @ s1" "rm r (p, u @ s1, c) (rev u @ p, s1, c1)"
    and rest: "rm (Seqs (r' # rs)) (rev u @ p, s1, c1) (p', s', c')" by (rule rm_SeqE)
  from 3 rest obtain us where us: "list_all2 seg_ok (r' # rs) us" "s1 = concat us @ s'"
    "c' = seg_caps (r' # rs) (length (rev u @ p)) us @ c1" by fastforce
  moreover have "c1 = part_caps r (length p) u @ c" using rm_flat_part u(2) "3.prems"(2) by simp
  moreover have "seg_ok r u" using u(2) by (auto simp: seg_ok_def)
  ultimately show ?case using u(1)
    by (intro exI [of _ "u # us"]) (simp del: Seqs.simps add: add.commute)
qed

lemma seg_ConsE:
  assumes "list_all2 seg_ok (r # rs) us"
  obtains u us' where "us = u # us'" "seg_ok r u" "minw r \<le> length u" "list_all2 seg_ok rs us'"
  using assms by (auto simp: list_all2_Cons1 dest: seg_ok_minw)

lemma rm_Seqs_Eol:
  "rm (Seqs rs) st (p', s', c') \<Longrightarrow> rs \<noteq> [] \<Longrightarrow> last rs = Eol \<Longrightarrow> s' = [] \<or> s' = [newline]"
proof (induction rs arbitrary: st rule: Seqs.induct)
  case (2 r)
  then show ?case by (cases st) (auto simp: rm_Eol_iff)
next
  case (3 r r' rs)
  from "3.prems"(1) obtain st1 where "rm (Seqs (r' # rs)) st1 (p', s', c')" by (auto simp: rm_Seq_iff)
  with 3 show ?case by simp
qed simp

lemma re_match_segsE:
  assumes "re_match r s = Some m" and "r = Seqs rs" and "\<forall>r \<in> set rs. flat_part r"
  obtains us s' where "list_all2 seg_ok rs us" "s = concat us @ s'" "m_caps m = seg_caps rs 0 us"
    "rs \<noteq> [] \<Longrightarrow> last rs = Eol \<Longrightarrow> s' = [] \<or> s' = [newline]"
proof -
  from re_match_SomeD [OF assms(1)] assms(2) obtain s' where
    rm: "rm (Seqs rs) ([], s, []) (rev (m_text m), s', m_caps m)" by blast
  from rm_Seqs_segments [OF rm assms(3)] obtain us where
    "list_all2 seg_ok rs us" "s = concat us @ s'" "m_caps m = seg_caps rs 0 us" by auto
  with rm_Seqs_Eol [OF rm] that show thesis by blast
qed

text \<open>The groups of a pattern lie after the parts without groups that it starts with.\<close>

lemma rm_caps_after:
  "rm (Seqs (rs @ qs)) st st' \<Longrightarrow> qs \<noteq> [] \<Longrightarrow> \<forall>r \<in> set rs. grp_free r \<Longrightarrow>
     (n, i, w) \<in> set (snd (snd st')) \<Longrightarrow> (n, i, w) \<notin> set (snd (snd st)) \<Longrightarrow>
     length w + sum_list (map minw rs) \<le> length (msuf st)"
proof (induction rs arbitrary: st)
  case Nil
  then show ?case using rm_caps_length [of "Seqs qs" st st' n i w] by auto
next
  case (Cons r rs)
  then obtain st1 where a: "rm r st st1" and b: "rm (Seqs (rs @ qs)) st1 st'"
    by (cases "rs @ qs") (auto simp: rm_Seq_iff)
  have "snd (snd st1) = snd (snd st)" using rm_grp_free [OF a] Cons.prems(3) by simp
  with Cons b have "length w + sum_list (map minw rs) \<le> length (msuf st1)" by auto
  with rm_minw [OF a] show ?case by simp
qed

lemma re_match_group_after:
  assumes "re_match r s = Some m" and "r = Seqs (rs @ qs)" and "qs \<noteq> []" and "\<forall>r \<in> set rs. grp_free r"
    and "0 < n" and "0 < sum_list (map minw rs)"
  shows "length (group_text m n) < length s"
proof -
  from re_match_SomeD [OF assms(1)] obtain s' where
    rm: "rm (Seqs (rs @ qs)) ([], s, []) (rev (m_text m), s', m_caps m)" using assms(2) by blast
  show ?thesis
  proof (cases "group m n")
    case None
    have "rm (Seqs (rs @ qs)) st st' \<Longrightarrow> sum_list (map minw rs) \<le> length (msuf st)" for st st'
      using assms(3)
    proof (induction rs arbitrary: st)
      case (Cons r rs)
      then obtain st1 where a: "rm r st st1" and "rm (Seqs (rs @ qs)) st1 st'"
        by (cases "rs @ qs") (auto simp: rm_Seq_iff)
      with Cons have "sum_list (map minw rs) \<le> length (msuf st1)" by blast
      with rm_minw [OF a] show ?case by simp
    qed simp
    from this [OF rm] have "sum_list (map minw rs) \<le> length s" by (simp only: fst_conv snd_conv)
    with assms(6) have "0 < length s" by linarith
    with None show ?thesis by (simp add: group_text_def)
  next
    case (Some w)
    with assms(5) obtain i where "(n, i, w) \<in> set (m_caps m)"
      by (auto simp: group_def dest: map_of_SomeD)
    with rm_caps_after [OF rm assms(3,4), of n i w] assms(6) Some show ?thesis
      by (simp add: group_text_def)
  qed
qed

end
