(* ===== verification/Py_Regex_Syntax.thy ===== *)
theory Py_Regex_Syntax
  imports Py_Regex
begin

text \<open>
  \<open>sre_compile.compile\<close> for the pattern syntax that the scripts use: literals,
  character classes, groups, alternation, greedy and lazy repetition, counted repetition,
  anchors, word boundaries, lookahead and back references.  The result is the abstract
  syntax of \<^typ>\<open>regexp\<close>; runs of literal characters are merged into one \<^const>\<open>Str\<close>.

  A HOL string literal cannot hold a backslash.  Pattern texts are therefore written with
  \<open>`\<close> in its place, and \<open>re_text\<close> puts the backslashes back.

  The last section models the module-wide cache of compiled patterns and shows that it is
  transparent.
\<close>

definition backslash :: char where "backslash = CHR 0x5C"

definition re_text :: "string \<Rightarrow> string" where
  "re_text s = map (\<lambda>c. if c = CHR ''`'' then backslash else c) s"

section \<open>Parsing patterns\<close>

definition class_esc :: "char \<Rightarrow> citem" where
  "class_esc c =
     (if c = CHR ''s'' then CSpace else if c = CHR ''S'' then CNSpace
      else if c = CHR ''d'' then CDigit else if c = CHR ''w'' then CWord
      else if c = CHR ''W'' then CNWord else if c = CHR ''n'' then CC newline
      else if c = CHR ''r'' then CC (CHR 0x0D) else CC c)"

definition atom_esc :: "char \<Rightarrow> regexp" where
  "atom_esc c =
     (if c = CHR ''b'' then Wordb
      else if isdigit c then Back (chr_code c - 48)
      else (case class_esc c of CC d \<Rightarrow> Str [d] | i \<Rightarrow> In [i]))"

fun parse_items :: "string \<Rightarrow> (citem list \<times> string) option" where
  "parse_items [] = None"
| "parse_items (c # cs) =
     (if c = CHR '']'' then Some ([], cs)
      else if c = backslash then
        (case cs of [] \<Rightarrow> None
         | e # es \<Rightarrow> map_option (\<lambda>(is, r). (class_esc e # is, r)) (parse_items es))
      else
        (case cs of
           h # e # es \<Rightarrow>
             (if h = CHR ''-'' \<and> e \<noteq> CHR '']'' \<and> e \<noteq> backslash
              then map_option (\<lambda>(is, r). (CR c e # is, r)) (parse_items es)
              else map_option (\<lambda>(is, r). (CC c # is, r)) (parse_items cs))
         | _ \<Rightarrow> map_option (\<lambda>(is, r). (CC c # is, r)) (parse_items cs)))"

text \<open>Both arguments are inspected by \<open>case\<close>, which keeps the evaluation of nested calls linear.\<close>

definition mkseq :: "regexp \<Rightarrow> regexp \<Rightarrow> regexp" where
  "mkseq a b =
     (case b of
        Eps \<Rightarrow> a
      | Str y \<Rightarrow> (case a of Eps \<Rightarrow> Str y | Str x \<Rightarrow> Str (x @ y) | _ \<Rightarrow> Seq a (Str y))
      | Seq b1 b2 \<Rightarrow>
          (case a of
             Eps \<Rightarrow> Seq b1 b2
           | Str x \<Rightarrow> (case b1 of Str y \<Rightarrow> Seq (Str (x @ y)) b2 | _ \<Rightarrow> Seq a (Seq b1 b2))
           | _ \<Rightarrow> Seq a (Seq b1 b2))
      | _ \<Rightarrow> (case a of Eps \<Rightarrow> b | _ \<Rightarrow> Seq a b))"

fun opt_n :: "nat \<Rightarrow> regexp \<Rightarrow> regexp" where
  "opt_n 0 r = Eps"
| "opt_n (Suc k) r = Opt (mkseq r (opt_n k r))"

fun rep_seq :: "nat \<Rightarrow> regexp \<Rightarrow> regexp \<Rightarrow> regexp" where
  "rep_seq 0 r t = t"
| "rep_seq (Suc k) r t = mkseq r (rep_seq k r t)"

definition rep_mn :: "nat \<Rightarrow> nat \<Rightarrow> regexp \<Rightarrow> regexp" where
  "rep_mn m n r = rep_seq m r (opt_n (n - m) r)"

fun parse_nat :: "nat \<Rightarrow> string \<Rightarrow> nat \<times> string" where
  "parse_nat k [] = (k, [])"
| "parse_nat k (c # cs) =
     (if isdigit c then parse_nat (10 * k + (chr_code c - 48)) cs else (k, c # cs))"

text \<open>The bounds of \<open>{m}\<close> and \<open>{m,n}\<close>; anything else is a literal brace.\<close>

definition parse_braces :: "string \<Rightarrow> (nat \<times> nat \<times> string) option" where
  "parse_braces s =
     (case s of [] \<Rightarrow> None
      | c # _ \<Rightarrow>
          if \<not> isdigit c then None
          else (case parse_nat 0 s of
             (m, d # ds) \<Rightarrow>
               (if d = CHR ''}'' then Some (m, m, ds)
                else if d = CHR '','' then
                  (case parse_nat 0 ds of
                     (n, e # es) \<Rightarrow> (if e = CHR ''}'' then Some (m, n, es) else None)
                   | _ \<Rightarrow> None)
                else None)
           | _ \<Rightarrow> None))"

definition quant :: "regexp \<Rightarrow> string \<Rightarrow> regexp \<times> string" where
  "quant r s =
     (case s of
        [] \<Rightarrow> (r, s)
      | c # cs \<Rightarrow>
          if c = CHR ''*'' then
            (if startswith cs ''?'' then (LStar r, tl cs) else (Star r, cs))
          else if c = CHR ''+'' then
            (if startswith cs ''?'' then (Seq r (LStar r), tl cs) else (Plus r, cs))
          else if c = CHR ''?'' then (Opt r, cs)
          else if c = CHR ''{'' then
            (case parse_braces cs of None \<Rightarrow> (r, s) | Some (m, n, es) \<Rightarrow> (rep_mn m n r, es))
          else (r, s))"

text \<open>
  Recursive descent; the first argument is fuel (each call consumes a character or steps
  down one level, so twice the length of the text is enough), the last the number of
  groups opened so far.
\<close>

fun parse_alt :: "nat \<Rightarrow> string \<Rightarrow> nat \<Rightarrow> (regexp \<times> string \<times> nat) option"
and parse_seq :: "nat \<Rightarrow> string \<Rightarrow> nat \<Rightarrow> (regexp \<times> string \<times> nat) option"
and parse_atom :: "nat \<Rightarrow> string \<Rightarrow> nat \<Rightarrow> (regexp \<times> string \<times> nat) option" where
  "parse_alt 0 s n = None"
| "parse_alt (Suc f) s n =
     (case parse_seq f s n of
        None \<Rightarrow> None
      | Some (r, s', n') \<Rightarrow>
          if startswith s' ''|'' then
            (case parse_alt f (tl s') n' of
               None \<Rightarrow> None
             | Some (r2, s2, n2) \<Rightarrow> Some (Alt r r2, s2, n2))
          else Some (r, s', n'))"
| "parse_seq 0 s n = None"
| "parse_seq (Suc f) s n =
     (if s = [] \<or> startswith s ''|'' \<or> startswith s '')'' then Some (Eps, s, n)
      else (case parse_atom f s n of
         None \<Rightarrow> None
       | Some (r, s', n') \<Rightarrow>
           (case quant r s' of (q, s2) \<Rightarrow>
             (case parse_seq f s2 n' of
                None \<Rightarrow> None
              | Some (r3, s3, n3) \<Rightarrow> Some (mkseq q r3, s3, n3)))))"
| "parse_atom 0 s n = None"
| "parse_atom (Suc f) s n =
     (case s of
        [] \<Rightarrow> None
      | c # cs \<Rightarrow>
          if c = CHR ''^'' then Some (Bol, cs, n)
          else if c = CHR ''$'' then Some (Eol, cs, n)
          else if c = CHR ''.'' then Some (Any, cs, n)
          else if c = backslash then
            (case cs of [] \<Rightarrow> None | e # es \<Rightarrow> Some (atom_esc e, es, n))
          else if c = CHR ''['' then
            (let neg = startswith cs ''^'' in
             case parse_items (if neg then tl cs else cs) of
               None \<Rightarrow> None
             | Some (is, s') \<Rightarrow> Some (Cls neg is, s', n))
          else if c = CHR ''('' then
            (let body = (if startswith cs ''?'' then drop 2 cs else cs);
                 m = (if startswith cs ''?'' then n else Suc n) in
             case parse_alt f body m of
               None \<Rightarrow> None
             | Some (r, s', n') \<Rightarrow>
                 if startswith s' '')'' then
                   Some (if startswith cs ''?:'' then r
                         else if startswith cs ''?='' then Look True r
                         else if startswith cs ''?!'' then Look False r
                         else Grp m r, tl s', n')
                 else None)
          else Some (Str [c], cs, n))"

definition compile_re :: "string \<Rightarrow> regexp option" where
  "compile_re s =
     (case parse_alt (2 * length s + 4) s 0 of
        Some (r, [], _) \<Rightarrow> Some r
      | _ \<Rightarrow> None)"

text \<open>
  Rewrite rules for the compilation of texts with counted repetitions, on which the code
  equations evaluate slowly.
\<close>

lemma mkseq_simps:
  "mkseq Eps b = b" "mkseq a Eps = a" "mkseq (Str x) (Str y) = Str (x @ y)"
  "mkseq (Str x) (Seq (Str y) b) = Seq (Str (x @ y)) b"
  "mkseq (Cls n is) b = (if b = Eps then Cls n is else Seq (Cls n is) b)"
  "mkseq (Star r) b = (if b = Eps then Star r else Seq (Star r) b)"
  "mkseq (Alt r q) b = (if b = Eps then Alt r q else Seq (Alt r q) b)"
  "mkseq (Grp k r) b = (if b = Eps then Grp k r else Seq (Grp k r) b)"
  "mkseq (Str x) (Star r) = Seq (Str x) (Star r)"
  "mkseq (Str x) (Alt r q) = Seq (Str x) (Alt r q)"
  "mkseq (Str x) (Cls n is) = Seq (Str x) (Cls n is)"
  "mkseq (Str x) (Seq (Cls n is) b) = Seq (Str x) (Seq (Cls n is) b)"
  "mkseq (Str x) (Seq (Star r) b) = Seq (Str x) (Seq (Star r) b)"
  "mkseq (Str x) (Seq (Alt r q) b) = Seq (Str x) (Seq (Alt r q) b)"
  "mkseq (Str x) Eol = Seq (Str x) Eol"
  by (simp_all add: mkseq_def split: regexp.split)

lemma quant_simps:
  "quant r [] = (r, [])"
  "quant r (CHR ''*'' # cs) = (if startswith cs ''?'' then (LStar r, tl cs) else (Star r, cs))"
  "quant r (CHR ''+'' # cs) = (if startswith cs ''?'' then (Seq r (LStar r), tl cs) else (Plus r, cs))"
  "quant r (CHR ''?'' # cs) = (Opt r, cs)"
  "c \<notin> set ''*+?{'' \<Longrightarrow> quant r (c # cs) = (r, c # cs)"
  "quant r (CHR ''{'' # CHR ''6'' # CHR ''}'' # cs) = (rep_mn 6 6 r, cs)"
  "quant r (CHR ''{'' # CHR ''4'' # CHR ''}'' # cs) = (rep_mn 4 4 r, cs)"
  by (simp_all add: quant_def parse_braces_def isdigit_def)

lemma esc_simps: "atom_esc (CHR ''w'') = Wrd" "atom_esc (CHR ''('') = Str ''(''" "atom_esc (CHR '')'') = Str '')''" "atom_esc (CHR ''s'') = Spc"
 "atom_esc (CHR ''{'') = Str ''{''" "class_esc (CHR ''('') = CC (CHR ''('')"
  by code_simp+

lemmas compile_simps = compile_re_def re_text_def eval_nat_numeral mkseq_simps quant_simps esc_simps
  backslash_def rep_mn_def

section \<open>The cache of compiled patterns\<close>

text \<open>
  \<open>_regexp_compile_cache\<close> maps a pattern text to its compiled form; \<open>compile\<close> stands
  for \<open>sre_compile.compile\<close>.  Each function returns the new cache and its result.
\<close>

type_synonym 'r re_cache = "string \<rightharpoonup> 'r"

definition cached :: "(string \<Rightarrow> 'r) \<Rightarrow> string \<Rightarrow> 'r re_cache \<Rightarrow> 'r re_cache \<times> 'r" where
  "cached compile pattern cache =
     (case cache pattern of
        None \<Rightarrow> (let r = compile pattern in (cache(pattern \<mapsto> r), r))
      | Some r \<Rightarrow> (cache, r))"

definition Match_cached ::
  "(string \<Rightarrow> regexp) \<Rightarrow> string \<Rightarrow> string \<Rightarrow> regexp re_cache \<Rightarrow> regexp re_cache \<times> match_obj option" where
  "Match_cached compile pattern s cache =
     (case cached compile pattern cache of (cache', r) \<Rightarrow> (cache', re_match r s))"

definition Search_cached ::
  "(string \<Rightarrow> regexp) \<Rightarrow> string \<Rightarrow> string \<Rightarrow> regexp re_cache \<Rightarrow> regexp re_cache \<times> match_obj option" where
  "Search_cached compile pattern s cache =
     (case cached compile pattern cache of (cache', r) \<Rightarrow> (cache', re_search r s))"

definition ReplaceAll_cached ::
  "(string \<Rightarrow> regexp) \<Rightarrow> string \<Rightarrow> string \<Rightarrow> string \<Rightarrow> regexp re_cache \<Rightarrow> regexp re_cache \<times> string" where
  "ReplaceAll_cached compile pattern rep s cache =
     (case cached compile pattern cache of (cache', r) \<Rightarrow> (cache', re_sub r rep s))"

text \<open>Every entry of the cache is the compiled form of its key.\<close>

definition cache_ok :: "(string \<Rightarrow> 'r) \<Rightarrow> 'r re_cache \<Rightarrow> bool" where
  "cache_ok compile cache \<longleftrightarrow> (\<forall>p r. cache p = Some r \<longrightarrow> r = compile p)"

lemma cached_ok:
  assumes "cache_ok compile cache"
  shows "snd (cached compile pattern cache) = compile pattern
    \<and> cache_ok compile (fst (cached compile pattern cache))
    \<and> fst (cached compile pattern cache) = cache(pattern \<mapsto> compile pattern)"
  using assms by (auto simp: cached_def cache_ok_def Let_def fun_upd_idem_iff split: option.split)

text \<open>
  C33.  The cache of compiled patterns is transparent.  From a cache whose entries are the
  compiled forms of their keys, which the empty cache is, \<open>Match\<close>, \<open>Search\<close> and
  \<open>ReplaceAll\<close> give what compiling the pattern afresh gives, and leave such a cache that
  holds the pattern.
\<close>

theorem regex_cache_transparent:
  assumes "cache_ok compile cache"
  shows "Match_cached compile p s cache = (cache(p \<mapsto> compile p), re_match (compile p) s)
    \<and> Search_cached compile p s cache = (cache(p \<mapsto> compile p), re_search (compile p) s)
    \<and> ReplaceAll_cached compile p rep s cache = (cache(p \<mapsto> compile p), re_sub (compile p) rep s)
    \<and> cache_ok compile (cache(p \<mapsto> compile p))"
  using cached_ok [OF assms, of p]
  by (auto simp: Match_cached_def Search_cached_def ReplaceAll_cached_def split_beta)

theorem regex_cache_transparent_witness:
  "Match_cached (\<lambda>_. Any) ''.'' ''a'' Map.empty = ([''.'' \<mapsto> Any], re_match Any ''a'')"
  using regex_cache_transparent [of "\<lambda>_. Any" Map.empty "''.''" "''a''"] by (simp add: cache_ok_def)

end
