(* ===== verification/Patterns.thy ===== *)
theory Patterns
  imports Py_Regex_Syntax
begin

text \<open>
  The regular expressions of \<open>cpplint.py\<close> that the modelled functions use, as abstract
  syntax.  The second section shows for each of them that it is what the pattern text of
  the source compiles to (\<open>`\<close> stands for a backslash there, see \<^const>\<open>re_text\<close>).
\<close>

section \<open>Compiled patterns\<close>

definition re_nolint :: regexp where
  \<open>re_nolint =
     Seqs [Wordb, Str ''NOLINT'', Opt (Grp 1 (Str ''NEXTLINE'')), Wordb, Opt (Grp 2 (Seqs [Str
       ''('', Plus (NotIn [CC (CHR '')'')]), Str '')'']))]\<close>

definition SEARCH_C_FILE :: regexp where
  \<open>SEARCH_C_FILE =
     Seqs [Wordb, Alts [Str ''LINT_C_FILE'', Seqs [Str ''vi'', Opt (Str ''m''), Str '':'', Star
       Spc, Star Any, Grp 1 (Alts [Star Spc, Str '':'']), Str ''filetype=c'', Grp 2 (Alts [Star
       Spc, Str '':'', Eol])]]]\<close>

definition SEARCH_KERNEL_FILE :: regexp where
  \<open>SEARCH_KERNEL_FILE =
     Seqs [Wordb, Str ''LINT_KERNEL_FILE'']\<close>

definition MATCH_ASM :: regexp where
  \<open>MATCH_ASM =
     Seqs [Bol, Star Spc, Alts [Str ''asm'', Str ''_asm'', Str ''__asm'', Str ''__asm__''], Opt
       (Seqs [Plus Spc, Grp 1 (Alts [Str ''volatile'', Str ''__volatile__''])]), Star Spc, In
       [CC (CHR ''{''), CC (CHR ''('')]]\<close>

definition re_include_b :: regexp where
  \<open>re_include_b =
     Seqs [Bol, Star Spc, Str ''#'', Star Spc, Str ''include'', Wordb]\<close>

definition re_test_fn :: regexp where
  \<open>re_test_fn =
     Seqs [Str ''T'', Grp 1 (Alts [Str ''EST'', Str ''est''])]\<close>

definition RE_PATTERN_CLEANSE_LINE_ESCAPES :: regexp where
  \<open>RE_PATTERN_CLEANSE_LINE_ESCAPES =
     Seqs [Str [CHR 0x5C], Grp 1 (Alts [In [CC (CHR ''a''), CC (CHR ''b''), CC (CHR ''f''), CC
       (CHR ''n''), CC (CHR ''r''), CC (CHR ''t''), CC (CHR ''v''), CC (CHR ''?''), CC (CHR
       ''"''), CC (CHR 0x5C), CC (CHR 0x27)], Plus Dig, Seqs [Str ''x'', Plus (In [CR (CHR
       ''0'') (CHR ''9''), CR (CHR ''a'') (CHR ''f''), CR (CHR ''A'') (CHR ''F'')])]])]\<close>

definition RE_PATTERN_CLEANSE_LINE_C_COMMENTS :: regexp where
  \<open>RE_PATTERN_CLEANSE_LINE_C_COMMENTS =
     Grp 1 (Alts [Seqs [Star Spc, Str ''/*'', Star (Alts [NotIn [CC (CHR ''*'')], Seqs [Str
       ''*'', Look False (Str ''/'')]]), Str ''*/'', Star Spc, Eol], Seqs [Str ''/*'', Star
       (Alts [NotIn [CC (CHR ''*'')], Seqs [Str ''*'', Look False (Str ''/'')]]), Str ''*/'',
       Plus Spc], Seqs [Plus Spc, Str ''/*'', Star (Alts [NotIn [CC (CHR ''*'')], Seqs [Str
       ''*'', Look False (Str ''/'')]]), Str ''*/'', Look True NWrd], Seqs [Str ''/*'', Star
       (Alts [NotIn [CC (CHR ''*'')], Seqs [Str ''*'', Look False (Str ''/'')]]), Str ''*/'']])\<close>

definition re_leading_space :: regexp where
  \<open>re_leading_space =
     Seqs [Bol, Grp 1 (Star Spc), NSpc]\<close>

definition re_raw_string :: regexp where
  \<open>re_raw_string =
     Seqs [Bol, Grp 1 (LStar Any), Wordb, Alts [Str ''R'', Str ''u8R'', Str ''uR'', Str ''UR'',
       Str ''LR''], Str ''"'', Grp 2 (Star (NotIn [CSpace, CC (CHR 0x5C), CC (CHR ''(''), CC
       (CHR '')'')])), Str ''('', Grp 3 (Star Any), Eol]\<close>

definition re_line_comment_prefix :: regexp where
  \<open>re_line_comment_prefix =
     Seqs [Bol, Star (Grp 1 (Alts [NotIn [CC (CHR 0x27), CC (CHR ''"'')], Seqs [Str [CHR 0x27],
       Star (Grp 2 (Alts [Seqs [Str [CHR 0x5C], Any], NotIn [CC (CHR 0x27)]])), Str [CHR 0x27]],
       Seqs [Str ''"'', Star (Grp 3 (Alts [Seqs [Str [CHR 0x5C], Any], NotIn [CC (CHR
       ''"'')]])), Str ''"'']])), Str ''//'']\<close>

definition RE_PATTERN_INCLUDE :: regexp where
  \<open>RE_PATTERN_INCLUDE =
     Seqs [Bol, Star Spc, Str ''#'', Star Spc, Str ''include'', Star Spc, Grp 1 (In [CC (CHR
       ''<''), CC (CHR ''"'')]), Grp 2 (Star (NotIn [CC (CHR ''>''), CC (CHR ''"'')])), In [CC
       (CHR ''>''), CC (CHR ''"'')], Star Any, Eol]\<close>

definition re_first_quote :: regexp where
  \<open>re_first_quote =
     Seqs [Bol, Grp 1 (Star (NotIn [CC (CHR 0x27), CC (CHR ''"'')])), Grp 2 (In [CC (CHR 0x27),
       CC (CHR ''"'')]), Grp 3 (Star Any), Eol]\<close>

definition re_digit_head :: regexp where
  \<open>re_digit_head =
     Seqs [Wordb, Alts [Seqs [Str ''0'', Opt (In [CC (CHR ''b''), CC (CHR ''B''), CC (CHR
       ''x''), CC (CHR ''X'')])], In [CR (CHR ''1'') (CHR ''9'')]], Star (In [CR (CHR ''0'')
       (CHR ''9''), CR (CHR ''a'') (CHR ''f''), CR (CHR ''A'') (CHR ''F'')]), Eol]\<close>

definition re_digit_sep :: regexp where
  \<open>re_digit_sep =
     Seqs [Bol, Grp 1 (Star (Seqs [Opt (Str [CHR 0x27]), In [CR (CHR ''0'') (CHR ''9''), CR (CHR
       ''a'') (CHR ''z''), CR (CHR ''A'') (CHR ''Z''), CC (CHR ''_'')]])), Grp 2 (Star Any),
       Eol]\<close>

definition re_operator_end :: regexp where
  \<open>re_operator_end =
     Seqs [Wordb, Str ''operator'', Star Spc, Eol]\<close>

definition re_lt_op :: regexp where
  \<open>re_lt_op =
     Seqs [Str ''<'', In [CC (CHR ''<''), CC (CHR ''='')]]\<close>

definition re_ge_spaced :: regexp where
  \<open>re_ge_spaced =
     Seqs [Spc, Str ''>='', Spc]\<close>

definition re_indent_level :: regexp where
  \<open>re_indent_level =
     Seqs [Bol, Grp 1 (Star (Str '' '')), NSpc]\<close>

definition re_flymake_h :: regexp where
  \<open>re_flymake_h =
     Seqs [Str ''_flymake.h'', Eol]\<close>

definition re_flymake_dir :: regexp where
  \<open>re_flymake_dir =
     Seqs [Str ''/.flymake/'', Grp 1 (Star (NotIn [CC (CHR ''/'')])), Eol]\<close>

definition re_non_alnum :: regexp where
  \<open>re_non_alnum =
     NotIn [CR (CHR ''a'') (CHR ''z''), CR (CHR ''A'') (CHR ''Z''), CR (CHR ''0'') (CHR ''9'')]\<close>

definition re_nolint_header_guard :: regexp where
  \<open>re_nolint_header_guard =
     Seqs [Str ''//'', Star Spc, Str ''NOLINT(build/header_guard)'']\<close>

definition re_pragma_once :: regexp where
  \<open>re_pragma_once =
     Seqs [Bol, Star Spc, Str ''#pragma'', Plus Spc, Str ''once'']\<close>

definition re_has_line_comment :: regexp where
  \<open>re_has_line_comment =
     Seqs [Bol, Star (Alts [Seqs [Str [CHR 0x27], Star (Alts [Str ''.'', NotIn [CC (CHR
       0x27)]]), Str [CHR 0x27]], Seqs [Str ''"'', Star (Alts [Str ''.'', NotIn [CC (CHR
       ''"'')]]), Str ''"''], NotIn [CC (CHR 0x27), CC (CHR ''"'')]]), Str ''//'']\<close>

definition TEST_FILE_SUFFIX :: regexp where
  \<open>TEST_FILE_SUFFIX =
     Seqs [Grp 1 (Alts [Str ''_test'', Str ''_regtest'', Str ''_unittest'']), Eol]\<close>

definition re_vlog :: regexp where
  \<open>re_vlog =
     Seqs [Wordb, Str ''VLOG('', Grp 1 (Alts [Str ''INFO'', Str ''ERROR'', Str ''WARNING'', Str
       ''DFATAL'', Str ''FATAL'']), Str '')'']\<close>

definition RE_PATTERN_INVALID_INCREMENT :: regexp where
  \<open>RE_PATTERN_INVALID_INCREMENT =
     Seqs [Bol, Star Spc, Str ''*'', Plus Wrd, Grp 1 (Alts [Str ''++'', Str ''--'']), Str '';'']\<close>

definition re_define :: regexp where
  \<open>re_define =
     Seqs [Bol, Str ''#define'']\<close>

definition re_line_cont :: regexp where
  \<open>re_line_cont =
     Seqs [Str [CHR 0x5C], Eol]\<close>

definition re_forward_class :: regexp where
  \<open>re_forward_class =
     Seqs [Bol, Star Spc, Star (Grp 1 (Seqs [Wordb, Str ''template'', Wordb])), Star Any, Str
       ''class'', Plus Spc, Plus Wrd, Str '';'', Star Spc, Eol]\<close>

definition re_bare_colon :: regexp where
  \<open>re_bare_colon =
     Seqs [Grp 1 (Alts [Bol, NotIn [CC (CHR '':'')]]), Str '':'', Grp 2 (Alts [Eol, NotIn [CC
       (CHR '':'')]])]\<close>

definition re_blank :: regexp where
  \<open>re_blank =
     Seqs [Bol, Star Spc, Eol]\<close>

definition re_close_indent :: regexp where
  \<open>re_close_indent =
     Seqs [Bol, Grp 1 (Star (Str '' '')), Str ''}'']\<close>

definition re_ns_comment :: regexp where
  \<open>re_ns_comment =
     Seqs [Bol, Star Spc, Str ''}'', Star (Str '';''), Star Spc, Grp 1 (Alts [Str ''//'', Str
       ''/*'']), Star Any, Wordb, Str ''namespace'', Wordb]\<close>

definition re_ns_end_anon :: regexp where
  \<open>re_ns_end_anon =
     Seqs [Bol, Star Spc, Str ''}'', Star (Str '';''), Star Spc, Grp 1 (Alts [Str ''//'', Str
       ''/*'']), Star Any, Wordb, Str ''namespace'', Star (In [CC (CHR ''*''), CC (CHR ''/''),
       CC (CHR ''.''), CC (CHR 0x5C), CSpace]), Eol]\<close>

definition re_ns_anon_mention :: regexp where
  \<open>re_ns_anon_mention =
     Seqs [Bol, Star Spc, Str ''}'', Star Any, Wordb, Grp 1 (Alts [Str ''namespace anonymous'',
       Str ''anonymous namespace'']), Wordb]\<close>

definition re_template_token :: regexp where
  \<open>re_template_token =
     Seqs [Bol, Star (NotIn [CC (CHR ''{''), CC (CHR ''}''), CC (CHR '';''), CC (CHR ''=''), CC
       (CHR ''[''), CC (CHR '']''), CC (CHR ''.''), CC (CHR ''<''), CC (CHR ''>'')]), Grp 1 Any]\<close>

definition re_pp_if :: regexp where
  \<open>re_pp_if =
     Seqs [Bol, Star Spc, Str ''#'', Star Spc, Grp 1 (Alts [Str ''if'', Str ''ifdef'', Str
       ''ifndef'']), Wordb]\<close>

definition re_pp_else :: regexp where
  \<open>re_pp_else =
     Seqs [Bol, Star Spc, Str ''#'', Star Spc, Grp 1 (Alts [Str ''else'', Str ''elif'']), Wordb]\<close>

definition re_pp_endif :: regexp where
  \<open>re_pp_endif =
     Seqs [Bol, Star Spc, Str ''#'', Star Spc, Str ''endif'', Wordb]\<close>

definition re_namespace_decl :: regexp where
  \<open>re_namespace_decl =
     Seqs [Bol, Star Spc, Str ''namespace'', Wordb, Star Spc, Opt (Grp 1 (Plus (In [CC (CHR
       '':''), CWord]))), Grp 2 (Star Any), Eol]\<close>

definition re_class_decl :: regexp where
  \<open>re_class_decl =
     Seqs [Bol, Grp 1 (Seqs [Star Spc, Opt (Seqs [Str ''template'', Star Spc, Str ''<'', Star
       (In [CWord, CSpace, CC (CHR ''<''), CC (CHR ''>''), CC (CHR '',''), CC (CHR '':''), CC
       (CHR ''='')]), Str ''>'', Star Spc]), Grp 2 (Alts [Str ''class'', Str ''struct'']), Plus
       Spc, Star (Seqs [Plus (In [CR (CHR ''A'') (CHR ''Z''), CC (CHR ''_'')]), Plus Spc]), Grp
       3 (Seqs [Plus Wrd, Star (Seqs [Str ''::'', Plus Wrd])])]), Grp 4 (Star Any), Eol]\<close>

definition re_access :: regexp where
  \<open>re_access =
     Seqs [Bol, Grp 1 (Star Any), Wordb, Grp 2 (Alts [Str ''public'', Str ''private'', Str
       ''protected'', Str ''signals'']), Opt (Grp 3 (Seqs [Plus Spc, Opt (Seqs [Str ''slots'',
       Star Spc])])), Str '':'', Alts [NotIn [CC (CHR '':'')], Eol]]\<close>

definition re_brace_token :: regexp where
  \<open>re_brace_token =
     Seqs [Bol, Star (NotIn [CC (CHR ''{''), CC (CHR '';''), CC (CHR '')''), CC (CHR ''}'')]),
       Grp 1 (In [CC (CHR ''{''), CC (CHR '';''), CC (CHR '')''), CC (CHR ''}'')]), Grp 2 (Star
       Any), Eol]\<close>

definition re_extern_c :: regexp where
  \<open>re_extern_c =
     Seqs [Bol, Str ''extern'', Star Spc, Str ''"'', Star (NotIn [CC (CHR ''"'')]), Str ''"'',
       Star Spc, Str ''{'']\<close>

definition re_mt_asctime :: regexp where
  \<open>re_mt_asctime =
     Seqs [Alts [Seqs [In [CC (CHR ''-''), CC (CHR ''+''), CC (CHR ''*''), CC (CHR ''/''), CC
       (CHR ''=''), CC (CHR ''%''), CC (CHR ''^''), CC (CHR ''&''), CC (CHR ''|''), CC (CHR
       ''(''), CC (CHR ''<'')], Star Spc], Seqs [Str ''>'', Plus Spc]], Str ''asctime('', Plus
       (NotIn [CC (CHR '')'')]), Str '')'']\<close>

definition re_mt_ctime :: regexp where
  \<open>re_mt_ctime =
     Seqs [Alts [Seqs [In [CC (CHR ''-''), CC (CHR ''+''), CC (CHR ''*''), CC (CHR ''/''), CC
       (CHR ''=''), CC (CHR ''%''), CC (CHR ''^''), CC (CHR ''&''), CC (CHR ''|''), CC (CHR
       ''(''), CC (CHR ''<'')], Star Spc], Seqs [Str ''>'', Plus Spc]], Str ''ctime('', Plus
       (NotIn [CC (CHR '')'')]), Str '')'']\<close>

definition re_mt_getgrgid :: regexp where
  \<open>re_mt_getgrgid =
     Seqs [Alts [Seqs [In [CC (CHR ''-''), CC (CHR ''+''), CC (CHR ''*''), CC (CHR ''/''), CC
       (CHR ''=''), CC (CHR ''%''), CC (CHR ''^''), CC (CHR ''&''), CC (CHR ''|''), CC (CHR
       ''(''), CC (CHR ''<'')], Star Spc], Seqs [Str ''>'', Plus Spc]], Str ''getgrgid('', Plus
       (NotIn [CC (CHR '')'')]), Str '')'']\<close>

definition re_mt_getgrnam :: regexp where
  \<open>re_mt_getgrnam =
     Seqs [Alts [Seqs [In [CC (CHR ''-''), CC (CHR ''+''), CC (CHR ''*''), CC (CHR ''/''), CC
       (CHR ''=''), CC (CHR ''%''), CC (CHR ''^''), CC (CHR ''&''), CC (CHR ''|''), CC (CHR
       ''(''), CC (CHR ''<'')], Star Spc], Seqs [Str ''>'', Plus Spc]], Str ''getgrnam('', Plus
       (NotIn [CC (CHR '')'')]), Str '')'']\<close>

definition re_mt_getlogin :: regexp where
  \<open>re_mt_getlogin =
     Seqs [Alts [Seqs [In [CC (CHR ''-''), CC (CHR ''+''), CC (CHR ''*''), CC (CHR ''/''), CC
       (CHR ''=''), CC (CHR ''%''), CC (CHR ''^''), CC (CHR ''&''), CC (CHR ''|''), CC (CHR
       ''(''), CC (CHR ''<'')], Star Spc], Seqs [Str ''>'', Plus Spc]], Str ''getlogin()'']\<close>

definition re_mt_getpwnam :: regexp where
  \<open>re_mt_getpwnam =
     Seqs [Alts [Seqs [In [CC (CHR ''-''), CC (CHR ''+''), CC (CHR ''*''), CC (CHR ''/''), CC
       (CHR ''=''), CC (CHR ''%''), CC (CHR ''^''), CC (CHR ''&''), CC (CHR ''|''), CC (CHR
       ''(''), CC (CHR ''<'')], Star Spc], Seqs [Str ''>'', Plus Spc]], Str ''getpwnam('', Plus
       (NotIn [CC (CHR '')'')]), Str '')'']\<close>

definition re_mt_getpwuid :: regexp where
  \<open>re_mt_getpwuid =
     Seqs [Alts [Seqs [In [CC (CHR ''-''), CC (CHR ''+''), CC (CHR ''*''), CC (CHR ''/''), CC
       (CHR ''=''), CC (CHR ''%''), CC (CHR ''^''), CC (CHR ''&''), CC (CHR ''|''), CC (CHR
       ''(''), CC (CHR ''<'')], Star Spc], Seqs [Str ''>'', Plus Spc]], Str ''getpwuid('', Plus
       (NotIn [CC (CHR '')'')]), Str '')'']\<close>

definition re_mt_gmtime :: regexp where
  \<open>re_mt_gmtime =
     Seqs [Alts [Seqs [In [CC (CHR ''-''), CC (CHR ''+''), CC (CHR ''*''), CC (CHR ''/''), CC
       (CHR ''=''), CC (CHR ''%''), CC (CHR ''^''), CC (CHR ''&''), CC (CHR ''|''), CC (CHR
       ''(''), CC (CHR ''<'')], Star Spc], Seqs [Str ''>'', Plus Spc]], Str ''gmtime('', Plus
       (NotIn [CC (CHR '')'')]), Str '')'']\<close>

definition re_mt_localtime :: regexp where
  \<open>re_mt_localtime =
     Seqs [Alts [Seqs [In [CC (CHR ''-''), CC (CHR ''+''), CC (CHR ''*''), CC (CHR ''/''), CC
       (CHR ''=''), CC (CHR ''%''), CC (CHR ''^''), CC (CHR ''&''), CC (CHR ''|''), CC (CHR
       ''(''), CC (CHR ''<'')], Star Spc], Seqs [Str ''>'', Plus Spc]], Str ''localtime('', Plus
       (NotIn [CC (CHR '')'')]), Str '')'']\<close>

definition re_mt_rand :: regexp where
  \<open>re_mt_rand =
     Seqs [Alts [Seqs [In [CC (CHR ''-''), CC (CHR ''+''), CC (CHR ''*''), CC (CHR ''/''), CC
       (CHR ''=''), CC (CHR ''%''), CC (CHR ''^''), CC (CHR ''&''), CC (CHR ''|''), CC (CHR
       ''(''), CC (CHR ''<'')], Star Spc], Seqs [Str ''>'', Plus Spc]], Str ''rand()'']\<close>

definition re_mt_strtok :: regexp where
  \<open>re_mt_strtok =
     Seqs [Alts [Seqs [In [CC (CHR ''-''), CC (CHR ''+''), CC (CHR ''*''), CC (CHR ''/''), CC
       (CHR ''=''), CC (CHR ''%''), CC (CHR ''^''), CC (CHR ''&''), CC (CHR ''|''), CC (CHR
       ''(''), CC (CHR ''<'')], Star Spc], Seqs [Str ''>'', Plus Spc]], Str ''strtok('', Plus
       (NotIn [CC (CHR '')'')]), Str '')'']\<close>

definition re_mt_ttyname :: regexp where
  \<open>re_mt_ttyname =
     Seqs [Alts [Seqs [In [CC (CHR ''-''), CC (CHR ''+''), CC (CHR ''*''), CC (CHR ''/''), CC
       (CHR ''=''), CC (CHR ''%''), CC (CHR ''^''), CC (CHR ''&''), CC (CHR ''|''), CC (CHR
       ''(''), CC (CHR ''<'')], Star Spc], Seqs [Str ''>'', Plus Spc]], Str ''ttyname('', Plus
       (NotIn [CC (CHR '')'')]), Str '')'']\<close>

section \<open>The patterns are those of the source\<close>

lemma re_nolint_src: \<open>compile_re (re_text ''`bNOLINT(NEXTLINE)?`b(`([^)]+`))?'') = Some re_nolint\<close>
  by code_simp

lemma SEARCH_C_FILE_src: \<open>compile_re (re_text ''`b(?:LINT_C_FILE|vim?:`s*.*(`s*|:)filetype=c(`s*|:|$))'') = Some SEARCH_C_FILE\<close>
  by code_simp

lemma SEARCH_KERNEL_FILE_src: \<open>compile_re (re_text ''`b(?:LINT_KERNEL_FILE)'') = Some SEARCH_KERNEL_FILE\<close>
  by code_simp

lemma MATCH_ASM_src: \<open>compile_re (re_text ''^`s*(?:asm|_asm|__asm|__asm__)(?:`s+(volatile|__volatile__))?`s*[{(]'') = Some MATCH_ASM\<close>
  by code_simp

lemma re_include_b_src: \<open>compile_re (re_text ''^`s*#`s*include`b'') = Some re_include_b\<close>
  by code_simp

lemma re_test_fn_src: \<open>compile_re (re_text ''T(EST|est)'') = Some re_test_fn\<close>
  by code_simp

lemma RE_PATTERN_CLEANSE_LINE_ESCAPES_src: \<open>compile_re (re_text ''``([abfnrtv?"```\']|`d+|x[0-9a-fA-F]+)'') = Some RE_PATTERN_CLEANSE_LINE_ESCAPES\<close>
  by code_simp

lemma RE_PATTERN_CLEANSE_LINE_C_COMMENTS_src: \<open>compile_re (re_text ''(`s*/`*(?:[^*]|`*(?!/))*`*/`s*$|/`*(?:[^*]|`*(?!/))*`*/`s+|`s+/`*(?:[^*]|`*(?!/))*`*/(?=`W)|/`*(?:[^*]|`*(?!/))*`*/)'') = Some RE_PATTERN_CLEANSE_LINE_C_COMMENTS\<close>
  by code_simp

lemma re_leading_space_src: \<open>compile_re (re_text ''^(`s*)`S'') = Some re_leading_space\<close>
  by code_simp

lemma re_raw_string_src: \<open>compile_re (re_text ''^(.*?)`b(?:R|u8R|uR|UR|LR)"([^`s``()]*)`((.*)$'') = Some re_raw_string\<close>
  by code_simp

lemma re_line_comment_prefix_src: \<open>compile_re (re_text ''^([^`\'"]|`\'(``.|[^`\'])*`\'|"(``.|[^"])*")*//'') = Some re_line_comment_prefix\<close>
  by code_simp

lemma RE_PATTERN_INCLUDE_src: \<open>compile_re (re_text ''^`s*#`s*include`s*([<"])([^>"]*)[>"].*$'') = Some RE_PATTERN_INCLUDE\<close>
  by code_simp

lemma re_first_quote_src: \<open>compile_re (re_text ''^([^`\'"]*)([`\'"])(.*)$'') = Some re_first_quote\<close>
  by code_simp

lemma re_digit_head_src: \<open>compile_re (re_text ''`b(?:0[bBxX]?|[1-9])[0-9a-fA-F]*$'') = Some re_digit_head\<close>
  by code_simp

lemma re_digit_sep_src: \<open>compile_re (re_text ''^((?:`\'?[0-9a-zA-Z_])*)(.*)$'') = Some re_digit_sep\<close>
  by code_simp

lemma re_operator_end_src: \<open>compile_re (re_text ''`boperator`s*$'') = Some re_operator_end\<close>
  by code_simp

lemma re_lt_op_src: \<open>compile_re (re_text ''<[<=]'') = Some re_lt_op\<close>
  by code_simp

lemma re_ge_spaced_src: \<open>compile_re (re_text ''`s>=`s'') = Some re_ge_spaced\<close>
  by code_simp

lemma re_indent_level_src: \<open>compile_re (re_text ''^( *)`S'') = Some re_indent_level\<close>
  by code_simp

lemma re_flymake_h_src: \<open>compile_re (re_text ''_flymake`.h$'') = Some re_flymake_h\<close>
  by code_simp

lemma re_flymake_dir_src: \<open>compile_re (re_text ''/`.flymake/([^/]*)$'') = Some re_flymake_dir\<close>
  by code_simp

lemma re_non_alnum_src: \<open>compile_re (re_text ''[^a-zA-Z0-9]'') = Some re_non_alnum\<close>
  by code_simp

lemma re_nolint_header_guard_src: \<open>compile_re (re_text ''//`s*NOLINT`(build/header_guard`)'') = Some re_nolint_header_guard\<close>
  by code_simp

lemma re_pragma_once_src: \<open>compile_re (re_text ''^`s*#pragma`s+once'') = Some re_pragma_once\<close>
  by code_simp

lemma re_has_line_comment_src: \<open>compile_re (re_text ''^(?:(?:`\'(?:`.|[^`\'])*`\')|(?:"(?:`.|[^"])*")|[^`\'"])*//'') = Some re_has_line_comment\<close>
  by code_simp

lemma TEST_FILE_SUFFIX_src: \<open>compile_re (re_text ''(_test|_regtest|_unittest)$'') = Some TEST_FILE_SUFFIX\<close>
  by code_simp

lemma re_vlog_src: \<open>compile_re (re_text ''`bVLOG`((INFO|ERROR|WARNING|DFATAL|FATAL)`)'') = Some re_vlog\<close>
  by code_simp

lemma RE_PATTERN_INVALID_INCREMENT_src: \<open>compile_re (re_text ''^`s*`*`w+(`+`+|--);'') = Some RE_PATTERN_INVALID_INCREMENT\<close>
  by code_simp

lemma re_define_src: \<open>compile_re (re_text ''^#define'') = Some re_define\<close>
  by code_simp

lemma re_line_cont_src: \<open>compile_re (re_text ''``$'') = Some re_line_cont\<close>
  by code_simp

lemma re_forward_class_src: \<open>compile_re (re_text ''^`s*(`btemplate`b)*.*class`s+`w+;`s*$'') = Some re_forward_class\<close>
  by code_simp

lemma re_bare_colon_src: \<open>compile_re (re_text ''(^|[^:]):($|[^:])'') = Some re_bare_colon\<close>
  by code_simp

lemma re_blank_src: \<open>compile_re (re_text ''^`s*$'') = Some re_blank\<close>
  by code_simp

lemma re_close_indent_src: \<open>compile_re (re_text ''^( *)`}'') = Some re_close_indent\<close>
  by code_simp

lemma re_ns_comment_src: \<open>compile_re (re_text ''^`s*};*`s*(//|/`*).*`bnamespace`b'') = Some re_ns_comment\<close>
  by code_simp

lemma re_ns_end_anon_src: \<open>compile_re (re_text ''^`s*};*`s*(//|/`*).*`bnamespace[`*/`.```s]*$'') = Some re_ns_end_anon\<close>
  by code_simp

lemma re_ns_anon_mention_src: \<open>compile_re (re_text ''^`s*}.*`b(namespace anonymous|anonymous namespace)`b'') = Some re_ns_anon_mention\<close>
  by code_simp

lemma re_template_token_src: \<open>compile_re (re_text ''^[^{};=`[`]`.<>]*(.)'') = Some re_template_token\<close>
  by code_simp

lemma re_pp_if_src: \<open>compile_re (re_text ''^`s*#`s*(if|ifdef|ifndef)`b'') = Some re_pp_if\<close>
  by code_simp

lemma re_pp_else_src: \<open>compile_re (re_text ''^`s*#`s*(else|elif)`b'') = Some re_pp_else\<close>
  by code_simp

lemma re_pp_endif_src: \<open>compile_re (re_text ''^`s*#`s*endif`b'') = Some re_pp_endif\<close>
  by code_simp

lemma re_namespace_decl_src: \<open>compile_re (re_text ''^`s*namespace`b`s*([:`w]+)?(.*)$'') = Some re_namespace_decl\<close>
  by code_simp

lemma re_class_decl_src: \<open>compile_re (re_text ''^(`s*(?:template`s*<[`w`s<>,:=]*>`s*)?(class|struct)`s+(?:[A-Z_]+`s+)*(`w+(?:::`w+)*))(.*)$'') = Some re_class_decl\<close>
  by code_simp

lemma re_access_src: \<open>compile_re (re_text ''^(.*)`b(public|private|protected|signals)(`s+(?:slots`s*)?)?:(?:[^:]|$)'') = Some re_access\<close>
  by code_simp

lemma re_brace_token_src: \<open>compile_re (re_text ''^[^{;)}]*([{;)}])(.*)$'') = Some re_brace_token\<close>
  by code_simp

lemma re_extern_c_src: \<open>compile_re (re_text ''^extern`s*"[^"]*"`s*`{'') = Some re_extern_c\<close>
  by code_simp

lemma re_mt_asctime_src: \<open>compile_re (re_text ''(?:[-+*/=%^&|(<]`s*|>`s+)asctime`([^)]+`)'') = Some re_mt_asctime\<close>
  by code_simp

lemma re_mt_ctime_src: \<open>compile_re (re_text ''(?:[-+*/=%^&|(<]`s*|>`s+)ctime`([^)]+`)'') = Some re_mt_ctime\<close>
  by code_simp

lemma re_mt_getgrgid_src: \<open>compile_re (re_text ''(?:[-+*/=%^&|(<]`s*|>`s+)getgrgid`([^)]+`)'') = Some re_mt_getgrgid\<close>
  by code_simp

lemma re_mt_getgrnam_src: \<open>compile_re (re_text ''(?:[-+*/=%^&|(<]`s*|>`s+)getgrnam`([^)]+`)'') = Some re_mt_getgrnam\<close>
  by code_simp

lemma re_mt_getlogin_src: \<open>compile_re (re_text ''(?:[-+*/=%^&|(<]`s*|>`s+)getlogin`(`)'') = Some re_mt_getlogin\<close>
  by code_simp

lemma re_mt_getpwnam_src: \<open>compile_re (re_text ''(?:[-+*/=%^&|(<]`s*|>`s+)getpwnam`([^)]+`)'') = Some re_mt_getpwnam\<close>
  by code_simp

lemma re_mt_getpwuid_src: \<open>compile_re (re_text ''(?:[-+*/=%^&|(<]`s*|>`s+)getpwuid`([^)]+`)'') = Some re_mt_getpwuid\<close>
  by code_simp

lemma re_mt_gmtime_src: \<open>compile_re (re_text ''(?:[-+*/=%^&|(<]`s*|>`s+)gmtime`([^)]+`)'') = Some re_mt_gmtime\<close>
  by code_simp

lemma re_mt_localtime_src: \<open>compile_re (re_text ''(?:[-+*/=%^&|(<]`s*|>`s+)localtime`([^)]+`)'') = Some re_mt_localtime\<close>
  by code_simp

lemma re_mt_rand_src: \<open>compile_re (re_text ''(?:[-+*/=%^&|(<]`s*|>`s+)rand`(`)'') = Some re_mt_rand\<close>
  by code_simp

lemma re_mt_strtok_src: \<open>compile_re (re_text ''(?:[-+*/=%^&|(<]`s*|>`s+)strtok`([^)]+`)'') = Some re_mt_strtok\<close>
  by code_simp

lemma re_mt_ttyname_src: \<open>compile_re (re_text ''(?:[-+*/=%^&|(<]`s*|>`s+)ttyname`([^)]+`)'') = Some re_mt_ttyname\<close>
  by code_simp

end
