(* ===== verification/Diagnostics.thy ===== *)
theory Diagnostics
  imports Prelude "HOL-Library.Multiset"
begin

text \<open>
  The messages that the checks of \<open>cpplint.py\<close> hand to their \<open>error\<close> callback, and
  the contract between the checks and whatever consumes the messages.

  Every check takes the callback as an argument and calls it zero or more times.  In the
  model a check returns the list of its calls in order, and the caller feeds the list to a
  consumer.  The locale \<open>message_sink\<close> states what the checks may rely on: a message
  is either accepted, and then counted once, or it leaves the consumer as it was.
\<close>

record lint_msg =
  l_file :: string
  l_line :: "int option"  \<comment> \<open>\<open>CheckHeaderFileIncluded\<close> can pass \<open>None\<close>\<close>
  l_cat :: string
  l_conf :: int
  l_text :: string

abbreviation err_at :: "string \<Rightarrow> int \<Rightarrow> string \<Rightarrow> int \<Rightarrow> string \<Rightarrow> lint_msg" where
  "err_at f l c k t \<equiv> \<lparr>l_file = f, l_line = Some l, l_cat = c, l_conf = k, l_text = t\<rparr>"

definition ERROR_CATEGORIES :: "string list" where
  "ERROR_CATEGORIES =
    [''build/class'', ''build/c++11'', ''build/c++14'', ''build/c++tr1'',
      ''build/deprecated'', ''build/endif_comment'', ''build/explicit_make_pair'',
      ''build/forward_decl'', ''build/header_guard'', ''build/include'',
      ''build/include_subdir'', ''build/include_alpha'', ''build/include_order'',
      ''build/include_what_you_use'', ''build/namespaces_literals'', ''build/namespaces'',
      ''build/printf_format'', ''build/storage_class'', ''legal/copyright'',
      ''readability/alt_tokens'', ''readability/braces'', ''readability/casting'',
      ''readability/check'', ''readability/constructors'', ''readability/fn_size'',
      ''readability/inheritance'', ''readability/multiline_comment'',
      ''readability/multiline_string'', ''readability/namespace'', ''readability/nolint'',
      ''readability/nul'', ''readability/strings'', ''readability/todo'',
      ''readability/utf8'', ''runtime/arrays'', ''runtime/casting'', ''runtime/explicit'',
      ''runtime/int'', ''runtime/init'', ''runtime/invalid_increment'',
      ''runtime/member_string_references'', ''runtime/memset'',
      ''runtime/indentation_namespace'', ''runtime/operator'', ''runtime/printf'',
      ''runtime/printf_format'', ''runtime/references'', ''runtime/string'',
      ''runtime/threadsafe_fn'', ''runtime/vlog'', ''whitespace/blank_line'',
      ''whitespace/braces'', ''whitespace/comma'', ''whitespace/comments'',
      ''whitespace/empty_conditional_body'', ''whitespace/empty_if_body'',
      ''whitespace/empty_loop_body'', ''whitespace/end_of_line'',
      ''whitespace/ending_newline'', ''whitespace/forcolon'', ''whitespace/indent'',
      ''whitespace/line_length'', ''whitespace/newline'', ''whitespace/operators'',
      ''whitespace/parens'', ''whitespace/semicolon'', ''whitespace/tab'',
      ''whitespace/todo'']"

definition LEGACY_ERROR_CATEGORIES :: "string list" where
  "LEGACY_ERROR_CATEGORIES = [''readability/streams'', ''readability/function'']"

definition DEFAULT_FILTERS :: "string list" where
  "DEFAULT_FILTERS = [''-build/include_alpha'']"

definition DEFAULT_C_SUPPRESSED_CATEGORIES :: "string list" where
  "DEFAULT_C_SUPPRESSED_CATEGORIES = [''readability/casting'']"

definition DEFAULT_KERNEL_SUPPRESSED_CATEGORIES :: "string list" where
  "DEFAULT_KERNEL_SUPPRESSED_CATEGORIES = [''whitespace/tab'']"

lemma legacy_not_current:
  "set ERROR_CATEGORIES \<inter> set LEGACY_ERROR_CATEGORIES = {}"
  by (simp add: ERROR_CATEGORIES_def LEGACY_ERROR_CATEGORIES_def)

section \<open>The contract of a message consumer\<close>

locale message_sink =
  fixes report :: "lint_msg \<Rightarrow> 's \<Rightarrow> 's"
    and accepts :: "'s \<Rightarrow> lint_msg \<Rightarrow> bool"
    and total :: "'s \<Rightarrow> nat"
  assumes report_accepted: "accepts s m \<Longrightarrow> total (report m s) = Suc (total s)"
    and report_rejected: "\<not> accepts s m \<Longrightarrow> report m s = s"
    and accepts_report: "accepts (report m s) m' = accepts s m'"
begin

lemma accepts_fold: "accepts (fold report ms s) m' = accepts s m'"
  by (induction ms arbitrary: s) (simp_all add: accepts_report)

lemma total_fold: "total (fold report ms s) = total s + length (filter (accepts s) ms)"
proof (induction ms arbitrary: s)
  case (Cons m ms)
  have "filter (accepts (report m s)) ms = filter (accepts s) ms"
    by (rule filter_cong) (simp_all add: accepts_report)
  with Cons [of "report m s"] show ?case
    by (cases "accepts s m") (simp_all add: report_accepted report_rejected)
qed simp

lemma total_fold_mono: "total s \<le> total (fold report ms s)"
  by (simp add: total_fold)

lemma fold_rejected: "\<forall>m \<in> set ms. \<not> accepts s m \<Longrightarrow> fold report ms s = s"
  by (induction ms) (simp_all add: report_rejected)

lemma total_fold_perm: "mset ms = mset ms' \<Longrightarrow> total (fold report ms s) = total (fold report ms' s)"
  by (simp add: total_fold) (metis mset_filter size_mset)

lemma total_fold_unchanged_iff:
  "total (fold report ms s) = total s \<longleftrightarrow> (\<forall>m \<in> set ms. \<not> accepts s m)"
  by (simp add: total_fold filter_empty_conv)

end

end
