(* ===== verification/Suppressions.thy ===== *)
theory Suppressions
  imports Patterns Diagnostics
begin

text \<open>
  NOLINT suppressions of \<open>cpplint.py\<close>: the module variables
  \<open>_error_suppressions\<close> (a dict from a category, or \<open>None\<close> for every category, to a
  set of line numbers) and \<open>_global_error_suppressions\<close> (a dict from a category to
  \<open>True\<close>), and the functions that fill, clear and query them.
\<close>

record nolint_state =
  error_suppressions :: "string option \<rightharpoonup> int set"
  global_error_suppressions :: "string \<rightharpoonup> bool"

definition init_nolint :: nolint_state where
  "init_nolint = \<lparr>error_suppressions = Map.empty, global_error_suppressions = Map.empty\<rparr>"

text \<open>\<open>_error_suppressions.setdefault(k, set()).add(line)\<close>\<close>

definition add_suppression :: "string option \<Rightarrow> int \<Rightarrow> nolint_state \<Rightarrow> nolint_state" where
  "add_suppression k line st =
     st\<lparr>error_suppressions := (error_suppressions st)(k \<mapsto>
        insert line (case error_suppressions st k of None \<Rightarrow> {} | Some ls \<Rightarrow> ls))\<rparr>"

definition unknown_nolint_msg :: "string \<Rightarrow> int \<Rightarrow> string \<Rightarrow> lint_msg" where
  "unknown_nolint_msg filename linenum category =
     err_at filename linenum ''readability/nolint'' 5
       (''Unknown NOLINT error category: '' @ category)"

definition ParseNolintSuppressions ::
  "string \<Rightarrow> string \<Rightarrow> int \<Rightarrow> nolint_state \<Rightarrow> nolint_state \<times> lint_msg list" where
  "ParseNolintSuppressions filename raw_line linenum st =
     (case re_search re_nolint raw_line of
        None \<Rightarrow> (st, [])
      | Some matched \<Rightarrow>
          (let suppressed_line = (if group_text matched 1 \<noteq> [] then linenum + 1 else linenum)
           in case group matched 2 of
                None \<Rightarrow> (add_suppression None suppressed_line st, [])
              | Some category \<Rightarrow>
                  if category = ''(*)'' then (add_suppression None suppressed_line st, [])
                  else if startswith category ''('' \<and> endswith category '')'' then
                    (let category = butlast (tl category) in
                     if category \<in> set ERROR_CATEGORIES
                     then (add_suppression (Some category) suppressed_line st, [])
                     else if category \<notin> set LEGACY_ERROR_CATEGORIES
                     then (st, [unknown_nolint_msg filename linenum category])
                     else (st, []))
                  else (st, [])))"

definition suppress_globally :: "string list \<Rightarrow> nolint_state \<Rightarrow> nolint_state" where
  "suppress_globally cats st =
     st\<lparr>global_error_suppressions :=
          fold (\<lambda>category g. g(category \<mapsto> True)) cats (global_error_suppressions st)\<rparr>"

fun ProcessGlobalSuppresions :: "string list \<Rightarrow> nolint_state \<Rightarrow> nolint_state" where
  "ProcessGlobalSuppresions [] st = st"
| "ProcessGlobalSuppresions (line # lines) st =
     (let st1 = (if re_search SEARCH_C_FILE line \<noteq> None
                 then suppress_globally DEFAULT_C_SUPPRESSED_CATEGORIES st else st);
          st2 = (if re_search SEARCH_KERNEL_FILE line \<noteq> None
                 then suppress_globally DEFAULT_KERNEL_SUPPRESSED_CATEGORIES st1 else st1)
      in ProcessGlobalSuppresions lines st2)"

definition ResetNolintSuppressions :: "nolint_state \<Rightarrow> nolint_state" where
  "ResetNolintSuppressions st =
     st\<lparr>error_suppressions := Map.empty, global_error_suppressions := Map.empty\<rparr>"

definition IsErrorSuppressedByNolint :: "nolint_state \<Rightarrow> string \<Rightarrow> int option \<Rightarrow> bool" where
  "IsErrorSuppressedByNolint st category linenum \<longleftrightarrow>
     (case global_error_suppressions st category of None \<Rightarrow> False | Some b \<Rightarrow> b) \<or>
     (case linenum of
        None \<Rightarrow> False
      | Some l \<Rightarrow>
          l \<in> (case error_suppressions st (Some category) of None \<Rightarrow> {} | Some ls \<Rightarrow> ls) \<or>
          l \<in> (case error_suppressions st None of None \<Rightarrow> {} | Some ls \<Rightarrow> ls))"

section \<open>The suppression store\<close>

text \<open>
  What the callers of the store rely on: an added line is suppressed for its category, or for
  all of them when the key is \<open>None\<close>, and nothing else changes.
\<close>

locale suppression_store =
  fixes add :: "'k option \<Rightarrow> int \<Rightarrow> 's \<Rightarrow> 's"
    and suppressed :: "'s \<Rightarrow> 'k \<Rightarrow> int option \<Rightarrow> bool"
  assumes suppressed_add:
    "suppressed (add k l s) c n \<longleftrightarrow> suppressed s c n \<or> (n = Some l \<and> (k = None \<or> k = Some c))"
begin

definition add_all :: "('k option \<times> int) list \<Rightarrow> 's \<Rightarrow> 's" where
  "add_all ks s = fold (\<lambda>(k, l). add k l) ks s"

lemma suppressed_add_all:
  "suppressed (add_all ks s) c n \<longleftrightarrow>
     suppressed s c n \<or> (\<exists>l. n = Some l \<and> ((None, l) \<in> set ks \<or> (Some c, l) \<in> set ks))"
proof (induction ks arbitrary: s)
  case (Cons kl ks)
  obtain k l where "kl = (k, l)" by (cases kl)
  with Cons [of "add k l s"] show ?case
    by (auto simp: add_all_def suppressed_add)
qed (simp add: add_all_def)

lemma suppressed_add_all_mono: "suppressed s c n \<Longrightarrow> suppressed (add_all ks s) c n"
  by (simp add: suppressed_add_all)

lemma add_all_other_line:
  "\<forall>k. (k, l) \<notin> set ks \<Longrightarrow> suppressed (add_all ks s) c (Some l) = suppressed s c (Some l)"
  by (simp add: suppressed_add_all)

end

lemma suppressed_add_suppression:
  "IsErrorSuppressedByNolint (add_suppression k l s) c n \<longleftrightarrow>
     IsErrorSuppressedByNolint s c n \<or> (n = Some l \<and> (k = None \<or> k = Some c))"
  by (cases k)
    (auto simp: IsErrorSuppressedByNolint_def add_suppression_def split: option.splits)

interpretation nolint: suppression_store add_suppression IsErrorSuppressedByNolint
  by unfold_locales (rule suppressed_add_suppression)


section \<open>NOLINT comments\<close>

text \<open>The parenthesised category of a NOLINT comment comes with its parentheses.\<close>

lemma re_nolint_group2:
  assumes "re_search re_nolint s = Some m" and "group m 2 = Some g"
  shows "startswith g ''('' \<and> endswith g '')''"
proof -
  let ?q = "Seqs [Str ''('', Plus (NotIn [CC (CHR '')'')]), Str '')'']"
  have "grps 2 re_nolint = {?q}" by (simp add: re_nolint_def)
  with re_search_group [OF assms] obtain p0 s0 c0 c1
    where rm: "rm ?q (p0, g @ s0, c0) (rev g @ p0, s0, c1)" by auto
  from rm_minw [OF rm] have g: "g \<noteq> []" by auto
  from rm have first: "startswith (g @ s0) ''(''" by (auto dest: rm_Seq_Str_first)
  from rm have last: "startswith (rev g @ p0) '')''"
    unfolding Seqs.simps rm_Seq_iff by (fastforce dest: rm_Str_last)
  from g first last show ?thesis
    by (simp add: endswith_def startswith_append_single)
qed

text \<open>
  What a raw line asks for: whether it is about the next line, and the category (\<open>None\<close>
  for all of them).  Comments with an unknown or a legacy category ask for nothing.
\<close>

definition nolint_directive :: "string \<Rightarrow> (bool \<times> string option) option" where
  "nolint_directive raw_line =
     (case re_search re_nolint raw_line of
        None \<Rightarrow> None
      | Some m \<Rightarrow>
          (let nextline = group_text m 1 \<noteq> [] in
           case group m 2 of
             None \<Rightarrow> Some (nextline, None)
           | Some g \<Rightarrow>
               if g = ''(*)'' then Some (nextline, None)
               else if butlast (tl g) \<in> set ERROR_CATEGORIES
               then Some (nextline, Some (butlast (tl g))) else None))"

definition directive_line :: "bool \<times> string option \<Rightarrow> int \<Rightarrow> int" where
  "directive_line d n = (if fst d then n + 1 else n)"

lemma ParseNolintSuppressions_directive:
  "fst (ParseNolintSuppressions f raw n st) =
     (case nolint_directive raw of
        None \<Rightarrow> st
      | Some d \<Rightarrow> add_suppression (snd d) (directive_line d n) st)"
  by (auto simp: ParseNolintSuppressions_def nolint_directive_def directive_line_def Let_def
      dest: re_nolint_group2 split: option.splits)

lemma ParseNolintSuppressions_msgs:
  "snd (ParseNolintSuppressions f raw n st) \<noteq> [] \<Longrightarrow> nolint_directive raw = None"
  by (auto simp: ParseNolintSuppressions_def nolint_directive_def Let_def
      split: option.splits if_splits)

text \<open>The lines of a file are handed to \<open>ParseNolintSuppressions\<close> one after the other.\<close>

fun parse_nolint_lines :: "string \<Rightarrow> string list \<Rightarrow> int \<Rightarrow> nolint_state \<Rightarrow> nolint_state \<times> lint_msg list" where
  "parse_nolint_lines f [] n st = (st, [])"
| "parse_nolint_lines f (l # ls) n st =
     (case ParseNolintSuppressions f l n st of (st', ms) \<Rightarrow>
      case parse_nolint_lines f ls (n + 1) st' of (st'', ms') \<Rightarrow> (st'', ms @ ms'))"

fun directives :: "string list \<Rightarrow> int \<Rightarrow> (string option \<times> int) list" where
  "directives [] n = []"
| "directives (l # ls) n =
     (case nolint_directive l of
        None \<Rightarrow> directives ls (n + 1)
      | Some d \<Rightarrow> (snd d, directive_line d n) # directives ls (n + 1))"

lemma parse_nolint_lines_add_all:
  "fst (parse_nolint_lines f ls n st) = nolint.add_all (directives ls n) st"
proof (induction ls arbitrary: n st)
  case Nil
  then show ?case by (simp add: nolint.add_all_def)
next
  case (Cons l ls)
  have "fst (parse_nolint_lines f (l # ls) n st) =
      fst (parse_nolint_lines f ls (n + 1) (fst (ParseNolintSuppressions f l n st)))"
    by (simp split: prod.split)
  with Cons show ?case
    by (simp add: ParseNolintSuppressions_directive nolint.add_all_def split: option.split)
qed

lemma set_directives:
  "(k, m) \<in> set (directives ls n) \<longleftrightarrow>
     (\<exists>i < length ls. \<exists>d. nolint_directive (ls ! i) = Some d \<and> snd d = k
        \<and> directive_line d (n + int i) = m)"
proof (induction ls arbitrary: n)
  case (Cons l ls)
  have "(\<exists>i < length (l # ls). \<exists>d. nolint_directive ((l # ls) ! i) = Some d \<and> snd d = k
        \<and> directive_line d (n + int i) = m) \<longleftrightarrow>
      (\<exists>d. nolint_directive l = Some d \<and> snd d = k \<and> directive_line d n = m) \<or>
      (\<exists>i < length ls. \<exists>d. nolint_directive (ls ! i) = Some d \<and> snd d = k
        \<and> directive_line d (n + 1 + int i) = m)"
    by (simp add: Ex_less_Suc2 algebra_simps)
  with Cons [of "n + 1"] show ?case by (auto split: option.split)
qed simp


section \<open>Global suppressions\<close>

lemma suppress_globally_lookup:
  "global_error_suppressions (suppress_globally cats st) c =
     (if c \<in> set cats then Some True else global_error_suppressions st c)"
proof -
  have "fold (\<lambda>category g. g(category \<mapsto> True)) cats g c = (if c \<in> set cats then Some True else g c)" for g
    by (induction cats arbitrary: g) auto
  then show ?thesis by (simp add: suppress_globally_def)
qed

lemma suppress_globally_lines [simp]:
  "error_suppressions (suppress_globally cats st) = error_suppressions st"
  by (simp add: suppress_globally_def)

lemma ProcessGlobalSuppresions_lines [simp]:
  "error_suppressions (ProcessGlobalSuppresions lines st) = error_suppressions st"
  by (induction lines st rule: ProcessGlobalSuppresions.induct) (simp_all add: Let_def)

lemma ProcessGlobalSuppresions_lookup:
  "global_error_suppressions (ProcessGlobalSuppresions lines st) c =
     (if (\<exists>l \<in> set lines. re_search SEARCH_C_FILE l \<noteq> None) \<and> c \<in> set DEFAULT_C_SUPPRESSED_CATEGORIES
       \<or> (\<exists>l \<in> set lines. re_search SEARCH_KERNEL_FILE l \<noteq> None) \<and> c \<in> set DEFAULT_KERNEL_SUPPRESSED_CATEGORIES
      then Some True else global_error_suppressions st c)"
proof (induction lines arbitrary: st)
  case (Cons line lines)
  show ?case
    unfolding ProcessGlobalSuppresions.simps Let_def Cons.IH
    by (auto simp: suppress_globally_lookup simp del: not_None_eq not_Some_eq)
qed simp

section \<open>Properties\<close>

text \<open>
  C39.  Refinement of the suppression table by what the NOLINT comments of a file say: after
  the lines of a file have been parsed in order, an error of a category is suppressed on a
  line exactly when it was before or some comment is about that line (its own, or the next
  one for NOLINTNEXTLINE) and about that category or all of them.
\<close>

theorem nolint_file_spec:
  "IsErrorSuppressedByNolint (fst (parse_nolint_lines f ls n st)) c (Some l) \<longleftrightarrow>
     IsErrorSuppressedByNolint st c (Some l) \<or>
     (\<exists>i d. i < length ls \<and> nolint_directive (ls ! i) = Some d
        \<and> snd d \<in> {None, Some c} \<and> directive_line d (n + int i) = l)"
  unfolding parse_nolint_lines_add_all nolint.suppressed_add_all set_directives by auto

text \<open>
  One call of \<open>ParseNolintSuppressions\<close> either reports exactly one malformed
  category and leaves the table alone, or reports nothing; it never removes a suppression
  and never adds one beyond the line itself and the line after it.
\<close>

lemma ParseNolintSuppressions_effect:
  "case ParseNolintSuppressions f raw n st of (st', ms) \<Rightarrow>
     (ms = [] \<or>
      (st' = st \<and> (\<exists>cat. cat \<notin> set ERROR_CATEGORIES \<union> set LEGACY_ERROR_CATEGORIES
         \<and> ms = [unknown_nolint_msg f n cat])))
     \<and> (\<forall>c k. IsErrorSuppressedByNolint st' c k =
          (IsErrorSuppressedByNolint st c k \<or>
           (k \<in> {Some n, Some (n + 1)} \<and> IsErrorSuppressedByNolint st' c k)))"
proof -
  obtain st' ms where eq: "ParseNolintSuppressions f raw n st = (st', ms)" by fastforce
  have msgs: "ms = [] \<or> (st' = st \<and> (\<exists>cat. cat \<notin> set ERROR_CATEGORIES \<union> set LEGACY_ERROR_CATEGORIES
         \<and> ms = [unknown_nolint_msg f n cat]))"
    using eq unfolding ParseNolintSuppressions_def Let_def
    by (auto split: option.splits if_splits)
  have "st' = (case nolint_directive raw of None \<Rightarrow> st
      | Some d \<Rightarrow> add_suppression (snd d) (directive_line d n) st)"
    using ParseNolintSuppressions_directive [of f raw n st] eq by simp
  moreover have "directive_line d n \<in> {n, n + 1}" for d
    by (simp add: directive_line_def)
  ultimately have "IsErrorSuppressedByNolint st' c k =
      (IsErrorSuppressedByNolint st c k \<or>
       (k \<in> {Some n, Some (n + 1)} \<and> IsErrorSuppressedByNolint st' c k))" for c k
    by (auto simp: suppressed_add_suppression split: option.splits)
  with msgs show ?thesis unfolding eq prod.case by blast
qed

text \<open>
  After the per-file reset and the scan for global directives, the only suppressed
  errors are casting errors in files marked as C and tab errors in kernel files, and those
  on every line.
\<close>

lemma global_suppressions_spec:
  "IsErrorSuppressedByNolint (ProcessGlobalSuppresions lines (ResetNolintSuppressions st)) c n \<longleftrightarrow>
     (c = ''readability/casting'' \<and> (\<exists>l \<in> set lines. re_search SEARCH_C_FILE l \<noteq> None)) \<or>
     (c = ''whitespace/tab'' \<and> (\<exists>l \<in> set lines. re_search SEARCH_KERNEL_FILE l \<noteq> None))"
  by (auto simp: IsErrorSuppressedByNolint_def ProcessGlobalSuppresions_lookup
      ResetNolintSuppressions_def DEFAULT_C_SUPPRESSED_CATEGORIES_def
      DEFAULT_KERNEL_SUPPRESSED_CATEGORIES_def split: option.splits)

end
