(* ===== verification/Lint_State.thy ===== *)
theory Lint_State
  imports Py_Regex Diagnostics
begin

text \<open>
  \<open>_CppLintState\<close> of \<open>cpplint.py\<close>, the module-wide settings and counters, with the
  two output streams it writes to as lists of the strings written.  A dict from categories
  to counts is an association list in insertion order.  The module functions
  \<open>_OutputFormat\<close>, \<open>_SetOutputFormat\<close>, ..., \<open>_RestoreFilters\<close> forward to the
  methods of the one instance and are modelled by them.
\<close>

type_synonym junit_failure = "string \<times> int option \<times> string \<times> string \<times> int"

record cpplint_state =
  verbose_level :: int
  error_count :: nat
  filters :: "string list"
  filters_backup :: "string list"
  counting :: string
  errors_by_category :: "(string \<times> nat) list"
  quiet :: bool
  output_format :: string
  junit_errors :: "string list"
  junit_failures :: "junit_failure list"
  sys_stdout :: "string list"
  sys_stderr :: "string list"

definition init_cpplint_state :: cpplint_state where
  "init_cpplint_state = \<lparr>verbose_level = 1, error_count = 0, filters = DEFAULT_FILTERS,
     filters_backup = DEFAULT_FILTERS, counting = ''total'', errors_by_category = [],
     quiet = False, output_format = ''emacs'', junit_errors = [], junit_failures = [],
     sys_stdout = [], sys_stderr = []\<rparr>"

text \<open>The module variable \<open>_quiet\<close>, which nothing assigns.\<close>

definition module_quiet :: bool where
  "module_quiet = False"

section \<open>Settings\<close>

definition SetOutputFormat :: "string \<Rightarrow> cpplint_state \<Rightarrow> cpplint_state" where
  "SetOutputFormat fmt st = st\<lparr>output_format := fmt\<rparr>"

definition SetQuiet :: "bool \<Rightarrow> cpplint_state \<Rightarrow> cpplint_state \<times> bool" where
  "SetQuiet q st = (st\<lparr>quiet := q\<rparr>, quiet st)"

definition SetVerboseLevel :: "int \<Rightarrow> cpplint_state \<Rightarrow> cpplint_state \<times> int" where
  "SetVerboseLevel level st = (st\<lparr>verbose_level := level\<rparr>, verbose_level st)"

definition SetCountingStyle :: "string \<Rightarrow> cpplint_state \<Rightarrow> cpplint_state" where
  "SetCountingStyle style st = st\<lparr>counting := style\<rparr>"

definition filter_ok :: "string \<Rightarrow> bool" where
  "filter_ok filt \<longleftrightarrow> startswith filt ''+'' \<or> startswith filt ''-''"

definition bad_filter_text :: "string \<Rightarrow> string" where
  "bad_filter_text filt =
     ''Every filter in --filters must start with + or - ('' @ filt @ '' does not)''"

text \<open>The list is extended before it is validated, so a bad filter stays in it.\<close>

definition AddFilters :: "string \<Rightarrow> cpplint_state \<Rightarrow> cpplint_state \<times> py_error option" where
  "AddFilters fs st =
     (let st' = st\<lparr>filters := filters st @
            List.filter (\<lambda>f. f \<noteq> []) (map strip (split_on (CHR '','') fs))\<rparr>
      in case List.find (\<lambda>f. \<not> filter_ok f) (filters st') of
           None \<Rightarrow> (st', None)
         | Some f \<Rightarrow> (st', Some (ValueError (bad_filter_text f))))"

definition SetFilters :: "string \<Rightarrow> cpplint_state \<Rightarrow> cpplint_state \<times> py_error option" where
  "SetFilters fs st = AddFilters fs (st\<lparr>filters := DEFAULT_FILTERS\<rparr>)"

definition BackupFilters :: "cpplint_state \<Rightarrow> cpplint_state" where
  "BackupFilters st = st\<lparr>filters_backup := filters st\<rparr>"

definition RestoreFilters :: "cpplint_state \<Rightarrow> cpplint_state" where
  "RestoreFilters st = st\<lparr>filters := filters_backup st\<rparr>"

section \<open>Counters\<close>

definition ResetErrorCounts :: "cpplint_state \<Rightarrow> cpplint_state" where
  "ResetErrorCounts st = st\<lparr>error_count := 0, errors_by_category := []\<rparr>"

fun dict_incr :: "string \<Rightarrow> (string \<times> nat) list \<Rightarrow> (string \<times> nat) list" where
  "dict_incr k [] = [(k, 1)]"
| "dict_incr k ((k', n) # d) = (if k' = k then (k', Suc n) # d else (k', n) # dict_incr k d)"

definition IncrementErrorCount :: "string \<Rightarrow> cpplint_state \<Rightarrow> cpplint_state" where
  "IncrementErrorCount category st =
     (let st' = st\<lparr>error_count := Suc (error_count st)\<rparr> in
      if counting st \<in> {''toplevel'', ''detailed''} then
        (let category = (if counting st \<noteq> ''detailed'' then hd (split_on (CHR ''/'') category)
                         else category)
         in st'\<lparr>errors_by_category := dict_incr category (errors_by_category st)\<rparr>)
      else st')"

section \<open>Output\<close>

definition PrintInfo :: "string \<Rightarrow> cpplint_state \<Rightarrow> cpplint_state" where
  "PrintInfo message st =
     (if \<not> module_quiet \<and> output_format st \<noteq> ''junit''
      then st\<lparr>sys_stdout := sys_stdout st @ [message]\<rparr> else st)"

definition PrintError :: "string \<Rightarrow> cpplint_state \<Rightarrow> cpplint_state" where
  "PrintError message st =
     (if output_format st = ''junit'' then st\<lparr>junit_errors := junit_errors st @ [message]\<rparr>
      else st\<lparr>sys_stderr := sys_stderr st @ [message]\<rparr>)"

definition PrintErrorCounts :: "cpplint_state \<Rightarrow> cpplint_state" where
  "PrintErrorCounts st =
     (let st' = fold (\<lambda>(category, n). PrintInfo
            (''Category '' @ [CHR 0x27] @ category @ [CHR 0x27] @ '' errors found: '' @ nat_str n @ [newline]))
            (sort_key fst (errors_by_category st)) st
      in if error_count st > 0
         then PrintInfo (''Total errors found: '' @ nat_str (error_count st) @ [newline]) st'
         else st')"

definition AddJUnitFailure ::
  "string \<Rightarrow> int option \<Rightarrow> string \<Rightarrow> string \<Rightarrow> int \<Rightarrow> cpplint_state \<Rightarrow> cpplint_state" where
  "AddJUnitFailure filename linenum message category confidence st =
     st\<lparr>junit_failures := junit_failures st @ [(filename, linenum, message, category, confidence)]\<rparr>"

section \<open>The JUnit report\<close>

text \<open>\<open>xml.etree.ElementTree\<close>: elements with tag, attributes, text and children.\<close>

datatype xml = Element (xml_tag: string) (xml_attrib: "(string \<times> string) list")
  (xml_body: string) (xml_children: "xml list")

fun esc_with :: "(char \<times> string) list \<Rightarrow> string \<Rightarrow> string" where
  "esc_with tbl [] = []"
| "esc_with tbl (c # cs) = (case map_of tbl c of None \<Rightarrow> [c] | Some w \<Rightarrow> w) @ esc_with tbl cs"

definition escape_cdata :: "string \<Rightarrow> string" where
  "escape_cdata = esc_with [(CHR ''&'', ''&amp;''), (CHR ''<'', ''&lt;''), (CHR ''>'', ''&gt;'')]"

definition escape_attrib :: "string \<Rightarrow> string" where
  "escape_attrib = esc_with [(CHR ''&'', ''&amp;''), (CHR ''<'', ''&lt;''), (CHR ''>'', ''&gt;''),
     (CHR 0x22, ''&quot;''), (CHR 0x0D, ''&#13;''), (CHR 0x0A, ''&#10;''), (CHR 0x09, ''&#09;'')]"

fun xml_string :: "xml \<Rightarrow> string" where
  "xml_string (Element tag attrib body children) =
     ''<'' @ tag @
     concat (map (\<lambda>(k, v). '' '' @ k @ ''='' @ [CHR 0x22] @ escape_attrib v @ [CHR 0x22]) attrib) @
     (if body \<noteq> [] \<or> children \<noteq> []
      then ''>'' @ escape_cdata body @ concat (map xml_string children) @ ''</'' @ tag @ ''>''
      else '' />'')"

definition line_str :: "int option \<Rightarrow> string" where
  "line_str n = (case n of None \<Rightarrow> ''None'' | Some i \<Rightarrow> int_str i)"

text \<open>\<open>'{0}: {1} [{2}] [{3}]'\<close> over line, message, category and confidence.\<close>

definition failure_text :: "junit_failure \<Rightarrow> string" where
  "failure_text f = (case f of (filename, linenum, message, category, confidence) \<Rightarrow>
     line_str linenum @ '': '' @ message @ '' ['' @ category @ ''] ['' @ int_str confidence @ '']'')"

text \<open>The loop that fills \<open>failed_file_order\<close> and \<open>failures_by_file\<close>.\<close>

fun group_failures :: "junit_failure list \<Rightarrow> string list \<Rightarrow> (string \<Rightarrow> junit_failure list)
    \<Rightarrow> string list \<times> (string \<Rightarrow> junit_failure list)" where
  "group_failures [] order by_file = (order, by_file)"
| "group_failures (failure # rest) order by_file =
     (let failed_file = fst failure;
          new = failed_file \<notin> set order;
          order' = (if new then order @ [failed_file] else order);
          by_file' = (if new then by_file(failed_file := []) else by_file)
      in group_failures rest order'
           (by_file'(failed_file := by_file' failed_file @ [failure])))"

definition junit_testsuite :: "cpplint_state \<Rightarrow> xml" where
  "junit_testsuite st =
     (let num_errors = length (junit_errors st); num_failures = length (junit_failures st);
          attrs = (\<lambda>tests. [(''name'', ''cpplint''), (''errors'', nat_str num_errors),
             (''failures'', nat_str num_failures), (''tests'', nat_str tests)])
      in if num_errors = 0 \<and> num_failures = 0 then
           Element ''testsuite'' (attrs 1) [] [Element ''testcase'' [(''name'', ''passed'')] [] []]
         else
           (let errs = (if num_errors > 0
                  then [Element ''testcase'' [(''name'', ''errors'')] []
                          [Element ''error'' [] (join [newline] (junit_errors st)) []]]
                  else []);
                fails = (if num_failures > 0
                  then (case group_failures (junit_failures st) [] (\<lambda>_. []) of (order, by_file) \<Rightarrow>
                     map (\<lambda>failed_file. Element ''testcase'' [(''name'', failed_file)] []
                       [Element ''failure'' []
                          (join [newline] (map failure_text (by_file failed_file))) []]) order)
                  else [])
            in Element ''testsuite'' (attrs (num_errors + num_failures)) [] (errs @ fails)))"

definition FormatJUnitXML :: "cpplint_state \<Rightarrow> string" where
  "FormatJUnitXML st =
     ''<?xml version='' @ [CHR 0x22] @ ''1.0'' @ [CHR 0x22] @ '' encoding='' @ [CHR 0x22] @ ''UTF-8'' @
     [CHR 0x22] @ '' ?>'' @ [newline] @ xml_string (junit_testsuite st)"


section \<open>Filters\<close>

definition filter_parts :: "string \<Rightarrow> string list" where
  "filter_parts fs = List.filter (\<lambda>f. f \<noteq> []) (map strip (split_on (CHR '','') fs))"

definition filters_ok :: "cpplint_state \<Rightarrow> bool" where
  "filters_ok st \<longleftrightarrow> (\<forall>f \<in> set (filters st). filter_ok f)"

lemma default_filters_ok [simp]: "f \<in> set DEFAULT_FILTERS \<Longrightarrow> filter_ok f"
  by (simp add: DEFAULT_FILTERS_def filter_ok_def)

lemma fst_AddFilters: "fst (AddFilters fs st) = st\<lparr>filters := filters st @ filter_parts fs\<rparr>"
  by (simp add: AddFilters_def filter_parts_def Let_def split: option.split)

lemma snd_AddFilters:
  "snd (AddFilters fs st) = None \<longleftrightarrow> (\<forall>f \<in> set (filters st @ filter_parts fs). filter_ok f)"
proof -
  have "snd (AddFilters fs st) = None \<longleftrightarrow>
      List.find (\<lambda>f. \<not> filter_ok f) (filters st @ filter_parts fs) = None"
    by (simp add: AddFilters_def filter_parts_def Let_def split: option.split)
  then show ?thesis unfolding find_None_iff by auto
qed

section \<open>Counting\<close>

lemma sum_dict_incr: "sum_list (map snd (dict_incr k d)) = Suc (sum_list (map snd d))"
  by (induction k d rule: dict_incr.induct) auto

lemma map_of_dict_incr:
  "map_of (dict_incr k d) k' =
     (if k' = k then Some (case map_of d k of None \<Rightarrow> 1 | Some n \<Rightarrow> Suc n) else map_of d k')"
  by (induction k d rule: dict_incr.induct) (auto split: option.splits)

lemma keys_dict_incr: "set (map fst (dict_incr k d)) = insert k (set (map fst d))"
  by (induction k d rule: dict_incr.induct) auto

lemma distinct_dict_incr: "distinct (map fst d) \<Longrightarrow> distinct (map fst (dict_incr k d))"
  by (induction k d rule: dict_incr.induct) (auto simp: keys_dict_incr [simplified])

text \<open>
  The categories add up to the total (in the two styles that count by category), and each
  category has one entry.
\<close>

definition counts_ok :: "cpplint_state \<Rightarrow> bool" where
  "counts_ok st \<longleftrightarrow> distinct (map fst (errors_by_category st)) \<and>
     sum_list (map snd (errors_by_category st)) =
       (if counting st \<in> {''toplevel'', ''detailed''} then error_count st else 0)"

lemma counts_ok_reset: "counts_ok (ResetErrorCounts st)"
  by (simp add: counts_ok_def ResetErrorCounts_def)

lemma counts_ok_increment: "counts_ok st \<Longrightarrow> counts_ok (IncrementErrorCount c st)"
  by (auto simp: counts_ok_def IncrementErrorCount_def Let_def sum_dict_incr distinct_dict_incr
      simp del: sum_list_eq_0_iff)

lemma error_count_increment [simp]:
  "error_count (IncrementErrorCount c st) = Suc (error_count st)"
  by (simp add: IncrementErrorCount_def Let_def)

section \<open>Grouping of failures\<close>

lemma group_failures_spec:
  assumes "distinct order" and "\<And>f. f \<notin> set order \<Longrightarrow> by_file f = []"
  shows "case group_failures fails order by_file of (order', by_file') \<Rightarrow>
    distinct order' \<and> set order' = set order \<union> fst ` set fails
    \<and> (\<forall>f. by_file' f = by_file f @ List.filter (\<lambda>x. fst x = f) fails)"
  using assms
proof (induction fails arbitrary: order by_file)
  case (Cons x rest)
  define order1 where "order1 = (if fst x \<notin> set order then order @ [fst x] else order)"
  define by1 where "by1 = by_file(fst x := by_file (fst x) @ [x])"
  have step: "group_failures (x # rest) order by_file = group_failures rest order1 by1"
    using Cons.prems(2) [of "fst x"] by (auto simp: order1_def by1_def Let_def)
  have d: "distinct order1" using Cons.prems(1) by (simp add: order1_def)
  have e: "by1 f = []" if "f \<notin> set order1" for f
    using that Cons.prems(2) by (auto simp: order1_def by1_def split: if_splits)
  obtain order' by' where g: "group_failures rest order1 by1 = (order', by')" by fastforce
  have "distinct order'" and "set order' = set order1 \<union> fst ` set rest"
    and "\<forall>f. by' f = by1 f @ List.filter (\<lambda>x. fst x = f) rest"
    using Cons.IH [of order1 by1] d e g by simp_all
  moreover have "set order1 = insert (fst x) (set order)" by (auto simp: order1_def)
  ultimately show ?case unfolding step g by (simp add: by1_def)
qed simp

section \<open>Properties\<close>

text \<open>
  \<open>SetFilters\<close> succeeds exactly when every non-blank comma-separated part starts
  with plus or minus; then the filters are the defaults followed by the parts and satisfy
  the invariant that \<open>_ShouldPrintError\<close> asserts.  Otherwise it raises \<open>ValueError\<close>.
\<close>

lemma SetFilters_spec:
  "(snd (SetFilters fs st) = None \<longleftrightarrow> (\<forall>f \<in> set (filter_parts fs). filter_ok f)) \<and>
   filters (fst (SetFilters fs st)) = DEFAULT_FILTERS @ filter_parts fs \<and>
   (filters_ok (fst (SetFilters fs st)) \<longleftrightarrow> snd (SetFilters fs st) = None) \<and>
   (\<forall>e. snd (SetFilters fs st) = Some e \<longrightarrow> (\<exists>f. \<not> filter_ok f \<and> e = ValueError (bad_filter_text f)))"
proof -
  have "\<forall>e. snd (SetFilters fs st) = Some e \<longrightarrow> (\<exists>f. \<not> filter_ok f \<and> e = ValueError (bad_filter_text f))"
    by (auto simp: SetFilters_def AddFilters_def Let_def find_Some_iff split: option.splits)
  then show ?thesis
    by (auto simp: SetFilters_def fst_AddFilters snd_AddFilters filters_ok_def)
qed

text \<open>
  Per-file filters do not leak: whatever filters a configuration file adds between
  backup and restore, valid or not, restoring gives back the state as it was backed up.
\<close>

lemma filters_backup_restore:
  "RestoreFilters (fold (\<lambda>fs s. fst (AddFilters fs s)) cfg (BackupFilters st)) = BackupFilters st"
proof -
  have "fold (\<lambda>fs s. fst (AddFilters fs s)) cfg s =
      s\<lparr>filters := filters s @ concat (map filter_parts cfg)\<rparr>" for s
    by (induction cfg arbitrary: s) (simp_all add: fst_AddFilters)
  then show ?thesis by (simp add: RestoreFilters_def BackupFilters_def)
qed


end
