(* ===== verification/Function_State.thy ===== *)
theory Function_State
  imports Patterns Diagnostics
begin

text \<open>
  \<open>_FunctionState\<close> of \<open>cpplint.py\<close>: the length of the function body being read.

  The code computes \<open>int(math.log(lines / base, 2))\<close>.  The model uses the exact
  value: the integer part of the binary logarithm of the quotient, rounded towards zero.
  A verbosity below zero makes the trigger \<open>base * 2 ** v\<close> a fraction; the comparison
  with it is then multiplied out, and printing it with \<open>%d\<close> truncates.
\<close>

record fn_state =
  in_a_function :: bool
  lines_in_function :: nat
  current_function :: string

definition init_fn_state :: fn_state where
  "init_fn_state = \<lparr>in_a_function = False, lines_in_function = 0, current_function = []\<rparr>"

definition NORMAL_TRIGGER :: nat where "NORMAL_TRIGGER = 250"
definition TEST_TRIGGER :: nat where "TEST_TRIGGER = 400"

definition Begin :: "string \<Rightarrow> fn_state \<Rightarrow> fn_state" where
  "Begin function_name st =
     st\<lparr>in_a_function := True, lines_in_function := 0, current_function := function_name\<rparr>"

definition Count :: "fn_state \<Rightarrow> fn_state" where
  "Count st = (if in_a_function st then st\<lparr>lines_in_function := Suc (lines_in_function st)\<rparr> else st)"

fun ilog2 :: "nat \<Rightarrow> nat" where
  "ilog2 n = (if n < 2 then 0 else Suc (ilog2 (n div 2)))"

declare ilog2.simps [simp del]

definition base_trigger :: "fn_state \<Rightarrow> nat" where
  "base_trigger st =
     (if re_match re_test_fn (current_function st) \<noteq> None then TEST_TRIGGER else NORMAL_TRIGGER)"

text \<open>\<open>lines > base * 2 ** v\<close>\<close>

definition exceeds_trigger :: "nat \<Rightarrow> nat \<Rightarrow> int \<Rightarrow> bool" where
  "exceeds_trigger lines base v \<longleftrightarrow>
     (if 0 \<le> v then base * 2 ^ nat v < lines else base < lines * 2 ^ nat (- v))"

definition trigger_num :: "nat \<Rightarrow> int \<Rightarrow> nat" where
  "trigger_num base v = (if 0 \<le> v then base * 2 ^ nat v else base div 2 ^ nat (- v))"

text \<open>\<open>int(math.log(lines / base, 2))\<close>, capped at 5.\<close>

definition fn_error_level :: "nat \<Rightarrow> nat \<Rightarrow> int" where
  "fn_error_level lines base =
     (let level = (if base \<le> lines then int (ilog2 (lines div base))
                   else - int (ilog2 (base div lines)))
      in if level > 5 then 5 else level)"

definition fn_size_text :: "fn_state \<Rightarrow> nat \<Rightarrow> string" where
  "fn_size_text st trigger =
     ''Small and focused functions are preferred: '' @ current_function st @ '' has '' @
     nat_str (lines_in_function st) @ '' non-comment lines (error triggered by exceeding '' @
     nat_str trigger @ '' lines).''"

definition Check :: "int \<Rightarrow> string \<Rightarrow> int \<Rightarrow> fn_state \<Rightarrow> lint_msg list" where
  "Check verbose filename linenum st =
     (if \<not> in_a_function st then []
      else let base = base_trigger st in
        if exceeds_trigger (lines_in_function st) base verbose then
          [err_at filename linenum ''readability/fn_size''
             (fn_error_level (lines_in_function st) base)
             (fn_size_text st (trigger_num base verbose))]
        else [])"

definition End :: "fn_state \<Rightarrow> fn_state" where
  "End st = st\<lparr>in_a_function := False\<rparr>"

section \<open>The logarithm\<close>

lemma ilog2_bounds: "0 < n \<Longrightarrow> 2 ^ ilog2 n \<le> n \<and> n < 2 ^ Suc (ilog2 n)"
proof (induction n rule: ilog2.induct)
  case (1 n)
  show ?case
  proof (cases "n < 2")
    case True
    with 1 show ?thesis by (simp add: ilog2.simps)
  next
    case False
    with 1 have IH: "2 ^ ilog2 (n div 2) \<le> n div 2" "n div 2 < 2 ^ Suc (ilog2 (n div 2))" by auto
    have eq: "ilog2 n = Suc (ilog2 (n div 2))" using False by (simp add: ilog2.simps)
    from IH show ?thesis unfolding eq power_Suc by linarith
  qed
qed

lemma ilog2_ge: "2 ^ k \<le> n \<Longrightarrow> k \<le> ilog2 n"
proof -
  assume k: "2 ^ k \<le> n"
  then have "0 < n" by (metis less_le_trans zero_less_numeral zero_less_power)
  with k ilog2_bounds have "(2::nat) ^ k < 2 ^ Suc (ilog2 n)" by (meson le_less_trans)
  then have "k < Suc (ilog2 n)" by (rule power_less_imp_less_exp [rotated]) simp
  then show ?thesis by simp
qed

lemma trigger_pos [simp]: "0 < base_trigger st"
  by (simp add: base_trigger_def TEST_TRIGGER_def NORMAL_TRIGGER_def)

lemma fn_error_level_ge:
  assumes ex: "base_trigger st * 2 ^ nat v < n" and "0 \<le> v" and "v \<le> 5"
  shows "v \<le> fn_error_level n (base_trigger st)"
proof -
  let ?b = "base_trigger st"
  have "2 ^ nat v \<le> n div ?b"
    using ex by (simp add: less_eq_div_iff_mult_less_eq mult.commute)
  then have "nat v \<le> ilog2 (n div ?b)" by (rule ilog2_ge)
  moreover have "?b \<le> n"
    using ex by (metis le_trans less_imp_le mult.right_neutral mult_le_mono2 one_le_numeral one_le_power)
  ultimately show ?thesis using assms(2,3) by (auto simp: fn_error_level_def Let_def)
qed

section \<open>Counting a body\<close>

text \<open>A body of \<open>n\<close> counted lines: \<open>Begin\<close>, then \<open>n\<close> calls of \<open>Count\<close>.\<close>

lemma Count_iterate:
  "in_a_function st \<Longrightarrow> (Count ^^ n) st = st\<lparr>lines_in_function := lines_in_function st + n\<rparr>"
  by (induction n) (simp_all add: Count_def)

lemma Begin_Count_iterate:
  "(Count ^^ n) (Begin f st) =
     st\<lparr>in_a_function := True, lines_in_function := n, current_function := f\<rparr>"
  by (simp add: Begin_def Count_iterate)

section \<open>Properties\<close>

text \<open>
  The length check over a whole body: after \<open>Begin\<close> and \<open>n\<close> counted lines,
  \<open>Check\<close> reports once when \<open>n\<close> exceeds the trigger for the verbosity and not at all
  otherwise, and after \<open>End\<close> it reports nothing.
\<close>

lemma function_length_check:
  assumes "0 \<le> v"
  shows "(Check v file l ((Count ^^ n) (Begin f st)) = [] \<longleftrightarrow>
      n \<le> (if re_match re_test_fn f \<noteq> None then 400 else 250) * 2 ^ nat v)
    \<and> length (Check v file l ((Count ^^ n) (Begin f st))) \<le> 1
    \<and> Check v file l (End ((Count ^^ n) (Begin f st))) = []"
  using assms
  by (auto simp: Begin_Count_iterate Check_def End_def Let_def exceeds_trigger_def base_trigger_def
      TEST_TRIGGER_def NORMAL_TRIGGER_def not_less)

lemma fn_error_level_bounds:
  assumes "0 < b" and "b \<le> n"
  shows "0 \<le> fn_error_level n b" "fn_error_level n b \<le> 5" "b * 2 ^ nat (fn_error_level n b) \<le> n"
    "fn_error_level n b < 5 \<Longrightarrow> n < b * 2 ^ Suc (nat (fn_error_level n b))"
proof -
  let ?l = "ilog2 (n div b)"
  have eq: "fn_error_level n b = int (min 5 ?l)" using assms(2) by (simp add: fn_error_level_def Let_def)
  have "0 < n div b" using assms by (simp add: div_greater_zero_iff)
  from ilog2_bounds [OF this] have lo: "2 ^ ?l \<le> n div b" and hi: "n div b < 2 ^ Suc ?l" by simp_all
  have "(2::nat) ^ min 5 ?l \<le> 2 ^ ?l" by (rule power_increasing) simp_all
  with lo have "2 ^ min 5 ?l \<le> n div b" by linarith
  then show "b * 2 ^ nat (fn_error_level n b) \<le> n"
    using assms(1) by (simp add: eq less_eq_div_iff_mult_less_eq mult.commute)
  show "n < b * 2 ^ Suc (nat (fn_error_level n b))" if "fn_error_level n b < 5"
  proof -
    from that have "min 5 ?l = ?l" by (simp add: eq min_def split: if_splits)
    with hi show ?thesis using assms(1) unfolding eq by (simp add: div_less_iff_less_mult mult.commute)
  qed
  show "0 \<le> fn_error_level n b" "fn_error_level n b \<le> 5" by (simp_all add: eq)
qed

text \<open>
  C34.  The confidence of a length message is the logarithm of the length over the base trigger,
  rounded down and cut off at five: the length is at least the base times two to the confidence,
  and below twice that unless the cut applies.  So it reaches every verbosity up to five at which
  the check is made, and the message is never dropped for lack of confidence.
\<close>

theorem fn_size_confidence:
  assumes "m \<in> set (Check v file l st)" and "0 \<le> v" and "v \<le> 5"
  shows "v \<le> l_conf m \<and> l_conf m \<le> 5
    \<and> base_trigger st * 2 ^ nat (l_conf m) \<le> lines_in_function st
    \<and> (l_conf m < 5 \<longrightarrow> lines_in_function st < base_trigger st * 2 ^ Suc (nat (l_conf m)))"
proof -
  let ?b = "base_trigger st" and ?n = "lines_in_function st"
  from assms have ex: "?b * 2 ^ nat v < ?n" and conf: "l_conf m = fn_error_level ?n ?b"
    by (auto simp: Check_def Let_def exceeds_trigger_def split: if_splits)
  have "?b * 1 \<le> ?b * 2 ^ nat v" by (rule mult_le_mono2) simp
  with ex have "?b \<le> ?n" by linarith
  with fn_error_level_bounds [OF trigger_pos this] fn_error_level_ge [OF ex assms(2,3)] conf show ?thesis by simp
qed

theorem fn_size_confidence_witness:
  "\<exists>m. Check 2 ''a.cc'' 9 ((Count ^^ 1100) (Begin ''f'' init_fn_state)) = [m] \<and> 2 \<le> l_conf m \<and> l_conf m \<le> 5"
proof -
  have f: "re_match re_test_fn ''f'' = None" by code_simp
  obtain m where m: "Check 2 ''a.cc'' 9 ((Count ^^ 1100) (Begin ''f'' init_fn_state)) = [m]"
    by (auto simp: Begin_Count_iterate Check_def Let_def exceeds_trigger_def base_trigger_def f NORMAL_TRIGGER_def)
  have "2 \<le> l_conf m \<and> l_conf m \<le> 5"
    using fn_size_confidence [of m 2 "''a.cc''" 9 "(Count ^^ 1100) (Begin ''f'' init_fn_state)"] m by simp
  with m show ?thesis by blast
qed

end
