(* ===== verification/Error_Report.thy ===== *)
theory Error_Report
  imports Suppressions Lint_State Function_State
begin

text \<open>
  \<open>_ShouldPrintError\<close> and \<open>Error\<close> of \<open>cpplint.py\<close>, the error handler that every
  check is given.  It reads the suppression table and the filters, and writes to the
  counters and the output.  The \<open>assert False\<close> for a filter without a sign is the value
  \<^const>\<open>AssertionError\<close>.
\<close>

record lint_env =
  nolint_tab :: nolint_state
  cstate :: cpplint_state

definition init_env :: lint_env where
  "init_env = \<lparr>nolint_tab = init_nolint, cstate = init_cpplint_state\<rparr>"

fun filter_loop :: "string list \<Rightarrow> string \<Rightarrow> bool \<Rightarrow> bool py" where
  "filter_loop [] category is_filtered = Inr is_filtered"
| "filter_loop (one_filter # rest) category is_filtered =
     (if startswith one_filter ''-'' then
        filter_loop rest category
          (if startswith category (tl one_filter) then True else is_filtered)
      else if startswith one_filter ''+'' then
        filter_loop rest category
          (if startswith category (tl one_filter) then False else is_filtered)
      else Inl AssertionError)"

definition ShouldPrintError :: "string \<Rightarrow> int \<Rightarrow> int option \<Rightarrow> lint_env \<Rightarrow> bool py" where
  "ShouldPrintError category confidence linenum env =
     (if IsErrorSuppressedByNolint (nolint_tab env) category linenum then Inr False
      else if confidence < verbose_level (cstate env) then Inr False
      else py_bind (filter_loop (filters (cstate env)) category False) (\<lambda>b. Inr (\<not> b)))"

definition vs7_text :: "lint_msg \<Rightarrow> string" where
  "vs7_text m = l_file m @ ''('' @ line_str (l_line m) @ ''): error cpplint: ['' @ l_cat m @ ''] '' @
     l_text m @ '' ['' @ int_str (l_conf m) @ '']'' @ [newline]"

definition eclipse_text :: "lint_msg \<Rightarrow> string" where
  "eclipse_text m = l_file m @ '':'' @ line_str (l_line m) @ '': warning: '' @ l_text m @ ''  ['' @
     l_cat m @ ''] ['' @ int_str (l_conf m) @ '']'' @ [newline]"

definition emacs_text :: "lint_msg \<Rightarrow> string" where
  "emacs_text m = l_file m @ '':'' @ line_str (l_line m) @ '':  '' @ l_text m @ ''  ['' @
     l_cat m @ ''] ['' @ int_str (l_conf m) @ '']'' @ [newline]"

definition write_stderr :: "string \<Rightarrow> cpplint_state \<Rightarrow> cpplint_state" where
  "write_stderr s st = st\<lparr>sys_stderr := sys_stderr st @ [s]\<rparr>"

definition emit :: "lint_msg \<Rightarrow> cpplint_state \<Rightarrow> cpplint_state" where
  "emit m st =
     (if output_format st = ''vs7'' then PrintError (vs7_text m) st
      else if output_format st = ''eclipse'' then write_stderr (eclipse_text m) st
      else if output_format st = ''junit'' then
        AddJUnitFailure (l_file m) (l_line m) (l_text m) (l_cat m) (l_conf m) st
      else write_stderr (emacs_text m) st)"

definition Error :: "lint_msg \<Rightarrow> lint_env \<Rightarrow> lint_env py" where
  "Error m env =
     py_bind (ShouldPrintError (l_cat m) (l_conf m) (l_line m) env)
       (\<lambda>b. if b then Inr (env\<lparr>cstate := emit m (IncrementErrorCount (l_cat m) (cstate env))\<rparr>)
            else Inr env)"

section \<open>Filters\<close>

text \<open>The filters that apply to a category, and the verdict of the last of them.\<close>

definition filter_applies :: "string \<Rightarrow> string \<Rightarrow> bool" where
  "filter_applies category f \<longleftrightarrow> startswith category (tl f)"

definition filtered_out :: "string list \<Rightarrow> string \<Rightarrow> bool \<Rightarrow> bool" where
  "filtered_out fs category dflt =
     (case List.find (filter_applies category) (rev fs) of
        None \<Rightarrow> dflt
      | Some f \<Rightarrow> startswith f ''-'')"

lemma find_append:
  "List.find P (xs @ ys) = (case List.find P xs of None \<Rightarrow> List.find P ys | Some x \<Rightarrow> Some x)"
  by (induction xs) auto

lemma filter_loop_last:
  "\<forall>f \<in> set fs. filter_ok f \<Longrightarrow> filter_loop fs category b = Inr (filtered_out fs category b)"
proof (induction fs arbitrary: b)
  case Nil
  then show ?case by (simp add: filtered_out_def)
next
  case (Cons f fs)
  have "filter_ok f" using Cons.prems by simp
  then consider "startswith f ''-''" | "startswith f ''+''" "\<not> startswith f ''-''"
    by (cases f) (auto simp: filter_ok_def)
  then show ?case
    using Cons by cases
      (auto simp: filtered_out_def filter_applies_def find_append split: option.split)
qed

lemma ShouldPrintError_ok:
  "filters_ok (cstate env) \<Longrightarrow>
   ShouldPrintError c k n env =
     Inr (\<not> IsErrorSuppressedByNolint (nolint_tab env) c n \<and> verbose_level (cstate env) \<le> k
          \<and> \<not> filtered_out (filters (cstate env)) c False)"
  by (auto simp: ShouldPrintError_def filters_ok_def filter_loop_last)

section \<open>The handler as a message consumer\<close>

lemma emit_settings [simp]:
  "filters (emit m st) = filters st" "verbose_level (emit m st) = verbose_level st"
  "error_count (emit m st) = error_count st" "output_format (emit m st) = output_format st"
  "counting (emit m st) = counting st" "errors_by_category (emit m st) = errors_by_category st"
  by (simp_all add: emit_def PrintError_def write_stderr_def AddJUnitFailure_def)

lemma increment_settings [simp]:
  "filters (IncrementErrorCount c st) = filters st"
  "verbose_level (IncrementErrorCount c st) = verbose_level st"
  "output_format (IncrementErrorCount c st) = output_format st"
  "counting (IncrementErrorCount c st) = counting st"
  by (simp_all add: IncrementErrorCount_def Let_def)

definition error_accepts :: "lint_env \<Rightarrow> lint_msg \<Rightarrow> bool" where
  "error_accepts env m \<longleftrightarrow> ShouldPrintError (l_cat m) (l_conf m) (l_line m) env = Inr True"

text \<open>The state after a call; a call that raises leaves the state as it was.\<close>

definition error_step :: "lint_msg \<Rightarrow> lint_env \<Rightarrow> lint_env" where
  "error_step m env = (case Error m env of Inl _ \<Rightarrow> env | Inr env' \<Rightarrow> env')"

lemma error_step_eq:
  "error_step m env =
     (if error_accepts env m
      then env\<lparr>cstate := emit m (IncrementErrorCount (l_cat m) (cstate env))\<rparr> else env)"
  by (cases "ShouldPrintError (l_cat m) (l_conf m) (l_line m) env")
    (auto simp: error_step_def Error_def error_accepts_def)

lemma ShouldPrintError_cong:
  "nolint_tab e = nolint_tab e' \<Longrightarrow> filters (cstate e) = filters (cstate e') \<Longrightarrow>
   verbose_level (cstate e) = verbose_level (cstate e') \<Longrightarrow>
   ShouldPrintError c k n e = ShouldPrintError c k n e'"
  by (simp add: ShouldPrintError_def)

lemma error_step_frame [simp]:
  "nolint_tab (error_step m env) = nolint_tab env"
  "filters (cstate (error_step m env)) = filters (cstate env)"
  "verbose_level (cstate (error_step m env)) = verbose_level (cstate env)"
  by (simp_all add: error_step_eq)

interpretation handler: message_sink error_step error_accepts "\<lambda>env. error_count (cstate env)"
proof unfold_locales
  fix s :: lint_env and m :: lint_msg
  assume "error_accepts s m"
  then show "error_count (cstate (error_step m s)) = Suc (error_count (cstate s))"
    by (simp add: error_step_eq)
next
  fix s :: lint_env and m :: lint_msg
  assume "\<not> error_accepts s m"
  then show "error_step m s = s" by (simp add: error_step_eq)
next
  fix s :: lint_env and m m' :: lint_msg
  have "ShouldPrintError c k n (error_step m s) = ShouldPrintError c k n s" for c k n
    by (rule ShouldPrintError_cong) simp_all
  then show "error_accepts (error_step m s) m' = error_accepts s m'"
    by (simp add: error_accepts_def)
qed

lemma counts_ok_emit: "counts_ok (emit m st) = counts_ok st"
  by (simp only: counts_ok_def emit_settings)

lemma counts_ok_error_step: "counts_ok (cstate env) \<Longrightarrow> counts_ok (cstate (error_step m env))"
  by (simp add: error_step_eq counts_ok_emit counts_ok_increment)

section \<open>Properties\<close>

text \<open>
  The decision of \<open>Error\<close> when every filter carries a sign: it never raises, and it
  reports a message exactly when no NOLINT comment or global directive covers it, its
  confidence reaches the verbosity, and the last filter that is a prefix of the category,
  if there is one, is not a minus filter.  A reported message is counted once.
\<close>

lemma Error_decision:
  assumes "filters_ok (cstate env)"
  shows "Error m env = Inr
     (if \<not> IsErrorSuppressedByNolint (nolint_tab env) (l_cat m) (l_line m)
         \<and> verbose_level (cstate env) \<le> l_conf m
         \<and> \<not> filtered_out (filters (cstate env)) (l_cat m) False
      then env\<lparr>cstate := emit m (IncrementErrorCount (l_cat m) (cstate env))\<rparr>
      else env)"
  using assms by (simp add: Error_def ShouldPrintError_ok)

text \<open>
  Counting over any sequence of messages: the count grows by the number of messages
  that the handler accepts in the starting state, and it does not depend on the order in
  which the checks emit them.
\<close>

lemma Error_counts_accepted:
  "error_count (cstate (fold error_step ms env)) =
     error_count (cstate env) + length (List.filter (error_accepts env) ms) \<and>
   (mset ms = mset ms' \<longrightarrow>
     error_count (cstate (fold error_step ms env)) = error_count (cstate (fold error_step ms' env)))"
  using handler.total_fold handler.total_fold_perm by blast

text \<open>
  The category counters stay consistent with the total: after the reset at the start of
  a run and any sequence of messages, each category has one entry and, in the two styles
  that count by category, the entries add up to the total.
\<close>

lemma category_counts_consistent:
  "counts_ok (cstate (fold error_step ms (env\<lparr>cstate := ResetErrorCounts (cstate env)\<rparr>)))"
proof -
  have "counts_ok (cstate e) \<Longrightarrow> counts_ok (cstate (fold error_step ms e))" for e
    by (induction ms arbitrary: e) (simp_all add: counts_ok_error_step)
  then show ?thesis by (simp add: counts_ok_reset)
qed

text \<open>
  A function-length message raised at the current verbosity is not dropped for its
  confidence: with verbosity between zero and five, no filter against it and no suppression,
  \<open>Error\<close> counts it.
\<close>

lemma fn_size_reported:
  assumes "m \<in> set (Check (verbose_level (cstate env)) file l st)"
    and "0 \<le> verbose_level (cstate env)" and "verbose_level (cstate env) \<le> 5"
    and "filters_ok (cstate env)" and "\<not> filtered_out (filters (cstate env)) (l_cat m) False"
    and "\<not> IsErrorSuppressedByNolint (nolint_tab env) (l_cat m) (l_line m)"
  shows "error_count (cstate (error_step m env)) = Suc (error_count (cstate env))"
proof -
  let ?b = "base_trigger st" and ?n = "lines_in_function st"
  let ?v = "verbose_level (cstate env)"
  from assms have ex: "?b * 2 ^ nat ?v < ?n" and conf: "l_conf m = fn_error_level ?n ?b"
    by (auto simp: Check_def Let_def exceeds_trigger_def split: if_splits)
  have "?v \<le> l_conf m" using fn_error_level_ge [OF ex assms(2,3)] conf by simp
  with assms have "error_accepts env m" by (simp add: error_accepts_def ShouldPrintError_ok)
  then show ?thesis by (rule handler.report_accepted)
qed

end
