(* ===== verification/Extensions.thy ===== *)
theory Extensions
  imports Prelude
begin

text \<open>
  The file-extension options of \<open>cpplint.py\<close>: the module variables
  \<open>_hpp_headers\<close> and \<open>_valid_extensions\<close>, set by \<open>--headers\<close> and
  \<open>--extensions\<close> (or by a configuration file), and the functions that derive the
  header and source extensions from them.  A Python \<open>set\<close> of strings is a
  \<^typ>\<open>string set\<close>.  The \<open>except ValueError\<close> branches of the two option
  functions are unreachable, because \<open>str.split\<close> and \<open>str.strip\<close> do not raise it.
\<close>

record ext_state =
  hpp_headers :: "string set"
  valid_extensions :: "string set"

definition init_extensions :: ext_state where
  "init_extensions = \<lparr>hpp_headers = {}, valid_extensions = {}\<rparr>"

definition ProcessHppHeadersOption :: "string \<Rightarrow> ext_state \<Rightarrow> ext_state" where
  "ProcessHppHeadersOption val st =
     st\<lparr>hpp_headers := set (map strip (split_on (CHR '','') val))\<rparr>"

definition GetHeaderExtensions :: "ext_state \<Rightarrow> string set" where
  "GetHeaderExtensions st =
     (if hpp_headers st \<noteq> {} then hpp_headers st
      else if valid_extensions st \<noteq> {} then {h \<in> valid_extensions st. contains h ''h''}
      else set [''h'', ''hh'', ''hpp'', ''hxx'', ''h++'', ''cuh''])"

definition IsHeaderExtension :: "ext_state \<Rightarrow> string \<Rightarrow> bool" where
  "IsHeaderExtension st file_extension \<longleftrightarrow> file_extension \<in> GetHeaderExtensions st"

definition GetAllExtensions :: "ext_state \<Rightarrow> string set" where
  "GetAllExtensions st =
     GetHeaderExtensions st \<union>
     (if valid_extensions st \<noteq> {} then valid_extensions st
      else set [''c'', ''cc'', ''cpp'', ''cxx'', ''c++'', ''cu''])"

definition ProcessExtensionsOption :: "string \<Rightarrow> ext_state \<Rightarrow> ext_state" where
  "ProcessExtensionsOption val st =
     st\<lparr>valid_extensions := set (map strip (split_on (CHR '','') val))\<rparr>"

definition GetNonHeaderExtensions :: "ext_state \<Rightarrow> string set" where
  "GetNonHeaderExtensions st = GetAllExtensions st - GetHeaderExtensions st"

definition IsSourceExtension :: "ext_state \<Rightarrow> string \<Rightarrow> bool" where
  "IsSourceExtension st s \<longleftrightarrow> s \<in> GetNonHeaderExtensions st"

lemmas ext_defs = GetHeaderExtensions_def GetAllExtensions_def GetNonHeaderExtensions_def
  IsHeaderExtension_def IsSourceExtension_def ProcessHppHeadersOption_def
  ProcessExtensionsOption_def init_extensions_def

section \<open>Properties\<close>

lemma header_subset_all: "GetHeaderExtensions st \<subseteq> GetAllExtensions st"
  by (simp add: GetAllExtensions_def)

lemma option_sets_nonempty [simp]:
  "set (map strip (split_on d val)) \<noteq> {}"
  by simp

text \<open>
  Under any combination of options the known extensions split into header and source
  extensions: every known extension is exactly one of the two, and no unknown one is either.
\<close>

lemma extension_partition:
  "e \<in> GetAllExtensions st \<longleftrightarrow> (IsHeaderExtension st e \<noteq> IsSourceExtension st e)"
  by (auto simp: IsHeaderExtension_def IsSourceExtension_def GetNonHeaderExtensions_def
      dest: subsetD [OF header_subset_all])

text \<open>
  The two options do not interfere in either order, and together they fix the
  classification: the header extensions are those of \<open>--headers\<close>, the source extensions
  are those of \<open>--extensions\<close> that are not header extensions.
\<close>

lemma extension_options_commute:
  "ProcessHppHeadersOption hs (ProcessExtensionsOption es st) =
     ProcessExtensionsOption es (ProcessHppHeadersOption hs st) \<and>
   (let st' = ProcessHppHeadersOption hs (ProcessExtensionsOption es st);
        H = strip ` set (split_on (CHR '','') hs); E = strip ` set (split_on (CHR '','') es)
    in GetHeaderExtensions st' = H \<and> GetNonHeaderExtensions st' = E - H)"
  by (auto simp: ext_defs)

end
