(* ===== verification/Cleanse.thy ===== *)
theory Cleanse
  imports Patterns Diagnostics
begin

text \<open>
  Preprocessing of the lines of a file in \<open>cpplint.py\<close>: \<open>CleanseRawStrings\<close>,
  \<open>RemoveMultiLineComments\<close>, \<open>CleanseComments\<close>, \<open>_CollapseStrings\<close> and
  the class \<open>CleansedLines\<close>, whose members are the copies of the file that every
  later check reads.  The loops over one line terminate because each round shortens the rest
  of the line; that is proved from what the patterns capture.
\<close>

section \<open>What the patterns capture\<close>

abbreviation dquote :: char where "dquote \<equiv> CHR 0x22"
abbreviation squote :: char where "squote \<equiv> CHR 0x27"

lemma re_raw_string_parts:
  assumes "re_match re_raw_string line = Some m"
  shows "length (group_text m 1) + length (group_text m 3) + 3 \<le> length line"
  by (rule re_match_segsE [OF assms re_raw_string_def], simp)
    (elim seg_ConsE, simp add: seg_oks group_text_def group_def)

lemma re_first_quote_parts:
  assumes "re_match re_first_quote line = Some m"
  shows "\<exists>t. line = group_text m 1 @ group_text m 2 @ group_text m 3 @ t
    \<and> group_text m 2 \<in> {[dquote], [squote]} \<and> newline \<notin> set (group_text m 3)
    \<and> dquote \<notin> set (group_text m 1) \<and> squote \<notin> set (group_text m 1) \<and> (t = [] \<or> t = [newline])"
  by (rule re_match_segsE [OF assms re_first_quote_def], simp)
    (elim seg_ConsE, auto simp add: seg_oks group_text_def group_def)

lemma re_digit_sep_parts:
  assumes "re_match re_digit_sep line = Some m"
  shows "\<exists>t. line = group_text m 1 @ group_text m 2 @ t"
  by (rule re_match_segsE [OF assms re_digit_sep_def], simp)
    (elim seg_ConsE, auto simp add: seg_oks group_text_def group_def)

lemma re_matchI: "rm r ([], s, []) st' \<Longrightarrow> \<exists>m. re_match r s = Some m"
  using re_match_None_iff [of r s] by (metis option.exhaust)

lemma re_digit_sep_matches:
  assumes "newline \<notin> set line"
  shows "\<exists>m. re_match re_digit_sep line = Some m"
proof (rule re_matchI)
  let ?c = "[(1, 0, [])]"
  have "rm (Grp 1 (Star r)) ([], line, []) ([], line, ?c)" for r
    using rm_Grp [OF rm_Star0 [of r "([], line, [])"], of 1] by simp
  moreover have "rm (Grp 2 (Star Any)) ([], line, ?c) (rev line, [], (2, 0, line) # ?c)"
    using rm_Grp [OF rm_Star_one_charI [OF one_char_Any, where w = line and p = "[]" and s' = "[]" and c = ?c], of 2] assms
    by auto
  moreover have "rm Eol (rev line, [], (2, 0, line) # ?c) (rev line, [], (2, 0, line) # ?c)"
    by (simp add: rm_Eol)
  ultimately show "rm re_digit_sep ([], line, []) (rev line, [], (2, 0, line) # ?c)"
    unfolding re_digit_sep_def Seqs.simps by (intro rm_Seq [OF rm_Bol] rm_Seq)
qed

lemma re_digit_head_empty: "re_search re_digit_head [] = None"
  by (simp add: re_digit_head_def re_search_def match_at_def)

lemma re_leading_space_matches:
  assumes "x \<in> set line" "\<not> isspace x"
  shows "\<exists>m. re_match re_leading_space line = Some m"
proof -
  from assms obtain u y v where "line = u @ y # v" "\<not> isspace y" "\<forall>z \<in> set u. isspace z"
    using split_list_first_prop [of line "\<lambda>z. \<not> isspace z"] by blast
  then have "rm (Star Spc) ([], line, []) (rev u, y # v, [])"
    using rm_Star_one_charI [OF one_char_Cls [of False "[CSpace]"],
        where w = u and p = "[]" and s' = "y # v" and c = "[]"] by simp
  from rm_Grp [OF this, of 1] obtain c where "rm (Grp 1 (Star Spc)) ([], line, []) (rev u, y # v, c)"
    by blast
  moreover have "rm NSpc (rev u, y # v, c) (y # rev u, v, c)"
    using \<open>\<not> isspace y\<close> by (simp add: rm_Cls_iff)
  ultimately have "rm re_leading_space ([], line, []) (y # rev u, v, c)"
    unfolding re_leading_space_def by (simp add: rm_Seq [OF rm_Bol rm_Seq])
  then show ?thesis by (rule re_matchI)
qed

section \<open>Raw strings\<close>

definition IsCppString :: "string \<Rightarrow> bool" where
  "IsCppString line =
     (let line = py_replace line (backslash # [backslash]) ''XX''
      in odd (int (py_count line [dquote]) - int (py_count line [backslash, dquote])
              - int (py_count line [squote, dquote, squote])))"

text \<open>The \<open>while delimiter is None\<close> loop on one line.\<close>

function raw_loop :: "string \<Rightarrow> string option \<times> string" where
  "raw_loop line =
     (case re_match re_raw_string line of
        None \<Rightarrow> (None, line)
      | Some matched \<Rightarrow>
          if re_match re_line_comment_prefix (group_text matched 1) = None then
            (let delimiter = '')'' @ group_text matched 2 @ [dquote]
             in case find_opt (group_text matched 3) delimiter of
                  Some end_pos \<Rightarrow>
                    raw_loop (group_text matched 1 @ [dquote, dquote] @
                              drop (end_pos + length delimiter) (group_text matched 3))
                | None \<Rightarrow> (Some delimiter, group_text matched 1 @ [dquote, dquote]))
          else (None, line))"
  by pat_completeness auto
termination
proof (relation "measure length", goal_cases)
  case (2 line m delimiter e)
  with re_raw_string_parts [of line m] show ?case by auto
qed simp

declare raw_loop.simps [simp del]

text \<open>Inside a raw string: look for its end.\<close>

fun leave_raw :: "string option \<Rightarrow> string \<Rightarrow> (string option \<times> string) py" where
  "leave_raw None line = Inr (None, line)"
| "leave_raw (Some delimiter) line =
     (if delimiter = [] then Inr (Some delimiter, line)
      else case find_opt line delimiter of
        Some end_pos \<Rightarrow>
          (case re_match re_leading_space line of
             None \<Rightarrow> Inl AttributeError
           | Some leading_space \<Rightarrow>
               Inr (None, group_text leading_space 1 @ [dquote, dquote] @
                          drop (end_pos + length delimiter) line))
      | None \<Rightarrow> Inr (Some delimiter, [dquote, dquote]))"

fun raw_step :: "string option \<Rightarrow> string \<Rightarrow> (string option \<times> string) py" where
  "raw_step delimiter line =
     py_bind (leave_raw delimiter line) (\<lambda>(delimiter, line).
       case delimiter of None \<Rightarrow> Inr (raw_loop line) | Some d \<Rightarrow> Inr (Some d, line))"

fun raw_lines_from :: "string option \<Rightarrow> string list \<Rightarrow> string list py" where
  "raw_lines_from delimiter [] = Inr []"
| "raw_lines_from delimiter (line # lines) =
     py_bind (raw_step delimiter line) (\<lambda>(delimiter, line).
     py_bind (raw_lines_from delimiter lines) (\<lambda>rest. Inr (line # rest)))"

definition CleanseRawStrings :: "string list \<Rightarrow> string list py" where
  "CleanseRawStrings raw_lines = raw_lines_from None raw_lines"

section \<open>Comments that span lines\<close>

text \<open>\<open>RemoveMultiLineComments\<close> looks at a line only through these two tests.\<close>

definition opens_comment :: "string \<Rightarrow> bool" where
  "opens_comment line \<longleftrightarrow>
     startswith (strip line) ''/*'' \<and> find_opt (drop 2 (strip line)) ''*/'' = None"

definition closes_comment :: "string \<Rightarrow> bool" where
  "closes_comment line \<longleftrightarrow> endswith (strip line) ''*/''"

function FindNextMultiLineCommentStart :: "string list \<Rightarrow> nat \<Rightarrow> nat" where
  "FindNextMultiLineCommentStart lines lineix =
     (if lineix < length lines then
        if opens_comment (lines ! lineix) then lineix
        else FindNextMultiLineCommentStart lines (lineix + 1)
      else length lines)"
  by pat_completeness auto
termination by (relation "measure (\<lambda>(lines, lineix). length lines - lineix)") auto

function FindNextMultiLineCommentEnd :: "string list \<Rightarrow> nat \<Rightarrow> nat" where
  "FindNextMultiLineCommentEnd lines lineix =
     (if lineix < length lines then
        if closes_comment (lines ! lineix) then lineix
        else FindNextMultiLineCommentEnd lines (lineix + 1)
      else length lines)"
  by pat_completeness auto
termination by (relation "measure (\<lambda>(lines, lineix). length lines - lineix)") auto

declare FindNextMultiLineCommentStart.simps [simp del]
declare FindNextMultiLineCommentEnd.simps [simp del]

definition RemoveMultiLineCommentsFromRange ::
  "string list \<Rightarrow> nat \<Rightarrow> nat \<Rightarrow> string list" where
  "RemoveMultiLineCommentsFromRange lines begin_ix end_ix =
     fold (\<lambda>i ls. ls[i := ''/**/'']) [begin_ix ..< end_ix] lines"

definition multiline_comment_msg :: "string \<Rightarrow> nat \<Rightarrow> lint_msg" where
  "multiline_comment_msg filename linenum =
     err_at filename (int linenum) ''readability/multiline_comment'' 5
       ''Could not find end of multi-line comment''"

locale line_search =
  fixes next_line :: "string list \<Rightarrow> nat \<Rightarrow> nat"
    and wanted :: "string \<Rightarrow> bool"
  assumes next_line_hit: "i < length ls \<Longrightarrow> wanted (ls ! i) \<Longrightarrow> next_line ls i = i"
    and next_line_miss: "i < length ls \<Longrightarrow> \<not> wanted (ls ! i) \<Longrightarrow> next_line ls i = next_line ls (i + 1)"
    and next_line_end: "length ls \<le> i \<Longrightarrow> next_line ls i = length ls"
begin

lemma next_line_takeWhile:
  "i \<le> length ls \<Longrightarrow>
     next_line ls i = i + length (takeWhile (\<lambda>l. \<not> wanted l) (drop i ls))"
proof (induction "length ls - i" arbitrary: i)
  case 0
  then show ?case by (simp add: next_line_end)
next
  case (Suc n)
  then have i: "i < length ls" by simp
  with Suc.hyps(1) [of "i + 1"] Suc.hyps(2) show ?case
    by (cases "wanted (ls ! i)")
      (simp_all add: next_line_hit next_line_miss Cons_nth_drop_Suc [OF i, symmetric])
qed

lemma next_line_bounds: "i \<le> length ls \<Longrightarrow> i \<le> next_line ls i \<and> next_line ls i \<le> length ls"
  using length_takeWhile_le [of "\<lambda>l. \<not> wanted l" "drop i ls"] by (simp add: next_line_takeWhile)

end

interpretation cstart: line_search FindNextMultiLineCommentStart opens_comment
  by unfold_locales (simp_all add: FindNextMultiLineCommentStart.simps)

interpretation cend: line_search FindNextMultiLineCommentEnd closes_comment
  by unfold_locales (simp_all add: FindNextMultiLineCommentEnd.simps)

lemma RemoveRange_eq:
  "b \<le> e \<Longrightarrow> e \<le> length ls \<Longrightarrow> RemoveMultiLineCommentsFromRange ls b e =
     take b ls @ replicate (e - b) ''/**/'' @ drop e ls"
proof (induction e)
  case (Suc e)
  show ?case
  proof (cases "b \<le> e")
    case True
    with Suc have "RemoveMultiLineCommentsFromRange ls b (Suc e) =
        (take b ls @ replicate (e - b) ''/**/'' @ drop e ls)[e := ''/**/'']"
      by (simp add: RemoveMultiLineCommentsFromRange_def)
    also have "\<dots> = take b ls @ replicate (e - b) ''/**/'' @ (drop e ls)[0 := ''/**/'']"
      using Suc.prems True by (simp add: list_update_append)
    also have "(drop e ls)[0 := ''/**/''] = ''/**/'' # drop (Suc e) ls"
      using Suc.prems by (simp add: Cons_nth_drop_Suc [symmetric])
    finally show ?thesis using True
      by (simp add: Suc_diff_le replicate_append_same [symmetric] del: replicate_append_same)
  next
    case False
    with Suc.prems have "b = Suc e" by simp
    then show ?thesis by (simp add: RemoveMultiLineCommentsFromRange_def)
  qed
qed (simp add: RemoveMultiLineCommentsFromRange_def)

lemma length_RemoveRange [simp]:
  "length (RemoveMultiLineCommentsFromRange ls b e) = length ls"
  unfolding RemoveMultiLineCommentsFromRange_def
  by (rule fold_invariant [where Q = "\<lambda>_. True" and P = "\<lambda>l. length l = length ls"]) simp_all

function remove_comments_from ::
  "string \<Rightarrow> string list \<Rightarrow> nat \<Rightarrow> string list \<times> lint_msg list" where
  "remove_comments_from filename lines lineix =
     (if lineix < length lines then
        (let lineix_begin = FindNextMultiLineCommentStart lines lineix in
         if length lines \<le> lineix_begin then (lines, [])
         else let lineix_end = FindNextMultiLineCommentEnd lines lineix_begin in
           if length lines \<le> lineix_end
           then (lines, [multiline_comment_msg filename (lineix_begin + 1)])
           else remove_comments_from filename
                  (RemoveMultiLineCommentsFromRange lines lineix_begin (lineix_end + 1))
                  (lineix_end + 1))
      else (lines, []))"
  by pat_completeness auto
termination
proof (relation "measure (\<lambda>(f, lines, lineix). length lines - lineix)", goal_cases)
  case (2 f lines i b e)
  then show ?case using cstart.next_line_bounds [of i lines] cend.next_line_bounds [of b lines]
    by simp
qed simp

declare remove_comments_from.simps [simp del]

definition RemoveMultiLineComments :: "string \<Rightarrow> string list \<Rightarrow> string list \<times> lint_msg list" where
  "RemoveMultiLineComments filename lines = remove_comments_from filename lines 0"

section \<open>Comments within a line\<close>

definition CleanseComments :: "string \<Rightarrow> string" where
  "CleanseComments line =
     (let line = (case find_opt line ''//'' of
                    None \<Rightarrow> line
                  | Some commentpos \<Rightarrow>
                      if IsCppString (take commentpos line) then line
                      else rstrip (take commentpos line))
      in re_sub RE_PATTERN_CLEANSE_LINE_C_COMMENTS [] line)"

section \<open>String literals\<close>

text \<open>The loop of \<open>_CollapseStrings\<close>: \<open>collapsed\<close> grows, \<open>elided\<close> shrinks.\<close>

lemma find_opt_drop_less: "find_opt s p = Some i \<Longrightarrow> length (drop (i + 1) s) \<le> length s"
  by simp

function collapse_loop :: "string \<Rightarrow> string \<Rightarrow> string py" where
  "collapse_loop collapsed elided =
     (case re_match re_first_quote elided of
        None \<Rightarrow> Inr (collapsed @ elided)
      | Some matched \<Rightarrow>
          let head = group_text matched 1; quote = group_text matched 2;
              tail = group_text matched 3
          in if quote = [dquote] then
               (case find_opt tail [dquote] of
                  Some second_quote \<Rightarrow>
                    collapse_loop (collapsed @ head @ [dquote, dquote]) (drop (second_quote + 1) tail)
                | None \<Rightarrow> Inr (collapsed @ elided))
             else if re_search re_digit_head head \<noteq> None then
               (case re_match re_digit_sep (squote # tail) of
                  None \<Rightarrow> Inl AttributeError
                | Some match_literal \<Rightarrow>
                    collapse_loop
                      (collapsed @ head @ py_replace (group_text match_literal 1) [squote] [])
                      (group_text match_literal 2))
             else
               (case find_opt tail [squote] of
                  Some second_quote \<Rightarrow>
                    collapse_loop (collapsed @ head @ [squote, squote]) (drop (second_quote + 1) tail)
                | None \<Rightarrow> Inr (collapsed @ elided)))"
  by pat_completeness auto

lemma collapse_shorter:
  assumes "re_match re_first_quote elided = Some m"
  shows "length (drop k (group_text m 3)) < length elided"
proof -
  from re_first_quote_parts [OF assms] obtain t where
    "elided = group_text m 1 @ group_text m 2 @ group_text m 3 @ t" "length (group_text m 2) = 1"
    by force
  then have "length elided = length (group_text m 1) + 1 + length (group_text m 3) + length t"
    by (metis append_assoc length_append)
  then show ?thesis by simp
qed

lemma collapse_digits_shorter:
  assumes "re_match re_first_quote elided = Some m"
    and "re_search re_digit_head (group_text m 1) \<noteq> None"
    and "re_match re_digit_sep (squote # group_text m 3) = Some d"
  shows "length (group_text d 2) < length elided"
proof -
  from re_first_quote_parts [OF assms(1)] obtain t where
    "elided = group_text m 1 @ group_text m 2 @ group_text m 3 @ t" "length (group_text m 2) = 1"
    by force
  then have "length elided = length (group_text m 1) + 1 + length (group_text m 3) + length t"
    by (metis append_assoc length_append)
  moreover have "group_text m 1 \<noteq> []" using assms(2) re_digit_head_empty by metis
  moreover from re_digit_sep_parts [OF assms(3)] obtain u where
    "squote # group_text m 3 = group_text d 1 @ group_text d 2 @ u" by blast
  then have "length (squote # group_text m 3) = length (group_text d 1) + length (group_text d 2) + length u"
    by (metis append_assoc length_append)
  ultimately show ?thesis by (cases "group_text m 1") simp_all
qed

termination collapse_loop
  by (relation "measure (\<lambda>(c, e). length e)")
    (auto intro: collapse_shorter collapse_digits_shorter simp del: length_drop)

declare collapse_loop.simps [simp del]

definition CollapseStrings :: "string \<Rightarrow> string py" where
  "CollapseStrings elided =
     (if re_match RE_PATTERN_INCLUDE elided \<noteq> None then Inr elided
      else collapse_loop [] (re_sub RE_PATTERN_CLEANSE_LINE_ESCAPES [] elided))"

section \<open>CleansedLines\<close>

record cleansed_lines =
  elided :: "string list"
  lines :: "string list"
  raw_lines :: "string list"
  num_lines :: nat
  lines_without_raw_strings :: "string list"

fun py_map :: "('a \<Rightarrow> 'b py) \<Rightarrow> 'a list \<Rightarrow> 'b list py" where
  "py_map f [] = Inr []"
| "py_map f (x # xs) = py_bind (f x) (\<lambda>y. py_bind (py_map f xs) (\<lambda>ys. Inr (y # ys)))"

definition CleansedLines :: "string list \<Rightarrow> cleansed_lines py" where
  "CleansedLines ls =
     py_bind (CleanseRawStrings ls) (\<lambda>without_raw.
     py_bind (py_map (\<lambda>l. py_bind (CollapseStrings l) (\<lambda>e. Inr (CleanseComments e))) without_raw)
       (\<lambda>els. Inr \<lparr>elided = els, lines = map CleanseComments without_raw, raw_lines = ls,
                   num_lines = length ls, lines_without_raw_strings = without_raw\<rparr>))"

definition NumLines :: "cleansed_lines \<Rightarrow> nat" where
  "NumLines cl = num_lines cl"

end
