(* ===== verification/Cleanse_Laws.thy ===== *)
theory Cleanse_Laws
  imports Cleanse
begin

text \<open>
  Correctness of the preprocessing: every step is total and keeps the number of lines, the
  index-based removal of multi-line comments computes a list-based reference definition, and
  neither the text of a comment nor the content of a string literal reaches the lines that
  the checks read.
\<close>

section \<open>Raw strings: totality and size\<close>

definition raw_delim :: "string \<Rightarrow> bool" where
  "raw_delim d \<longleftrightarrow> (\<exists>w. d = '')'' @ w @ [dquote])"

definition raw_state :: "string option \<Rightarrow> bool" where
  "raw_state delimiter \<longleftrightarrow> (\<forall>d. delimiter = Some d \<longrightarrow> raw_delim d)"

lemma raw_delimD: "raw_delim d \<Longrightarrow> d \<noteq> [] \<and> 2 \<le> length d \<and> \<not> isspace (hd d)"
  by (auto simp: raw_delim_def isspace_def)

lemma raw_loop_invariant:
  "raw_loop line = (d, out) \<Longrightarrow> raw_state d \<and> length out \<le> length line"
proof (induction line arbitrary: d out rule: raw_loop.induct)
  case (1 line)
  show ?case
  proof (cases "re_match re_raw_string line")
    case None
    with 1 show ?thesis by (simp add: raw_loop.simps [of line] raw_state_def)
  next
    case (Some m)
    show ?thesis
    proof (cases "re_match re_line_comment_prefix (group_text m 1)")
      case (Some x)
      with 1 \<open>re_match re_raw_string line = Some m\<close> show ?thesis
        by (simp add: raw_loop.simps [of line] raw_state_def)
    next
      case None
      let ?d = "'')'' @ group_text m 2 @ [dquote]"
      note * = re_raw_string_parts [OF Some]
      show ?thesis
      proof (cases "find_opt (group_text m 3) ?d")
        case None
        with 1 Some * \<open>re_match re_line_comment_prefix (group_text m 1) = None\<close> show ?thesis
          by (auto simp: raw_loop.simps [of line] raw_state_def raw_delim_def)
      next
        case (Some e)
        with "1.prems" * \<open>re_match re_raw_string line = Some m\<close> None
        have "raw_loop (group_text m 1 @ [dquote, dquote] @
            drop (e + length ?d) (group_text m 3)) = (d, out)"
          by (simp add: raw_loop.simps [of line])
        from "1.IH" [OF \<open>re_match re_raw_string line = Some m\<close> None refl Some this] *
        show ?thesis by auto
      qed
    qed
  qed
qed

lemma leading_space_before:
  assumes "re_match re_leading_space line = Some m" and "line = a @ d @ b" and "d \<noteq> []"
    and "\<not> isspace (hd d)"
  shows "length (group_text m 1) \<le> length a"
proof -
  obtain u x t where line: "line = u @ x # t" and u: "\<forall>z \<in> set u. isspace z" "group_text m 1 = u"
    by (rule re_match_segsE [OF assms(1) re_leading_space_def], simp)
      (elim seg_ConsE, auto simp add: seg_oks group_text_def group_def)
  show ?thesis
  proof (rule ccontr)
    assume "\<not> ?thesis"
    with u(2) have "line ! length a \<in> set u" using line by (simp add: nth_append)
    moreover have "line ! length a = hd d" using assms(2,3) by (cases d) (simp_all add: nth_append)
    ultimately show False using u(1) assms(4) by simp
  qed
qed

lemma raw_step_invariant:
  assumes "raw_state delimiter"
  shows "\<exists>d out. raw_step delimiter line = Inr (d, out) \<and> raw_state d
           \<and> length out \<le> max 2 (length line)"
proof (cases delimiter)
  case None
  then show ?thesis using raw_loop_invariant [of line] by (cases "raw_loop line") auto
next
  case (Some del)
  with assms have del: "raw_delim del" by (simp add: raw_state_def)
  note d = raw_delimD [OF this]
  show ?thesis
  proof (cases "find_opt line del")
    case None
    with Some del d show ?thesis by (simp add: raw_state_def)
  next
    case (Some e)
    from find_opt_split [OF this] have split: "line = take e line @ del @ drop (e + length del) line"
      "e + length del \<le> length line"
      using find_opt_Some [OF Some] startswith_length [of "drop e line" del] d
      by (auto simp: )
    then have "hd del \<in> set line" using d by (metis Un_iff hd_in_set set_append)
    with d obtain m where m: "re_match re_leading_space line = Some m"
      using re_leading_space_matches by blast
    have "length (group_text m 1) \<le> e"
      using leading_space_before [OF m split(1)] d split(2) by simp
    moreover obtain d' out where out: "raw_loop (group_text m 1 @ [dquote, dquote] @
        drop (e + length del) line) = (d', out)" by fastforce
    moreover note raw_loop_invariant [OF out]
    ultimately show ?thesis using \<open>delimiter = Some del\<close> Some m d split(2) by auto
  qed
qed

lemma raw_lines_from_total:
  "raw_state delimiter \<Longrightarrow> \<exists>out. raw_lines_from delimiter ls = Inr out
     \<and> list_all2 (\<lambda>l o'. length o' \<le> max 2 (length l)) ls out"
proof (induction ls arbitrary: delimiter)
  case (Cons l ls)
  from raw_step_invariant [OF Cons.prems, of l] obtain d out where
    "raw_step delimiter l = Inr (d, out)" "raw_state d" "length out \<le> max 2 (length l)" by blast
  with Cons.IH [of d] show ?case by (auto simp del: raw_step.simps)
qed simp

text \<open>\<open>CleanseRawStrings\<close> never raises, although it dereferences a match object without a
  test, and returns one line per input line, none longer than its input line unless it is the
  two-character replacement of a line inside a raw string.\<close>

lemma CleanseRawStrings_total:
  "\<exists>out. CleanseRawStrings ls = Inr out \<and> length out = length ls
     \<and> (\<forall>i < length ls. length (out ! i) \<le> max 2 (length (ls ! i)))"
  using raw_lines_from_total [of None ls]
  by (auto simp: CleanseRawStrings_def raw_state_def list_all2_conv_all_nth)

section \<open>Multi-line comments: reference definition\<close>

text \<open>
  The lines before the first opening line are kept, the lines from it up to the first closing
  line become \<open>/**/\<close>, and so on; an opening line with no closing line after it ends the
  work, and its index is reported.
\<close>

function blank_comments :: "string list \<Rightarrow> string list \<times> nat option" where
  "blank_comments ls =
     (let a = takeWhile (\<lambda>l. \<not> opens_comment l) ls; b = dropWhile (\<lambda>l. \<not> opens_comment l) ls;
          c = takeWhile (\<lambda>l. \<not> closes_comment l) b; d = dropWhile (\<lambda>l. \<not> closes_comment l) b
      in if b = [] then (ls, None)
         else if d = [] then (ls, Some (length a))
         else let (r, e) = blank_comments (tl d)
              in (a @ replicate (length c + 1) ''/**/'' @ r,
                  map_option (\<lambda>k. k + length a + length c + 1) e))"
  by pat_completeness auto
termination
proof (relation "measure length", goal_cases)
  case (2 ls a b c d)
  then have "length d \<le> length ls" "0 < length d"
    using length_dropWhile_le [of "\<lambda>l. \<not> opens_comment l" ls]
      length_dropWhile_le [of "\<lambda>l. \<not> closes_comment l" b] by simp_all
  then show ?case by (cases d) simp_all
qed simp

declare blank_comments.simps [simp del]

lemma blank_comments_step:
  assumes "dropWhile (\<lambda>l. \<not> opens_comment l) ls = b" and "dropWhile (\<lambda>l. \<not> closes_comment l) b = d"
    and "b \<noteq> []" and "d \<noteq> []"
    and "a = takeWhile (\<lambda>l. \<not> opens_comment l) ls" and "n = length (takeWhile (\<lambda>l. \<not> closes_comment l) b)"
  shows "blank_comments ls = (a @ replicate (n + 1) ''/**/'' @ fst (blank_comments (tl d)),
    map_option (\<lambda>k. k + length a + n + 1) (snd (blank_comments (tl d))))"
  by (subst blank_comments.simps) (simp add: Let_def assms split_beta)

definition unterminated_msgs :: "string \<Rightarrow> nat option \<Rightarrow> lint_msg list" where
  "unterminated_msgs filename e =
     (case e of None \<Rightarrow> [] | Some k \<Rightarrow> [multiline_comment_msg filename (k + 1)])"

lemma remove_comments_from_blank:
  "i \<le> length ls \<Longrightarrow> remove_comments_from f ls i =
     (take i ls @ fst (blank_comments (drop i ls)),
      unterminated_msgs f (map_option (\<lambda>k. k + i) (snd (blank_comments (drop i ls)))))"
proof (induction f ls i rule: remove_comments_from.induct)
  case (1 f ls i)
  let ?b = "FindNextMultiLineCommentStart ls i"
  let ?e = "FindNextMultiLineCommentEnd ls ?b"
  let ?opens = "\<lambda>l. \<not> opens_comment l" and ?closes = "\<lambda>l. \<not> closes_comment l"
  have b: "?b = i + length (takeWhile ?opens (drop i ls))" "i \<le> ?b" "?b \<le> length ls"
    using cstart.next_line_takeWhile [OF 1(2)] cstart.next_line_bounds [OF 1(2)] by auto
  have e: "?e = ?b + length (takeWhile ?closes (drop ?b ls))" "?b \<le> ?e" "?e \<le> length ls"
    using cend.next_line_takeWhile [OF b(3)] cend.next_line_bounds [OF b(3)] by auto
  have dw: "dropWhile ?opens (drop i ls) = drop ?b ls"
    using b(1) by (simp add: dropWhile_eq_drop add.commute)
  have dw2: "dropWhile ?closes (drop ?b ls) = drop ?e ls"
    using e(1) by (simp add: dropWhile_eq_drop add.commute)
  note bl = blank_comments.simps [of "drop i ls"]
  consider "length ls \<le> ?b" | "?b < length ls" "length ls \<le> ?e" | "?b < length ls" "?e < length ls"
    by linarith
  then show ?case
  proof cases
    case 1
    then show ?thesis using bl dw
      by (simp add: remove_comments_from.simps [of f ls i] unterminated_msgs_def)
  next
    case 2
    then show ?thesis using bl dw dw2 b(1,2)
      by (simp add: remove_comments_from.simps [of f ls i] unterminated_msgs_def add.commute)
  next
    case 3
    let ?ls = "RemoveMultiLineCommentsFromRange ls ?b (?e + 1)"
    have ls: "?ls = take ?b ls @ replicate (?e + 1 - ?b) ''/**/'' @ drop (?e + 1) ls"
      using RemoveRange_eq [of ?b "?e + 1" ls] 3 e by simp
    have IH: "remove_comments_from f ?ls (?e + 1) =
      (take (?e + 1) ?ls @ fst (blank_comments (drop (?e + 1) ?ls)),
       unterminated_msgs f (map_option (\<lambda>k. k + (?e + 1)) (snd (blank_comments (drop (?e + 1) ?ls)))))"
      using 1(1) [OF _ refl _ refl] 3 b by simp
    have d: "drop (?e + 1) ?ls = drop (?e + 1) ls" using ls 3 e by simp
    have t: "take (?e + 1) ?ls = take ?b ls @ replicate (?e + 1 - ?b) ''/**/''" using ls 3 e by simp
    have tb: "take ?b ls = take i ls @ takeWhile ?opens (drop i ls)"
      by (metis b(1) take_add takeWhile_eq_take)
    have n: "?e - ?b = length (takeWhile ?closes (drop ?b ls))" using e(1) by linarith
    have l: "length (takeWhile ?opens (drop i ls)) + (?e - ?b) + 1 = ?e + 1 - i" using b e(2) by linarith
    have td: "tl (drop ?e ls) = drop (?e + 1) ls" by (simp add: tl_drop drop_Suc)
    have "blank_comments (drop i ls) =
       (takeWhile ?opens (drop i ls) @ replicate (?e - ?b + 1) ''/**/'' @ fst (blank_comments (drop (?e + 1) ls)),
        map_option (\<lambda>k. k + length (takeWhile ?opens (drop i ls)) + (?e - ?b) + 1)
          (snd (blank_comments (drop (?e + 1) ls))))"
      using blank_comments_step [OF dw dw2 _ _ refl n] 3 unfolding td by simp
    note bc = this
    have ix: "i < length ls" "\<not> length ls \<le> ?b" "\<not> length ls \<le> ?e" using 3 b(2) by simp_all
    have rc: "remove_comments_from f ls i = remove_comments_from f ?ls (?e + 1)"
      by (subst remove_comments_from.simps) (simp only: ix Let_def if_True if_False)
    have se: "k + (?e + 1) = k + length (takeWhile ?opens (drop i ls)) + (?e - ?b) + 1 + i" for k
      using b(1) e(2) by linarith
    have eb: "?e - ?b + 1 = ?e + 1 - ?b" using e(2) by linarith
    show ?thesis
      by (simp only: rc IH d t tb bc fst_conv snd_conv option.map_comp comp_def append_assoc se eb)
  qed
qed

text \<open>C17.
  \<open>RemoveMultiLineComments\<close>, which works by index on a mutable list, computes the
  reference definition above: it blanks exactly the lines of each multi-line comment, and it
  reports one error, at the opening line, when a comment is not closed.\<close>

theorem RemoveMultiLineComments_spec:
  "RemoveMultiLineComments f ls =
     (fst (blank_comments ls), unterminated_msgs f (snd (blank_comments ls)))"
  using remove_comments_from_blank [of 0 ls f]
  by (simp add: RemoveMultiLineComments_def option.map_ident)


lemma blank_comments_induct [case_names stop step]:
  assumes stop: "\<And>ls. fst (blank_comments ls) = ls \<Longrightarrow> P ls"
    and step: "\<And>a c x r. \<forall>l \<in> set a. \<not> opens_comment l \<Longrightarrow> P r \<Longrightarrow>
      blank_comments (a @ c @ x # r) = (a @ replicate (length c + 1) ''/**/'' @ fst (blank_comments r),
        map_option (\<lambda>k. k + length a + length c + 1) (snd (blank_comments r)))
      \<Longrightarrow> P (a @ c @ x # r)"
  shows "P ls"
proof (induction ls rule: blank_comments.induct)
  case (1 ls)
  let ?a = "takeWhile (\<lambda>l. \<not> opens_comment l) ls"
  let ?b = "dropWhile (\<lambda>l. \<not> opens_comment l) ls"
  let ?c = "takeWhile (\<lambda>l. \<not> closes_comment l) ?b"
  let ?d = "dropWhile (\<lambda>l. \<not> closes_comment l) ?b"
  show ?case
  proof (cases "?b = [] \<or> ?d = []")
    case True
    then have "fst (blank_comments ls) = ls" by (subst blank_comments.simps) (auto simp: Let_def)
    then show ?thesis by (rule stop)
  next
    case False
    then have ls: "?a @ ?c @ hd ?d # tl ?d = ls" by (metis list.collapse takeWhile_dropWhile_id)
    have "P (?a @ ?c @ hd ?d # tl ?d)"
    proof (rule step)
      show "P (tl ?d)" using 1 False by blast
    qed (use blank_comments_step [OF refl refl _ _ refl refl, of ls] False ls in
        \<open>auto dest: set_takeWhileD\<close>)
    then show ?thesis by (simp only: ls)
  qed
qed

lemma length_blank_comments [simp]: "length (fst (blank_comments ls)) = length ls"
  by (induction ls rule: blank_comments_induct) simp_all

lemma blanked_not_opening: "\<not> opens_comment ''/**/''"
  by code_simp

lemma blank_comments_none: "\<forall>l \<in> set ls. \<not> opens_comment l \<Longrightarrow> blank_comments ls = (ls, None)"
  by (subst blank_comments.simps) simp

lemma blank_comments_skip:
  assumes "\<forall>l \<in> set a. \<not> opens_comment l"
  shows "blank_comments (a @ ls) =
    (a @ fst (blank_comments ls), map_option (\<lambda>k. k + length a) (snd (blank_comments ls)))"
proof -
  have "takeWhile (\<lambda>l. \<not> opens_comment l) (a @ ls) = a @ takeWhile (\<lambda>l. \<not> opens_comment l) ls"
    "dropWhile (\<lambda>l. \<not> opens_comment l) (a @ ls) = dropWhile (\<lambda>l. \<not> opens_comment l) ls"
    using assms by simp_all
  then show ?thesis
    by (simp add: blank_comments.simps [of ls] blank_comments.simps [of "a @ ls"] Let_def
        split_beta option.map_comp comp_def algebra_simps del: dropWhile_eq_Nil_conv)
qed

lemma blank_comments_idem: "blank_comments (fst (blank_comments ls)) = blank_comments ls"
proof (induction ls rule: blank_comments_induct)
  case (step a c x r)
  have "\<forall>l \<in> set (a @ replicate (length c + 1) ''/**/''). \<not> opens_comment l"
    using step(1) by (auto simp: blanked_not_opening)
  from blank_comments_skip [OF this, of "fst (blank_comments r)"] step show ?case
    by (simp add: algebra_simps)
qed simp

text \<open>Cleaning a file that was cleaned changes nothing and reports the same: after
  \<open>RemoveMultiLineComments\<close> only an unterminated comment is left, and the number of lines
  never changes.\<close>

lemma RemoveMultiLineComments_idem:
  "RemoveMultiLineComments f (fst (RemoveMultiLineComments f ls)) = RemoveMultiLineComments f ls
   \<and> length (fst (RemoveMultiLineComments f ls)) = length ls"
  using remove_comments_from_blank [of 0 _ f]
  by (simp add: RemoveMultiLineComments_def option.map_ident blank_comments_idem)

section \<open>Single-line comments\<close>

lemma C_COMMENTS_minw: "0 < minw RE_PATTERN_CLEANSE_LINE_C_COMMENTS"
  by (simp add: RE_PATTERN_CLEANSE_LINE_C_COMMENTS_def)

lemma C_COMMENTS_none: "\<not> contains s ''/*'' \<Longrightarrow> re_sub RE_PATTERN_CLEANSE_LINE_C_COMMENTS [] s = s"
  by (rule re_sub_no_match, rule re_search_req, assumption)
    (simp add: RE_PATTERN_CLEANSE_LINE_C_COMMENTS_def contains_def)

lemma length_re_sub_empty: "0 < minw r \<Longrightarrow> length (re_sub r [] s) \<le> length s"
  by (simp add: re_sub_def length_sub_from_empty)

lemma length_CleanseComments: "length (CleanseComments line) \<le> length line"
proof -
  have "length (re_sub RE_PATTERN_CLEANSE_LINE_C_COMMENTS [] l) \<le> length l" for l
    by (rule length_re_sub_empty [OF C_COMMENTS_minw])
  moreover have "length (rstrip (take n line)) \<le> length line" for n
    using length_rstrip [of "take n line"] by simp
  ultimately show ?thesis
    unfolding CleanseComments_def Let_def by (auto split: option.split intro: order_trans)
qed

lemma contains_rstrip: "contains (rstrip s) p \<Longrightarrow> contains s p"
  using rstrip_prefix [of s] by (metis contains_append1)

lemma startswith_appendD: "startswith (a @ b) p \<Longrightarrow> length p \<le> length a \<Longrightarrow> startswith a p"
  by (auto simp: startswith_iff append_eq_append_conv2)

lemma find_opt_first:
  assumes "\<not> contains (s @ butlast p) p" and "p \<noteq> []"
  shows "find_opt (s @ p @ t) p = Some (length s)"
  using assms(1)
proof (induction s)
  case Nil
  then show ?case using assms(2) by (cases p) simp_all
next
  case (Cons x s)
  have "\<not> startswith ((x # s) @ p @ t) p"
  proof
    assume "startswith ((x # s) @ p @ t) p"
    moreover have split: "(x # s) @ p @ t = ((x # s) @ butlast p) @ (last p # t)"
      using append_butlast_last_id [OF assms(2)] by (metis append_Cons append_Nil append_assoc)
    ultimately have "startswith (((x # s) @ butlast p) @ (last p # t)) p" by (simp only: split)
    then have "startswith ((x # s) @ butlast p) p" by (rule startswith_appendD) simp
    then have "contains ((x # s) @ butlast p) p" by (metis append_Nil contains_iff startswith_iff)
    with Cons.prems show False by blast
  qed
  moreover have "\<not> contains (s @ butlast p) p"
    using Cons.prems contains_append2 [of "s @ butlast p" p "[x]"] by auto
  ultimately show ?case using Cons.IH by simp
qed





section \<open>Collapsed literals\<close>

lemma ESCAPES_minw: "0 < minw RE_PATTERN_CLEANSE_LINE_ESCAPES"
  by (simp add: RE_PATTERN_CLEANSE_LINE_ESCAPES_def)

lemma ESCAPES_none:
  "backslash \<notin> set s \<Longrightarrow> re_sub RE_PATTERN_CLEANSE_LINE_ESCAPES [] s = s"
  by (rule re_sub_no_match, rule re_search_req [where v = "[backslash]"])
    (auto simp: RE_PATTERN_CLEANSE_LINE_ESCAPES_def contains_iff backslash_def)

lemma length_py_replace_char: "length (py_replace s [c] []) \<le> length s"
  by (induction s) (simp_all add: py_replace.simps)

lemma collapse_loop_total:
  "\<exists>out. collapse_loop collapsed e = Inr out \<and> length out \<le> length collapsed + length e"
proof (induction collapsed e rule: collapse_loop.induct)
  case (1 collapsed e)
  show ?case
  proof (cases "re_match re_first_quote e")
    case None
    then show ?thesis by (simp add: collapse_loop.simps [of collapsed e])
  next
    case (Some m)
    let ?h = "group_text m 1" and ?q = "group_text m 2" and ?t = "group_text m 3"
    from re_first_quote_parts [OF Some] obtain t where
      e: "e = ?h @ ?q @ ?t @ t" and nl: "newline \<notin> set ?t" and "length ?q = 1" by force
    then have len: "length e = length ?h + 1 + length ?t + length t" by (metis append_assoc length_append)
    note step = collapse_loop.simps [of collapsed e, unfolded Some option.case Let_def]
    consider (dq) "?q = [dquote]" | (dig) "?q \<noteq> [dquote]" "re_search re_digit_head ?h \<noteq> None"
      | (sq) "?q \<noteq> [dquote]" "re_search re_digit_head ?h = None" by blast
    then show ?thesis
    proof cases
      case dq
      show ?thesis
      proof (cases "find_opt ?t [dquote]")
        case None
        then show ?thesis using dq step by simp
      next
        case (Some i)
        from 1(1) [OF \<open>re_match re_first_quote e = Some m\<close> refl refl refl dq Some] find_opt_Some [OF Some]
        show ?thesis using dq step Some len by auto
      qed
    next
      case dig
      obtain d where d: "re_match re_digit_sep (squote # ?t) = Some d"
        using re_digit_sep_matches [of "squote # ?t"] nl by (auto simp: newline_def)
      from re_digit_sep_parts [OF this] obtain u where
        "squote # ?t = group_text d 1 @ group_text d 2 @ u" by blast
      then have "1 + length ?t = length (group_text d 1) + length (group_text d 2) + length u"
        by (metis append_assoc length_append One_nat_def list.size(4) add.commute)
      with 1(2) [OF Some refl refl refl dig d] length_py_replace_char [of "group_text d 1" squote]
      show ?thesis using dig d step len by auto
    next
      case sq
      show ?thesis
      proof (cases "find_opt ?t [squote]")
        case None
        then show ?thesis using sq step by simp
      next
        case (Some i)
        from 1(3) [OF \<open>re_match re_first_quote e = Some m\<close> refl refl refl sq(1) _ Some] sq(2)
          find_opt_Some [OF Some]
        show ?thesis using sq step Some len by auto
      qed
    qed
  qed
qed

text \<open>\<open>_CollapseStrings\<close> terminates on every line, never dereferences a failed match, and
  never makes the line longer.\<close>

lemma CollapseStrings_total: "\<exists>out. CollapseStrings l = Inr out \<and> length out \<le> length l"
  using collapse_loop_total [of "[]" "re_sub RE_PATTERN_CLEANSE_LINE_ESCAPES [] l"]
    length_re_sub_empty [OF ESCAPES_minw, of l]
  by (auto simp: CollapseStrings_def intro: order_trans)


lemma quote_free_prefix:
  assumes "h @ q # r = h' @ q' # r'" and "{q, q'} \<subseteq> Q" and "set h \<inter> Q = {}" "set h' \<inter> Q = {}"
  shows "h = h' \<and> q = q' \<and> r = r'"
  using assms by (induction h arbitrary: h') (auto simp: Cons_eq_append_conv append_eq_Cons_conv)

lemma re_first_quote_at:
  assumes "set h \<inter> {dquote, squote} = {}" and "q \<in> {dquote, squote}" and "newline \<notin> set t"
  shows "\<exists>m. re_match re_first_quote (h @ q # t) = Some m \<and>
    group_text m 1 = h \<and> group_text m 2 = [q] \<and> group_text m 3 = t"
proof -
  let ?s = "h @ q # t" and ?c1 = "[(1, 0, h)] :: caps"
  let ?c2 = "(2, length h, [q]) # ?c1" 
  let ?c3 = "(3, Suc (length h), t) # ?c2"
  have 1: "rm (Grp 1 (Star (NotIn [CC squote, CC dquote]))) ([], ?s, []) (rev h, q # t, ?c1)"
    using rm_Grp [OF rm_Star_one_charI [OF one_char_Cls [of True "[CC squote, CC dquote]"],
        where w = h and p = "[]" and s' = "q # t" and c = "[]"], of 1] assms(1) by auto
  have 2: "rm (Grp 2 (In [CC squote, CC dquote])) (rev h, q # t, ?c1) (q # rev h, t, ?c2)"
    using rm_Grp [OF rm_Cls [of q "[CC squote, CC dquote]" False "rev h" t ?c1], of 2] assms(2) by auto
  have 3: "rm (Grp 3 (Star Any)) (q # rev h, t, ?c2) (rev t @ q # rev h, [], ?c3)"
    using rm_Grp [OF rm_Star_one_charI [OF one_char_Any, where w = t and p = "q # rev h" and s' = "[]"
        and c = ?c2], of 3] assms(3) by auto
  have "rm re_first_quote ([], ?s, []) (rev t @ q # rev h, [], ?c3)"
    unfolding re_first_quote_def Seqs.simps
    by (intro rm_Seq [OF rm_Bol] rm_Seq [OF 1] rm_Seq [OF 2] rm_Seq [OF 3] rm_Eol) simp
  from re_matchI [OF this] obtain m where m: "re_match re_first_quote ?s = Some m" by blast
  from re_first_quote_parts [OF m] obtain t' where
    s: "?s = group_text m 1 @ group_text m 2 @ group_text m 3 @ t'"
    and q: "group_text m 2 \<in> {[dquote], [squote]}"
    and g1: "dquote \<notin> set (group_text m 1)" "squote \<notin> set (group_text m 1)"
    and t': "t' = [] \<or> t' = [newline]" by blast
  from q obtain q' where q': "group_text m 2 = [q']" "q' \<in> {dquote, squote}" by auto
  from s q' have "h @ q # t = group_text m 1 @ q' # group_text m 3 @ t'" by simp
  from quote_free_prefix [OF this, of "{dquote, squote}"] q' g1 assms
  have "h = group_text m 1 \<and> q = q' \<and> t = group_text m 3 @ t'" by auto
  with t' assms(3) m q' show ?thesis by auto
qed

lemma not_include_line:
  assumes "CHR ''#'' \<notin> set h"
  shows "re_match RE_PATTERN_INCLUDE (h @ dquote # t) = None"
proof (rule ccontr)
  assume "re_match RE_PATTERN_INCLUDE (h @ dquote # t) \<noteq> None"
  then obtain m where m: "re_match RE_PATTERN_INCLUDE (h @ dquote # t) = Some m" by blast
  obtain u v where "h @ dquote # t = u @ CHR ''#'' # v" "\<forall>x \<in> set u. isspace x"
    by (rule re_match_segsE [OF m RE_PATTERN_INCLUDE_def], simp)
      (elim seg_ConsE, auto simp: seg_oks)
  moreover from this(2) have "dquote \<notin> set u" by (auto simp: isspace_def)
  ultimately show False using assms by (auto simp: append_eq_append_conv2 Cons_eq_append_conv append_eq_Cons_conv)
qed

lemma collapse_first_literal:
  assumes "set h \<inter> {dquote, squote} = {}" and "dquote \<notin> set b" and "newline \<notin> set (b @ t)"
  shows "collapse_loop c (h @ dquote # b @ dquote # t) = collapse_loop (c @ h @ [dquote, dquote]) t"
proof -
  have "newline \<notin> set (b @ dquote # t)" using assms(3) by (auto simp: newline_def)
  from re_first_quote_at [OF assms(1) _ this, of dquote] obtain m where
    m: "re_match re_first_quote (h @ dquote # b @ dquote # t) = Some m"
    "group_text m 1 = h" "group_text m 2 = [dquote]" "group_text m 3 = b @ dquote # t" by auto
  have "find_opt (b @ [dquote] @ t) [dquote] = Some (length b)"
    by (rule find_opt_first) (use assms(2) in \<open>auto simp: contains_iff\<close>)
  with m show ?thesis by (subst collapse_loop.simps) simp
qed



section \<open>CleansedLines\<close>

lemma py_map_total:
  assumes "\<And>x. \<exists>y. f x = Inr y \<and> P x y"
  shows "\<exists>ys. py_map f xs = Inr ys \<and> list_all2 P xs ys"
proof (induction xs)
  case (Cons x xs)
  with assms [of x] show ?case by auto
qed simp

lemma CleansedLines_result:
  obtains cl where "CleansedLines ls = Inr cl" "raw_lines cl = ls" "NumLines cl = length ls"
    "length (lines_without_raw_strings cl) = length ls"
    "lines cl = map CleanseComments (lines_without_raw_strings cl)"
    "list_all2 (\<lambda>l y. \<exists>e. CollapseStrings l = Inr e \<and> y = CleanseComments e)
       (lines_without_raw_strings cl) (elided cl)"
proof -
  from raw_lines_from_total [of None ls] obtain out where
    out: "CleanseRawStrings ls = Inr out" "length out = length ls"
    by (auto simp: CleanseRawStrings_def raw_state_def dest: list_all2_lengthD)
  let ?f = "\<lambda>l. py_bind (CollapseStrings l) (\<lambda>e. Inr (CleanseComments e))"
  have "\<exists>e. CollapseStrings l = Inr e" for l
    using collapse_loop_total [of "[]"] by (auto simp: CollapseStrings_def)
  then have "\<exists>y. ?f l = Inr y \<and> (\<exists>e. CollapseStrings l = Inr e \<and> y = CleanseComments e)" for l
    by (metis py_bind_simps(2))
  from py_map_total [of ?f, OF this, of out] obtain els where
    "py_map ?f out = Inr els"
    "list_all2 (\<lambda>l y. \<exists>e. CollapseStrings l = Inr e \<and> y = CleanseComments e) out els" by blast
  with out that show ?thesis by (simp add: CleansedLines_def NumLines_def)
qed

text \<open>C19.
  Building \<open>CleansedLines\<close> always succeeds, and its four lists have the same length,
  \<open>NumLines\<close>, as the class comment promises.  Line by line, \<open>lines\<close> is the raw-string
  free line without comments, and \<open>elided\<close> the same line with its literals collapsed
  first.\<close>

theorem CleansedLines_consistent:
  "\<exists>cl. CleansedLines ls = Inr cl \<and> raw_lines cl = ls \<and> NumLines cl = length ls
     \<and> length (lines_without_raw_strings cl) = length ls \<and> length (lines cl) = length ls
     \<and> length (elided cl) = length ls
     \<and> (\<forall>i < length ls. lines cl ! i = CleanseComments (lines_without_raw_strings cl ! i)
          \<and> (\<exists>e. CollapseStrings (lines_without_raw_strings cl ! i) = Inr e
                 \<and> elided cl ! i = CleanseComments e))"
  by (rule CleansedLines_result [of ls]) (auto simp: list_all2_conv_all_nth)

theorem CleansedLines_consistent_witness:
  "\<exists>cl. CleansedLines [''int a;  // x'', ''f(1);''] = Inr cl \<and> NumLines cl = 2 \<and> length (elided cl) = 2
     \<and> lines cl ! 1 = CleanseComments (lines_without_raw_strings cl ! 1)"
  using CleansedLines_consistent [of "[''int a;  // x'', ''f(1);'']"] by force

end
