(* ===== verification/Brackets.thy ===== *)
theory Brackets
  imports Cleanse
begin

text \<open>
  Bracket matching of \<open>cpplint.py\<close>: \<open>FindEndOfExpressionInLine\<close>,
  \<open>CloseExpression\<close>, \<open>FindStartOfExpressionInLine\<close> and
  \<open>ReverseCloseExpression\<close>.  The nesting stack is a list whose head is the top
  (\<open>stack[-1]\<close> of the source).  Positions and line numbers that callers pass are
  non-negative; a position beyond the line raises \<open>IndexError\<close>.
\<close>

section \<open>Scanning forward\<close>

text \<open>What one character does: return from the function, or go on with a new stack.\<close>

datatype scan_step = Return int | Go "char list"

text \<open>The stack after removing the pending angle brackets \<open>a\<close> from its top.\<close>

definition pop_angles :: "char \<Rightarrow> char list \<Rightarrow> char list" where
  "pop_angles a stack = dropWhile (\<lambda>c. c = a) stack"

definition operator_before :: "string \<Rightarrow> bool" where
  "operator_before s \<longleftrightarrow> re_search re_operator_end s \<noteq> None"

definition end_step :: "string \<Rightarrow> nat \<Rightarrow> char list \<Rightarrow> scan_step" where
  "end_step line i stack =
     (let c = line ! i in
      if c \<in> set ''([{'' then Go (c # stack)
      else if c = CHR ''<'' then
        if 0 < i \<and> line ! (i - 1) = CHR ''<'' then
          (case stack of
             t # ts \<Rightarrow> if t = CHR ''<'' then (if ts = [] then Return (-1) else Go ts) else Go stack
           | [] \<Rightarrow> Go stack)
        else if 0 < i \<and> operator_before (take i line) then Go stack
        else Go (CHR ''<'' # stack)
      else if c \<in> set '')]}'' then
        (case pop_angles (CHR ''<'') stack of
           [] \<Rightarrow> Return (-1)
         | t # ts \<Rightarrow>
             if (t = CHR ''('' \<and> c = CHR '')'') \<or> (t = CHR ''['' \<and> c = CHR '']'')
                \<or> (t = CHR ''{'' \<and> c = CHR ''}'')
             then (if ts = [] then Return (int i + 1) else Go ts)
             else Return (-1))
      else if c = CHR ''>'' then
        if 0 < i \<and> (line ! (i - 1) = CHR ''-'' \<or> operator_before (take (i - 1) line)) then Go stack
        else (case stack of
                t # ts \<Rightarrow> if t = CHR ''<'' then (if ts = [] then Return (int i + 1) else Go ts)
                          else Go stack
              | [] \<Rightarrow> Go stack)
      else if c = CHR '';'' then
        (case pop_angles (CHR ''<'') stack of [] \<Rightarrow> Return (-1) | t # ts \<Rightarrow> Go (t # ts))
      else Go stack)"

function FindEndOfExpressionInLine :: "string \<Rightarrow> nat \<Rightarrow> char list \<Rightarrow> int \<times> char list option" where
  "FindEndOfExpressionInLine line i stack =
     (if i < length line then
        (case end_step line i stack of
           Return p \<Rightarrow> (p, None)
         | Go stack' \<Rightarrow> FindEndOfExpressionInLine line (i + 1) stack')
      else (-1, Some stack))"
  by pat_completeness auto
termination by (relation "measure (\<lambda>(line, i, stack). length line - i)") auto

declare FindEndOfExpressionInLine.simps [simp del]

text \<open>The \<open>while\<close> loop of \<open>CloseExpression\<close>; an empty stack and \<open>None\<close> both end it.\<close>

function close_lines ::
  "cleansed_lines \<Rightarrow> string \<Rightarrow> nat \<Rightarrow> char list option \<Rightarrow> (string \<times> nat \<times> int) py" where
  "close_lines cl line linenum stack =
     (if stack \<noteq> None \<and> stack \<noteq> Some [] \<and> int linenum < int (NumLines cl) - 1 then
        py_bind (py_nth (elided cl) (int (linenum + 1))) (\<lambda>line.
          let (end_pos, stack) = FindEndOfExpressionInLine line 0 (the stack)
          in if end_pos > -1 then Inr (line, linenum + 1, end_pos)
             else close_lines cl line (linenum + 1) stack)
      else Inr (line, NumLines cl, -1))"
  by pat_completeness auto
termination by (relation "measure (\<lambda>(cl, line, linenum, stack). NumLines cl - linenum)") auto

declare close_lines.simps [simp del]

definition CloseExpression :: "cleansed_lines \<Rightarrow> nat \<Rightarrow> nat \<Rightarrow> (string \<times> nat \<times> int) py" where
  "CloseExpression cl linenum pos =
     py_bind (py_nth (elided cl) (int linenum)) (\<lambda>line.
     py_bind (py_nth line (int pos)) (\<lambda>c.
       if c \<notin> set ''({[<'' \<or> re_match re_lt_op (drop pos line) \<noteq> None
       then Inr (line, NumLines cl, -1)
       else let (end_pos, stack) = FindEndOfExpressionInLine line pos []
            in if end_pos > -1 then Inr (line, linenum, end_pos)
               else close_lines cl line linenum stack))"

section \<open>Scanning backward\<close>

text \<open>Here a step also says how far the index moves.\<close>

datatype back_step = BReturn int | BGo nat "char list"

definition start_step :: "string \<Rightarrow> nat \<Rightarrow> char list \<Rightarrow> back_step" where
  "start_step line i stack =
     (let c = line ! i in
      if c \<in> set '')]}'' then BGo 1 (c # stack)
      else if c = CHR ''>'' then
        if 0 < i \<and> (line ! (i - 1) = CHR ''-'' \<or> re_match re_ge_spaced (drop (i - 1) line) \<noteq> None
                    \<or> operator_before (take i line))
        then BGo 2 stack
        else BGo 1 (CHR ''>'' # stack)
      else if c = CHR ''<'' then
        if 0 < i \<and> line ! (i - 1) = CHR ''<'' then BGo 2 stack
        else (case stack of
                t # ts \<Rightarrow> if t = CHR ''>'' then (if ts = [] then BReturn (int i) else BGo 1 ts)
                          else BGo 1 stack
              | [] \<Rightarrow> BGo 1 stack)
      else if c \<in> set ''([{'' then
        (case pop_angles (CHR ''>'') stack of
           [] \<Rightarrow> BReturn (-1)
         | t # ts \<Rightarrow>
             if (c = CHR ''('' \<and> t = CHR '')'') \<or> (c = CHR ''['' \<and> t = CHR '']'')
                \<or> (c = CHR ''{'' \<and> t = CHR ''}'')
             then (if ts = [] then BReturn (int i) else BGo 1 ts)
             else BReturn (-1))
      else if c = CHR '';'' then
        (case pop_angles (CHR ''>'') stack of [] \<Rightarrow> BReturn (-1) | t # ts \<Rightarrow> BGo 1 (t # ts))
      else BGo 1 stack)"

lemma start_step_moves: "start_step line i stack = BGo k stack' \<Longrightarrow> 0 < k"
  by (auto simp: start_step_def Let_def split: if_splits list.splits)

function FindStartOfExpressionInLine ::
  "string \<Rightarrow> int \<Rightarrow> char list \<Rightarrow> (int \<times> char list option) py" where
  "FindStartOfExpressionInLine line i stack =
     (if 0 \<le> i then
        if int (length line) \<le> i then Inl IndexError
        else (case start_step line (nat i) stack of
                BReturn p \<Rightarrow> Inr (p, None)
              | BGo k stack' \<Rightarrow> FindStartOfExpressionInLine line (i - int k) stack')
      else Inr (-1, Some stack))"
  by pat_completeness auto
termination
  by (relation "measure (\<lambda>(line, i, stack). nat (i + 1))") (auto dest: start_step_moves)

declare FindStartOfExpressionInLine.simps [simp del]

function open_lines ::
  "cleansed_lines \<Rightarrow> string \<Rightarrow> nat \<Rightarrow> char list option \<Rightarrow> (string \<times> nat \<times> int) py" where
  "open_lines cl line linenum stack =
     (if stack \<noteq> None \<and> stack \<noteq> Some [] \<and> 0 < linenum then
        py_bind (py_nth (elided cl) (int (linenum - 1))) (\<lambda>line.
        py_bind (FindStartOfExpressionInLine line (int (length line) - 1) (the stack))
          (\<lambda>(start_pos, stack).
             if start_pos > -1 then Inr (line, linenum - 1, start_pos)
             else open_lines cl line (linenum - 1) stack))
      else Inr (line, 0, -1))"
  by pat_completeness auto
termination by (relation "measure (\<lambda>(cl, line, linenum, stack). linenum)") auto

declare open_lines.simps [simp del]

definition ReverseCloseExpression :: "cleansed_lines \<Rightarrow> nat \<Rightarrow> nat \<Rightarrow> (string \<times> nat \<times> int) py" where
  "ReverseCloseExpression cl linenum pos =
     py_bind (py_nth (elided cl) (int linenum)) (\<lambda>line.
     py_bind (py_nth line (int pos)) (\<lambda>c.
       if c \<notin> set '')}]>'' then Inr (line, 0, -1)
       else py_bind (FindStartOfExpressionInLine line (int pos) []) (\<lambda>(start_pos, stack).
            if start_pos > -1 then Inr (line, linenum, start_pos)
            else open_lines cl line linenum stack)))"

end
