(* ===== verification/Brackets_Laws.thy ===== *)
theory Brackets_Laws
  imports Brackets
begin

text \<open>
  What bracket matching computes.  For an expression that starts at a parenthesis, bracket or
  brace, the handling of angle brackets, operators and semicolons never changes the answer:
  both directions implement the plain automaton \<open>bscan\<close>, which finds exactly the
  well-nested expressions.
\<close>

section \<open>The plain automaton\<close>

datatype verdict = Closed nat | Mismatch | Pending "char list"

fun later :: "nat \<Rightarrow> verdict \<Rightarrow> verdict" where
  "later n (Closed k) = Closed (n + k)"
| "later n v = v"

fun bscan :: "(char \<Rightarrow> bool) \<Rightarrow> (char \<Rightarrow> char option) \<Rightarrow> char list \<Rightarrow> string \<Rightarrow> verdict" where
  "bscan opener partner st [] = Pending st"
| "bscan opener partner st (c # cs) =
     (if opener c then later 1 (bscan opener partner (c # st) cs)
      else case partner c of
             None \<Rightarrow> later 1 (bscan opener partner st cs)
           | Some p \<Rightarrow>
               (case st of
                  [] \<Rightarrow> Mismatch
                | t # ts \<Rightarrow> if t \<noteq> p then Mismatch
                            else if ts = [] then Closed 1
                            else later 1 (bscan opener partner ts cs)))"

text \<open>The automaton run over a list of lines: the line and the number of characters read there.\<close>

fun lscan :: "(char \<Rightarrow> bool) \<Rightarrow> (char \<Rightarrow> char option) \<Rightarrow> char list \<Rightarrow> string list
    \<Rightarrow> (nat \<times> nat) option" where
  "lscan opener partner st [] = None"
| "lscan opener partner st (l # ls) =
     (case bscan opener partner st l of
        Closed k \<Rightarrow> Some (0, k)
      | Mismatch \<Rightarrow> None
      | Pending st' \<Rightarrow> map_option (\<lambda>(j, k). (Suc j, k)) (lscan opener partner st' ls))"

text \<open>Well-nested text.\<close>

inductive balanced :: "(char \<Rightarrow> bool) \<Rightarrow> (char \<Rightarrow> char option) \<Rightarrow> string \<Rightarrow> bool"
  for opener partner where
  bal_Nil: "balanced opener partner []"
| bal_other: "\<not> opener c \<Longrightarrow> partner c = None \<Longrightarrow> balanced opener partner w \<Longrightarrow>
    balanced opener partner (c # w)"
| bal_pair: "opener a \<Longrightarrow> partner b = Some a \<Longrightarrow> balanced opener partner w \<Longrightarrow>
    balanced opener partner v \<Longrightarrow> balanced opener partner (a # w @ b # v)"

text \<open>Text that closes the brackets of a stack, the innermost first.\<close>

inductive closing :: "(char \<Rightarrow> bool) \<Rightarrow> (char \<Rightarrow> char option) \<Rightarrow> char list \<Rightarrow> string \<Rightarrow> bool"
  for opener partner where
  clo_Nil: "closing opener partner [] []"
| clo_Cons: "balanced opener partner w \<Longrightarrow> partner c = Some t \<Longrightarrow> closing opener partner ts u \<Longrightarrow>
    closing opener partner (t # ts) (w @ c # u)"

inductive_cases closing_NilE: "closing opener partner [] u"
inductive_cases closing_ConsE: "closing opener partner (t # ts) u"

definition expression :: "(char \<Rightarrow> bool) \<Rightarrow> (char \<Rightarrow> char option) \<Rightarrow> string \<Rightarrow> bool" where
  "expression opener partner u \<longleftrightarrow>
     (\<exists>a w b. u = a # w @ [b] \<and> opener a \<and> partner b = Some a \<and> balanced opener partner w)"

lemma later_later [simp]: "later m (later n v) = later (m + n) v"
  by (cases v) simp_all

lemma later_eq [simp]:
  "later n v = Closed k \<longleftrightarrow> (\<exists>j. v = Closed j \<and> k = n + j)"
  "later n v = Mismatch \<longleftrightarrow> v = Mismatch"
  "later n v = Pending st \<longleftrightarrow> v = Pending st"
  by (cases v; auto)+

locale bracket_language =
  fixes opener :: "char \<Rightarrow> bool"
    and partner :: "char \<Rightarrow> char option"
  assumes opener_no_partner: "opener c \<Longrightarrow> partner c = None"
    and partner_opener: "partner c = Some p \<Longrightarrow> opener p"
begin

lemma bscan_append:
  "bscan opener partner st (u @ v) =
     (case bscan opener partner st u of
        Closed k \<Rightarrow> Closed k
      | Mismatch \<Rightarrow> Mismatch
      | Pending st' \<Rightarrow> later (length u) (bscan opener partner st' v))"
proof (induction u arbitrary: st)
  case Nil
  then show ?case by (cases "bscan opener partner st v") simp_all
next
  case (Cons c u)
  have push: "later 1 (bscan opener partner st' (u @ v)) =
      (case later 1 (bscan opener partner st' u) of
         Closed k \<Rightarrow> Closed k
       | Mismatch \<Rightarrow> Mismatch
       | Pending st'' \<Rightarrow> later (length (c # u)) (bscan opener partner st'' v))" for st'
    using Cons.IH [of st'] by (cases "bscan opener partner st' u") simp_all
  show ?case
  proof (cases "opener c \<or> partner c = None")
    case True
    then show ?thesis using push by auto
  next
    case False
    then show ?thesis using push by (cases st) auto
  qed
qed

lemma bscan_closed_le: "bscan opener partner st s = Closed k \<Longrightarrow> 0 < k \<and> k \<le> length s"
proof (induction s arbitrary: st k)
  case (Cons c s)
  then show ?case by (fastforce split: if_splits option.splits list.splits)
qed simp

lemma lscan_None_iff:
  "lscan opener partner st ls = None \<longleftrightarrow> (\<forall>K. bscan opener partner st (concat ls) \<noteq> Closed K)"
  by (induction ls arbitrary: st) (auto simp: bscan_append split: verdict.split)

lemma lscan_Some:
  "lscan opener partner st ls = Some (j, k) \<Longrightarrow> j < length ls \<and> 0 < k \<and> k \<le> length (ls ! j)
     \<and> bscan opener partner st (concat ls) = Closed (length (concat (take j ls)) + k)"
proof (induction ls arbitrary: st j)
  case (Cons l ls)
  then show ?case
    by (auto simp: bscan_append bscan_closed_le split: verdict.splits)
qed simp

lemma bscan_balanced:
  "balanced opener partner w \<Longrightarrow> st \<noteq> [] \<Longrightarrow>
     bscan opener partner st (w @ s) = later (length w) (bscan opener partner st s)"
proof (induction arbitrary: st s rule: balanced.induct)
  case bal_Nil
  then show ?case by (cases "bscan opener partner st s") simp_all
next
  case (bal_other c w)
  then show ?case by simp
next
  case (bal_pair a b w v)
  then have "\<not> opener b" using opener_no_partner by fastforce
  with bal_pair show ?case by simp
qed

lemma bscan_closing_sound:
  "bscan opener partner st s = Closed k \<Longrightarrow> st \<noteq> [] \<Longrightarrow> closing opener partner st (take k s)"
proof (induction s arbitrary: st k)
  case (Cons c s)
  consider (push) "opener c" | (other) "\<not> opener c" "partner c = None"
    | (pop) p where "\<not> opener c" "partner c = Some p" by fastforce
  then show ?case
  proof cases
    case push
    with Cons.prems obtain j where j: "bscan opener partner (c # st) s = Closed j" "k = Suc j" by auto
    from Cons.IH [OF this(1)] obtain w b u where u: "take j s = w @ b # u" "partner b = Some c"
      "balanced opener partner w" "closing opener partner st u" by (auto elim: closing_ConsE)
    from \<open>st \<noteq> []\<close> obtain t ts where st: "st = t # ts" by (cases st) auto
    with u(4) obtain w' b' u' where u': "u = w' @ b' # u'" "partner b' = Some t"
      "balanced opener partner w'" "closing opener partner ts u'" by (auto elim: closing_ConsE)
    have "balanced opener partner (c # w @ b # w')" using push u u' by (blast intro: bal_pair)
    from clo_Cons [OF this u'(2,4)] show ?thesis using j u u' st by simp
  next
    case other
    with Cons.prems obtain j where j: "bscan opener partner st s = Closed j" "k = Suc j" by auto
    from \<open>st \<noteq> []\<close> obtain t ts where st: "st = t # ts" by (cases st) auto
    from Cons.IH [OF j(1) \<open>st \<noteq> []\<close>] st obtain w b u where
      u: "take j s = w @ b # u" "partner b = Some t" "balanced opener partner w"
      "closing opener partner ts u" by (auto elim: closing_ConsE)
    from clo_Cons [OF bal_other [OF other u(3)] u(2,4)] show ?thesis using j u st by simp
  next
    case pop
    with Cons.prems obtain ts where st: "st = p # ts" by (auto split: list.splits if_splits)
    have clo_now: "closing opener partner ts' u \<Longrightarrow> closing opener partner (p # ts') (c # u)" for ts' u
      using clo_Cons [where w = "[]" and partner = partner and c = c and t = p and opener = opener]
        bal_Nil pop(2) by simp
    show ?thesis
    proof (cases "ts = []")
      case True
      with pop Cons.prems st have "k = 1" by auto
      with True st pop show ?thesis
        using clo_now clo_Nil by simp
    next
      case False
      with pop Cons.prems st obtain j where j: "bscan opener partner ts s = Closed j" "k = Suc j" by auto
      from Cons.IH [OF j(1) False] show ?thesis
        using clo_now st j by simp
    qed
  qed
qed simp

lemma bscan_expression_iff:
  assumes "opener a"
  shows "bscan opener partner [] (a # s) = Closed k \<longleftrightarrow>
     k \<le> Suc (length s) \<and> expression opener partner (take k (a # s))"
proof
  assume l: "bscan opener partner [] (a # s) = Closed k"
  with assms obtain j where j: "bscan opener partner [a] s = Closed j" "k = Suc j" by auto
  from bscan_closing_sound [OF j(1)] obtain w b where
    "take j s = w @ [b]" "partner b = Some a" "balanced opener partner w"
    by (auto elim!: closing_ConsE closing_NilE)
  with j assms bscan_closed_le [OF l] show
    "k \<le> Suc (length s) \<and> expression opener partner (take k (a # s))"
    by (auto simp: expression_def)
next
  assume r: "k \<le> Suc (length s) \<and> expression opener partner (take k (a # s))"
  then obtain a' w b where e: "take k (a # s) = a' # w @ [b]" "partner b = Some a'"
    "balanced opener partner w" by (auto simp: expression_def)
  then have "a' = a" by (cases k) auto
  moreover have k: "k = length w + 2" using arg_cong [OF e(1), of length] r by simp
  moreover have "a # s = take k (a # s) @ drop k (a # s)" by simp
  ultimately have s: "s = w @ b # drop k (a # s)" using e(1)
    by (metis append_Cons append_Nil append_assoc list.inject)
  have "\<not> opener b" using e(2) opener_no_partner by fastforce
  with bscan_balanced [OF e(3), of "[a]" "b # drop k (a # s)"] e(2) \<open>a' = a\<close> k assms
  show "bscan opener partner [] (a # s) = Closed k"
    by (subst s) simp
qed

lemma bscan_no_expression:
  assumes "opener a" and "\<forall>k. bscan opener partner [] (a # s) \<noteq> Closed k"
  shows "\<not> expression opener partner (take k (a # s))"
  using assms bscan_expression_iff [OF assms(1), of s k] bscan_expression_iff [OF assms(1), of s "Suc (length s)"]
  by (cases "k \<le> Suc (length s)") auto

end

definition fopener :: "char \<Rightarrow> bool" where "fopener c \<longleftrightarrow> c \<in> set ''([{''"

definition fpartner :: "char \<Rightarrow> char option" where
  "fpartner c = (if c = CHR '')'' then Some (CHR ''('') else if c = CHR '']'' then Some (CHR ''['')
     else if c = CHR ''}'' then Some (CHR ''{'') else None)"

definition ropener :: "char \<Rightarrow> bool" where "ropener c \<longleftrightarrow> c \<in> set '')]}''"

definition rpartner :: "char \<Rightarrow> char option" where
  "rpartner c = (if c = CHR ''('' then Some (CHR '')'') else if c = CHR ''['' then Some (CHR '']'')
     else if c = CHR ''{'' then Some (CHR ''}'') else None)"

interpretation fwd: bracket_language fopener fpartner
  by unfold_locales (auto simp: fopener_def fpartner_def split: if_splits)

interpretation bwd: bracket_language ropener rpartner
  by unfold_locales (auto simp: ropener_def rpartner_def split: if_splits)

section \<open>Pending angle brackets do not matter\<close>

text \<open>A stack whose bottom is not an angle bracket, and the stack without angle brackets.\<close>

definition grounded :: "char \<Rightarrow> char list \<Rightarrow> bool" where
  "grounded a st \<longleftrightarrow> st \<noteq> [] \<and> last st \<noteq> a"

definition no_angles :: "char \<Rightarrow> char list \<Rightarrow> char list" where
  "no_angles a st = filter (\<lambda>c. c \<noteq> a) st"

lemma grounded_push [simp]: "grounded a st \<Longrightarrow> grounded a (c # st)"
  by (simp add: grounded_def)

lemma grounded_angle: "grounded a (a # st) \<Longrightarrow> grounded a st"
  by (auto simp: grounded_def split: if_splits)

lemma grounded_no_angles: "grounded a st \<Longrightarrow> no_angles a st \<noteq> []"
  unfolding grounded_def no_angles_def by (metis (full_types) filter_empty_conv last_in_set)

lemma no_angles_simps [simp]:
  "no_angles a (a # st) = no_angles a st"
  "c \<noteq> a \<Longrightarrow> no_angles a (c # st) = c # no_angles a st"
  "no_angles a [] = []"
  by (simp_all add: no_angles_def)

lemma pop_angles_grounded:
  "grounded a st \<Longrightarrow> \<exists>t ts. pop_angles a st = t # ts \<and> t \<noteq> a \<and> no_angles a st = t # no_angles a ts
     \<and> (ts = [] \<or> grounded a ts)"
proof (induction st)
  case (Cons c st)
  show ?case
  proof (cases "c = a")
    case True
    with Cons.prems have "grounded a st" by (auto dest: grounded_angle)
    moreover have "pop_angles a (c # st) = pop_angles a st" using True by (simp add: pop_angles_def)
    moreover have "no_angles a (c # st) = no_angles a st" using True by simp
    ultimately show ?thesis using Cons.IH by (simp only:)
  next
    case False
    moreover have "st = [] \<or> grounded a st" using Cons.prems by (auto simp: grounded_def)
    moreover have "pop_angles a (c # st) = c # st" using False by (simp add: pop_angles_def)
    ultimately show ?thesis using no_angles_simps(2) [OF False, of st] by blast
  qed
qed (simp add: grounded_def)

abbreviation fscan :: "char list \<Rightarrow> string \<Rightarrow> verdict" where
  "fscan st s \<equiv> bscan fopener fpartner (no_angles (CHR ''<'') st) s"

abbreviation rscan :: "char list \<Rightarrow> string \<Rightarrow> verdict" where
  "rscan st s \<equiv> bscan ropener rpartner (no_angles (CHR ''>'') st) s"

lemma end_step_refines:
  assumes "grounded (CHR ''<'') st"
  shows "case end_step line i st of
      Return p \<Rightarrow> (p = -1 \<and> fscan st (line ! i # s) = Mismatch)
                 \<or> (p = int i + 1 \<and> fscan st (line ! i # s) = Closed 1)
    | Go st' \<Rightarrow> grounded (CHR ''<'') st' \<and> fscan st (line ! i # s) = later 1 (fscan st' s)"
proof -
  from pop_angles_grounded [OF assms] obtain t ts where
    pop: "pop_angles (CHR ''<'') st = t # ts" "t \<noteq> CHR ''<''"
      "no_angles (CHR ''<'') st = t # no_angles (CHR ''<'') ts" "ts = [] \<or> grounded (CHR ''<'') ts"
    by blast
  obtain h hs where st: "st = h # hs" using assms by (cases st) (simp_all add: grounded_def)
  have angle: "hs \<noteq> [] \<and> grounded (CHR ''<'') hs" if "h = CHR ''<''"
    using assms st that by (auto simp: grounded_def split: if_splits)
  have ts: "no_angles (CHR ''<'') ts = [] \<longleftrightarrow> ts = []" using pop(4) grounded_no_angles by auto
  have neutral: ?thesis
    if "\<not> fopener (line ! i)" "fpartner (line ! i) = None"
      "\<exists>st'. end_step line i st = Go st' \<and> grounded (CHR ''<'') st' \<and> no_angles (CHR ''<'') st' = no_angles (CHR ''<'') st"
    using that by auto
  consider (op) "fopener (line ! i)" | (lt) "line ! i = CHR ''<''" | (cl) "line ! i \<in> set '')]}''"
    | (gt) "line ! i = CHR ''>''" | (semi) "line ! i = CHR '';''"
    | (other) "line ! i \<notin> set ''([{<)]}>;''" by (auto simp: fopener_def)
  then show ?thesis
  proof cases
    case op
    then have "end_step line i st = Go (line ! i # st)" by (simp add: end_step_def fopener_def Let_def)
    moreover have "line ! i \<noteq> CHR ''<''" using op by (auto simp: fopener_def)
    ultimately show ?thesis using assms op by simp
  next
    case lt
    then show ?thesis using assms st angle
      by (intro neutral) (auto simp: fopener_def fpartner_def end_step_def Let_def)
  next
    case cl
    then have "\<not> fopener (line ! i)" "line ! i \<noteq> CHR ''<''" by (auto simp: fopener_def)
    with cl show ?thesis using pop ts
      by (auto simp: end_step_def fpartner_def fopener_def)
  next
    case gt
    then show ?thesis using assms st angle
      by (intro neutral) (auto simp: fopener_def fpartner_def end_step_def Let_def)
  next
    case semi
    have "grounded (CHR ''<'') (t # ts)" using pop(2,4) by (auto simp: grounded_def)
    with semi show ?thesis using pop
      by (intro neutral) (auto simp: fopener_def fpartner_def end_step_def Let_def)
  next
    case other
    then show ?thesis using assms
      by (intro neutral) (auto simp: fopener_def fpartner_def end_step_def Let_def)
  qed
qed

lemma FindEnd_refines:
  assumes "grounded (CHR ''<'') st"
  shows "case FindEndOfExpressionInLine line i st of
      (p, None) \<Rightarrow> (p = -1 \<and> fscan st (drop i line) = Mismatch)
                   \<or> (\<exists>k. p = int (i + k) \<and> fscan st (drop i line) = Closed k)
    | (p, Some st') \<Rightarrow> p = -1 \<and> grounded (CHR ''<'') st'
                      \<and> fscan st (drop i line) = Pending (no_angles (CHR ''<'') st')"
  using assms
proof (induction line i st rule: FindEndOfExpressionInLine.induct)
  case (1 line i st)
  note step = FindEndOfExpressionInLine.simps [of line i st]
  show ?case
  proof (cases "i < length line")
    case False
    then show ?thesis using step 1 by simp
  next
    case True
    then have d: "drop i line = line ! i # drop (i + 1) line" by (simp add: Cons_nth_drop_Suc)
    note ref = end_step_refines [OF 1(2), of line i "drop (i + 1) line"]
    show ?thesis
    proof (cases "end_step line i st")
      case (Return p)
      with step True ref d show ?thesis by auto
    next
      case (Go st')
      with ref have g: "grounded (CHR ''<'') st'" "fscan st (drop i line) = later 1 (fscan st' (drop (i + 1) line))"
        by (simp_all add: d)
      from 1(1) [OF True Go g(1)] Go True step g(2) show ?thesis
        by (auto split: prod.splits option.splits)
    qed
  qed
qed

section \<open>CloseExpression finds exactly the well-nested expression\<close>

text \<open>The elided text after a position, and the text from one position up to another.\<close>

definition text_from :: "cleansed_lines \<Rightarrow> nat \<Rightarrow> nat \<Rightarrow> string" where
  "text_from cl n p = drop p (elided cl ! n) @ concat (drop (n + 1) (elided cl))"

definition text_between :: "cleansed_lines \<Rightarrow> nat \<Rightarrow> nat \<Rightarrow> nat \<Rightarrow> nat \<Rightarrow> string" where
  "text_between cl n p n' p' =
     (if n = n' then take (p' - p) (drop p (elided cl ! n))
      else drop p (elided cl ! n) @ concat (take (n' - (n + 1)) (drop (n + 1) (elided cl)))
           @ take p' (elided cl ! n'))"

definition cl_ok :: "cleansed_lines \<Rightarrow> bool" where
  "cl_ok cl \<longleftrightarrow> length (elided cl) = NumLines cl"

text \<open>The result the loop over the following lines returns for a result of \<open>lscan\<close>.\<close>

definition closed_at :: "cleansed_lines \<Rightarrow> nat \<Rightarrow> (nat \<times> nat) option \<Rightarrow> (string \<times> nat \<times> int) py \<Rightarrow> bool" where
  "closed_at cl n v r \<longleftrightarrow>
     (case v of None \<Rightarrow> (\<exists>l. r = Inr (l, NumLines cl, -1))
              | Some (j, k) \<Rightarrow> r = Inr (elided cl ! (n + j), n + j, int k))"

lemma close_lines_None [simp]: "close_lines cl l n None = Inr (l, NumLines cl, -1)"
  by (simp add: close_lines.simps)

lemma close_lines_lscan:
  assumes "cl_ok cl" and "grounded (CHR ''<'') st"
  shows "closed_at cl (n + 1)
    (lscan fopener fpartner (no_angles (CHR ''<'') st) (drop (n + 1) (elided cl)))
    (close_lines cl line n (Some st))"
  using assms
proof (induction "NumLines cl - n" arbitrary: n st line)
  case 0
  then show ?case by (simp add: closed_at_def close_lines.simps cl_ok_def)
next
  case (Suc d)
  show ?case
  proof (cases "n + 1 < NumLines cl")
    case False
    with Suc show ?thesis by (simp add: closed_at_def close_lines.simps cl_ok_def)
  next
    case True
    let ?l = "elided cl ! (n + 1)" and ?ls = "drop (n + 1 + 1) (elided cl)"
    have len: "n + 1 < length (elided cl)" using True Suc.prems(1) by (simp add: cl_ok_def)
    obtain p stk where f: "FindEndOfExpressionInLine ?l 0 st = (p, stk)" by fastforce
    have loop: "close_lines cl line n (Some st) =
        (if p > -1 then Inr (?l, n + 1, p) else close_lines cl ?l (n + 1) stk)"
      using True Suc.prems(2) f py_nth_of_nat [OF len] by (subst close_lines.simps) (simp add: grounded_def)
    have tail: "drop (n + 1) (elided cl) = ?l # ?ls" using Cons_nth_drop_Suc [OF len] by simp
    have IH: "closed_at cl (n + 1 + 1) (lscan fopener fpartner (no_angles (CHR ''<'') st') ?ls)
        (close_lines cl ?l (n + 1) (Some st'))" if "grounded (CHR ''<'') st'" for st'
      using Suc.hyps(1) [of "n + 1" st' ?l] Suc.hyps(2) Suc.prems(1) that by simp
    note ref = FindEnd_refines [OF Suc.prems(2), where line = ?l and i = 0, unfolded f]
    show ?thesis
    proof (cases stk)
      case None
      with ref show ?thesis unfolding loop tail lscan.simps by (auto simp: closed_at_def)
    next
      case (Some st')
      with ref IH [of st'] show ?thesis unfolding loop tail lscan.simps
        by (auto simp: closed_at_def split: option.splits)
    qed
  qed
qed


lemma end_step_push:
  "fopener (line ! i) \<Longrightarrow> end_step line i st = Go (line ! i # st)"
  by (simp add: end_step_def fopener_def Let_def)

lemma CloseExpression_first_line:
  assumes "n < length (elided cl)" and "p < length (elided cl ! n)" and "fopener (elided cl ! n ! p)"
  shows "CloseExpression cl n p =
    (let (end_pos, stack) = FindEndOfExpressionInLine (elided cl ! n) (p + 1) [elided cl ! n ! p]
     in if end_pos > -1 then Inr (elided cl ! n, n, end_pos) else close_lines cl (elided cl ! n) n stack)"
proof -
  let ?l = "elided cl ! n" and ?a = "elided cl ! n ! p"
  have a: "?a \<in> set ''({[<''" "?a \<noteq> CHR ''<''" using assms(3) by (auto simp: fopener_def)
  have "re_match re_lt_op (drop p ?l) = None"
    using a(2) assms(2) by (simp add: re_match_def match_at_def re_lt_op_def Cons_nth_drop_Suc [symmetric])
  moreover have "FindEndOfExpressionInLine ?l p [] = FindEndOfExpressionInLine ?l (p + 1) [?a]"
    using assms(2,3) by (subst FindEndOfExpressionInLine.simps) (simp add: end_step_push)
  ultimately show ?thesis using assms(1,2) a(1) by (auto simp: CloseExpression_def)
qed

text \<open>A result of \<open>lscan\<close> as a position in the file, the first line being read from \<open>p\<close>.\<close>

fun file_pos :: "nat \<Rightarrow> nat \<Rightarrow> nat \<times> nat \<Rightarrow> nat \<times> nat" where
  "file_pos n p (0, k) = (n, p + k)"
| "file_pos n p (Suc j, k) = (n + 1 + j, k)"

definition file_lines :: "cleansed_lines \<Rightarrow> nat \<Rightarrow> nat \<Rightarrow> string list" where
  "file_lines cl n p = drop p (elided cl ! n) # drop (n + 1) (elided cl)"

lemma text_from_lines: "text_from cl n p = concat (file_lines cl n p)"
  by (simp add: text_from_def file_lines_def)

lemma CloseExpression_lscan:
  assumes "cl_ok cl" and "n < NumLines cl" and "p < length (elided cl ! n)"
    and "fopener (elided cl ! n ! p)"
  shows "case lscan fopener fpartner [] (file_lines cl n p) of
      None \<Rightarrow> \<exists>l. CloseExpression cl n p = Inr (l, NumLines cl, -1)
    | Some v \<Rightarrow> (let (n', p') = file_pos n p v in CloseExpression cl n p = Inr (elided cl ! n', n', int p'))"
proof -
  let ?l = "elided cl ! n" and ?a = "elided cl ! n ! p"
  have n: "n < length (elided cl)" using assms(1,2) by (simp add: cl_ok_def)
  have g: "grounded (CHR ''<'') [?a]" "no_angles (CHR ''<'') [?a] = [?a]"
    using assms(4) by (auto simp: grounded_def fopener_def no_angles_def)
  obtain q stk where f: "FindEndOfExpressionInLine ?l (p + 1) [?a] = (q, stk)" by fastforce
  have scan: "bscan fopener fpartner [] (drop p ?l) = later 1 (bscan fopener fpartner [?a] (drop (p + 1) ?l))"
    using assms(3,4) by (simp add: Cons_nth_drop_Suc [symmetric])
  have ce: "CloseExpression cl n p = (if q > -1 then Inr (?l, n, q) else close_lines cl ?l n stk)"
    using CloseExpression_first_line [OF n assms(3,4)] f by simp
  note ref = FindEnd_refines [OF g(1), where line = ?l and i = "p + 1", unfolded f g(2)]
  show ?thesis
  proof (cases stk)
    case None
    with ref show ?thesis unfolding ce file_lines_def lscan.simps scan by auto
  next
    case (Some st')
    with ref close_lines_lscan [OF assms(1), of st' n ?l] show ?thesis
      unfolding ce file_lines_def lscan.simps scan
      by (auto simp: closed_at_def split: option.splits)
  qed
qed

lemma text_between_file_pos:
  assumes "j < length (file_lines cl n p)" and "k \<le> length (file_lines cl n p ! j)" and "(n', p') = file_pos n p (j, k)"
  shows "text_between cl n p n' p' = take (length (concat (take j (file_lines cl n p))) + k) (text_from cl n p)"
proof (cases j)
  case 0
  then show ?thesis using assms by (simp add: file_lines_def text_between_def text_from_def)
next
  case (Suc i)
  let ?rest = "drop (n + 1) (elided cl)"
  have i: "i < length ?rest" using assms(1) Suc by (simp add: file_lines_def)
  then have "concat ?rest = concat (take i ?rest) @ ?rest ! i @ concat (drop (Suc i) ?rest)"
    using arg_cong [OF id_take_nth_drop [OF i], of concat] by simp
  moreover have "?rest ! i = elided cl ! (n + 1 + i)" using i by simp
  ultimately show ?thesis using assms Suc by (simp add: file_lines_def text_between_def text_from_def)
qed

lemma text_from_Cons:
  "p < length (elided cl ! n) \<Longrightarrow> text_from cl n p =
     elided cl ! n ! p # drop (p + 1) (elided cl ! n) @ concat (drop (n + 1) (elided cl))"
  by (simp add: text_from_def Cons_nth_drop_Suc)

lemma CloseExpression_found:
  assumes "cl_ok cl" and "n < NumLines cl" and "p < length (elided cl ! n)"
    and "fopener (elided cl ! n ! p)" and "lscan fopener fpartner [] (file_lines cl n p) = Some v"
    and "file_pos n p v = (n', p')"
  shows "CloseExpression cl n p = Inr (elided cl ! n', n', int p')
    \<and> n \<le> n' \<and> n' < NumLines cl \<and> 0 < p' \<and> p' \<le> length (elided cl ! n') \<and> (n = n' \<longrightarrow> p < p')
    \<and> expression fopener fpartner (text_between cl n p n' p')"
proof -
  let ?ls = "file_lines cl n p"
  obtain j k where v: "v = (j, k)" by (cases v)
  note l = fwd.lscan_Some [OF assms(5) [unfolded v]]
  then have sc: "bscan fopener fpartner [] (text_from cl n p) = Closed (length (concat (take j ?ls)) + k)"
    by (simp add: text_from_lines)
  have "text_between cl n p n' p' = take (length (concat (take j ?ls)) + k) (text_from cl n p)"
    using text_between_file_pos [of j cl n p k n' p'] l v assms(6) by simp
  with sc have "expression fopener fpartner (text_between cl n p n' p')"
    using fwd.bscan_expression_iff [OF assms(4)] text_from_Cons [OF assms(3)] by metis
  moreover have "n \<le> n' \<and> n' < NumLines cl \<and> 0 < p' \<and> p' \<le> length (elided cl ! n') \<and> (n = n' \<longrightarrow> p < p')"
    using v l assms(1,2,3,6) by (cases j) (auto simp: file_lines_def cl_ok_def)
  ultimately show ?thesis using CloseExpression_lscan [OF assms(1-4)] assms(5,6) by simp
qed

lemma CloseExpression_not_found:
  assumes "cl_ok cl" and "n < NumLines cl" and "p < length (elided cl ! n)"
    and "fopener (elided cl ! n ! p)" and "lscan fopener fpartner [] (file_lines cl n p) = None"
  shows "(\<exists>l. CloseExpression cl n p = Inr (l, NumLines cl, -1))
    \<and> (\<forall>k. \<not> expression fopener fpartner (take k (text_from cl n p)))"
proof -
  have "\<not> expression fopener fpartner (take k (text_from cl n p))" for k
    using fwd.bscan_no_expression [OF assms(4)] text_from_Cons [OF assms(3)] assms(5)
    unfolding fwd.lscan_None_iff text_from_lines by metis
  then show ?thesis using CloseExpression_lscan [OF assms(1-4)] assms(5) by simp
qed

text \<open>C14.
  \<open>CloseExpression\<close> at a parenthesis, bracket or brace returns, and decides correctly:
  either it returns the position just past the closing partner, in the file and after the
  start, and the text in between is a well-nested expression, or it returns
  \<open>(_, NumLines, -1)\<close> and no prefix of the remaining text is one.  Angle brackets,
  operators and semicolons in the text make no difference.\<close>

theorem CloseExpression_correct:
  assumes "cl_ok cl" and "n < NumLines cl" and "p < length (elided cl ! n)"
    and "fopener (elided cl ! n ! p)"
  shows "\<exists>line n' p'. CloseExpression cl n p = Inr (line, n', p') \<and>
    (if p' \<ge> 0
     then n \<le> n' \<and> n' < NumLines cl \<and> line = elided cl ! n' \<and> 0 < p' \<and> p' \<le> int (length line)
          \<and> expression fopener fpartner (text_between cl n p n' (nat p'))
     else p' = -1 \<and> n' = NumLines cl
          \<and> (\<forall>k. \<not> expression fopener fpartner (take k (text_from cl n p))))"
proof (cases "lscan fopener fpartner [] (file_lines cl n p)")
  case None
  from CloseExpression_not_found [OF assms None] obtain l where
    "CloseExpression cl n p = Inr (l, NumLines cl, -1)"
    "\<forall>k. \<not> expression fopener fpartner (take k (text_from cl n p))" by blast
  then show ?thesis by (intro exI [of _ l] exI [of _ "NumLines cl"] exI [of _ "-1"]) simp
next
  case (Some v)
  obtain n' p' where "file_pos n p v = (n', p')" by fastforce
  from CloseExpression_found [OF assms Some this] show ?thesis by auto
qed

theorem CloseExpression_correct_witness:
  "\<exists>line n' p'. CloseExpression \<lparr>elided = [''f(a<b, [c'', ''])''], lines = [], raw_lines = [],
      num_lines = 2, lines_without_raw_strings = []\<rparr> 0 1 = Inr (line, n', p') \<and> n' \<le> 2"
proof -
  let ?cl = "\<lparr>elided = [''f(a<b, [c'', ''])''], lines = [], raw_lines = [],
      num_lines = 2, lines_without_raw_strings = []\<rparr>"
  have "cl_ok ?cl" "0 < NumLines ?cl" "1 < length (elided ?cl ! 0)" "fopener (elided ?cl ! 0 ! 1)"
    by (simp_all add: cl_ok_def NumLines_def fopener_def)
  from CloseExpression_correct [OF this] show ?thesis by (auto simp: NumLines_def split: if_splits)
qed

end
