(* ===== verification/Brackets_Back.thy ===== *)
theory Brackets_Back
  imports Brackets_Laws
begin

text \<open>
  The backward scan \<open>ReverseCloseExpression\<close> reads the file from right to left.  It
  implements the same automaton with the roles of the brackets exchanged, and it is the
  inverse of \<open>CloseExpression\<close>.
\<close>

section \<open>The backward direction\<close>

text \<open>The character that the scan skips together with \<open>>\<close> is never a bracket.\<close>

definition plain_char :: "char \<Rightarrow> bool" where
  "plain_char c \<longleftrightarrow> c \<notin> set ''([{)]}''"

lemma plain_isspace: "isspace c \<Longrightarrow> plain_char c"
  by (auto simp: plain_char_def isspace_def)

lemma operator_before_last:
  assumes "operator_before s"
  shows "s \<noteq> [] \<and> plain_char (last s)"
proof -
  from assms obtain m where "search_from re_operator_end [] s = Some m"
    by (auto simp: operator_before_def re_search_def)
  from search_from_SomeD [OF this] obtain a b where ab: "s = a @ b" "match_at re_operator_end (rev a) b = Some m"
    by auto
  from match_at_SomeD [OF ab(2)] obtain b' where
    rm: "rm (Seqs [Wordb, Str ''operator'', Star Spc, Eol]) (rev a, b, []) (rev (m_text m) @ rev a, b', m_caps m)"
    unfolding re_operator_end_def by blast
  from rm_Seqs_segments [OF rm] obtain w where w: "b = ''operator'' @ w @ b'" "\<forall>x \<in> set w. isspace x"
    by (auto simp: seg_oks elim!: seg_ConsE dest!: seg_ok_Wordb)
  have b': "\<forall>x \<in> set b'. isspace x" using rm_Seqs_Eol [OF rm] by (auto simp: newline_def isspace_def)
  have "plain_char (last (''operator'' @ w @ b'))"
  proof (cases "w @ b' = []")
    case True
    then show ?thesis by (simp add: plain_char_def)
  next
    case False
    then have "last (''operator'' @ w @ b') \<in> set (w @ b')" by (metis last_appendR last_in_set)
    with w b' show ?thesis by (auto intro: plain_isspace)
  qed
  with ab w show ?thesis by simp
qed

lemma plain_before:
  assumes "0 < i" and "i < length line"
    and "re_match re_ge_spaced (drop (i - 1) line) \<noteq> None \<or> operator_before (take i line)"
  shows "plain_char (line ! (i - 1))"
  using assms(3)
proof
  assume "re_match re_ge_spaced (drop (i - 1) line) \<noteq> None"
  then obtain m where m: "re_match re_ge_spaced (drop (i - 1) line) = Some m" by blast
  obtain x t where "drop (i - 1) line = x # t" "isspace x"
    by (rule re_match_segsE [OF m re_ge_spaced_def], simp) (elim seg_ConsE, auto simp: seg_oks)
  moreover have "drop (i - 1) line = line ! (i - 1) # drop i line"
    using assms(1,2) Cons_nth_drop_Suc [of "i - 1" line] by simp
  ultimately show ?thesis by (simp add: plain_isspace)
next
  assume "operator_before (take i line)"
  moreover have "last (take i line) = line ! (i - 1)"
    using assms(1,2) by (subst last_conv_nth) (auto simp: min_def)
  ultimately show ?thesis using operator_before_last [of "take i line"] by simp
qed

lemma start_step_refines:
  assumes "grounded (CHR ''>'') st" and "i < length line"
  shows "case start_step line i st of
      BReturn p \<Rightarrow> (p = -1 \<and> rscan st (line ! i # s) = Mismatch)
                  \<or> (p = int i \<and> rscan st (line ! i # s) = Closed 1)
    | BGo k st' \<Rightarrow> grounded (CHR ''>'') st' \<and>
        (k = 1 \<and> rscan st (line ! i # s) = later 1 (rscan st' s)
         \<or> k = 2 \<and> 0 < i \<and> rscan st (line ! i # line ! (i - 1) # s) = later 2 (rscan st' s))"
proof -
  from pop_angles_grounded [OF assms(1)] obtain t ts where
    pop: "pop_angles (CHR ''>'') st = t # ts" "t \<noteq> CHR ''>''"
      "no_angles (CHR ''>'') st = t # no_angles (CHR ''>'') ts" "ts = [] \<or> grounded (CHR ''>'') ts"
    by blast
  obtain h hs where st: "st = h # hs" using assms by (cases st) (simp_all add: grounded_def)
  have angle: "hs \<noteq> [] \<and> grounded (CHR ''>'') hs" if "h = CHR ''>''"
    using assms st that by (auto simp: grounded_def split: if_splits)
  have ts: "no_angles (CHR ''>'') ts = [] \<longleftrightarrow> ts = []" using pop(4) grounded_no_angles by auto
  have neutral: ?thesis
    if "\<not> ropener (line ! i)" "rpartner (line ! i) = None"
      "\<exists>st'. start_step line i st = BGo 1 st' \<and> grounded (CHR ''>'') st' \<and> no_angles (CHR ''>'') st' = no_angles (CHR ''>'') st"
    using that by auto
  have skip: ?thesis
    if "\<not> ropener (line ! i)" "rpartner (line ! i) = None" "\<not> ropener (line ! (i - 1))"
      "rpartner (line ! (i - 1)) = None" "0 < i" "start_step line i st = BGo 2 st"
    using that assms by (auto simp: numeral_2_eq_2)
  consider (op) "ropener (line ! i)" | (gt) "line ! i = CHR ''>''" | (cl) "line ! i \<in> set ''([{''"
    | (lt) "line ! i = CHR ''<''" | (semi) "line ! i = CHR '';''"
    | (other) "line ! i \<notin> set ''([{<)]}>;''" by (auto simp: ropener_def)
  then show ?thesis
  proof cases
    case op
    then have "start_step line i st = BGo 1 (line ! i # st)" by (simp add: start_step_def ropener_def Let_def)
    moreover have "line ! i \<noteq> CHR ''>''" using op by (auto simp: ropener_def)
    ultimately show ?thesis using assms op by simp
  next
    case gt
    show ?thesis
    proof (cases "0 < i \<and> (line ! (i - 1) = CHR ''-'' \<or> re_match re_ge_spaced (drop (i - 1) line) \<noteq> None
                    \<or> operator_before (take i line))")
      case True
      then have "plain_char (line ! (i - 1))" using plain_before assms(2) by (auto simp: plain_char_def)
      with True gt show ?thesis
        by (intro skip) (auto simp: ropener_def rpartner_def start_step_def Let_def plain_char_def)
    next
      case False
      with gt show ?thesis using assms(1)
        by (intro neutral) (auto simp: ropener_def rpartner_def start_step_def Let_def)
    qed
  next
    case cl
    then have "\<not> ropener (line ! i)" "line ! i \<noteq> CHR ''>''" by (auto simp: ropener_def)
    with cl show ?thesis using pop ts
      by (auto simp: start_step_def rpartner_def ropener_def)
  next
    case lt
    show ?thesis
    proof (cases "0 < i \<and> line ! (i - 1) = CHR ''<''")
      case True
      with lt show ?thesis
        by (intro skip) (auto simp: ropener_def rpartner_def start_step_def Let_def)
    next
      case False
      with lt show ?thesis using assms st angle
        by (intro neutral) (auto simp: ropener_def rpartner_def start_step_def Let_def)
    qed
  next
    case semi
    have "grounded (CHR ''>'') (t # ts)" using pop(2,4) by (auto simp: grounded_def)
    with semi show ?thesis using pop
      by (intro neutral) (auto simp: ropener_def rpartner_def start_step_def Let_def)
  next
    case other
    then show ?thesis using assms
      by (intro neutral) (auto simp: ropener_def rpartner_def start_step_def Let_def)
  qed
qed


text \<open>The text left of and including an index, in reading order of the backward scan.\<close>

definition before :: "string \<Rightarrow> int \<Rightarrow> string" where
  "before line i = rev (take (nat (i + 1)) line)"

lemma before_step: "0 \<le> i \<Longrightarrow> i < int (length line) \<Longrightarrow> before line i = line ! nat i # before line (i - 1)"
  by (simp add: before_def nat_add_distrib take_Suc_conv_app_nth)

lemma FindStart_refines:
  assumes "grounded (CHR ''>'') st" and "-1 \<le> i" and "i < int (length line)"
  shows "case FindStartOfExpressionInLine line i st of
      Inl _ \<Rightarrow> False
    | Inr (p, None) \<Rightarrow> (p = -1 \<and> rscan st (before line i) = Mismatch)
                   \<or> (\<exists>k. p = i + 1 - int k \<and> rscan st (before line i) = Closed k)
    | Inr (p, Some st') \<Rightarrow> p = -1 \<and> grounded (CHR ''>'') st'
                      \<and> rscan st (before line i) = Pending (no_angles (CHR ''>'') st')"
  using assms
proof (induction line i st rule: FindStartOfExpressionInLine.induct)
  case (1 line i st)
  note step = FindStartOfExpressionInLine.simps [of line i st]
  show ?case
  proof (cases "0 \<le> i")
    case False
    then show ?thesis using step 1 by (simp add: before_def)
  next
    case True
    let ?b = "before line (i - 1)"
    have d: "before line i = line ! nat i # ?b" using True 1 by (simp add: before_step)
    have d2: "?b = line ! (nat i - 1) # before line (i - 2)" if "0 < nat i"
      using before_step [of "i - 1" line] that 1 by (simp add: nat_diff_distrib)
    have i: "nat i < length line" using 1 True by simp
    show ?thesis
    proof (cases "start_step line (nat i) st")
      case (BReturn p)
      with start_step_refines [OF 1(2) i, of ?b] step True 1(4) d show ?thesis by auto
    next
      case (BGo k st')
      with start_step_refines [OF 1(2) i, of ?b] start_step_refines [OF 1(2) i, of "before line (i - 2)"]
      have g: "grounded (CHR ''>'') st'" and k: "k = 1 \<or> k = 2 \<and> 0 < nat i"
        and sc: "rscan st (before line i) = later k (rscan st' (before line (i - int k)))"
        using d d2 by (auto simp del: bscan.simps)
      have "case FindStartOfExpressionInLine line (i - int k) st' of
          Inl _ \<Rightarrow> False
        | Inr (p, None) \<Rightarrow> (p = -1 \<and> rscan st' (before line (i - int k)) = Mismatch)
                   \<or> (\<exists>j. p = i - int k + 1 - int j \<and> rscan st' (before line (i - int k)) = Closed j)
        | Inr (p, Some st'') \<Rightarrow> p = -1 \<and> grounded (CHR ''>'') st''
                      \<and> rscan st' (before line (i - int k)) = Pending (no_angles (CHR ''>'') st'')"
        using 1(1) [OF True _ BGo g] 1(4) k True by auto
      then show ?thesis using step True 1(4) BGo sc
        by (auto split: sum.splits prod.splits option.splits)
    qed
  qed
qed


definition opened_at :: "cleansed_lines \<Rightarrow> nat \<Rightarrow> (nat \<times> nat) option \<Rightarrow> (string \<times> nat \<times> int) py \<Rightarrow> bool" where
  "opened_at cl n v r \<longleftrightarrow>
     (case v of None \<Rightarrow> (\<exists>l. r = Inr (l, 0, -1))
              | Some (j, k) \<Rightarrow> (let m = n - 1 - j; l = elided cl ! m in r = Inr (l, m, int (length l) - int k)))"

lemma open_lines_None [simp]: "open_lines cl l n None = Inr (l, 0, -1)"
  by (simp add: open_lines.simps)

lemma open_lines_lscan:
  assumes "n \<le> length (elided cl)" and "grounded (CHR ''>'') st"
  shows "opened_at cl n
    (lscan ropener rpartner (no_angles (CHR ''>'') st) (map rev (rev (take n (elided cl)))))
    (open_lines cl line n (Some st))"
  using assms
proof (induction n arbitrary: st line)
  case 0
  then show ?case by (simp add: opened_at_def open_lines.simps)
next
  case (Suc n)
  let ?l = "elided cl ! n" and ?ls = "map rev (rev (take n (elided cl)))"
  have n: "n < length (elided cl)" using Suc.prems(1) by simp
  have tail: "map rev (rev (take (Suc n) (elided cl))) = before ?l (int (length ?l) - 1) # ?ls"
    using n by (simp add: take_Suc_conv_app_nth before_def)
  note ref = FindStart_refines [OF Suc.prems(2), where line = ?l and i = "int (length ?l) - 1"]
  then obtain p stk where f: "FindStartOfExpressionInLine ?l (int (length ?l) - 1) st = Inr (p, stk)"
    by (cases "FindStartOfExpressionInLine ?l (int (length ?l) - 1) st") auto
  have loop: "open_lines cl line (Suc n) (Some st) =
      (if p > -1 then Inr (?l, n, p) else open_lines cl ?l n stk)"
    using Suc.prems(2) f py_nth_of_nat [OF n] by (subst open_lines.simps) (simp add: grounded_def)
  show ?case
  proof (cases stk)
    case None
    with ref f consider "p = -1" "rscan st (before ?l (int (length ?l) - 1)) = Mismatch"
      | k where "p = int (length ?l) - int k" "rscan st (before ?l (int (length ?l) - 1)) = Closed k" by auto
    then show ?thesis
    proof cases
      case 1
      with None show ?thesis unfolding loop tail lscan.simps by (auto simp: opened_at_def)
    next
      case 2
      with bwd.bscan_closed_le [OF 2(2)] have "p > -1" by (auto simp: before_def)
      with 2 show ?thesis unfolding loop tail lscan.simps by (auto simp: opened_at_def)
    qed
  next
    case (Some st')
    with ref f Suc.IH [of st' ?l] n show ?thesis unfolding loop tail lscan.simps
      by (auto simp: opened_at_def Let_def split: option.splits)
  qed
qed

section \<open>Well-nested text read backward\<close>

context bracket_language
begin

lemma balanced_append:
  "balanced opener partner u \<Longrightarrow> balanced opener partner v \<Longrightarrow> balanced opener partner (u @ v)"
proof (induction rule: balanced.induct)
  case (bal_pair a b w v')
  then show ?case using balanced.bal_pair [of opener a partner b w "v' @ v"] by simp
qed (auto intro: balanced.intros)

end

lemma mirror_brackets:
  "fopener a \<Longrightarrow> fpartner b = Some a \<Longrightarrow> ropener b \<and> rpartner a = Some b"
  "ropener a \<Longrightarrow> rpartner b = Some a \<Longrightarrow> fopener b \<and> fpartner a = Some b"
  "\<not> fopener c \<and> fpartner c = None \<longleftrightarrow> \<not> ropener c \<and> rpartner c = None"
  by (auto simp: fopener_def fpartner_def ropener_def rpartner_def split: if_splits)

lemma balanced_rev_fwd: "balanced fopener fpartner w \<Longrightarrow> balanced ropener rpartner (rev w)"
proof (induction rule: balanced.induct)
  case (bal_other c w)
  then have "balanced ropener rpartner [c]" using mirror_brackets(3) by (auto intro: balanced.intros)
  with bal_other bwd.balanced_append show ?case by auto
next
  case (bal_pair a b w v)
  then have "balanced ropener rpartner (b # rev w @ [a])"
    using mirror_brackets(1) balanced.bal_pair [of ropener b rpartner a "rev w" "[]"] bal_Nil by auto
  with bal_pair bwd.balanced_append [of "rev v" "b # rev w @ [a]"] show ?case by simp
qed (simp add: bal_Nil)

lemma balanced_rev_bwd: "balanced ropener rpartner w \<Longrightarrow> balanced fopener fpartner (rev w)"
proof (induction rule: balanced.induct)
  case (bal_other c w)
  then have "balanced fopener fpartner [c]" using mirror_brackets(3) by (auto intro: balanced.intros)
  with bal_other fwd.balanced_append show ?case by auto
next
  case (bal_pair a b w v)
  then have "balanced fopener fpartner (b # rev w @ [a])"
    using mirror_brackets(2) balanced.bal_pair [of fopener b fpartner a "rev w" "[]"] bal_Nil by auto
  with bal_pair fwd.balanced_append [of "rev v" "b # rev w @ [a]"] show ?case by simp
qed (simp add: bal_Nil)

lemma expression_rev: "expression fopener fpartner (rev u) \<longleftrightarrow> expression ropener rpartner u"
proof
  assume "expression fopener fpartner (rev u)"
  then obtain a w b where u: "rev u = a # w @ [b]" "fopener a" "fpartner b = Some a"
    "balanced fopener fpartner w" by (auto simp: expression_def)
  from u(1) have "u = b # rev w @ [a]" by (simp add: rev_swap)
  with u mirror_brackets(1) balanced_rev_fwd show "expression ropener rpartner u"
    by (auto simp: expression_def)
next
  assume "expression ropener rpartner u"
  then obtain a w b where "u = a # w @ [b]" "ropener a" "rpartner b = Some a"
    "balanced ropener rpartner w" by (auto simp: expression_def)
  with mirror_brackets(2) balanced_rev_bwd show "expression fopener fpartner (rev u)"
    by (auto simp: expression_def)
qed

section \<open>ReverseCloseExpression\<close>

definition back_lines :: "cleansed_lines \<Rightarrow> nat \<Rightarrow> nat \<Rightarrow> string list" where
  "back_lines cl n p = before (elided cl ! n) (int p) # map rev (rev (take n (elided cl)))"

text \<open>The text up to and including a position, the last character first.\<close>

definition text_before :: "cleansed_lines \<Rightarrow> nat \<Rightarrow> nat \<Rightarrow> string" where
  "text_before cl n p = concat (back_lines cl n p)"

fun back_pos :: "cleansed_lines \<Rightarrow> nat \<Rightarrow> nat \<Rightarrow> nat \<times> nat \<Rightarrow> nat \<times> nat" where
  "back_pos cl n p (0, k) = (n, p + 1 - k)"
| "back_pos cl n p (Suc j, k) = (n - 1 - j, length (elided cl ! (n - 1 - j)) - k)"

lemma start_step_push:
  "ropener (line ! i) \<Longrightarrow> start_step line i st = BGo 1 (line ! i # st)"
  by (simp add: start_step_def ropener_def Let_def)

lemma ReverseClose_first_line:
  assumes "n < length (elided cl)" and "p < length (elided cl ! n)" and "ropener (elided cl ! n ! p)"
  shows "ReverseCloseExpression cl n p =
    py_bind (FindStartOfExpressionInLine (elided cl ! n) (int p - 1) [elided cl ! n ! p])
      (\<lambda>(start_pos, stack). if start_pos > -1 then Inr (elided cl ! n, n, start_pos)
         else open_lines cl (elided cl ! n) n stack)"
proof -
  let ?l = "elided cl ! n" and ?a = "elided cl ! n ! p"
  have a: "?a \<in> set '')}]>''" using assms(3) by (auto simp: ropener_def)
  have "FindStartOfExpressionInLine ?l (int p) [] = FindStartOfExpressionInLine ?l (int p - 1) [?a]"
    using assms(2,3) by (subst FindStartOfExpressionInLine.simps) (simp add: start_step_push)
  then show ?thesis using assms(1,2) a by (auto simp: ReverseCloseExpression_def)
qed

lemma ReverseClose_lscan:
  assumes "n < length (elided cl)" and "p < length (elided cl ! n)" and "ropener (elided cl ! n ! p)"
  shows "case lscan ropener rpartner [] (back_lines cl n p) of
      None \<Rightarrow> \<exists>l. ReverseCloseExpression cl n p = Inr (l, 0, -1)
    | Some v \<Rightarrow> (let (n', p') = back_pos cl n p v
                in ReverseCloseExpression cl n p = Inr (elided cl ! n', n', int p'))"
proof -
  let ?l = "elided cl ! n" and ?a = "elided cl ! n ! p"
  have g: "grounded (CHR ''>'') [?a]" "no_angles (CHR ''>'') [?a] = [?a]"
    using assms(3) by (auto simp: grounded_def ropener_def no_angles_def)
  note ref = FindStart_refines [OF g(1), where line = ?l and i = "int p - 1", unfolded g(2)]
  then obtain q stk where f: "FindStartOfExpressionInLine ?l (int p - 1) [?a] = Inr (q, stk)"
    using assms(2) by (cases "FindStartOfExpressionInLine ?l (int p - 1) [?a]") auto
  have b: "before ?l (int p) = ?a # before ?l (int p - 1)" using assms(2) by (simp add: before_step)
  have scan: "bscan ropener rpartner [] (before ?l (int p)) =
      later 1 (bscan ropener rpartner [?a] (before ?l (int p - 1)))" using assms(3) by (simp add: b)
  have rc: "ReverseCloseExpression cl n p = (if q > -1 then Inr (?l, n, q) else open_lines cl ?l n stk)"
    using ReverseClose_first_line [OF assms] f by simp
  show ?thesis
  proof (cases stk)
    case None
    with ref f assms(2) consider
      "q = -1" "bscan ropener rpartner [?a] (before ?l (int p - 1)) = Mismatch"
      | k where "q = int p - int k" "bscan ropener rpartner [?a] (before ?l (int p - 1)) = Closed k" by auto
    then show ?thesis
    proof cases
      case 1
      with None show ?thesis unfolding rc back_lines_def lscan.simps scan by auto
    next
      case 2
      with bwd.bscan_closed_le [OF 2(2)] have "k \<le> p" by (auto simp: before_def)
      with 2 show ?thesis unfolding rc back_lines_def lscan.simps scan by (auto simp: of_nat_diff)
    qed
  next
    case (Some st')
    with ref f assms(2) have st': "q = -1" "grounded (CHR ''>'') st'"
      "bscan ropener rpartner [?a] (before ?l (int p - 1)) = Pending (no_angles (CHR ''>'') st')" by auto
    have le: "k \<le> length (elided cl ! (n - Suc j))"
      if "lscan ropener rpartner (no_angles (CHR ''>'') st') (map rev (rev (take n (elided cl)))) = Some (j, k)" for j k
      using bwd.lscan_Some [OF that] assms(1) by (auto simp: rev_nth)
    from Some st' open_lines_lscan [of n cl st' ?l] assms(1) show ?thesis
      unfolding rc back_lines_def lscan.simps scan
      by (auto simp: opened_at_def Let_def of_nat_diff dest: le split: option.splits)
  qed
qed


lemma rev_text_between:
  assumes "n < length (elided cl)" and "p < length (elided cl ! n)" and "j < length (back_lines cl n p)"
    and "k \<le> length (back_lines cl n p ! j)" and "back_pos cl n p (j, k) = (n', p')"
  shows "rev (text_between cl n' p' n (p + 1)) =
    take (length (concat (take j (back_lines cl n p))) + k) (text_before cl n p)"
proof (cases j)
  case 0
  have "rev (take k (drop (p + 1 - k) l)) = take k (rev (take (p + 1) l))" if "k \<le> p + 1" "p < length l" for l :: string
    using that by (simp add: take_rev take_drop)
  then show ?thesis using assms 0
    by (auto simp: back_lines_def text_before_def text_between_def before_def nat_add_distrib)
next
  case (Suc i)
  let ?el = "elided cl" and ?ls = "map rev (rev (take n (elided cl)))"
  have i: "i < n" using assms(1,3) Suc by (simp add: back_lines_def)
  have pos: "n' = n - 1 - i" "p' = length (?el ! n') - k" using assms(5) Suc by auto
  have ith: "?ls ! i = rev (?el ! n')" using i assms(1) pos(1) by (simp add: rev_nth)
  have k: "k \<le> length (?el ! n')" using assms(4) Suc ith by (simp add: back_lines_def)
  have mid: "concat (take i ?ls) = rev (concat (take (n - (n' + 1)) (drop (n' + 1) ?el)))"
    using i assms(1) pos(1) by (simp add: take_map take_rev rev_concat drop_take Suc_diff_Suc)
  have "concat ?ls = concat (take i ?ls) @ rev (?el ! n') @ concat (drop (Suc i) ?ls)"
    using arg_cong [OF id_take_nth_drop [of i ?ls], of concat] i assms(1) ith by simp
  then have "take (length (concat (take i ?ls)) + k) (concat ?ls) = concat (take i ?ls) @ rev (drop p' (?el ! n'))"
    using k pos(2) by (simp add: take_rev)
  moreover have "n' \<noteq> n" using pos(1) i by simp
  ultimately show ?thesis using Suc assms(2) mid
    by (simp add: back_lines_def text_before_def text_between_def before_def nat_add_distrib)
qed

lemma text_before_Cons:
  "p < length (elided cl ! n) \<Longrightarrow> text_before cl n p =
     elided cl ! n ! p # before (elided cl ! n) (int p - 1) @ concat (map rev (rev (take n (elided cl))))"
  by (simp add: text_before_def back_lines_def before_step)

lemma ReverseClose_found:
  assumes "n < length (elided cl)" and "p < length (elided cl ! n)" and "ropener (elided cl ! n ! p)"
    and "lscan ropener rpartner [] (back_lines cl n p) = Some v" and "back_pos cl n p v = (n', p')"
  shows "ReverseCloseExpression cl n p = Inr (elided cl ! n', n', int p') \<and> n' \<le> n
    \<and> p' < length (elided cl ! n') \<and> expression fopener fpartner (text_between cl n' p' n (p + 1))"
proof -
  let ?ls = "back_lines cl n p"
  obtain j k where v: "v = (j, k)" by (cases v)
  note l = bwd.lscan_Some [OF assms(4) [unfolded v]]
  have "rev (text_between cl n' p' n (p + 1)) = take (length (concat (take j ?ls)) + k) (text_before cl n p)"
    using rev_text_between [OF assms(1,2), of j k n' p'] l v assms(5) by simp
  with l have "expression ropener rpartner (rev (text_between cl n' p' n (p + 1)))"
    using bwd.bscan_expression_iff [OF assms(3)] text_before_Cons [OF assms(2)]
    unfolding text_before_def by metis
  then have "expression fopener fpartner (text_between cl n' p' n (p + 1))"
    using expression_rev [of "rev (text_between cl n' p' n (p + 1))"] by simp
  moreover have "n' \<le> n \<and> p' < length (elided cl ! n')"
    using v l assms by (cases j) (auto simp: back_lines_def before_def rev_nth)
  ultimately show ?thesis using ReverseClose_lscan [OF assms(1-3)] assms(4,5) by simp
qed

text \<open>C15.
  \<open>ReverseCloseExpression\<close> at a closing parenthesis, bracket or brace returns, and
  decides correctly: either it returns the position of the opening partner, and the text from
  there up to and including the start is a well-nested expression, or it returns
  \<open>(_, 0, -1)\<close> and no text that ends there is one.\<close>

theorem ReverseCloseExpression_correct:
  assumes "n < length (elided cl)" and "p < length (elided cl ! n)" and "ropener (elided cl ! n ! p)"
  shows "\<exists>line n' p'. ReverseCloseExpression cl n p = Inr (line, n', p') \<and>
    (if p' \<ge> 0
     then n' \<le> n \<and> line = elided cl ! n' \<and> p' < int (length line)
          \<and> expression fopener fpartner (text_between cl n' (nat p') n (p + 1))
     else p' = -1 \<and> n' = 0
          \<and> (\<forall>k. \<not> expression fopener fpartner (rev (take k (text_before cl n p)))))"
proof (cases "lscan ropener rpartner [] (back_lines cl n p)")
  case None
  then have "\<not> expression ropener rpartner (take k (text_before cl n p))" for k
    using bwd.bscan_no_expression [OF assms(3)] text_before_Cons [OF assms(2)]
    unfolding bwd.lscan_None_iff text_before_def by metis
  moreover from None ReverseClose_lscan [OF assms] obtain l where
    "ReverseCloseExpression cl n p = Inr (l, 0, -1)" by auto
  ultimately show ?thesis
    by (intro exI [of _ l] exI [of _ 0] exI [of _ "-1"]) (simp add: expression_rev)
next
  case (Some v)
  obtain n' p' where "back_pos cl n p v = (n', p')" by fastforce
  from ReverseClose_found [OF assms Some this] show ?thesis by auto
qed

theorem ReverseCloseExpression_correct_witness:
  "\<exists>line n' p'. ReverseCloseExpression \<lparr>elided = [''f(a->b, [c'', ''])''], lines = [], raw_lines = [],
      num_lines = 2, lines_without_raw_strings = []\<rparr> 1 1 = Inr (line, n', p') \<and> n' \<le> 1"
proof -
  let ?cl = "\<lparr>elided = [''f(a->b, [c'', ''])''], lines = [], raw_lines = [],
      num_lines = 2, lines_without_raw_strings = []\<rparr>"
  have "1 < length (elided ?cl)" "1 < length (elided ?cl ! 1)" "ropener (elided ?cl ! 1 ! 1)"
    by (simp_all add: ropener_def)
  from ReverseCloseExpression_correct [OF this] show ?thesis by (auto split: if_splits)
qed

section \<open>The two directions are inverse\<close>

lemma concat_position_unique:
  "length (concat (take j ls)) + k = length (concat (take j' ls)) + k' \<Longrightarrow>
     j < length ls \<Longrightarrow> j' < length ls \<Longrightarrow> 0 < k \<Longrightarrow> k \<le> length (ls ! j) \<Longrightarrow> 0 < k' \<Longrightarrow> k' \<le> length (ls ! j')
     \<Longrightarrow> j = j' \<and> k = k'"
proof (induction ls arbitrary: j j')
  case (Cons l ls)
  show ?case
  proof (cases j)
    case 0
    with Cons.prems show ?thesis by (cases j') auto
  next
    case (Suc i)
    note j = Suc
    show ?thesis
    proof (cases j')
      case 0
      with Cons.prems Suc show ?thesis by auto
    next
      case (Suc i')
      with Cons.prems j have "i = i' \<and> k = k'" by (intro Cons.IH) auto
      with Suc j show ?thesis by simp
    qed
  qed
qed simp

lemma concat_position_le:
  "j < length ls \<Longrightarrow> k \<le> length (ls ! j) \<Longrightarrow> length (concat (take j ls)) + k \<le> length (concat ls)"
proof (induction ls arbitrary: j)
  case (Cons l ls)
  then show ?case by (cases j) auto
qed simp

text \<open>Every position at or before a position is reached by \<open>back_pos\<close>.\<close>

lemma back_pos_surj:
  assumes "n' < length (elided cl)" and "q < length (elided cl ! n')" and "n \<le> n'"
    and "p < length (elided cl ! n)" and "n = n' \<longrightarrow> p \<le> q"
  shows "\<exists>j k. back_pos cl n' q (j, k) = (n, p) \<and> j < length (back_lines cl n' q) \<and> 0 < k
    \<and> k \<le> length (back_lines cl n' q ! j)"
proof (cases "n = n'")
  case True
  with assms show ?thesis
    by (intro exI [of _ 0] exI [of _ "q + 1 - p"]) (auto simp: back_lines_def before_def nat_add_distrib)
next
  case False
  with assms show ?thesis
    by (intro exI [of _ "Suc (n' - 1 - n)"] exI [of _ "length (elided cl ! n) - p"])
      (auto simp: back_lines_def rev_nth)
qed

lemma text_between_last:
  assumes "n \<le> n'" and "q < length (elided cl ! n')" and "n = n' \<longrightarrow> p \<le> q"
  shows "text_between cl n p n' (q + 1) \<noteq> [] \<and> last (text_between cl n p n' (q + 1)) = elided cl ! n' ! q"
proof (cases "n = n'")
  case True
  with assms have "take (q + 1 - p) (drop p (elided cl ! n)) = take (q - p) (drop p (elided cl ! n)) @ [elided cl ! n ! q]"
    by (simp add: Suc_diff_le take_Suc_conv_app_nth)
  with True show ?thesis by (simp add: text_between_def)
next
  case False
  with assms show ?thesis by (simp add: text_between_def take_Suc_conv_app_nth)
qed

text \<open>C16.
  Matching backward undoes matching forward: when \<open>CloseExpression\<close> finds the end of the
  expression that starts at a bracket, \<open>ReverseCloseExpression\<close> at the closing bracket
  returns the starting line and position.\<close>

theorem ReverseClose_inverts_Close:
  assumes "cl_ok cl" and "n < NumLines cl" and "p < length (elided cl ! n)"
    and "fopener (elided cl ! n ! p)" and "CloseExpression cl n p = Inr (line, n', p')" and "p' \<ge> 0"
  shows "ReverseCloseExpression cl n' (nat p' - 1) = Inr (elided cl ! n, n, int p)"
proof -
  from assms(5,6) CloseExpression_not_found [OF assms(1-4)] obtain v where
    v: "lscan fopener fpartner [] (file_lines cl n p) = Some v" by fastforce
  obtain m r where "file_pos n p v = (m, r)" by fastforce
  from CloseExpression_found [OF assms(1-4) v this] assms(5) have found: "m = n'" "int r = p'" "0 < r"
    "r \<le> length (elided cl ! n')" "n \<le> n'" "n' < NumLines cl" "n = n' \<longrightarrow> p < r"
    "expression fopener fpartner (text_between cl n p n' r)" by auto
  define q where "q = r - 1"
  then have r: "r = q + 1" using found(3) by simp
  then have q: "nat p' - 1 = q" "q < length (elided cl ! n')" "n \<le> n'" "n' < length (elided cl)"
    "n = n' \<longrightarrow> p \<le> q" "expression fopener fpartner (text_between cl n p n' (q + 1))"
    using found assms(1) by (auto simp: cl_ok_def)
  let ?u = "text_between cl n p n' (q + 1)" and ?ls = "back_lines cl n' q"
  obtain j k where jk: "back_pos cl n' q (j, k) = (n, p)" "j < length ?ls" "0 < k" "k \<le> length (?ls ! j)"
    using back_pos_surj [OF q(4,2,3) assms(3) q(5)] by blast
  have "ropener (elided cl ! n' ! q)"
    using q(6) text_between_last [OF q(3,2,5)] mirror_brackets(1) by (auto simp: expression_def)
  moreover define K where "K = length (concat (take j ?ls)) + k"
  have "expression ropener rpartner (take K (text_before cl n' q))"
    using rev_text_between [OF q(4,2) jk(2,4,1)] q(6) expression_rev [of "rev ?u"]
    unfolding K_def rev_rev_ident by metis
  moreover have "K \<le> length (text_before cl n' q)"
    using concat_position_le [OF jk(2,4)] by (simp add: K_def text_before_def)
  ultimately have "bscan ropener rpartner [] (text_before cl n' q) = Closed K"
    using bwd.bscan_expression_iff text_before_Cons [OF q(2)] by (metis length_Cons)
  then have "bscan ropener rpartner [] (concat ?ls) = Closed K" by (simp only: text_before_def)
  then obtain i h where l: "lscan ropener rpartner [] ?ls = Some (i, h)"
    using bwd.lscan_None_iff [of "[]" ?ls] by (metis option.exhaust prod.exhaust)
  from bwd.lscan_Some [OF l] \<open>bscan ropener rpartner [] (concat ?ls) = Closed K\<close> K_def
  have "(i, h) = (j, k)" using concat_position_unique [of i ?ls h j k] jk by auto
  with ReverseClose_found [OF q(4,2) \<open>ropener (elided cl ! n' ! q)\<close> l] jk(1) q(1) show ?thesis by auto
qed


theorem ReverseClose_inverts_Close_witness:
  "ReverseCloseExpression \<lparr>elided = [''f(a<b, [c'', ''])''], lines = [], raw_lines = [],
      num_lines = 2, lines_without_raw_strings = []\<rparr> 1 1 = Inr (''f(a<b, [c'', 0, 1)"
proof -
  let ?cl = "\<lparr>elided = [''f(a<b, [c'', ''])''], lines = [], raw_lines = [],
      num_lines = 2, lines_without_raw_strings = []\<rparr>"
  have pre: "cl_ok ?cl" "0 < NumLines ?cl" "1 < length (elided ?cl ! 0)" "fopener (elided ?cl ! 0 ! 1)"
    by (simp_all add: cl_ok_def NumLines_def fopener_def)
  have "CloseExpression ?cl 0 1 = Inr (''])'', 1, 2)" by code_simp
  from ReverseClose_inverts_Close [OF pre this] show ?thesis by simp
qed

end
