(* ===== verification/File_Info.thy ===== *)
theory File_Info
  imports Patterns Extensions
begin

text \<open>
  File names in \<open>cpplint.py\<close>: the functions of \<open>os.path\<close> the code uses, written
  out for POSIX paths, the class \<open>FileInfo\<close>, \<open>PathSplitToList\<close> and
  \<open>GetHeaderGuardCPPVariable\<close>.  The file system is the parameter \<open>exists\<close>
  (\<open>os.path.exists\<close>) and the working directory the parameter \<open>cwd\<close>.

  \<open>RepositoryName\<close> climbs the directory tree.  The climb to the top of a Subversion
  checkout does not stop at the root directory, so it is a \<open>partial_function\<close>: the
  value \<open>None\<close> stands for a run that does not return.
\<close>

section \<open>os.path\<close>

abbreviation slash :: char where "slash \<equiv> CHR ''/''"

definition rstrip_slash :: "string \<Rightarrow> string" where
  "rstrip_slash s = rev (dropWhile (\<lambda>c. c = slash) (rev s))"

definition path_tail :: "string \<Rightarrow> string" where
  "path_tail p = rev (takeWhile (\<lambda>c. c \<noteq> slash) (rev p))"

definition path_head :: "string \<Rightarrow> string" where
  "path_head p = rev (dropWhile (\<lambda>c. c \<noteq> slash) (rev p))"

definition path_dirname :: "string \<Rightarrow> string" where
  "path_dirname p =
     (let head = path_head p
      in if head \<noteq> [] \<and> \<not> (\<forall>c \<in> set head. c = slash) then rstrip_slash head else head)"

definition path_split :: "string \<Rightarrow> string \<times> string" where
  "path_split p = (path_dirname p, path_tail p)"

definition path_join :: "string \<Rightarrow> string \<Rightarrow> string" where
  "path_join a b =
     (if startswith b ''/'' then b
      else if a = [] \<or> endswith a ''/'' then a @ b
      else a @ ''/'' @ b)"

fun path_join_list :: "string list \<Rightarrow> string" where
  "path_join_list [] = []"
| "path_join_list (a # bs) = foldl path_join a bs"

fun norm_comps :: "bool \<Rightarrow> string list \<Rightarrow> string list \<Rightarrow> string list" where
  "norm_comps rooted [] acc = rev acc"
| "norm_comps rooted (c # cs) acc =
     (if c = [] \<or> c = ''.'' then norm_comps rooted cs acc
      else if c \<noteq> ''..'' \<or> (\<not> rooted \<and> acc = []) \<or> (acc \<noteq> [] \<and> hd acc = ''..'')
      then norm_comps rooted cs (c # acc)
      else norm_comps rooted cs (tl acc))"

definition path_normpath :: "string \<Rightarrow> string" where
  "path_normpath p =
     (if p = [] then ''.''
      else let slashes = (if \<not> startswith p ''/'' then []
                          else if startswith p ''//'' \<and> \<not> startswith p ''///'' then ''//'' else ''/'');
               q = slashes @ join ''/'' (norm_comps (slashes \<noteq> []) (split_on slash p) [])
           in if q = [] then ''.'' else q)"

definition path_abspath :: "string \<Rightarrow> string \<Rightarrow> string" where
  "path_abspath cwd p = path_normpath (if startswith p ''/'' then p else path_join cwd p)"

fun common_len :: "'a list \<Rightarrow> 'a list \<Rightarrow> nat" where
  "common_len (x # xs) (y # ys) = (if x = y then Suc (common_len xs ys) else 0)"
| "common_len _ _ = 0"

definition path_relpath :: "string \<Rightarrow> string \<Rightarrow> string \<Rightarrow> string" where
  "path_relpath cwd p start =
     (let start_list = filter (\<lambda>x. x \<noteq> []) (split_on slash (path_abspath cwd start));
          path_list = filter (\<lambda>x. x \<noteq> []) (split_on slash (path_abspath cwd p));
          i = common_len start_list path_list;
          rel_list = replicate (length start_list - i) ''..'' @ drop i path_list
      in if rel_list = [] then ''.'' else path_join_list rel_list)"

text \<open>\<open>splitext\<close>: the last dot of the last component, unless only dots precede it there.\<close>

definition path_splitext :: "string \<Rightarrow> string \<times> string" where
  "path_splitext p =
     (let base = path_tail p; ext = rev (takeWhile (\<lambda>c. c \<noteq> CHR ''.'') (rev base));
          stem = take (length base - length ext - 1) base
      in if CHR ''.'' \<in> set base \<and> (\<exists>c \<in> set stem. c \<noteq> CHR ''.'')
         then (take (length p - length ext - 1) p, ''.'' @ ext)
         else (p, []))"

lemma length_path_dirname: "length (path_dirname p) \<le> length p"
proof -
  have "length (path_head p) \<le> length p"
    by (metis path_head_def length_dropWhile_le length_rev)
  moreover have "length (rstrip_slash s) \<le> length s" for s
    by (metis rstrip_slash_def length_dropWhile_le length_rev)
  ultimately show ?thesis unfolding path_dirname_def Let_def by (auto intro: order_trans)
qed

lemma path_dirname_prefix: "\<exists>t. p = path_dirname p @ t"
proof -
  have suf: "\<exists>t. s = rev (dropWhile Q (rev s)) @ t" for Q and s :: string
    by (metis rev_append rev_rev_ident takeWhile_dropWhile_id)
  from suf [of p] obtain t1 where "p = path_head p @ t1" by (auto simp: path_head_def)
  moreover from suf [of "path_head p"] obtain t2 where "path_head p = rstrip_slash (path_head p) @ t2"
    by (auto simp: rstrip_slash_def)
  ultimately have "p = rstrip_slash (path_head p) @ t2 @ t1" by (metis append_assoc)
  with \<open>p = path_head p @ t1\<close> show ?thesis unfolding path_dirname_def Let_def by (auto split: if_split)
qed

lemma path_dirname_shorter: "path_dirname p \<noteq> p \<Longrightarrow> length (path_dirname p) < length p"
  using path_dirname_prefix [of p] by (metis append_Nil2 length_append less_add_same_cancel1 length_greater_0_conv)

section \<open>FileInfo\<close>

record file_sys =
  fs_exists :: "string \<Rightarrow> bool"
  fs_cwd :: string
  opt_repository :: "string option"
  opt_root :: "string option"

definition FullName :: "file_sys \<Rightarrow> string \<Rightarrow> string" where
  "FullName fs filename = py_replace (path_abspath (fs_cwd fs) filename) [backslash] ''/''"

text \<open>\<open>while os.path.exists(root_dir)\<close> of the \<open>--repository\<close> option.\<close>

function repo_climb :: "file_sys \<Rightarrow> string \<Rightarrow> string \<Rightarrow> string option" where
  "repo_climb fs repo root_dir =
     (if fs_exists fs root_dir then
        if root_dir = repo then Some root_dir
        else if path_dirname root_dir = root_dir then None
        else repo_climb fs repo (path_dirname root_dir)
      else None)"
  by pat_completeness auto
termination
  by (relation "measure (\<lambda>(fs, repo, d). length d)") (auto simp: path_dirname_shorter)

declare repo_climb.simps [simp del]

definition has_marker :: "file_sys \<Rightarrow> string \<Rightarrow> string \<Rightarrow> bool" where
  "has_marker fs dir name = fs_exists fs (path_join dir name)"

definition vcs_dir :: "file_sys \<Rightarrow> string \<Rightarrow> bool" where
  "vcs_dir fs dir \<longleftrightarrow> has_marker fs dir ''.git'' \<or> has_marker fs dir ''.hg'' \<or> has_marker fs dir ''.svn''"

partial_function (option) svn_climb :: "file_sys \<Rightarrow> string \<Rightarrow> string \<Rightarrow> string option" where
  "svn_climb fs root_dir one_up_dir =
     (if has_marker fs one_up_dir ''.svn''
      then svn_climb fs (path_dirname root_dir) (path_dirname one_up_dir)
      else Some root_dir)"

declare svn_climb.simps [code]

function vcs_climb :: "file_sys \<Rightarrow> string \<Rightarrow> string \<Rightarrow> string" where
  "vcs_climb fs root_dir current_dir =
     (if current_dir = path_dirname current_dir then root_dir
      else vcs_climb fs (if vcs_dir fs current_dir then current_dir else root_dir)
             (path_dirname current_dir))"
  by pat_completeness auto
termination
  by (relation "measure (\<lambda>(fs, r, d). length d)") (auto intro!: path_dirname_shorter)

declare vcs_climb.simps [simp del]

definition commonprefix :: "string \<Rightarrow> string \<Rightarrow> string" where
  "commonprefix a b = take (common_len a b) a"

definition repo_relative :: "file_sys \<Rightarrow> string \<Rightarrow> string \<Rightarrow> string option" where
  "repo_relative fs fullname project_dir =
     (case opt_repository fs of
        None \<Rightarrow> None
      | Some r \<Rightarrow>
          if r = [] then None
          else map_option (\<lambda>root_dir. py_replace (path_relpath (fs_cwd fs) fullname root_dir) [backslash] ''/'')
                 (repo_climb fs (FullName fs r) project_dir))"

definition RepositoryName :: "file_sys \<Rightarrow> string \<Rightarrow> string option" where
  "RepositoryName fs filename =
     (let fullname = FullName fs filename; project_dir = path_dirname fullname in
      if \<not> fs_exists fs fullname then Some fullname
      else case repo_relative fs fullname project_dir of
        Some name \<Rightarrow> Some name
      | None \<Rightarrow>
          if has_marker fs project_dir ''.svn'' then
            map_option (\<lambda>root_dir. drop (length (commonprefix root_dir project_dir) + 1) fullname)
              (svn_climb fs project_dir (path_dirname project_dir))
          else let root_dir = vcs_climb fs project_dir project_dir in
            if vcs_dir fs root_dir
            then Some (drop (length (commonprefix root_dir project_dir) + 1) fullname)
            else Some fullname)"

definition Split :: "file_sys \<Rightarrow> string \<Rightarrow> (string \<times> string \<times> string) option" where
  "Split fs filename =
     map_option (\<lambda>googlename. let (project, rest) = path_split googlename; (b, e) = path_splitext rest
                               in (project, b, e))
       (RepositoryName fs filename)"

definition BaseName :: "file_sys \<Rightarrow> string \<Rightarrow> string option" where
  "BaseName fs filename = map_option (\<lambda>(p, b, e). b) (Split fs filename)"

definition Extension :: "file_sys \<Rightarrow> string \<Rightarrow> string option" where
  "Extension fs filename = map_option (\<lambda>(p, b, e). e) (Split fs filename)"

definition NoExtension :: "file_sys \<Rightarrow> string \<Rightarrow> string option" where
  "NoExtension fs filename = map_option (\<lambda>(p, b, e). join ''/'' [p, b]) (Split fs filename)"

definition IsSource :: "file_sys \<Rightarrow> ext_state \<Rightarrow> string \<Rightarrow> bool option" where
  "IsSource fs ext filename = map_option (\<lambda>e. IsSourceExtension ext (tl e)) (Extension fs filename)"

section \<open>Header guards\<close>

function split_loop :: "string \<Rightarrow> string list \<Rightarrow> string list" where
  "split_loop path lst =
     (let (head, tail) = path_split path in
      if head = path then lst @ [head]
      else if tail = path then lst @ [tail]
      else split_loop head (lst @ [tail]))"
  by pat_completeness auto
termination
  by (relation "measure (\<lambda>(p, l). length p)") (auto simp: path_split_def path_dirname_shorter)

declare split_loop.simps [simp del]

definition PathSplitToList :: "string \<Rightarrow> string list" where
  "PathSplitToList path = rev (split_loop path [])"

definition StripListPrefix :: "string list \<Rightarrow> string list \<Rightarrow> string list option" where
  "StripListPrefix lst prefix =
     (if take (length prefix) lst \<noteq> prefix then None else Some (drop (length prefix) lst))"

definition FixupPathFromRoot :: "file_sys \<Rightarrow> string \<Rightarrow> string \<Rightarrow> string" where
  "FixupPathFromRoot fs full_path file_path_from_root =
     (case opt_root fs of
        None \<Rightarrow> file_path_from_root
      | Some root \<Rightarrow>
          if root = [] then file_path_from_root
          else case StripListPrefix (PathSplitToList file_path_from_root) (PathSplitToList root) of
            Some (c # cs) \<Rightarrow> path_join_list (c # cs)
          | _ \<Rightarrow>
              (case StripListPrefix (PathSplitToList full_path)
                      (PathSplitToList (path_abspath (fs_cwd fs) root)) of
                 Some (c # cs) \<Rightarrow> path_join_list (c # cs)
               | _ \<Rightarrow> file_path_from_root))"

text \<open>\<open>re.sub\<close> with a replacement that is computed from the match.\<close>

function sub_with_from :: "regexp \<Rightarrow> (match_obj \<Rightarrow> string) \<Rightarrow> string \<Rightarrow> string \<Rightarrow> string" where
  "sub_with_from r f p s =
     (case match_at r p s of
        None \<Rightarrow> (case s of [] \<Rightarrow> [] | x # xs \<Rightarrow> x # sub_with_from r f (x # p) xs)
      | Some m \<Rightarrow>
          (let n = length (m_text m) in
           if n = 0 then f m @ (case s of [] \<Rightarrow> [] | x # xs \<Rightarrow> x # sub_with_from r f (x # p) xs)
           else if s = [] then f m
           else f m @ sub_with_from r f (rev (take n s) @ p) (drop n s)))"
  by pat_completeness auto
termination by (relation "measure (\<lambda>(r, f, p, s). length s)") auto

declare sub_with_from.simps [simp del]

definition undo_flymake :: "string \<Rightarrow> string" where
  "undo_flymake filename =
     sub_with_from re_flymake_dir (\<lambda>m. ''/'' @ group_text m 1) [] (re_sub re_flymake_h ''.h'' filename)"

definition GetHeaderGuardCPPVariable :: "file_sys \<Rightarrow> string \<Rightarrow> string option" where
  "GetHeaderGuardCPPVariable fs filename =
     (let filename = py_replace (py_replace (undo_flymake filename) ''C++'' ''cpp'') ''c++'' ''cpp''
      in map_option (\<lambda>file_path_from_root.
           upper (re_sub re_non_alnum ''_''
                    (FixupPathFromRoot fs (FullName fs filename) file_path_from_root)) @ ''_'')
         (RepositoryName fs filename))"

section \<open>Directory names\<close>

lemma all_slash_dirname: "(\<forall>c \<in> set p. c = slash) \<Longrightarrow> path_dirname p = p"
proof -
  assume a: "\<forall>c \<in> set p. c = slash"
  then have "dropWhile (\<lambda>c. c \<noteq> slash) (rev p) = rev p" by (cases "rev p") (auto simp: rev_swap)
  with a show ?thesis by (simp add: path_dirname_def path_head_def)
qed

lemma path_head_tail: "p = path_head p @ path_tail p"
  by (metis path_head_def path_tail_def rev_append rev_rev_ident takeWhile_dropWhile_id)

lemma path_head_slash: "path_head p \<noteq> [] \<Longrightarrow> \<exists>h. path_head p = h @ [slash]"
proof (cases "dropWhile (\<lambda>c. c \<noteq> slash) (rev p)")
  case (Cons y ys)
  then have "y = slash" using hd_dropWhile [of "\<lambda>c. c \<noteq> slash" "rev p"] by simp
  with Cons show ?thesis by (simp add: path_head_def)
qed (simp add: path_head_def)

lemma rstrip_slash_split: "\<exists>ys. h = rstrip_slash h @ ys \<and> (\<forall>c \<in> set ys. c = slash)"
proof -
  have "rev h = takeWhile (\<lambda>c. c = slash) (rev h) @ dropWhile (\<lambda>c. c = slash) (rev h)" by simp
  then have "h = rstrip_slash h @ rev (takeWhile (\<lambda>c. c = slash) (rev h))"
    unfolding rstrip_slash_def by (metis rev_append rev_rev_ident)
  then show ?thesis by (intro exI [of _ "rev (takeWhile (\<lambda>c. c = slash) (rev h))"]) (auto dest: set_takeWhileD)
qed

lemma dirname_slash:
  assumes "path_dirname p = a" and "a \<noteq> path_dirname a"
  shows "\<exists>t. p = a @ slash # t"
proof -
  have "\<not> (\<forall>c \<in> set (path_head p). c = slash)"
  proof
    assume all: "\<forall>c \<in> set (path_head p). c = slash"
    then have "path_dirname p = path_head p" by (simp add: path_dirname_def Let_def)
    with assms all_slash_dirname [OF all] show False by simp
  qed
  then have a: "a = rstrip_slash (path_head p)" and "path_head p \<noteq> []"
    using assms(1) by (auto simp: path_dirname_def Let_def)
  then obtain h where h: "path_head p = h @ [slash]" using path_head_slash by blast
  then have "a = rstrip_slash h" using a by (simp add: rstrip_slash_def)
  then obtain ys where ys: "h = a @ ys" "\<forall>c \<in> set ys. c = slash"
    using rstrip_slash_split [of h] by blast
  have "p = a @ ys @ slash # path_tail p" using path_head_tail [of p] h ys by simp
  then show ?thesis using ys(2) by (cases ys) auto
qed

end
