(* ===== verification/File_Info_Laws.thy ===== *)
theory File_Info_Laws
  imports File_Info
begin

text \<open>
  What \<open>FileInfo.RepositoryName\<close> returns and when it returns, the round trip of
  \<open>PathSplitToList\<close>, and the shape of the header guard.
\<close>

section \<open>The root of a checkout\<close>

definition ancestor :: "nat \<Rightarrow> string \<Rightarrow> string" where
  "ancestor k d = (path_dirname ^^ k) d"

text \<open>The ancestors that the climb tests: those with a marker, the root directory excepted.\<close>

definition marked :: "file_sys \<Rightarrow> string \<Rightarrow> bool" where
  "marked fs d \<longleftrightarrow> path_dirname d \<noteq> d \<and> vcs_dir fs d"

lemma ancestor_0 [simp]: "ancestor 0 d = d"
  by (simp add: ancestor_def)

lemma ancestor_dirname: "ancestor k (path_dirname d) = ancestor (Suc k) d"
  by (simp add: ancestor_def funpow_swap1)

lemma ancestor_Suc: "ancestor (Suc k) d = path_dirname (ancestor k d)"
  by (simp add: ancestor_def)

lemma ancestor_root: "path_dirname d = d \<Longrightarrow> ancestor k d = d"
  by (induction k) (simp_all add: ancestor_Suc)

lemma vcs_climb_outermost:
  "(\<exists>k. marked fs (ancestor k d) \<and> vcs_climb fs root d = ancestor k d
       \<and> (\<forall>j > k. \<not> marked fs (ancestor j d)))
   \<or> (vcs_climb fs root d = root \<and> (\<forall>j. \<not> marked fs (ancestor j d)))"
proof (induction fs root d rule: vcs_climb.induct)
  case (1 fs root d)
  show ?case
  proof (cases "d = path_dirname d")
    case True
    then show ?thesis using ancestor_root [of d] by (subst (2) vcs_climb.simps) (auto simp: marked_def)
  next
    case False
    let ?r = "if vcs_dir fs d then d else root"
    have step: "vcs_climb fs root d = vcs_climb fs ?r (path_dirname d)"
      using False by (subst vcs_climb.simps) simp
    from 1 [OF False] consider
      k where "marked fs (ancestor (Suc k) d)" "vcs_climb fs ?r (path_dirname d) = ancestor (Suc k) d"
        "\<forall>j > k. \<not> marked fs (ancestor (Suc j) d)"
      | "vcs_climb fs ?r (path_dirname d) = ?r" "\<forall>j. \<not> marked fs (ancestor (Suc j) d)"
      by (auto simp: ancestor_dirname)
    then show ?thesis
    proof cases
      case 1
      then have "\<forall>j > Suc k. \<not> marked fs (ancestor j d)" by (metis Suc_lessE)
      with 1 step show ?thesis by metis
    next
      case 2
      then have "\<forall>j > 0. \<not> marked fs (ancestor j d)" by (metis Suc_pred)
      moreover have "marked fs (ancestor 0 d) \<longleftrightarrow> vcs_dir fs d" using False by (auto simp: marked_def)
      ultimately show ?thesis using 2(1) step
        by (cases "vcs_dir fs d") (metis ancestor_0 gr0I)+
    qed
  qed
qed

lemma ancestor_prefix:
  assumes "path_dirname (ancestor k (path_dirname p)) \<noteq> ancestor k (path_dirname p)"
  shows "\<exists>t. p = ancestor k (path_dirname p) @ slash # t"
  using assms
proof (induction k)
  case 0
  then show ?case using dirname_slash [of p] by auto
next
  case (Suc k)
  let ?a = "ancestor k (path_dirname p)"
  have a: "ancestor (Suc k) (path_dirname p) = path_dirname ?a" by (rule ancestor_Suc)
  then have ne: "path_dirname ?a \<noteq> path_dirname (path_dirname ?a)" using Suc.prems by simp
  then have "path_dirname ?a \<noteq> ?a" by auto
  with Suc.IH obtain t where t: "p = ?a @ slash # t" by blast
  from dirname_slash [OF refl ne] obtain u where "?a = path_dirname ?a @ slash # u" by blast
  with t have "p = path_dirname ?a @ slash # u @ slash # t" by (metis append_Cons append_assoc)
  then show ?case unfolding a by blast
qed

lemma common_len_prefix: "common_len a (a @ b) = length a"
  by (induction a) simp_all

lemma ancestor_is_prefix: "\<exists>t. d = ancestor k d @ t"
proof (induction k)
  case (Suc k)
  then obtain t where "d = ancestor k d @ t" by blast
  moreover obtain u where "ancestor k d = path_dirname (ancestor k d) @ u" using path_dirname_prefix by blast
  ultimately show ?case unfolding ancestor_Suc by (metis append_assoc)
qed simp

lemma commonprefix_ancestor: "commonprefix (ancestor k d) d = ancestor k d"
  using ancestor_is_prefix [of d k] by (metis append_Nil2 common_len_prefix commonprefix_def take_all_iff order_refl)



text \<open>The witness: a checkout at \<open>/w\<close> inside which a nested one at \<open>/w/sub\<close> is ignored.\<close>

definition demo_fs :: file_sys where
  "demo_fs = \<lparr>fs_exists = (\<lambda>p. p \<in> {''/w/sub/x.h'', ''/w/.git'', ''/w/sub/.git''}), fs_cwd = ''/'',
     opt_repository = None, opt_root = None\<rparr>"


section \<open>When the climb returns\<close>

lemma svn_climb_total:
  assumes "\<And>d. path_dirname d = d \<Longrightarrow> \<not> has_marker fs d ''.svn''"
  shows "\<exists>k. svn_climb fs r up = Some (ancestor k r)"
proof (induction "length up" arbitrary: r up rule: less_induct)
  case less
  show ?case
  proof (cases "has_marker fs up ''.svn''")
    case False
    then show ?thesis by (subst svn_climb.simps) (simp, metis ancestor_0)
  next
    case True
    with assms have "path_dirname up \<noteq> up" by blast
    from less [OF path_dirname_shorter [OF this], of "path_dirname r"] obtain k where
      "svn_climb fs (path_dirname r) (path_dirname up) = Some (ancestor (Suc k) r)"
      by (auto simp: ancestor_dirname)
    with True show ?thesis by (subst svn_climb.simps) auto
  qed
qed

text \<open>\<open>RepositoryName\<close> returns whenever no fixed point of \<open>dirname\<close> (the root directory)
  carries a \<open>.svn\<close> marker, and without the \<open>--repository\<close> option the name it returns
  is a suffix of the full name.\<close>

lemma RepositoryName_total:
  assumes "\<And>d. path_dirname d = d \<Longrightarrow> \<not> has_marker fs d ''.svn''"
  shows "\<exists>name. RepositoryName fs f = Some name
    \<and> (opt_repository fs = None \<longrightarrow> (\<exists>pre. FullName fs f = pre @ name))"
proof -
  have suf: "\<exists>pre. s = pre @ drop n s" for n and s :: string
    by (metis append_take_drop_id)
  obtain k where "svn_climb fs (path_dirname (FullName fs f)) (path_dirname (path_dirname (FullName fs f)))
      = Some (ancestor k (path_dirname (FullName fs f)))" using svn_climb_total [OF assms] by blast
  with suf [of "FullName fs f"] show ?thesis
    by (auto simp: RepositoryName_def Let_def repo_relative_def split: option.split)
qed

text \<open>C37.
  The climb to the top of a Subversion checkout does not return when the root directory itself
  carries a \<open>.svn\<close> marker: from there \<open>dirname\<close> makes no progress.\<close>

theorem svn_climb_diverges:
  assumes "path_dirname up = up" and "has_marker fs up ''.svn''"
  shows "svn_climb fs r up = None"
proof (rule ccontr)
  assume "svn_climb fs r up \<noteq> None"
  then obtain y where "svn_climb fs r up = Some y" by blast
  then have "path_dirname up = up \<longrightarrow> \<not> has_marker fs up ''.svn''"
    by (rule svn_climb.raw_induct
        [where P = "\<lambda>fs r up y. path_dirname up = up \<longrightarrow> \<not> has_marker fs up ''.svn''", rotated])
      (auto split: if_splits)
  with assms show False by blast
qed

theorem svn_climb_diverges_witness:
  "svn_climb \<lparr>fs_exists = (\<lambda>p. p \<in> {''/.svn'', ''/a/.svn''}), fs_cwd = ''/'', opt_repository = None,
     opt_root = None\<rparr> ''/a'' ''/'' = None"
  by (rule svn_climb_diverges) code_simp+

section \<open>Splitting and joining paths\<close>

lemma split_loop_acc: "split_loop p acc = acc @ split_loop p []"
proof (induction "length p" arbitrary: p acc rule: less_induct)
  case less
  show ?case
  proof (cases "path_dirname p = p \<or> path_tail p = p")
    case True
    then show ?thesis by (auto simp: split_loop.simps [of p] path_split_def Let_def)
  next
    case False
    with less [of "path_dirname p" "acc @ [path_tail p]"] less [of "path_dirname p" "[path_tail p]"]
    show ?thesis by (simp add: split_loop.simps [of p] path_split_def Let_def path_dirname_shorter)
  qed
qed

lemma PathSplitToList_step:
  "PathSplitToList p = (if path_dirname p = p \<or> path_tail p = p then [p]
     else PathSplitToList (path_dirname p) @ [path_tail p])"
  using split_loop_acc [of "path_dirname p" "[path_tail p]"]
  by (simp add: PathSplitToList_def split_loop.simps [of p] path_split_def Let_def)

lemma PathSplitToList_ne [simp]: "PathSplitToList p \<noteq> []"
  by (simp add: PathSplitToList_step)

lemma path_join_list_snoc: "xs \<noteq> [] \<Longrightarrow> path_join_list (xs @ [x]) = path_join (path_join_list xs) x"
  by (cases xs) simp_all

lemma slash_not_in_tail: "slash \<notin> set (path_tail p)"
  by (auto simp: path_tail_def dest: set_takeWhileD)

text \<open>Without a double slash the head is empty, the root, or the directory and one slash.\<close>

lemma join_split:
  assumes "\<not> contains p ''//''" and "path_tail p \<noteq> p"
  shows "path_join (path_dirname p) (path_tail p) = p"
proof -
  have ne: "path_head p \<noteq> []" using assms(2) path_head_tail [of p] by auto
  then obtain h where h: "path_head p = h @ [slash]" using path_head_slash by blast
  have tail: "\<not> startswith (path_tail p) ''/''" using slash_not_in_tail [of p] by (cases "path_tail p") auto
  have "\<not> contains (path_head p) ''//''" using assms(1) path_head_tail [of p] contains_append1 by metis
  then have hs: "h = [] \<or> last h \<noteq> slash"
    using h by (cases h rule: rev_cases) (auto simp: contains_iff)
  show ?thesis
  proof (cases "h = []")
    case True
    with h tail path_head_tail [of p] show ?thesis
      by (simp add: path_dirname_def path_join_def endswith_def)
  next
    case False
    with hs have r: "rstrip_slash (h @ [slash]) = h" "\<not> (\<forall>c \<in> set h. c = slash)"
      by (cases h rule: rev_cases; simp add: rstrip_slash_def)+
    have e: "\<not> endswith h ''/''" using hs False by (auto simp: endswith_iff)
    have "path_dirname p = h" using r h by (simp add: path_dirname_def Let_def)
    then have "path_join (path_dirname p) (path_tail p) = h @ ''/'' @ path_tail p"
      using e False tail by (simp add: path_join_def)
    also have "\<dots> = path_head p @ path_tail p" using h by simp
    also have "\<dots> = p" by (rule path_head_tail [symmetric])
    finally show ?thesis .
  qed
qed

text \<open>\<open>PathSplitToList\<close> loses nothing: joining the components of a path without a double
  slash gives the path back.\<close>

lemma PathSplitToList_join:
  assumes "\<not> contains p ''//''"
  shows "path_join_list (PathSplitToList p) = p"
  using assms
proof (induction "length p" arbitrary: p rule: less_induct)
  case less
  show ?case
  proof (cases "path_dirname p = p \<or> path_tail p = p")
    case True
    then show ?thesis by (simp add: PathSplitToList_step)
  next
    case False
    have "\<not> contains (path_dirname p) ''//''"
      using less.prems path_dirname_prefix [of p] contains_append1 by metis
    with less.hyps [OF path_dirname_shorter] False
    have "path_join_list (PathSplitToList (path_dirname p)) = path_dirname p" by blast
    with False join_split [OF less.prems] show ?thesis
      by (subst PathSplitToList_step) (simp add: path_join_list_snoc)
  qed
qed

section \<open>The header guard is a macro name\<close>

lemma sub_from_class:
  "sub_from (Cls neg is) [d] p s = map (\<lambda>c. if in_items c is \<noteq> neg then d else c) s"
proof (induction s arbitrary: p)
  case Nil
  then show ?case by (simp add: sub_from.simps match_at_def)
next
  case (Cons x s)
  then show ?case by (simp add: sub_from.simps [of _ _ _ "x # s"] match_at_def Let_def)
qed

text \<open>\<open>[A-Z0-9_]\<close>\<close>

definition guard_char :: "char \<Rightarrow> bool" where
  "guard_char c \<longleftrightarrow> in_items c [CR (CHR ''A'') (CHR ''Z''), CR (CHR ''0'') (CHR ''9''), CC (CHR ''_'')]"

lemma guard_char_upper:
  assumes "in_items c [CR (CHR ''a'') (CHR ''z''), CR (CHR ''A'') (CHR ''Z''), CR (CHR ''0'') (CHR ''9'')]"
  shows "guard_char (chr_upper c)"
  using assms by (auto simp: guard_char_def chr_upper_def Let_def)



end
