(* ===== verification/Include_State.thy ===== *)
theory Include_State
  imports Patterns
begin

text \<open>
  \<open>_IncludeState\<close> of \<open>cpplint.py\<close>: which headers a file has included so far and
  the section of the include list it is in.  \<open>CheckNextIncludeOrder\<close> is a state machine
  over the sections; the sections are ordered as the integer constants of the class are.
\<close>

datatype header_type =
    C_SYS_HEADER
  | CPP_SYS_HEADER
  | LIKELY_MY_HEADER
  | POSSIBLE_MY_HEADER
  | OTHER_HEADER

datatype include_section =
    INITIAL_SECTION
  | MY_H_SECTION
  | C_SECTION
  | CPP_SECTION
  | OTHER_H_SECTION

primrec section_num :: "include_section \<Rightarrow> nat" where
  "section_num INITIAL_SECTION = 0"
| "section_num MY_H_SECTION = 1"
| "section_num C_SECTION = 2"
| "section_num CPP_SECTION = 3"
| "section_num OTHER_H_SECTION = 4"

lemma section_num_inject [simp]: "section_num a = section_num b \<longleftrightarrow> a = b"
  by (cases a; cases b) simp_all

instantiation include_section :: linorder
begin

definition less_eq_include_section :: "include_section \<Rightarrow> include_section \<Rightarrow> bool" where
  "a \<le> b \<longleftrightarrow> section_num a \<le> section_num b"

definition less_include_section :: "include_section \<Rightarrow> include_section \<Rightarrow> bool" where
  "a < b \<longleftrightarrow> section_num a < section_num b"

instance
  by standard (auto simp: less_eq_include_section_def less_include_section_def)

end

lemmas section_ord = less_eq_include_section_def less_include_section_def

record include_state =
  include_list :: "(string \<times> int) list list"
  section_of :: include_section  \<comment> \<open>\<open>_section\<close>\<close>
  last_header :: string

primrec TYPE_NAMES :: "header_type \<Rightarrow> string" where
  "TYPE_NAMES C_SYS_HEADER = ''C system header''"
| "TYPE_NAMES CPP_SYS_HEADER = ''C++ system header''"
| "TYPE_NAMES LIKELY_MY_HEADER = ''header this file implements''"
| "TYPE_NAMES POSSIBLE_MY_HEADER = ''header this file may implement''"
| "TYPE_NAMES OTHER_HEADER = ''other header''"

primrec SECTION_NAMES :: "include_section \<Rightarrow> string" where
  "SECTION_NAMES INITIAL_SECTION = ''... nothing. (This can't be an error.)''"
| "SECTION_NAMES MY_H_SECTION = ''a header this file implements''"
| "SECTION_NAMES C_SECTION = ''C system header''"
| "SECTION_NAMES CPP_SECTION = ''C++ system header''"
| "SECTION_NAMES OTHER_H_SECTION = ''other header''"

text \<open>\<open>self.include_list[-1] = []\<close> raises when the list is empty.\<close>

definition ResetSection :: "string \<Rightarrow> include_state \<Rightarrow> include_state py" where
  "ResetSection directive st =
     (let st' = st\<lparr>section_of := INITIAL_SECTION, last_header := []\<rparr> in
      if directive \<in> {''if'', ''ifdef'', ''ifndef''}
      then Inr (st'\<lparr>include_list := include_list st @ [[]]\<rparr>)
      else if directive \<in> {''else'', ''elif''} then
        (if include_list st = [] then Inl IndexError
         else Inr (st'\<lparr>include_list := butlast (include_list st) @ [[]]\<rparr>))
      else Inr st')"

definition init_include_state :: include_state where
  "init_include_state = \<lparr>include_list = [[]], section_of = INITIAL_SECTION, last_header = []\<rparr>"

fun find_in_section :: "string \<Rightarrow> (string \<times> int) list \<Rightarrow> int option" where
  "find_in_section header [] = None"
| "find_in_section header (f # fs) =
     (if fst f = header then Some (snd f) else find_in_section header fs)"

fun find_in_list :: "string \<Rightarrow> (string \<times> int) list list \<Rightarrow> int" where
  "find_in_list header [] = -1"
| "find_in_list header (section_list # rest) =
     (case find_in_section header section_list of
        Some n \<Rightarrow> n
      | None \<Rightarrow> find_in_list header rest)"

definition FindHeader :: "include_state \<Rightarrow> string \<Rightarrow> int" where
  "FindHeader st header = find_in_list header (include_list st)"

definition SetLastHeader :: "string \<Rightarrow> include_state \<Rightarrow> include_state" where
  "SetLastHeader header_path st = st\<lparr>last_header := header_path\<rparr>"

definition CanonicalizeAlphabeticalOrder :: "string \<Rightarrow> string" where
  "CanonicalizeAlphabeticalOrder header_path =
     lower (py_replace (py_replace header_path ''-inl.h'' ''.h'') ''-'' ''_'')"

text \<open>\<open>elided\<close> is \<open>clean_lines.elided\<close>.\<close>

definition IsInAlphabeticalOrder ::
  "include_state \<Rightarrow> string list \<Rightarrow> int \<Rightarrow> string \<Rightarrow> bool py" where
  "IsInAlphabeticalOrder st elided linenum header_path =
     (if last_header st > header_path then
        py_bind (py_nth elided (linenum - 1)) (\<lambda>prev. Inr (re_match re_include_b prev = None))
      else Inr True)"

definition CheckNextIncludeOrder ::
  "header_type \<Rightarrow> include_state \<Rightarrow> include_state \<times> string" where
  "CheckNextIncludeOrder header_type st =
     (let error_message = ''Found '' @ TYPE_NAMES header_type @ '' after '' @
            SECTION_NAMES (section_of st);
          advance = (\<lambda>s. (st\<lparr>section_of := s,
             last_header := (if section_of st \<noteq> s then [] else last_header st)\<rparr>, []));
          reject = (st\<lparr>last_header := []\<rparr>, error_message)
      in case header_type of
           C_SYS_HEADER \<Rightarrow> (if section_of st \<le> C_SECTION then advance C_SECTION else reject)
         | CPP_SYS_HEADER \<Rightarrow> (if section_of st \<le> CPP_SECTION then advance CPP_SECTION else reject)
         | LIKELY_MY_HEADER \<Rightarrow>
             advance (if section_of st \<le> MY_H_SECTION then MY_H_SECTION else OTHER_H_SECTION)
         | POSSIBLE_MY_HEADER \<Rightarrow>
             advance (if section_of st \<le> MY_H_SECTION then MY_H_SECTION else OTHER_H_SECTION)
         | OTHER_HEADER \<Rightarrow> advance OTHER_H_SECTION)"

section \<open>The include list\<close>

lemma find_in_section_None_iff: "find_in_section h fs = None \<longleftrightarrow> h \<notin> fst ` set fs"
  by (induction fs) auto

lemma find_in_section_SomeD: "find_in_section h fs = Some n \<Longrightarrow> (h, n) \<in> set fs"
  by (induction fs) (auto split: if_splits)

lemma find_in_list_cases:
  "(\<forall>fs \<in> set ls. h \<notin> fst ` set fs) \<and> find_in_list h ls = -1 \<or>
   (\<exists>fs \<in> set ls. (h, find_in_list h ls) \<in> set fs)"
proof (induction ls)
  case (Cons fs ls)
  show ?case
  proof (cases "find_in_section h fs")
    case None
    then have "h \<notin> fst ` set fs" by (simp add: find_in_section_None_iff)
    with None Cons.IH show ?thesis by simp blast
  next
    case (Some n)
    then have "(h, n) \<in> set fs" by (rule find_in_section_SomeD)
    with Some show ?thesis by simp
  qed
qed simp

section \<open>The section automaton\<close>

abbreviation include_rejected :: "header_type \<Rightarrow> include_section \<Rightarrow> bool" where
  "include_rejected h s \<equiv>
     (h = C_SYS_HEADER \<and> C_SECTION < s) \<or> (h = CPP_SYS_HEADER \<and> CPP_SECTION < s)"

text \<open>The section that an accepted header moves to.\<close>

fun next_section :: "header_type \<Rightarrow> include_section \<Rightarrow> include_section" where
  "next_section C_SYS_HEADER s = max s C_SECTION"
| "next_section CPP_SYS_HEADER s = max s CPP_SECTION"
| "next_section OTHER_HEADER s = OTHER_H_SECTION"
| "next_section _ s = (if s \<le> MY_H_SECTION then MY_H_SECTION else OTHER_H_SECTION)"

lemma CheckNextIncludeOrder_section:
  "section_of (fst (CheckNextIncludeOrder h st)) = next_section h (section_of st)"
  by (cases h; cases "section_of st")
    (simp_all add: CheckNextIncludeOrder_def section_ord max_def)

lemma CheckNextIncludeOrder_msg:
  "snd (CheckNextIncludeOrder h st) \<noteq> [] \<longleftrightarrow> include_rejected h (section_of st)"
  by (cases h) (auto simp: CheckNextIncludeOrder_def Let_def)

lemma next_section_mono: "s \<le> next_section h s"
  by (cases h; cases s) (simp_all add: section_ord max_def)


text \<open>The includes of one preprocessor section in order, and the messages they produce.\<close>

fun include_run :: "header_type list \<Rightarrow> include_state \<Rightarrow> include_state \<times> string list" where
  "include_run [] st = (st, [])"
| "include_run (h # hs) st =
     (case CheckNextIncludeOrder h st of (st', msg) \<Rightarrow>
      case include_run hs st' of (st'', msgs) \<Rightarrow> (st'', (if msg = [] then msgs else msg # msgs)))"

fun order_ok :: "header_type list \<Rightarrow> include_section \<Rightarrow> bool" where
  "order_ok [] s = True"
| "order_ok (h # hs) s = (\<not> include_rejected h s \<and> order_ok hs (next_section h s))"

lemma include_run_order_ok: "snd (include_run hs st) = [] \<longleftrightarrow> order_ok hs (section_of st)"
proof (induction hs arbitrary: st)
  case (Cons h hs)
  obtain st' msg where c: "CheckNextIncludeOrder h st = (st', msg)" by fastforce
  have "section_of st' = next_section h (section_of st)"
    using CheckNextIncludeOrder_section [of h st] c by simp
  moreover have "msg \<noteq> [] \<longleftrightarrow> include_rejected h (section_of st)"
    using CheckNextIncludeOrder_msg [of h st] c by simp
  ultimately show ?case using Cons [of st'] c
    by (cases "include_run hs st'") (auto split: if_splits)
qed simp

lemma include_run_section_mono: "section_of st \<le> section_of (fst (include_run hs st))"
proof (induction hs arbitrary: st)
  case (Cons h hs)
  have "section_of st \<le> section_of (fst (CheckNextIncludeOrder h st))"
    by (simp add: CheckNextIncludeOrder_section next_section_mono)
  with Cons [of "fst (CheckNextIncludeOrder h st)"] show ?case
    by (auto split: prod.split)
qed simp

definition is_my_header :: "header_type \<Rightarrow> bool" where
  "is_my_header h \<longleftrightarrow> h = LIKELY_MY_HEADER \<or> h = POSSIBLE_MY_HEADER"

primrec header_rank :: "header_type \<Rightarrow> nat" where
  "header_rank C_SYS_HEADER = 2"
| "header_rank CPP_SYS_HEADER = 3"
| "header_rank LIKELY_MY_HEADER = 4"
| "header_rank POSSIBLE_MY_HEADER = 4"
| "header_rank OTHER_HEADER = 4"

lemma order_ok_after_my:
  "C_SECTION \<le> s \<Longrightarrow> order_ok hs s \<longleftrightarrow> sorted (section_num s # map header_rank hs)"
proof (induction hs arbitrary: s)
  case (Cons h hs)
  have "C_SECTION \<le> next_section h s"
    using Cons.prems next_section_mono order_trans by blast
  then have IH: "order_ok hs (next_section h s) \<longleftrightarrow>
      sorted (section_num (next_section h s) # map header_rank hs)" by (rule Cons.IH)
  show ?case using Cons.prems IH
    by (cases h; cases s)
      (auto simp: section_ord max_def sorted2 simp del: sorted_wrt.simps sorted_simps)
qed simp

lemma order_ok_my:
  "s \<le> MY_H_SECTION \<Longrightarrow> order_ok hs s \<longleftrightarrow> sorted (map header_rank (dropWhile is_my_header hs))"
proof (induction hs arbitrary: s)
  case (Cons h hs)
  have s: "s = INITIAL_SECTION \<or> s = MY_H_SECTION"
    using Cons.prems by (cases s) (simp_all add: section_ord)
  show ?case
  proof (cases "is_my_header h")
    case True
    with s have "order_ok (h # hs) s \<longleftrightarrow> order_ok hs MY_H_SECTION"
      by (auto simp: is_my_header_def section_ord)
    with True Cons.IH [of MY_H_SECTION] show ?thesis by simp
  next
    case False
    have "order_ok hs (next_section h s) \<longleftrightarrow>
        sorted (section_num (next_section h s) # map header_rank hs)"
      by (rule order_ok_after_my)
        (use s False in \<open>cases h; auto simp: is_my_header_def section_ord max_def\<close>)
    moreover have "section_num (next_section h s) = header_rank h" "\<not> include_rejected h s"
      using s False by (cases h; auto simp: is_my_header_def section_ord max_def)+
    ultimately show ?thesis using False by simp
  qed
qed simp

section \<open>Properties\<close>

text \<open>
  C18.  The include-order check is a sortedness check: from the initial section, a list of
  includes is accepted without a message exactly when, after the leading headers that the
  file implements, C system headers come before C++ system headers and both before all
  others (a later header of the file itself counts as one of the others).
\<close>

theorem include_order_sorted:
  "snd (include_run hs init_include_state) = [] \<longleftrightarrow>
     sorted (map header_rank (dropWhile is_my_header hs))"
  unfolding include_run_order_ok by (rule order_ok_my) (simp add: init_include_state_def section_ord)

text \<open>
  One step of the section automaton: the section never moves backwards; a message is
  produced exactly for a C system header after the C section or a C++ system header after
  the C++ section, and then the section stays and the last header is forgotten.
\<close>

lemma CheckNextIncludeOrder_step:
  "case CheckNextIncludeOrder h st of (st', msg) \<Rightarrow>
     section_of st \<le> section_of st' \<and> include_list st' = include_list st
     \<and> (msg \<noteq> [] \<longleftrightarrow> include_rejected h (section_of st))
     \<and> (if msg \<noteq> [] then section_of st' = section_of st \<and> last_header st' = []
        else last_header st' = (if section_of st' = section_of st then last_header st else []))"
proof -
  have "section_of st \<le> section_of (fst (CheckNextIncludeOrder h st))"
    by (simp add: CheckNextIncludeOrder_section next_section_mono)
  moreover have "snd (CheckNextIncludeOrder h st) \<noteq> [] \<longleftrightarrow> include_rejected h (section_of st)"
    by (rule CheckNextIncludeOrder_msg)
  ultimately show ?thesis
    by (cases h) (auto simp: CheckNextIncludeOrder_def Let_def split: if_splits)
qed

text \<open>
  \<open>FindHeader\<close> returns the line of an earlier include of the header, and \<open>-1\<close>
  exactly when the header has not been included (line numbers are not negative).
\<close>

lemma FindHeader_spec:
  assumes "\<forall>fs \<in> set (include_list st). \<forall>f \<in> set fs. 0 \<le> snd f"
  shows "(FindHeader st h = -1 \<longleftrightarrow> (\<forall>fs \<in> set (include_list st). h \<notin> fst ` set fs))
    \<and> (FindHeader st h \<noteq> -1 \<longrightarrow> (\<exists>fs \<in> set (include_list st). (h, FindHeader st h) \<in> set fs))"
  using find_in_list_cases [of "include_list st" h] assms unfolding FindHeader_def by force

lemma py_replace_dash: "CHR ''-'' \<notin> set (py_replace s ''-'' ''_'')"
  by (auto simp: py_replace_char)

lemma chr_lower_code:
  "chr_code (chr_lower c) = (let n = chr_code c in
     if (65 \<le> n \<and> n \<le> 90) \<or> (192 \<le> n \<and> n \<le> 222 \<and> n \<noteq> 215) then n + 32 else n)"
  using nat_of_char_less_256 [of c] by (auto simp: chr_lower_def Let_def of_char_of)

lemma chr_lower_idem: "chr_lower (chr_lower c) = chr_lower c"
proof -
  have "chr_code (chr_lower (chr_lower c)) = (chr_code (chr_lower c) :: nat)"
    unfolding chr_lower_code [of "chr_lower c"] chr_lower_code [of c] Let_def by auto
  then show ?thesis by (metis char_of_char)
qed

lemma chr_lower_not_dash: "c \<noteq> CHR ''-'' \<Longrightarrow> chr_lower c \<noteq> CHR ''-''"
proof
  assume c: "c \<noteq> CHR ''-''" and "chr_lower c = CHR ''-''"
  then have "chr_code (chr_lower c) = (45 :: nat)" by simp
  then have "chr_code c = (45 :: nat)" unfolding chr_lower_code Let_def by (auto split: if_splits)
  then have "chr_code c = (chr_code (CHR ''-'') :: nat)" by simp
  with c show False by (simp only: of_char_eq_iff)
qed

text \<open>
  The canonical form used for alphabetical comparison is a normal form: it has no
  dash, and canonicalizing it again changes nothing.
\<close>

lemma CanonicalizeAlphabeticalOrder_normal_form:
  "CHR ''-'' \<notin> set (CanonicalizeAlphabeticalOrder p) \<and>
   CanonicalizeAlphabeticalOrder (CanonicalizeAlphabeticalOrder p) = CanonicalizeAlphabeticalOrder p"
proof -
  define r where "r = py_replace (py_replace p ''-inl.h'' ''.h'') ''-'' ''_''"
  define q where "q = map chr_lower r"
  have canon: "CanonicalizeAlphabeticalOrder p = q"
    by (simp only: CanonicalizeAlphabeticalOrder_def lower_def r_def q_def)
  have "c \<noteq> CHR ''-''" if "c \<in> set r" for c
    using that py_replace_dash unfolding r_def by blast
  then have nodash: "CHR ''-'' \<notin> set q"
    unfolding q_def set_map by (metis chr_lower_not_dash imageE)
  have "\<not> contains q (CHR ''-'' # t)" for t
    using nodash unfolding contains_iff by (metis in_set_conv_decomp append_Cons)
  then have "py_replace (py_replace q ''-inl.h'' ''.h'') ''-'' ''_'' = q"
    by (simp only: py_replace_id not_False_eq_True)
  then have "CanonicalizeAlphabeticalOrder q = map chr_lower q"
    by (simp only: CanonicalizeAlphabeticalOrder_def lower_def)
  also have "\<dots> = q" by (simp add: q_def chr_lower_idem)
  finally show ?thesis unfolding canon using nodash by simp
qed

end
