(* ===== verification/File_Checks.thy ===== *)
theory File_Checks
  imports Cleanse File_Info Include_State
begin

text \<open>
  Checks of \<open>cpplint.py\<close> that look at a whole file or at one elided line without parser
  state.  A check returns its calls of the \<open>error\<close> callback in order.  A header check
  also calls \<open>ParseNolintSuppressions\<close> between two messages; its result is a list of
  actions.
\<close>

section \<open>Whole-file checks\<close>

definition copyright_text :: string where
  "copyright_text = ''No copyright message found.  '' @
     ''You should have a line: '' @ [dquote] @ ''Copyright [year] <Copyright Owner>'' @ [dquote]"

text \<open>\<open>re.search(r'Copyright', line, re.I)\<close> looks for the word in any case.\<close>

definition CheckForCopyright :: "string \<Rightarrow> string list \<Rightarrow> lint_msg list" where
  "CheckForCopyright filename ls =
     (if \<exists>line \<in> set (take 10 (drop 1 ls)). contains (lower line) ''copyright'' then []
      else [err_at filename 0 ''legal/copyright'' 5 copyright_text])"

definition GetIndentLevel :: "string \<Rightarrow> nat" where
  "GetIndentLevel line =
     (case re_match re_indent_level line of None \<Rightarrow> 0 | Some indent \<Rightarrow> length (group_text indent 1))"

definition newline_text :: string where
  "newline_text = ''Could not find a newline character at the end of the file.''"

definition CheckForNewlineAtEOF :: "string \<Rightarrow> string list \<Rightarrow> lint_msg list" where
  "CheckForNewlineAtEOF filename ls =
     (if length ls < 3 \<or> ls ! (length ls - 2) \<noteq> []
      then [err_at filename (int (length ls) - 2) ''whitespace/ending_newline'' 5 newline_text]
      else [])"

section \<open>Header guards\<close>

datatype lint_act =
    Report lint_msg
  | ParseNolint string int  \<comment> \<open>a raw line and its number\<close>

record guard_scan =
  g_ifndef :: string
  g_ifndef_linenum :: nat
  g_define :: string
  g_endif :: string
  g_endif_linenum :: nat

definition guard_step :: "nat \<Rightarrow> string \<Rightarrow> guard_scan \<Rightarrow> guard_scan" where
  "guard_step linenum line g =
     (let linesplit = split_ws line;
          g1 = (if 2 \<le> length linesplit then
                  let h = (if g_ifndef g = [] \<and> linesplit ! 0 = ''#ifndef''
                           then g\<lparr>g_ifndef := linesplit ! 1, g_ifndef_linenum := linenum\<rparr> else g)
                  in if g_define h = [] \<and> linesplit ! 0 = ''#define''
                     then h\<lparr>g_define := linesplit ! 1\<rparr> else h
                else g)
      in if startswith line ''#endif'' then g1\<lparr>g_endif := line, g_endif_linenum := linenum\<rparr> else g1)"

fun scan_guard :: "nat \<Rightarrow> string list \<Rightarrow> guard_scan \<Rightarrow> guard_scan" where
  "scan_guard linenum [] g = g"
| "scan_guard linenum (line # ls) g = scan_guard (linenum + 1) ls (guard_step linenum line g)"

definition no_guard :: guard_scan where
  "no_guard = \<lparr>g_ifndef = [], g_ifndef_linenum = 0, g_define = [], g_endif = [], g_endif_linenum = 0\<rparr>"

text \<open>
  The two patterns that contain the guard.  The guard consists of letters, digits and
  underscores only, so that its text as a pattern matches just itself.
\<close>

definition re_endif_line :: "string \<Rightarrow> regexp" where
  "re_endif_line cppvar =
     Seqs [Str ''#endif'', Star Spc, Str ''//'', Star Spc, Str cppvar, Opt (Grp 1 (Str ''_'')), Wordb]"

definition re_endif_block :: "string \<Rightarrow> regexp" where
  "re_endif_block cppvar =
     Seqs [Str ''#endif'', Star Spc, Str ''/*'', Star Spc, Str cppvar, Opt (Grp 1 (Str ''_'')), Star Spc, Str ''*/'']"

definition guard_msg :: "string \<Rightarrow> nat \<Rightarrow> int \<Rightarrow> string \<Rightarrow> lint_act" where
  "guard_msg filename linenum level message =
     Report (err_at filename (int linenum) ''build/header_guard'' level message)"

definition no_guard_text :: "string \<Rightarrow> string" where
  "no_guard_text cppvar = ''No #ifndef header guard found, suggested CPP variable is: '' @ cppvar"

definition guard_style_text :: "string \<Rightarrow> string" where
  "guard_style_text cppvar = ''#ifndef header guard has wrong style, please use: '' @ cppvar"

definition endif_line_text :: "string \<Rightarrow> string" where
  "endif_line_text cppvar =
     ''#endif line should be '' @ [dquote] @ ''#endif  // '' @ cppvar @ [dquote]"

definition endif_block_text :: "string \<Rightarrow> string" where
  "endif_block_text cppvar =
     ''#endif line should be '' @ [dquote] @ ''#endif  /* '' @ cppvar @ '' */'' @ [dquote]"

definition has_line_comments :: "string list \<Rightarrow> bool" where
  "has_line_comments raws \<longleftrightarrow>
     (\<exists>line \<in> set (butlast (drop 1 raws)). re_match re_has_line_comment line \<noteq> None)"

definition check_endif :: "string \<Rightarrow> string \<Rightarrow> string list \<Rightarrow> guard_scan \<Rightarrow> lint_act list" where
  "check_endif filename cppvar raws g =
     (let wrong = [guard_msg filename (g_endif_linenum g) 5 (endif_line_text cppvar)] in
      case re_match (re_endif_line cppvar) (g_endif g) of
        Some m \<Rightarrow>
          if group m 1 = Some ''_''
          then [guard_msg filename (g_endif_linenum g) 0 (endif_line_text cppvar)] else []
      | None \<Rightarrow>
          if has_line_comments raws then wrong
          else case re_match (re_endif_block cppvar) (g_endif g) of
            Some m \<Rightarrow>
              if group m 1 = Some ''_''
              then [guard_msg filename (g_endif_linenum g) 0 (endif_block_text cppvar)] else []
          | None \<Rightarrow> wrong)"

definition check_guard :: "string \<Rightarrow> string \<Rightarrow> string list \<Rightarrow> lint_act list" where
  "check_guard filename cppvar raws =
     (let g = scan_guard 0 raws no_guard in
      if g_ifndef g = [] \<or> g_define g = [] \<or> g_ifndef g \<noteq> g_define g
      then [guard_msg filename 0 5 (no_guard_text cppvar)]
      else (if g_ifndef g \<noteq> cppvar
            then [ParseNolint (raws ! g_ifndef_linenum g) (int (g_ifndef_linenum g)),
                  guard_msg filename (g_ifndef_linenum g)
                    (if g_ifndef g \<noteq> cppvar @ ''_'' then 5 else 0) (guard_style_text cppvar)]
            else [])
           @ [ParseNolint (raws ! g_endif_linenum g) (int (g_endif_linenum g))]
           @ check_endif filename cppvar raws g)"

definition CheckForHeaderGuard :: "file_sys \<Rightarrow> string \<Rightarrow> cleansed_lines \<Rightarrow> lint_act list option" where
  "CheckForHeaderGuard fs filename cl =
     (let raw_lines = lines_without_raw_strings cl in
      if \<exists>i \<in> set raw_lines. re_search re_nolint_header_guard i \<noteq> None then Some []
      else if \<exists>i \<in> set raw_lines. re_search re_pragma_once i \<noteq> None then Some []
      else map_option (\<lambda>cppvar. check_guard filename cppvar raw_lines)
             (GetHeaderGuardCPPVariable fs filename))"

section \<open>A source file includes its header\<close>

text \<open>The loops over \<open>include_list\<close>: \<open>None\<close> when the header is included.\<close>

fun find_own_header :: "string \<Rightarrow> (string \<times> int) list \<Rightarrow> int option \<Rightarrow> int option option" where
  "find_own_header headername [] first_include = Some first_include"
| "find_own_header headername (f # fs) first_include =
     (if contains (fst f) headername \<or> contains headername (fst f) then None
      else find_own_header headername fs
             (if first_include = None \<or> first_include = Some 0 then Some (snd f) else first_include))"

definition own_header_msg :: "string \<Rightarrow> int option \<Rightarrow> string \<Rightarrow> string \<Rightarrow> lint_msg" where
  "own_header_msg filename first_include name headername =
     \<lparr>l_file = filename, l_line = first_include, l_cat = ''build/include'', l_conf = 5,
      l_text = name @ '' should include its header file '' @ headername\<rparr>"

fun own_header_loop ::
  "file_sys \<Rightarrow> string \<Rightarrow> string \<Rightarrow> string \<Rightarrow> (string \<times> int) list \<Rightarrow> string list \<Rightarrow> lint_msg list option" where
  "own_header_loop fs filename name basefilename incs [] = Some []"
| "own_header_loop fs filename name basefilename incs (ext # exts) =
     (let headerfile = basefilename @ ''.'' @ ext in
      if \<not> fs_exists fs headerfile then own_header_loop fs filename name basefilename incs exts
      else case RepositoryName fs headerfile of
        None \<Rightarrow> None
      | Some headername \<Rightarrow>
          (case find_own_header headername incs None of
             None \<Rightarrow> Some []
           | Some first_include \<Rightarrow>
               map_option (\<lambda>ms. own_header_msg filename first_include name headername # ms)
                 (own_header_loop fs filename name basefilename incs exts)))"

text \<open>\<open>exts\<close> is the set of header extensions in the order of its iteration.\<close>

definition CheckHeaderFileIncluded ::
  "file_sys \<Rightarrow> string list \<Rightarrow> string \<Rightarrow> include_state \<Rightarrow> lint_msg list option" where
  "CheckHeaderFileIncluded fs exts filename st =
     (case (Split fs filename, RepositoryName fs filename) of
        (Some (_, base, ext), Some name) \<Rightarrow>
          if re_search TEST_FILE_SUFFIX base \<noteq> None then Some []
          else own_header_loop fs filename name (take (length filename - length ext) filename)
                 (concat (include_list st)) exts
      | _ \<Rightarrow> None)"

section \<open>Checks of one line\<close>

definition multiline_comment_text :: string where
  "multiline_comment_text = ''Complex multi-line /*...*/-style comment found. '' @
     ''Lint may give bogus warnings.  '' @
     ''Consider replacing these with //-style comments, '' @
     ''with #if 0...#endif, '' @
     ''or with more clearly structured multi-line comments.''"

definition multiline_string_text :: string where
  "multiline_string_text = ''Multi-line string ('' @ [dquote] @ ''...'' @ [dquote] @ '') found.  This lint script doesn'' @ [squote] @ ''t '' @
     ''do well with such strings, and may give bogus warnings.  '' @
     ''Use C++11 raw strings or concatenation instead.''"

definition CheckForMultilineCommentsAndStrings ::
  "string \<Rightarrow> cleansed_lines \<Rightarrow> nat \<Rightarrow> lint_msg list py" where
  "CheckForMultilineCommentsAndStrings filename cl linenum =
     py_bind (py_nth (elided cl) (int linenum)) (\<lambda>line.
       let line = py_replace line [backslash, backslash] [] in
       Inr ((if py_count line ''/*'' > py_count line ''*/''
             then [err_at filename (int linenum) ''readability/multiline_comment'' 5 multiline_comment_text]
             else [])
          @ (if odd (int (py_count line [dquote]) - int (py_count line [backslash, dquote]))
             then [err_at filename (int linenum) ''readability/multiline_string'' 5 multiline_string_text]
             else [])))"

definition THREADING_LIST :: "(string \<times> string \<times> regexp) list" where
  "THREADING_LIST =
    [(''asctime('', ''asctime_r('', re_mt_asctime),
     (''ctime('', ''ctime_r('', re_mt_ctime),
     (''getgrgid('', ''getgrgid_r('', re_mt_getgrgid),
     (''getgrnam('', ''getgrnam_r('', re_mt_getgrnam),
     (''getlogin('', ''getlogin_r('', re_mt_getlogin),
     (''getpwnam('', ''getpwnam_r('', re_mt_getpwnam),
     (''getpwuid('', ''getpwuid_r('', re_mt_getpwuid),
     (''gmtime('', ''gmtime_r('', re_mt_gmtime),
     (''localtime('', ''localtime_r('', re_mt_localtime),
     (''rand('', ''rand_r('', re_mt_rand),
     (''strtok('', ''strtok_r('', re_mt_strtok),
     (''ttyname('', ''ttyname_r('', re_mt_ttyname)]"

definition threading_text :: "string \<Rightarrow> string \<Rightarrow> string" where
  "threading_text single_thread_func multithread_safe_func =
     ''Consider using '' @ multithread_safe_func @ ''...) instead of '' @ single_thread_func @
     ''...) for improved thread safety.''"

definition CheckPosixThreading :: "string \<Rightarrow> cleansed_lines \<Rightarrow> nat \<Rightarrow> lint_msg list py" where
  "CheckPosixThreading filename cl linenum =
     py_bind (py_nth (elided cl) (int linenum)) (\<lambda>line.
       Inr (concat (map (\<lambda>(single_thread_func, multithread_safe_func, pattern).
              if re_search pattern line \<noteq> None
              then [err_at filename (int linenum) ''runtime/threadsafe_fn'' 2
                      (threading_text single_thread_func multithread_safe_func)]
              else []) THREADING_LIST)))"

definition vlog_text :: string where
  "vlog_text = ''VLOG() should be used with numeric verbosity level.  '' @
     ''Use LOG() if you want symbolic severity levels.''"

definition CheckVlogArguments :: "string \<Rightarrow> cleansed_lines \<Rightarrow> nat \<Rightarrow> lint_msg list py" where
  "CheckVlogArguments filename cl linenum =
     py_bind (py_nth (elided cl) (int linenum)) (\<lambda>line.
       Inr (if re_search re_vlog line \<noteq> None
            then [err_at filename (int linenum) ''runtime/vlog'' 5 vlog_text] else []))"

definition increment_text :: string where
  "increment_text = ''Changing pointer instead of value (or unused value of operator*).''"

definition CheckInvalidIncrement :: "string \<Rightarrow> cleansed_lines \<Rightarrow> nat \<Rightarrow> lint_msg list py" where
  "CheckInvalidIncrement filename cl linenum =
     py_bind (py_nth (elided cl) (int linenum)) (\<lambda>line.
       Inr (if re_match RE_PATTERN_INVALID_INCREMENT line \<noteq> None
            then [err_at filename (int linenum) ''runtime/invalid_increment'' 5 increment_text] else []))"

text \<open>Both functions below index a list of lines.\<close>

definition IsMacroDefinition :: "string list \<Rightarrow> nat \<Rightarrow> bool py" where
  "IsMacroDefinition clean_lines linenum =
     py_bind (py_nth clean_lines (int linenum)) (\<lambda>line.
       if re_search re_define line \<noteq> None then Inr True
       else if 0 < linenum then
         py_bind (py_nth clean_lines (int linenum - 1)) (\<lambda>before.
           Inr (re_search re_line_cont before \<noteq> None))
       else Inr False)"

definition IsForwardClassDeclaration :: "string list \<Rightarrow> nat \<Rightarrow> bool py" where
  "IsForwardClassDeclaration clean_lines linenum =
     py_bind (py_nth clean_lines (int linenum)) (\<lambda>line. Inr (re_match re_forward_class line \<noteq> None))"

end
