(* ===== verification/File_Checks_Laws.thy ===== *)
theory File_Checks_Laws
  imports File_Checks File_Info_Laws
begin

text \<open>
  What the whole-file checks decide, and the contract that the line checks share: a line check
  never raises on a line of the file, and reports only that line, under a category that
  filters and NOLINT comments know.
\<close>

section \<open>The contract of a line check\<close>

definition wf_msg :: "string \<Rightarrow> nat \<Rightarrow> lint_msg \<Rightarrow> bool" where
  "wf_msg filename linenum m \<longleftrightarrow>
     l_file m = filename \<and> l_line m = Some (int linenum) \<and> l_cat m \<in> set ERROR_CATEGORIES
     \<and> 0 \<le> l_conf m \<and> l_conf m \<le> 5"

locale line_check =
  fixes check :: "string \<Rightarrow> cleansed_lines \<Rightarrow> nat \<Rightarrow> lint_msg list py"
  assumes check_total: "n < length (elided cl) \<Longrightarrow> \<exists>ms. check f cl n = Inr ms \<and> (\<forall>m \<in> set ms. wf_msg f n m)"
    and check_local: "elided cl = elided cl' \<Longrightarrow> check f cl n = check f cl' n"
begin

text \<open>The check run over all lines of a file, as the main loop does.\<close>

fun check_lines :: "string \<Rightarrow> cleansed_lines \<Rightarrow> nat list \<Rightarrow> lint_msg list py" where
  "check_lines f cl [] = Inr []"
| "check_lines f cl (n # ns) = py_bind (check f cl n) (\<lambda>ms. py_bind (check_lines f cl ns) (\<lambda>rest. Inr (ms @ rest)))"

lemma check_lines_total:
  "\<forall>n \<in> set ns. n < length (elided cl) \<Longrightarrow>
     \<exists>ms. check_lines f cl ns = Inr ms \<and> (\<forall>m \<in> set ms. \<exists>n \<in> set ns. wf_msg f n m)"
proof (induction ns)
  case (Cons n ns)
  then obtain ms where "check_lines f cl ns = Inr ms" "\<forall>m \<in> set ms. \<exists>n \<in> set ns. wf_msg f n m" by auto
  moreover from Cons.prems check_total [of n cl f] obtain ms' where
    "check f cl n = Inr ms'" "\<forall>m \<in> set ms'. wf_msg f n m" by auto
  ultimately show ?case by auto
qed simp

end

lemmas check_defs = CheckForMultilineCommentsAndStrings_def CheckPosixThreading_def
  CheckVlogArguments_def CheckInvalidIncrement_def

lemma known_categories:
  "''readability/multiline_comment'' \<in> set ERROR_CATEGORIES"
  "''readability/multiline_string'' \<in> set ERROR_CATEGORIES"
  "''runtime/threadsafe_fn'' \<in> set ERROR_CATEGORIES"
  "''runtime/vlog'' \<in> set ERROR_CATEGORIES"
  "''runtime/invalid_increment'' \<in> set ERROR_CATEGORIES"
  by (simp_all add: ERROR_CATEGORIES_def)

interpretation multiline: line_check CheckForMultilineCommentsAndStrings
  by unfold_locales (auto simp: check_defs Let_def wf_msg_def known_categories)

interpretation threading: line_check CheckPosixThreading
  by unfold_locales (auto simp: check_defs wf_msg_def known_categories split: if_splits)

interpretation vlog: line_check CheckVlogArguments
  by unfold_locales (auto simp: check_defs wf_msg_def known_categories)

interpretation increment: line_check CheckInvalidIncrement
  by unfold_locales (auto simp: check_defs wf_msg_def known_categories)

text \<open>The stateless line checks never raise on a line of the file, and every message they produce
  names that file and line, a registered category and a confidence between 0 and 5.\<close>

lemma line_checks_wellformed:
  assumes "n < length (elided cl)"
    and "check \<in> {CheckForMultilineCommentsAndStrings, CheckPosixThreading, CheckVlogArguments,
           CheckInvalidIncrement}"
  shows "\<exists>ms. check f cl n = Inr ms \<and> (\<forall>m \<in> set ms. wf_msg f n m)"
  using assms multiline.check_total threading.check_total vlog.check_total increment.check_total
  by blast

section \<open>End of file\<close>

lemma last_split_on: "last (split_on d s) = [] \<longleftrightarrow> s = [] \<or> last s = d"
proof (induction s rule: split_on.induct)
  case (2 d x s)
  have "s = []" if "split_on d s = [[]]" using join_split_on [of d s] that by simp
  with 2 show ?case by (cases "split_on d s") (auto split: if_splits)
qed simp

text \<open>On the lines that \<open>ProcessFileData\<close> builds (the text split at newlines, with a marker
  line before and after), \<open>CheckForNewlineAtEOF\<close> is silent exactly when the file is empty
  or ends in a newline.\<close>

lemma newline_at_eof_iff:
  "CheckForNewlineAtEOF f ([m1] @ split_on newline file_text @ [m2]) = []
     \<longleftrightarrow> file_text = [] \<or> last file_text = newline"
proof -
  let ?s = "split_on newline file_text"
  have "([m1] @ ?s @ [m2]) ! (length ([m1] @ ?s @ [m2]) - 2) = last ?s"
    using split_on_neq_Nil [of newline file_text]
    by (cases ?s rule: rev_cases) (simp_all add: nth_append nth_Cons')
  moreover have "\<not> length ([m1] @ ?s @ [m2]) < 3" using split_on_neq_Nil [of newline file_text]
    by (cases ?s) simp_all
  ultimately show ?thesis by (simp add: CheckForNewlineAtEOF_def last_split_on)
qed

section \<open>Header guards\<close>

text \<open>The argument of the first line that is a directive \<open>d\<close> with an argument.\<close>

definition directive_arg :: "string \<Rightarrow> string \<Rightarrow> string option" where
  "directive_arg d line = (case split_ws line of w # a # _ \<Rightarrow> if w = d then Some a else None | _ \<Rightarrow> None)"

fun first_arg :: "string \<Rightarrow> string list \<Rightarrow> string" where
  "first_arg d [] = []"
| "first_arg d (l # ls) = (case directive_arg d l of None \<Rightarrow> first_arg d ls | Some a \<Rightarrow> a)"

definition last_endif :: "string list \<Rightarrow> string" where
  "last_endif ls = (case filter (\<lambda>l. startswith l ''#endif'') ls of [] \<Rightarrow> [] | es \<Rightarrow> last es)"

lemma split_ws_nonempty: "w \<in> set (split_ws s) \<Longrightarrow> w \<noteq> []"
proof (induction s rule: split_ws.induct)
  case (1 s)
  show ?case
  proof (cases "lstrip s")
    case Nil
    with 1 show ?thesis by (simp add: split_ws.simps [of s])
  next
    case (Cons c cs)
    then have "\<not> isspace c" unfolding lstrip_def by (metis dropWhile_eq_Cons_conv)
    with 1 Cons show ?thesis by (auto simp: split_ws.simps [of s] Let_def)
  qed
qed

lemma directive_arg_nonempty: "directive_arg d l = Some a \<Longrightarrow> a \<noteq> []"
  using split_ws_nonempty [of a l] by (auto simp: directive_arg_def split: list.splits if_splits)

lemma first_arg_nonempty: "first_arg d ls \<noteq> [] \<longleftrightarrow> (\<exists>l \<in> set ls. directive_arg d l \<noteq> None)"
  by (induction ls) (auto dest: directive_arg_nonempty split: option.split)

lemma guard_step_fields:
  "g_ifndef (guard_step n l g) =
     (if g_ifndef g \<noteq> [] then g_ifndef g else case directive_arg ''#ifndef'' l of None \<Rightarrow> [] | Some a \<Rightarrow> a)"
  "g_define (guard_step n l g) =
     (if g_define g \<noteq> [] then g_define g else case directive_arg ''#define'' l of None \<Rightarrow> [] | Some a \<Rightarrow> a)"
  "g_endif (guard_step n l g) = (if startswith l ''#endif'' then l else g_endif g)"
  by (auto simp: guard_step_def directive_arg_def Let_def split: list.split)

lemma scan_guard_fields:
  "g_ifndef (scan_guard n ls g) = (if g_ifndef g \<noteq> [] then g_ifndef g else first_arg ''#ifndef'' ls)"
  "g_define (scan_guard n ls g) = (if g_define g \<noteq> [] then g_define g else first_arg ''#define'' ls)"
  "g_endif (scan_guard n ls g) = (if \<exists>l \<in> set ls. startswith l ''#endif'' then last_endif ls else g_endif g)"
proof (induction n ls g rule: scan_guard.induct)
  case (2 n l ls g)
  {
    case 1
    from 2(1) show ?case by (auto simp: guard_step_fields dest: directive_arg_nonempty split: option.split)
  next
    case 2
    from \<open>g_define (scan_guard (n + 1) ls (guard_step n l g)) = _\<close> show ?case
      by (auto simp: guard_step_fields dest: directive_arg_nonempty split: option.split)
  next
    case 3
    from \<open>g_endif (scan_guard (n + 1) ls (guard_step n l g)) = _\<close> show ?case
      by (auto simp: guard_step_fields last_endif_def filter_empty_conv split: list.split)
  }
qed simp_all

definition guard_reports :: "lint_act list \<Rightarrow> lint_msg list" where
  "guard_reports acts = concat (map (\<lambda>a. case a of Report m \<Rightarrow> [m] | _ \<Rightarrow> []) acts)"

lemma guard_reports_simps [simp]:
  "guard_reports [] = []"
  "guard_reports (Report m # acts) = m # guard_reports acts"
  "guard_reports (ParseNolint l n # acts) = guard_reports acts"
  "guard_reports (a @ b) = guard_reports a @ guard_reports b"
  by (simp_all add: guard_reports_def)

definition endif_ok :: "string \<Rightarrow> string list \<Rightarrow> bool" where
  "endif_ok v ls \<longleftrightarrow> re_match (re_endif_line v) (last_endif ls) \<noteq> None
     \<or> (\<not> has_line_comments ls \<and> re_match (re_endif_block v) (last_endif ls) \<noteq> None)"

definition guard_ok :: "string \<Rightarrow> string list \<Rightarrow> bool" where
  "guard_ok v ls \<longleftrightarrow> first_arg ''#ifndef'' ls \<noteq> [] \<and> first_arg ''#ifndef'' ls = first_arg ''#define'' ls
     \<and> first_arg ''#ifndef'' ls \<in> {v, v @ ''_''}"

lemma check_endif_reports:
  "(\<forall>m \<in> set (guard_reports (check_endif f v ls g)). l_conf m = 0) \<longleftrightarrow>
     re_match (re_endif_line v) (g_endif g) \<noteq> None
     \<or> (\<not> has_line_comments ls \<and> re_match (re_endif_block v) (g_endif g) \<noteq> None)"
  by (auto simp: check_endif_def guard_msg_def Let_def split: option.split)

text \<open>C35.
  \<open>CheckForHeaderGuard\<close> accepts exactly the well-guarded headers.  Unless the file opts out
  (a \<open>NOLINT(build/header_guard)\<close> comment or \<open>#pragma once\<close>), no message of positive
  confidence is produced if and only if the first \<open>#ifndef\<close> and the first \<open>#define\<close> have
  the same argument, it is the expected guard or that guard with one more underscore, and the
  last \<open>#endif\<close> names the guard in a comment, a block comment being accepted only when the
  file has no line comments.\<close>

theorem header_guard_accepted_iff:
  assumes "\<not> (\<exists>i \<in> set (lines_without_raw_strings cl). re_search re_nolint_header_guard i \<noteq> None)"
    and "\<not> (\<exists>i \<in> set (lines_without_raw_strings cl). re_search re_pragma_once i \<noteq> None)"
    and "GetHeaderGuardCPPVariable fs f = Some v"
  shows "\<exists>acts. CheckForHeaderGuard fs f cl = Some acts \<and>
    ((\<forall>m \<in> set (guard_reports acts). l_conf m = 0) \<longleftrightarrow>
       guard_ok v (lines_without_raw_strings cl) \<and> endif_ok v (lines_without_raw_strings cl))"
proof -
  let ?ls = "lines_without_raw_strings cl" and ?g = "scan_guard 0 (lines_without_raw_strings cl) no_guard"
  have f: "g_ifndef ?g = first_arg ''#ifndef'' ?ls" "g_define ?g = first_arg ''#define'' ?ls"
    by (simp_all add: scan_guard_fields no_guard_def)
  have e: "g_endif ?g = last_endif ?ls"
    by (auto simp: scan_guard_fields no_guard_def last_endif_def filter_empty_conv split: list.split)
  have ce: "(\<forall>m \<in> set (guard_reports (check_endif f v ?ls ?g)). l_conf m = 0) \<longleftrightarrow> endif_ok v ?ls"
    by (simp add: check_endif_reports e endif_ok_def)
  have "(\<forall>m \<in> set (guard_reports (check_guard f v ?ls)). l_conf m = 0) \<longleftrightarrow> guard_ok v ?ls \<and> endif_ok v ?ls"
  proof (cases "g_ifndef ?g = [] \<or> g_define ?g = [] \<or> g_ifndef ?g \<noteq> g_define ?g")
    case True
    then show ?thesis using f
      by (auto simp: check_guard_def Let_def guard_msg_def guard_ok_def)
  next
    case False
    then have "guard_ok v ?ls \<longleftrightarrow> g_ifndef ?g \<in> {v, v @ ''_''}" using f by (auto simp: guard_ok_def)
    with False ce show ?thesis
      by (auto simp: check_guard_def Let_def guard_msg_def)
  qed
  then show ?thesis using assms by (auto simp: CheckForHeaderGuard_def Let_def)
qed


theorem header_guard_accepted_iff_witness:
  "\<exists>acts. CheckForHeaderGuard demo_fs ''/w/sub/x.h''
      \<lparr>elided = [], lines = [], raw_lines = [], num_lines = 3, lines_without_raw_strings =
         [''#ifndef SUB_X_H_'', ''#define SUB_X_H_'', ''#endif  // SUB_X_H_'']\<rparr> = Some acts
    \<and> (\<forall>m \<in> set (guard_reports acts). l_conf m = 0)"
proof -
  let ?ls = "[''#ifndef SUB_X_H_'', ''#define SUB_X_H_'', ''#endif  // SUB_X_H_'']"
  let ?cl = "\<lparr>elided = [], lines = [], raw_lines = [], num_lines = 3, lines_without_raw_strings = ?ls\<rparr>"
  have pre: "\<not> (\<exists>i \<in> set (lines_without_raw_strings ?cl). re_search re_nolint_header_guard i \<noteq> None)"
    "\<not> (\<exists>i \<in> set (lines_without_raw_strings ?cl). re_search re_pragma_once i \<noteq> None)"
    "GetHeaderGuardCPPVariable demo_fs ''/w/sub/x.h'' = Some ''SUB_X_H_''" by code_simp+
  have "guard_ok ''SUB_X_H_'' ?ls \<and> endif_ok ''SUB_X_H_'' ?ls" by code_simp
  with header_guard_accepted_iff [OF pre] show ?thesis by auto
qed

end
