(* ===== verification/Nesting.thy ===== *)
theory Nesting
  imports File_Checks Brackets
begin

text \<open>
  The parser state of \<open>cpplint.py\<close>: the block classes, \<open>_PreprocessorInfo\<close> and
  \<open>NestingState\<close>.  Blocks are mutable objects that the stack and
  \<open>previous_stack_top\<close> may share, and \<open>copy.deepcopy\<close> makes new objects, so a block
  carries an identity \<open>bid\<close>.  The code writes only to the top of the stack; the write
  goes to every place that holds the object.  Stacks are lists whose head is the top.
\<close>

section \<open>Blocks\<close>

datatype asm_state = NO_ASM | INSIDE_ASM | END_ASM | BLOCK_ASM

record class_fields =
  c_name :: string
  is_derived :: bool
  access :: string
  is_struct :: bool
  class_indent :: nat
  last_line :: nat

datatype block_kind =
    BlockKind
  | ExternCKind
  | ClassKind class_fields
  | NamespaceKind string

record block_info =
  bid :: nat
  starting_linenum :: nat
  seen_open_brace :: bool
  open_parentheses :: int
  inline_asm :: asm_state
  check_namespace_indentation :: bool
  kind :: block_kind

definition BlockInfo :: "nat \<Rightarrow> nat \<Rightarrow> bool \<Rightarrow> block_info" where
  "BlockInfo i linenum seen =
     \<lparr>bid = i, starting_linenum = linenum, seen_open_brace = seen, open_parentheses = 0,
      inline_asm = NO_ASM, check_namespace_indentation = False, kind = BlockKind\<rparr>"

definition ExternCInfo :: "nat \<Rightarrow> nat \<Rightarrow> block_info" where
  "ExternCInfo i linenum = (BlockInfo i linenum True)\<lparr>kind := ExternCKind\<rparr>"

definition NamespaceInfo :: "nat \<Rightarrow> string \<Rightarrow> nat \<Rightarrow> block_info" where
  "NamespaceInfo i name linenum =
     (BlockInfo i linenum False)\<lparr>check_namespace_indentation := True, kind := NamespaceKind name\<rparr>"

text \<open>The loop that looks for the line on which the braces of the class balance.\<close>

function class_last_line :: "cleansed_lines \<Rightarrow> nat \<Rightarrow> int \<Rightarrow> nat py" where
  "class_last_line cl i depth =
     (if i < NumLines cl then
        py_bind (py_nth (elided cl) (int i)) (\<lambda>line.
          let depth = depth + (int (py_count line ''{'') - int (py_count line ''}''))
          in if depth = 0 then Inr i else class_last_line cl (i + 1) depth)
      else Inr 0)"
  by pat_completeness auto
termination by (relation "measure (\<lambda>(cl, i, d). NumLines cl - i)") auto

declare class_last_line.simps [simp del]

definition ClassInfo :: "nat \<Rightarrow> string \<Rightarrow> string \<Rightarrow> cleansed_lines \<Rightarrow> nat \<Rightarrow> block_info py" where
  "ClassInfo i name class_or_struct cl linenum =
     py_bind (py_nth (raw_lines cl) (int linenum)) (\<lambda>raw.
     py_bind (class_last_line cl linenum 0) (\<lambda>last.
       Inr ((BlockInfo i linenum False)\<lparr>check_namespace_indentation := True,
              kind := ClassKind
                \<lparr>c_name = name, is_derived = False,
                 access = (if class_or_struct = ''struct'' then ''public'' else ''private''),
                 is_struct = (class_or_struct = ''struct''),
                 class_indent = GetIndentLevel raw, last_line = last\<rparr>\<rparr>)))"

fun is_class :: "block_info \<Rightarrow> bool" where
  "is_class b = (case kind b of ClassKind _ \<Rightarrow> True | _ \<Rightarrow> False)"

fun is_namespace :: "block_info \<Rightarrow> bool" where
  "is_namespace b = (case kind b of NamespaceKind _ \<Rightarrow> True | _ \<Rightarrow> False)"

definition IsBlockInfo :: "block_info \<Rightarrow> bool" where
  "IsBlockInfo b \<longleftrightarrow> kind b = BlockKind"

section \<open>Checks at the ends of a block\<close>

text \<open>\<open>CheckBegin\<close>: only classes do something, they look for a bare colon.\<close>

definition CheckBegin :: "cleansed_lines \<Rightarrow> nat \<Rightarrow> block_info \<Rightarrow> block_info py" where
  "CheckBegin cl linenum b =
     (case kind b of
        ClassKind c \<Rightarrow>
          py_bind (py_nth (elided cl) (int linenum)) (\<lambda>line.
            Inr (if re_search re_bare_colon line \<noteq> None
                 then b\<lparr>kind := ClassKind (c\<lparr>is_derived := True\<rparr>)\<rparr> else b))
      | _ \<Rightarrow> Inr b)"

definition re_disallow :: "string \<Rightarrow> regexp" where
  "re_disallow name =
     Seqs [Wordb, Grp 1 (Alts [Str ''DISALLOW_COPY_AND_ASSIGN'', Str ''DISALLOW_IMPLICIT_CONSTRUCTORS'']),
           Str ''('', Str name, Str '')'']"

definition disallow_msg :: "string \<Rightarrow> nat \<Rightarrow> string \<Rightarrow> lint_msg" where
  "disallow_msg filename linenum macro =
     err_at filename (int linenum) ''readability/constructors'' 3
       (macro @ '' should be the last thing in the class'')"

text \<open>\<open>for i in xrange(linenum - 1, self.starting_linenum, -1)\<close>: \<open>k\<close> is \<open>i + 1\<close>.\<close>

fun disallow_loop :: "string \<Rightarrow> cleansed_lines \<Rightarrow> string \<Rightarrow> nat \<Rightarrow> nat \<Rightarrow> bool \<Rightarrow> lint_msg list py" where
  "disallow_loop filename cl name start 0 seen_last = Inr []"
| "disallow_loop filename cl name start (Suc i) seen_last =
     (if i \<le> start then Inr []
      else py_bind (py_nth (elided cl) (int i)) (\<lambda>line.
        case re_search (re_disallow name) line of
          Some m \<Rightarrow> Inr (if seen_last then [disallow_msg filename i (group_text m 1)] else [])
        | None \<Rightarrow> disallow_loop filename cl name start i (seen_last \<or> re_match re_blank line = None)))"

definition class_title :: "class_fields \<Rightarrow> string" where
  "class_title c = (if is_struct c then ''struct '' else ''class '') @ c_name c"

definition closing_brace_text :: "class_fields \<Rightarrow> string" where
  "closing_brace_text c = ''Closing brace should be aligned with beginning of '' @ class_title c"

definition ClassInfo_CheckEnd ::
  "string \<Rightarrow> cleansed_lines \<Rightarrow> nat \<Rightarrow> nat \<Rightarrow> class_fields \<Rightarrow> lint_msg list py" where
  "ClassInfo_CheckEnd filename cl linenum start c =
     py_bind (disallow_loop filename cl (c_name c) start linenum False) (\<lambda>ms.
     py_bind (py_nth (elided cl) (int linenum)) (\<lambda>line.
       Inr (ms @ (case re_match re_close_indent line of
                    None \<Rightarrow> []
                  | Some indent \<Rightarrow>
                      if length (group_text indent 1) \<noteq> class_indent c
                      then [err_at filename (int linenum) ''whitespace/indent'' 3 (closing_brace_text c)]
                      else []))))"

definition re_ns_end_named :: "string \<Rightarrow> regexp" where
  "re_ns_end_named name =
     Seqs [Bol, Star Spc, Str ''}'', Star (Str '';''), Star Spc, Grp 1 (Alts [Str ''//'', Str ''/*'']),
           Star Any, Wordb, Str ''namespace'', Plus Spc, Str name,
           Star (In [CC (CHR ''*''), CC (CHR ''/''), CC (CHR ''.''), CC (CHR 0x5C), CSpace]), Eol]"

definition ns_msg :: "string \<Rightarrow> nat \<Rightarrow> string \<Rightarrow> lint_msg" where
  "ns_msg filename linenum message = err_at filename (int linenum) ''readability/namespace'' 5 message"

definition ns_named_text :: "string \<Rightarrow> string" where
  "ns_named_text name =
     ''Namespace should be terminated with '' @ [dquote] @ ''// namespace '' @ name @ [dquote]"

definition ns_anon_text :: string where
  "ns_anon_text =
     ''Anonymous namespace should be terminated with '' @ [dquote] @ ''// namespace'' @ [dquote]"

definition ns_anon_either_text :: string where
  "ns_anon_either_text =
     ns_anon_text @ '' or '' @ [dquote] @ ''// anonymous namespace'' @ [dquote]"

definition NamespaceInfo_CheckEnd ::
  "string \<Rightarrow> cleansed_lines \<Rightarrow> nat \<Rightarrow> nat \<Rightarrow> string \<Rightarrow> lint_msg list py" where
  "NamespaceInfo_CheckEnd filename cl linenum start name =
     py_bind (py_nth (raw_lines cl) (int linenum)) (\<lambda>line.
       Inr (if int linenum - int start < 10 \<and> re_match re_ns_comment line = None then []
            else if name \<noteq> [] then
              if re_match (re_ns_end_named name) line = None
              then [ns_msg filename linenum (ns_named_text name)] else []
            else if re_match re_ns_end_anon line = None then
              if re_match re_ns_anon_mention line \<noteq> None
              then [ns_msg filename linenum ns_anon_either_text]
              else [ns_msg filename linenum ns_anon_text]
            else []))"

definition CheckEnd :: "string \<Rightarrow> cleansed_lines \<Rightarrow> nat \<Rightarrow> block_info \<Rightarrow> lint_msg list py" where
  "CheckEnd filename cl linenum b =
     (case kind b of
        ClassKind c \<Rightarrow> ClassInfo_CheckEnd filename cl linenum (starting_linenum b) c
      | NamespaceKind name \<Rightarrow> NamespaceInfo_CheckEnd filename cl linenum (starting_linenum b) name
      | _ \<Rightarrow> Inr [])"

section \<open>The state\<close>

record pp_info =
  stack_before_if :: "block_info list"
  stack_before_else :: "block_info list"
  seen_else :: bool

record nesting_state =
  stack :: "block_info list"
  previous_stack_top :: "block_info option"
  pp_stack :: "pp_info list"
  next_id :: nat

definition init_nesting :: nesting_state where
  "init_nesting = \<lparr>stack = [], previous_stack_top = None, pp_stack = [], next_id = 0\<rparr>"

definition SeenOpenBrace :: "nesting_state \<Rightarrow> bool" where
  "SeenOpenBrace st \<longleftrightarrow> (case stack st of [] \<Rightarrow> True | b # _ \<Rightarrow> seen_open_brace b)"

definition InNamespaceBody :: "nesting_state \<Rightarrow> bool" where
  "InNamespaceBody st \<longleftrightarrow> (case stack st of [] \<Rightarrow> False | b # _ \<Rightarrow> is_namespace b)"

definition InExternC :: "nesting_state \<Rightarrow> bool" where
  "InExternC st \<longleftrightarrow> (case stack st of [] \<Rightarrow> False | b # _ \<Rightarrow> kind b = ExternCKind)"

definition InClassDeclaration :: "nesting_state \<Rightarrow> bool" where
  "InClassDeclaration st \<longleftrightarrow> (case stack st of [] \<Rightarrow> False | b # _ \<Rightarrow> is_class b)"

definition InAsmBlock :: "nesting_state \<Rightarrow> bool" where
  "InAsmBlock st \<longleftrightarrow> (case stack st of [] \<Rightarrow> False | b # _ \<Rightarrow> inline_asm b \<noteq> NO_ASM)"

definition InnermostClass :: "nesting_state \<Rightarrow> block_info option" where
  "InnermostClass st = List.find is_class (stack st)"

text \<open>A write to the object on top of the stack, seen by every holder of the object.\<close>

definition set_top :: "block_info \<Rightarrow> nesting_state \<Rightarrow> nesting_state" where
  "set_top b st =
     st\<lparr>stack := b # tl (stack st),
        previous_stack_top :=
          (case previous_stack_top st of
             None \<Rightarrow> None
           | Some p \<Rightarrow> Some (if bid p = bid b then b else p))\<rparr>"

definition push :: "block_info \<Rightarrow> nesting_state \<Rightarrow> nesting_state" where
  "push b st = st\<lparr>stack := b # stack st, next_id := next_id st + 1\<rparr>"

definition pop :: "nesting_state \<Rightarrow> nesting_state" where
  "pop st = st\<lparr>stack := tl (stack st)\<rparr>"

text \<open>\<open>copy.deepcopy(stack)\<close>: the same fields under new identities.\<close>

fun deepcopy :: "nat \<Rightarrow> block_info list \<Rightarrow> block_info list" where
  "deepcopy i [] = []"
| "deepcopy i (b # bs) = b\<lparr>bid := i\<rparr> # deepcopy (i + 1) bs"

section \<open>Template argument lists\<close>

lemma end_step_bounds: "end_step line i st = Return p \<Longrightarrow> p = -1 \<or> p = int i + 1"
  by (auto simp: end_step_def Let_def split: if_splits list.splits)

lemma FindEnd_bounds:
  "FindEndOfExpressionInLine line i st = (p, stk) \<Longrightarrow> p \<noteq> -1 \<Longrightarrow> int i < p"
proof (induction line i st rule: FindEndOfExpressionInLine.induct)
  case (1 line i st)
  note step = FindEndOfExpressionInLine.simps [of line i st]
  show ?case
  proof (cases "i < length line")
    case False
    with 1 step show ?thesis by simp
  next
    case True
    show ?thesis
    proof (cases "end_step line i st")
      case (Return q)
      with 1 step True end_step_bounds [OF Return] show ?thesis by auto
    next
      case (Go st')
      with 1(2,3) step True 1(1) [OF True Go] show ?thesis by simp
    qed
  qed
qed

lemma close_lines_bounds:
  "close_lines cl line n stk = Inr (l, n', p') \<Longrightarrow> p' = -1 \<or> n < n'"
proof (induction "NumLines cl - n" arbitrary: n line stk rule: less_induct)
  case less
  show ?case
  proof (cases "stk \<noteq> None \<and> stk \<noteq> Some [] \<and> int n < int (NumLines cl) - 1")
    case False
    then have "close_lines cl line n stk = Inr (line, NumLines cl, -1)" by (subst close_lines.simps) auto
    with less.prems show ?thesis by simp
  next
    case True
    then have "py_bind (py_nth (elided cl) (int (n + 1))) (\<lambda>line.
        let (end_pos, stack) = FindEndOfExpressionInLine line 0 (the stk)
        in if end_pos > -1 then Inr (line, n + 1, end_pos)
           else close_lines cl line (n + 1) stack) = Inr (l, n', p')"
      using less.prems close_lines.simps [of cl line n stk] by (simp only: if_True simp_thms)
    then obtain line' e stk' where
      "(if e > -1 then Inr (line', n + 1, e) else close_lines cl line' (n + 1) stk') = Inr (l, n', p')"
      by (auto simp: py_bind_Inr_iff split_beta)
    then show ?thesis using less.hyps [of "n + 1" line' stk'] True by (fastforce split: if_splits)
  qed
qed

lemma CloseExpression_progress:
  assumes "CloseExpression cl n p = Inr (l, n', p')" and "\<not> p' < 0"
  shows "n < n' \<or> (n = n' \<and> int p < p')"
  using assms close_lines_bounds FindEnd_bounds
  by (fastforce simp: CloseExpression_def py_bind_Inr_iff Let_def split: if_splits prod.splits)

lemma re_template_token_minw:
  assumes "re_match re_template_token s = Some m"
  shows "0 < length (m_text m) \<and> length (m_text m) \<le> length s"
proof -
  have "0 < minw re_template_token" by (simp add: re_template_token_def)
  then show ?thesis
    using assms match_at_minw [of re_template_token "[]" s m] re_match_SomeD [OF assms]
    by (auto simp: re_match_def)
qed

function InTemplateArgumentList :: "cleansed_lines \<Rightarrow> nat \<Rightarrow> nat \<Rightarrow> bool py" where
  "InTemplateArgumentList cl linenum pos =
     (if \<not> linenum < NumLines cl then Inr False
      else case py_nth (elided cl) (int linenum) of
        Inl e \<Rightarrow> Inl e
      | Inr line \<Rightarrow>
          (case re_match re_template_token (drop pos line) of
             None \<Rightarrow> InTemplateArgumentList cl (linenum + 1) 0
           | Some m \<Rightarrow>
               let token = group_text m 1; pos1 = pos + length (m_text m) in
               if token \<in> {''{'', ''}'', '';''} then Inr False
               else if token \<in> {''>'', ''='', ''['', '']'', ''.''} then Inr True
               else if token \<noteq> ''<'' then
                 if length line \<le> pos1 + 1 then InTemplateArgumentList cl (linenum + 1) 0
                 else InTemplateArgumentList cl linenum (pos1 + 1)
               else case CloseExpression cl linenum (pos1 - 1) of
                 Inl e \<Rightarrow> Inl e
               | Inr (_, end_line, end_pos) \<Rightarrow>
                   if end_pos < 0 then Inr False
                   else InTemplateArgumentList cl end_line (nat end_pos)))"
  by pat_completeness auto
termination
proof (relation "measures [\<lambda>(cl, n, p). NumLines cl - n, \<lambda>(cl, n, p). length (elided cl ! n) - p]", goal_cases)
  case 1
  then show ?case by simp
next
  case (2 cl n p line)
  then have "NumLines cl - (n + 1) < NumLines cl - n" by simp
  then show ?case by simp
next
  case (3 cl n p line m token pos1)
  then have "NumLines cl - (n + 1) < NumLines cl - n" by simp
  then show ?case by simp
next
  case (4 cl n p line m token pos1)
  then have "line = elided cl ! n" by (auto simp: py_nth_def Let_def split: if_splits)
  with 4 show ?case by auto
next
  case (5 cl n p line m token pos1 r l q n' p')
  have line: "line = elided cl ! n" using 5(2) by (auto simp: py_nth_def Let_def split: if_splits)
  note tok = re_template_token_minw [OF 5(3)]
  moreover have "pos1 = p + length (m_text m)" using 5 by simp
  moreover have "0 < length (m_text m)" "length (m_text m) \<le> length line - p" using tok by simp_all
  ultimately have p: "p < length line" "pos1 \<le> length line" "p < pos1" by linarith+
  have "n < n' \<or> (n = n' \<and> int (pos1 - 1) < p')"
    using CloseExpression_progress [of cl n "pos1 - 1"] 5 by auto
  with p line 5(1) show ?case by auto
qed

declare InTemplateArgumentList.simps [simp del]

section \<open>Preprocessor conditionals\<close>

definition is_pp_if :: "string \<Rightarrow> bool" where
  "is_pp_if line \<longleftrightarrow> re_match re_pp_if line \<noteq> None"

definition is_pp_else :: "string \<Rightarrow> bool" where
  "is_pp_else line \<longleftrightarrow> re_match re_pp_else line \<noteq> None"

definition is_pp_endif :: "string \<Rightarrow> bool" where
  "is_pp_endif line \<longleftrightarrow> re_match re_pp_endif line \<noteq> None"

definition pp_enter :: "nesting_state \<Rightarrow> nesting_state" where
  "pp_enter st =
     st\<lparr>pp_stack := \<lparr>stack_before_if = deepcopy (next_id st) (stack st), stack_before_else = [],
                    seen_else = False\<rparr> # pp_stack st,
        next_id := next_id st + length (stack st)\<rparr>"

definition pp_switch :: "nesting_state \<Rightarrow> nesting_state" where
  "pp_switch st =
     (case pp_stack st of
        [] \<Rightarrow> st
      | p # ps \<Rightarrow>
          let i = next_id st;
              saved = (if seen_else p then p
                       else p\<lparr>seen_else := True, stack_before_else := deepcopy i (stack st)\<rparr>);
              j = (if seen_else p then i else i + length (stack st))
          in st\<lparr>pp_stack := saved # ps, stack := deepcopy j (stack_before_if p),
                next_id := j + length (stack_before_if p)\<rparr>)"

definition pp_leave :: "nesting_state \<Rightarrow> nesting_state" where
  "pp_leave st =
     (case pp_stack st of
        [] \<Rightarrow> st
      | p # ps \<Rightarrow> st\<lparr>pp_stack := ps, stack := (if seen_else p then stack_before_else p else stack st)\<rparr>)"

definition UpdatePreprocessor :: "string \<Rightarrow> nesting_state \<Rightarrow> nesting_state" where
  "UpdatePreprocessor line st =
     (if is_pp_if line then pp_enter st
      else if is_pp_else line then pp_switch st
      else if is_pp_endif line then pp_leave st
      else st)"

section \<open>Update\<close>

definition remember_top :: "nesting_state \<Rightarrow> nesting_state" where
  "remember_top st = st\<lparr>previous_stack_top := (case stack st of [] \<Rightarrow> None | b # _ \<Rightarrow> Some b)\<rparr>"

definition count_parens :: "string \<Rightarrow> nesting_state \<Rightarrow> nesting_state" where
  "count_parens line st =
     (case stack st of
        [] \<Rightarrow> st
      | b # _ \<Rightarrow>
          let depth_change = int (py_count line ''('') - int (py_count line '')'');
              parens = open_parentheses b + depth_change;
              asm = (if inline_asm b \<in> {NO_ASM, END_ASM} then
                       if depth_change \<noteq> 0 \<and> parens = 1 \<and> re_match MATCH_ASM line \<noteq> None
                       then INSIDE_ASM else NO_ASM
                     else if inline_asm b = INSIDE_ASM \<and> parens = 0 then END_ASM
                     else inline_asm b)
          in set_top (b\<lparr>open_parentheses := parens, inline_asm := asm\<rparr>) st)"

lemma re_namespace_decl_shorter:
  assumes "re_match re_namespace_decl line = Some m"
  shows "length (group_text m 2) < length line"
proof (rule re_match_group_after [OF assms])
  show "re_namespace_decl = Seqs ([Bol, Star Spc, Str ''namespace''] @
     [Wordb, Star Spc, Opt (Grp 1 (Plus (In [CC (CHR '':''), CWord]))), Grp 2 (Star Any), Eol])"
    by (simp add: re_namespace_decl_def)
qed simp_all

text \<open>Namespaces declared at the beginning of the line.\<close>

function namespace_loop :: "nat \<Rightarrow> string \<Rightarrow> nesting_state \<Rightarrow> string \<times> nesting_state" where
  "namespace_loop linenum line st =
     (case re_match re_namespace_decl line of
        None \<Rightarrow> (line, st)
      | Some m \<Rightarrow>
          let new_namespace = NamespaceInfo (next_id st) (group_text m 1) linenum;
              rest = group_text m 2
          in case find_opt rest ''{'' of
               Some i \<Rightarrow> namespace_loop linenum (drop (i + 1) rest)
                           (push (new_namespace\<lparr>seen_open_brace := True\<rparr>) st)
             | None \<Rightarrow> namespace_loop linenum rest (push new_namespace st))"
  by pat_completeness auto
termination
  by (relation "measure (\<lambda>(n, line, st). length line)")
    (auto dest: re_namespace_decl_shorter)

declare namespace_loop.simps [simp del]

text \<open>A class or struct declared in what is left of the line.\<close>

definition class_step :: "cleansed_lines \<Rightarrow> nat \<Rightarrow> string \<Rightarrow> nesting_state \<Rightarrow> (string \<times> nesting_state) py" where
  "class_step cl linenum line st =
     (case re_match re_class_decl line of
        None \<Rightarrow> Inr (line, st)
      | Some m \<Rightarrow>
          if \<not> (case stack st of [] \<Rightarrow> True | b # _ \<Rightarrow> open_parentheses b = 0) then Inr (line, st)
          else py_bind (InTemplateArgumentList cl linenum (length (group_text m 1))) (\<lambda>b.
            if b then Inr (line, st)
            else py_bind (ClassInfo (next_id st) (group_text m 3) (group_text m 2) cl linenum) (\<lambda>c.
              Inr (group_text m 4, push c st))))"

definition begin_step :: "cleansed_lines \<Rightarrow> nat \<Rightarrow> nesting_state \<Rightarrow> nesting_state py" where
  "begin_step cl linenum st =
     (if SeenOpenBrace st then Inr st
      else py_bind (CheckBegin cl linenum (hd (stack st))) (\<lambda>b. Inr (set_top b st)))"

definition access_text :: "match_obj \<Rightarrow> class_fields \<Rightarrow> string" where
  "access_text m c =
     group_text m 2 @ group_text m 3 @ '': should be indented +1 space inside '' @ class_title c"

definition access_step :: "string \<Rightarrow> nat \<Rightarrow> string \<Rightarrow> nesting_state \<Rightarrow> nesting_state \<times> lint_msg list" where
  "access_step filename linenum line st =
     (case stack st of
        [] \<Rightarrow> (st, [])
      | b # _ \<Rightarrow>
          (case kind b of
             ClassKind c \<Rightarrow>
               (case re_match re_access line of
                  None \<Rightarrow> (st, [])
                | Some m \<Rightarrow>
                    (set_top (b\<lparr>kind := ClassKind (c\<lparr>access := group_text m 2\<rparr>)\<rparr>) st,
                     let indent = group_text m 1 in
                     if length indent \<noteq> class_indent c + 1 \<and> re_match re_blank indent \<noteq> None
                     then [err_at filename (int linenum) ''whitespace/indent'' 3 (access_text m c)]
                     else []))
           | _ \<Rightarrow> (st, [])))"

definition open_brace :: "nat \<Rightarrow> string \<Rightarrow> nesting_state \<Rightarrow> nesting_state" where
  "open_brace linenum line st =
     (if \<not> SeenOpenBrace st then set_top ((hd (stack st))\<lparr>seen_open_brace := True\<rparr>) st
      else if re_match re_extern_c line \<noteq> None then push (ExternCInfo (next_id st) linenum) st
      else push ((BlockInfo (next_id st) linenum True)
             \<lparr>inline_asm := (if re_match MATCH_ASM line \<noteq> None then BLOCK_ASM else NO_ASM)\<rparr>) st)"

definition end_statement :: "nesting_state \<Rightarrow> nesting_state" where
  "end_statement st = (if SeenOpenBrace st then st else pop st)"

definition close_brace ::
  "string \<Rightarrow> cleansed_lines \<Rightarrow> nat \<Rightarrow> nesting_state \<Rightarrow> (nesting_state \<times> lint_msg list) py" where
  "close_brace filename cl linenum st =
     (case stack st of
        [] \<Rightarrow> Inr (st, [])
      | b # _ \<Rightarrow> py_bind (CheckEnd filename cl linenum b) (\<lambda>ms. Inr (pop st, ms)))"

definition brace_token ::
  "string \<Rightarrow> cleansed_lines \<Rightarrow> nat \<Rightarrow> string \<Rightarrow> string \<Rightarrow> nesting_state \<Rightarrow> (nesting_state \<times> lint_msg list) py" where
  "brace_token filename cl linenum line token st =
     (if token = ''{'' then Inr (open_brace linenum line st, [])
      else if token = '';'' \<or> token = '')'' then Inr (end_statement st, [])
      else close_brace filename cl linenum st)"

definition brace_items :: "citem list" where
  "brace_items = [CC (CHR ''{''), CC (CHR '';''), CC (CHR '')''), CC (CHR ''}'')]"

lemma re_brace_token_eq:
  "re_brace_token = Seqs [Bol, Star (NotIn brace_items), Grp 1 (In brace_items), Grp 2 (Star Any), Eol]"
  by (simp add: re_brace_token_def brace_items_def)

lemma re_brace_token_parts:
  assumes "re_match re_brace_token line = Some m"
  shows "\<exists>u c t. line = u @ c # group_text m 2 @ t \<and> group_text m 1 = [c] \<and> in_items c brace_items
    \<and> (\<forall>x \<in> set u. \<not> in_items x brace_items) \<and> newline \<notin> set (group_text m 2) \<and> (t = [] \<or> t = [newline])"
  by (rule re_match_segsE [OF assms re_brace_token_eq], simp)
    (elim seg_ConsE, auto simp add: seg_oks group_text_def group_def, blast+)

lemma re_brace_token_shorter:
  assumes "re_match re_brace_token line = Some m"
  shows "length (group_text m 2) < length line"
proof -
  from re_brace_token_parts [OF assms] obtain u c t where "line = u @ c # group_text m 2 @ t" by blast
  from arg_cong [OF this, of length] show ?thesis by simp
qed

function brace_loop ::
  "string \<Rightarrow> cleansed_lines \<Rightarrow> nat \<Rightarrow> string \<Rightarrow> nesting_state \<Rightarrow> (nesting_state \<times> lint_msg list) py" where
  "brace_loop filename cl linenum line st =
     (case re_match re_brace_token line of
        None \<Rightarrow> Inr (st, [])
      | Some m \<Rightarrow>
          (case brace_token filename cl linenum line (group_text m 1) st of
             Inl e \<Rightarrow> Inl e
           | Inr (st1, ms) \<Rightarrow>
               py_bind (brace_loop filename cl linenum (group_text m 2) st1) (\<lambda>(st2, ms2).
                 Inr (st2, ms @ ms2))))"
  by pat_completeness auto
termination
  by (relation "measure (\<lambda>(f, cl, n, line, st). length line)") (auto dest: re_brace_token_shorter)

declare brace_loop.simps [simp del]

definition NestingState_Update ::
  "string \<Rightarrow> cleansed_lines \<Rightarrow> nat \<Rightarrow> nesting_state \<Rightarrow> (nesting_state \<times> lint_msg list) py" where
  "NestingState_Update filename cl linenum st =
     py_bind (py_nth (elided cl) (int linenum)) (\<lambda>line.
       let st1 = count_parens line (UpdatePreprocessor line (remember_top st));
           (line2, st2) = namespace_loop linenum line st1
       in py_bind (class_step cl linenum line2 st2) (\<lambda>(line3, st3).
          py_bind (begin_step cl linenum st3) (\<lambda>st4.
            let (st5, ms) = access_step filename linenum line3 st4
            in py_bind (brace_loop filename cl linenum line3 st5) (\<lambda>(st6, ms2).
               Inr (st6, ms @ ms2)))))"

definition incomplete_text :: "string \<Rightarrow> string \<Rightarrow> string" where
  "incomplete_text what name = ''Failed to find complete declaration of '' @ what @ '' '' @ name"

definition CheckCompletedBlocks :: "string \<Rightarrow> nesting_state \<Rightarrow> lint_msg list" where
  "CheckCompletedBlocks filename st =
     concat (map (\<lambda>obj.
       case kind obj of
         ClassKind c \<Rightarrow>
           [err_at filename (int (starting_linenum obj)) ''build/class'' 5 (incomplete_text ''class'' (c_name c))]
       | NamespaceKind name \<Rightarrow>
           [err_at filename (int (starting_linenum obj)) ''build/namespaces'' 5 (incomplete_text ''namespace'' name)]
       | _ \<Rightarrow> []) (rev (stack st)))"

end
