(* ===== verification/Nesting_Laws.thy ===== *)
theory Nesting_Laws
  imports Nesting Cleanse_Laws
begin

text \<open>
  Invariants of \<open>NestingState\<close>.  Everything \<open>Update\<close> does after the preprocessor step is
  built from three writes: to the object on top of the stack, a push of a new object, and a
  pop.  The locale \<open>stack_invariant\<close> carries an invariant of the three through the whole of
  \<open>Update\<close>; it is used for the identity of shared blocks and for the preprocessor stack.
\<close>

section \<open>Invariants through Update\<close>

lemma bid_new [simp]:
  "bid (BlockInfo i n b) = i" "bid (ExternCInfo i n) = i" "bid (NamespaceInfo i name n) = i"
  "starting_linenum (BlockInfo i n b) = n" "starting_linenum (ExternCInfo i n) = n"
  "starting_linenum (NamespaceInfo i name n) = n"
  by (simp_all add: BlockInfo_def ExternCInfo_def NamespaceInfo_def)

lemma bid_ClassInfo: "ClassInfo i name kw cl n = Inr c \<Longrightarrow> bid c = i \<and> starting_linenum c = n"
  by (auto simp: ClassInfo_def py_bind_Inr_iff)

lemma bid_CheckBegin: "CheckBegin cl n b = Inr b' \<Longrightarrow> bid b' = bid b \<and> starting_linenum b' = starting_linenum b"
  by (cases "kind b"; cases "py_nth (elided cl) (int n)") (auto simp: CheckBegin_def split: if_splits)

lemma namespace_loop_cases:
  "namespace_loop n line st =
     (case re_match re_namespace_decl line of
        None \<Rightarrow> (line, st)
      | Some m \<Rightarrow> namespace_loop n
          (case find_opt (group_text m 2) ''{'' of None \<Rightarrow> group_text m 2 | Some i \<Rightarrow> drop (i + 1) (group_text m 2))
          (push ((NamespaceInfo (next_id st) (group_text m 1) n)
             \<lparr>seen_open_brace := (find_opt (group_text m 2) ''{'' \<noteq> None)\<rparr>) st))"
  by (subst namespace_loop.simps)
    (auto simp: Let_def NamespaceInfo_def BlockInfo_def split: option.split)

locale stack_invariant =
  fixes I :: "nesting_state \<Rightarrow> bool" and n :: nat  \<comment> \<open>\<open>n\<close>: the line that is processed\<close>
  assumes I_set_top: "I st \<Longrightarrow> stack st \<noteq> [] \<Longrightarrow> bid b = bid (hd (stack st)) \<Longrightarrow>
      starting_linenum b = starting_linenum (hd (stack st)) \<Longrightarrow> I (set_top b st)"
    and I_push: "I st \<Longrightarrow> bid b = next_id st \<Longrightarrow> starting_linenum b = n \<Longrightarrow> I (push b st)"
    and I_pop: "I st \<Longrightarrow> I (pop st)"
begin

lemma I_count_parens: "I st \<Longrightarrow> I (count_parens line st)"
  by (auto simp: count_parens_def Let_def split: list.split intro!: I_set_top)

lemma I_namespace_loop: "I st \<Longrightarrow> namespace_loop n line st = (line', st') \<Longrightarrow> I st'"
proof (induction "length line" arbitrary: line st rule: less_induct)
  case less
  show ?case
  proof (cases "re_match re_namespace_decl line")
    case None
    with less.prems namespace_loop_cases [of n line st] show ?thesis by simp
  next
    case (Some m)
    let ?rest = "case find_opt (group_text m 2) ''{'' of None \<Rightarrow> group_text m 2 | Some i \<Rightarrow> drop (i + 1) (group_text m 2)"
    have "length ?rest < length line" using re_namespace_decl_shorter [OF Some] by (auto split: option.split)
    moreover let ?b = "(NamespaceInfo (next_id st) (group_text m 1) n)
        \<lparr>seen_open_brace := (find_opt (group_text m 2) ''{'' \<noteq> None)\<rparr>"
    have "I (push ?b st)" using less.prems(1) by (rule I_push) simp_all
    moreover have "namespace_loop n ?rest (push ?b st) = (line', st')"
      using less.prems(2) namespace_loop_cases [of n line st] unfolding Some by simp
    ultimately show ?thesis by (rule less.hyps)
  qed
qed

lemma I_class_step:
  assumes "I st" and "class_step cl n line st = Inr (line', st')"
  shows "I st'"
proof (cases "st' = st")
  case False
  with assms(2) obtain m c where "ClassInfo (next_id st) (group_text m 3) (group_text m 2) cl n = Inr c"
    "st' = push c st"
    unfolding class_step_def by (auto simp: py_bind_Inr_iff split: option.splits if_splits)
  with assms(1) show ?thesis by (simp add: I_push bid_ClassInfo)
qed (use assms in simp)

lemma I_begin_step:
  assumes "I st" and "begin_step cl n st = Inr st'"
  shows "I st'"
proof (cases "SeenOpenBrace st")
  case False
  with assms(2) obtain b where "CheckBegin cl n (hd (stack st)) = Inr b" "st' = set_top b st"
    by (auto simp: begin_step_def py_bind_Inr_iff)
  moreover have "stack st \<noteq> []" using False by (auto simp: SeenOpenBrace_def)
  ultimately show ?thesis using assms(1) by (simp add: I_set_top bid_CheckBegin)
qed (use assms in \<open>simp add: begin_step_def\<close>)

lemma I_access_step: "I st \<Longrightarrow> access_step f n line st = (st', ms) \<Longrightarrow> I st'"
  by (auto simp: access_step_def Let_def split: list.splits block_kind.splits option.splits intro!: I_set_top)

lemma I_open_brace: "I st \<Longrightarrow> I (open_brace n line st)"
  by (cases "stack st") (auto simp: open_brace_def SeenOpenBrace_def intro!: I_push I_set_top)

lemma I_brace_token: "I st \<Longrightarrow> brace_token f cl n line t st = Inr (st', ms) \<Longrightarrow> I st'"
  by (auto simp: brace_token_def end_statement_def close_brace_def py_bind_Inr_iff
      split: if_splits list.splits intro: I_open_brace I_pop)

lemma I_brace_loop: "I st \<Longrightarrow> brace_loop f cl n line st = Inr (st', ms) \<Longrightarrow> I st'"
proof (induction "length line" arbitrary: line st st' ms rule: less_induct)
  case less
  show ?case
  proof (cases "re_match re_brace_token line")
    case None
    with less.prems show ?thesis by (simp add: brace_loop.simps [of f cl n line st])
  next
    case (Some m)
    with less.prems(2) obtain st1 ms1 ms2 where
      t: "brace_token f cl n line (group_text m 1) st = Inr (st1, ms1)"
      and r: "brace_loop f cl n (group_text m 2) st1 = Inr (st', ms2)"
      by (auto simp: brace_loop.simps [of f cl n line st] py_bind_Inr_iff split: sum.splits)
    show ?thesis using less.hyps [OF re_brace_token_shorter [OF Some] I_brace_token [OF less.prems(1) t] r] .
  qed
qed

lemma I_Update:
  assumes "NestingState_Update f cl n st = Inr (st', ms)" and "n < length (elided cl)"
    and "I (UpdatePreprocessor (elided cl ! n) (remember_top st))"
  shows "I st'"
proof -
  let ?line = "elided cl ! n"
  let ?st1 = "count_parens ?line (UpdatePreprocessor ?line (remember_top st))"
  obtain line2 st2 where ns: "namespace_loop n ?line ?st1 = (line2, st2)" by fastforce
  let ?rest = "\<lambda>line3 st3. py_bind (begin_step cl n st3) (\<lambda>st4. let (st5, ms) = access_step f n line3 st4
      in py_bind (brace_loop f cl n line3 st5) (\<lambda>(st6, ms2). Inr (st6, ms @ ms2)))"
  have "py_nth (elided cl) (int n) = Inr ?line" using assms(2) by simp
  then have "NestingState_Update f cl n st = py_bind (class_step cl n line2 st2) (\<lambda>(line3, st3). ?rest line3 st3)"
    unfolding NestingState_Update_def by (simp add: ns)
  with assms(1) obtain line3 st3 where c: "class_step cl n line2 st2 = Inr (line3, st3)"
    and r: "?rest line3 st3 = Inr (st', ms)"
    by (auto simp only: py_bind_Inr_iff split_paired_Ex prod.case)
  from r obtain st4 where b: "begin_step cl n st3 = Inr st4"
    and r2: "(let (st5, ms) = access_step f n line3 st4
      in py_bind (brace_loop f cl n line3 st5) (\<lambda>(st6, ms2). Inr (st6, ms @ ms2))) = Inr (st', ms)"
    by (auto simp: py_bind_Inr_iff)
  obtain st5 ms5 where a: "access_step f n line3 st4 = (st5, ms5)" by fastforce
  from r2 a obtain ms6 where "brace_loop f cl n line3 st5 = Inr (st', ms6)"
    by (auto simp: py_bind_Inr_iff)
  then show ?thesis
    using I_brace_loop [OF I_access_step [OF I_begin_step [OF I_class_step
        [OF I_namespace_loop [OF I_count_parens [OF assms(3)] ns] c] b] a]] by simp
qed

end

section \<open>Shared blocks\<close>

definition pp_blocks :: "nesting_state \<Rightarrow> block_info list" where
  "pp_blocks st = concat (map (\<lambda>p. stack_before_if p @ stack_before_else p) (pp_stack st))"

definition alias_ok :: "nesting_state \<Rightarrow> bool" where
  "alias_ok st \<longleftrightarrow>
     distinct (map bid (stack st @ pp_blocks st))
     \<and> (\<forall>b \<in> set (stack st @ pp_blocks st). bid b < next_id st)
     \<and> (\<forall>p. previous_stack_top st = Some p \<longrightarrow>
          bid p < next_id st \<and> bid p \<notin> bid ` set (pp_blocks st)
          \<and> (\<forall>b \<in> set (stack st). bid b = bid p \<longrightarrow> b = p))"

lemma bid_deepcopy: "map bid (deepcopy i bs) = [i ..< i + length bs]"
  by (induction i bs rule: deepcopy.induct) (simp_all add: upt_rec)

lemma set_bid_deepcopy: "bid ` set (deepcopy i bs) = {i ..< i + length bs}"
  using arg_cong [OF bid_deepcopy, of set] by simp

lemma distinct_bid_tl_hd:
  "distinct (map bid (bs @ cs)) \<Longrightarrow> bs \<noteq> [] \<Longrightarrow> b \<in> set (tl bs) \<Longrightarrow> bid b \<noteq> bid (hd bs)"
  by (cases bs) (auto simp: image_iff)

lemma alias_okD:
  assumes "alias_ok st"
  shows "distinct (map bid (stack st @ pp_blocks st))"
    and "\<And>b. b \<in> set (stack st @ pp_blocks st) \<Longrightarrow> bid b < next_id st"
    and "\<And>p. previous_stack_top st = Some p \<Longrightarrow> bid p < next_id st"
    and "\<And>p b. previous_stack_top st = Some p \<Longrightarrow> b \<in> set (pp_blocks st) \<Longrightarrow> bid b \<noteq> bid p"
    and "\<And>p b. previous_stack_top st = Some p \<Longrightarrow> b \<in> set (stack st) \<Longrightarrow> bid b = bid p \<Longrightarrow> b = p"
  using assms by (auto simp: alias_ok_def image_iff)

lemma alias_okI:
  assumes "distinct (map bid (stack st @ pp_blocks st))"
    and "\<And>b. b \<in> set (stack st @ pp_blocks st) \<Longrightarrow> bid b < next_id st"
    and "\<And>p. previous_stack_top st = Some p \<Longrightarrow> bid p < next_id st"
    and "\<And>p b. previous_stack_top st = Some p \<Longrightarrow> b \<in> set (pp_blocks st) \<Longrightarrow> bid b \<noteq> bid p"
    and "\<And>p b. previous_stack_top st = Some p \<Longrightarrow> b \<in> set (stack st) \<Longrightarrow> bid b = bid p \<Longrightarrow> b = p"
  shows "alias_ok st"
  unfolding alias_ok_def
proof (intro conjI ballI allI impI)
  show "bid p \<notin> bid ` set (pp_blocks st)" if "previous_stack_top st = Some p" for p
    using assms(4) [OF that] by (metis imageE)
qed (use assms in blast)+

lemma alias_ok_set_top:
  assumes ok: "alias_ok st" and "stack st \<noteq> []" and "bid b = bid (hd (stack st))"
  shows "alias_ok (set_top b st)"
proof -
  from assms(2,3) obtain t ts where st: "stack st = t # ts" "bid b = bid t" by (cases "stack st") auto
  have pp: "pp_blocks (set_top b st) = pp_blocks st" "stack (set_top b st) = b # ts"
    "next_id (set_top b st) = next_id st" using st by (simp_all add: pp_blocks_def set_top_def)
  have ts: "bid c \<noteq> bid t" if "c \<in> set ts" for c
    using alias_okD(1) [OF ok] st that by (auto simp: image_iff)
  have prev: "\<exists>q. previous_stack_top st = Some q \<and> p = (if bid q = bid b then b else q)"
    if "previous_stack_top (set_top b st) = Some p" for p
    using that by (auto simp: set_top_def split: option.splits)
  show ?thesis
  proof (rule alias_okI, unfold pp)
    show "distinct (map bid ((b # ts) @ pp_blocks st))" using alias_okD(1) [OF ok] st by simp
    show "bid c < next_id st" if "c \<in> set ((b # ts) @ pp_blocks st)" for c
      using alias_okD(2) [OF ok, of c] alias_okD(2) [OF ok, of t] st that by auto
    show "bid p < next_id st" if "previous_stack_top (set_top b st) = Some p" for p
    proof -
      from prev [OF that] obtain q where q: "previous_stack_top st = Some q" "bid p = bid q"
        by (auto split: if_splits)
      show ?thesis using alias_okD(3) [OF ok q(1)] q(2) by simp
    qed
    show "bid c \<noteq> bid p" if "previous_stack_top (set_top b st) = Some p" "c \<in> set (pp_blocks st)" for p c
    proof -
      from prev [OF that(1)] obtain q where q: "previous_stack_top st = Some q" "bid p = bid q"
        by (auto split: if_splits)
      show ?thesis using alias_okD(4) [OF ok q(1) that(2)] q(2) by simp
    qed
    show "c = p" if "previous_stack_top (set_top b st) = Some p" "c \<in> set (b # ts)" "bid c = bid p" for p c
      using prev [OF that(1)] alias_okD(5) [OF ok, of _ c] ts [of c] st that(2,3) by (auto split: if_splits)
  qed
qed

lemma alias_ok_push:
  assumes ok: "alias_ok st" and "bid b = next_id st"
  shows "alias_ok (push b st)"
proof (rule alias_okI)
  have eq: "stack (push b st) @ pp_blocks (push b st) = b # stack st @ pp_blocks st"
    by (simp add: push_def pp_blocks_def)
  have new: "bid c \<noteq> next_id st" if "c \<in> set (stack st @ pp_blocks st)" for c
    using alias_okD(2) [OF ok that] by simp
  show "distinct (map bid (stack (push b st) @ pp_blocks (push b st)))"
    unfolding eq using alias_okD(1) [OF ok] new assms(2) by (force simp: image_iff)
  show "bid c < next_id (push b st)" if "c \<in> set (stack (push b st) @ pp_blocks (push b st))" for c
    using that alias_okD(2) [OF ok, of c] assms(2) unfolding eq by (auto simp: push_def)
  fix p assume p: "previous_stack_top (push b st) = Some p"
  then have p': "previous_stack_top st = Some p" by (simp add: push_def)
  show "bid p < next_id (push b st)" using alias_okD(3) [OF ok p'] by (simp add: push_def)
  show "bid c \<noteq> bid p" if "c \<in> set (pp_blocks (push b st))" for c
    using alias_okD(4) [OF ok p', of c] that by (simp add: push_def pp_blocks_def)
  show "c = p" if "c \<in> set (stack (push b st))" "bid c = bid p" for c
    using alias_okD(5) [OF ok p', of c] alias_okD(3) [OF ok p'] that assms(2) by (auto simp: push_def)
qed

lemma alias_ok_pop:
  assumes ok: "alias_ok st"
  shows "alias_ok (pop st)"
proof -
  have eq: "stack (pop st) = tl (stack st)" "pp_blocks (pop st) = pp_blocks st"
    "next_id (pop st) = next_id st" "previous_stack_top (pop st) = previous_stack_top st"
    by (simp_all add: pop_def pp_blocks_def)
  have sub: "c \<in> set (stack st)" if "c \<in> set (tl (stack st))" for c
    using that by (cases "stack st") auto
  show ?thesis
  proof (rule alias_okI, unfold eq)
    show "distinct (map bid (tl (stack st) @ pp_blocks st))"
      using alias_okD(1) [OF ok] by (cases "stack st") auto
    show "bid c < next_id st" if "c \<in> set (tl (stack st) @ pp_blocks st)" for c
      by (rule alias_okD(2) [OF ok]) (use that sub in auto)
    show "c = p" if "previous_stack_top st = Some p" "c \<in> set (tl (stack st))" "bid c = bid p" for p c
      using alias_okD(5) [OF ok that(1) sub [OF that(2)] that(3)] .
  qed (use alias_okD(3,4) [OF ok] in blast)+
qed

interpretation shared: stack_invariant alias_ok n for n
  by unfold_locales (simp_all add: alias_ok_set_top alias_ok_push alias_ok_pop)

lemma alias_ok_remember:
  assumes ok: "alias_ok st"
  shows "alias_ok (remember_top st)"
proof -
  have eq: "stack (remember_top st) = stack st" "pp_blocks (remember_top st) = pp_blocks st"
    "next_id (remember_top st) = next_id st" by (simp_all add: remember_top_def pp_blocks_def)
  have top: "p \<in> set (stack st)" if "previous_stack_top (remember_top st) = Some p" for p
    using that by (auto simp: remember_top_def split: list.splits)
  have inj: "c = p" if "c \<in> set (stack st @ pp_blocks st)" "p \<in> set (stack st)" "bid c = bid p" for c p
    using alias_okD(1) [OF ok] that unfolding distinct_map inj_on_def by auto
  show ?thesis
  proof (rule alias_okI, unfold eq)
    fix p c assume p: "previous_stack_top (remember_top st) = Some p" and c: "c \<in> set (pp_blocks st)"
    show "bid c \<noteq> bid p"
    proof
      assume "bid c = bid p"
      then have "c = p" using inj [of c p] c top [OF p] by simp
      with c top [OF p] alias_okD(1) [OF ok] show False by (auto simp: image_iff)
    qed
  qed (use alias_okD(1,2) [OF ok] top inj in auto)
qed

lemma pp_blocks_simps [simp]:
  "pp_blocks (st\<lparr>stack := s\<rparr>) = pp_blocks st"
  "pp_blocks (st\<lparr>next_id := i\<rparr>) = pp_blocks st"
  "pp_blocks (st\<lparr>pp_stack := p # ps\<rparr>) =
     stack_before_if p @ stack_before_else p @ pp_blocks (st\<lparr>pp_stack := ps\<rparr>)"
  by (simp_all add: pp_blocks_def)

lemma pp_blocks_Cons: "pp_stack st = p # ps \<Longrightarrow>
  pp_blocks st = stack_before_if p @ stack_before_else p @ pp_blocks (st\<lparr>pp_stack := ps\<rparr>)"
  by (simp add: pp_blocks_def)

text \<open>Blocks copied under fresh identities beside blocks with older ones.\<close>

lemma distinct_fresh:
  assumes "distinct (map bid bs)" and "\<forall>b \<in> set bs. bid b < i"
  shows "distinct (map bid (deepcopy i cs @ bs)) \<and> (\<forall>b \<in> set (deepcopy i cs @ bs). bid b < i + length cs)"
proof -
  have "bid b < i + length cs" if "b \<in> set (deepcopy i cs)" for b
    using set_bid_deepcopy [of i cs] that by (metis atLeastLessThan_iff imageI)
  moreover have "set (map bid (deepcopy i cs)) \<inter> set (map bid bs) = {}"
    using assms(2) by (auto simp: bid_deepcopy)
  ultimately show ?thesis using assms by (auto simp: bid_deepcopy trans_less_add1)
qed

lemma deepcopy_ids: "b \<in> set (deepcopy i bs) \<Longrightarrow> i \<le> bid b \<and> bid b < i + length bs"
  using set_bid_deepcopy [of i bs] by (metis atLeastLessThan_iff imageI)

text \<open>
  A preprocessor step keeps the blocks that are reachable, adds copies under fresh identities
  and leaves \<open>previous_stack_top\<close> alone.  What is in the new stack is there already or new.
\<close>

lemma alias_ok_pp:
  assumes ok: "alias_ok st" and "previous_stack_top st' = previous_stack_top st"
    and "distinct (map bid (stack st' @ pp_blocks st'))"
    and "next_id st \<le> next_id st'" and "\<And>b. b \<in> set (stack st' @ pp_blocks st') \<Longrightarrow> bid b < next_id st'"
    and "\<And>b. b \<in> set (pp_blocks st') \<Longrightarrow> b \<in> set (pp_blocks st) \<or> next_id st \<le> bid b"
    and "\<And>b. b \<in> set (stack st') \<Longrightarrow> b \<in> set (stack st @ pp_blocks st) \<or> next_id st \<le> bid b"
  shows "alias_ok st'"
proof (rule alias_okI)
  fix p assume "previous_stack_top st' = Some p"
  then have p: "previous_stack_top st = Some p" using assms(2) by simp
  note old = alias_okD(3) [OF ok p] alias_okD(4) [OF ok p] alias_okD(5) [OF ok p]
  show "bid p < next_id st'" using old(1) assms(4) by simp
  show "bid b \<noteq> bid p" if "b \<in> set (pp_blocks st')" for b using assms(6) [OF that] old(1,2) by fastforce
  show "b = p" if "b \<in> set (stack st')" "bid b = bid p" for b
    using assms(7) [OF that(1)] that(2) old by (cases "b \<in> set (stack st)") auto
qed (use assms in auto)

lemma alias_ok_enter:
  assumes ok: "alias_ok st"
  shows "alias_ok (pp_enter st)"
proof -
  let ?c = "deepcopy (next_id st) (stack st)"
  note fresh = distinct_fresh [OF alias_okD(1) [OF ok], of "next_id st" "stack st"]
  have eq: "stack (pp_enter st) = stack st" "pp_blocks (pp_enter st) = ?c @ pp_blocks st"
    by (simp_all add: pp_enter_def pp_blocks_def)
  show ?thesis
  proof (rule alias_ok_pp [OF ok], unfold eq)
    show "distinct (map bid (stack st @ ?c @ pp_blocks st))" using fresh alias_okD(2) [OF ok] by auto
  qed (use alias_okD(2) [OF ok] in \<open>auto simp: pp_enter_def dest: deepcopy_ids intro: trans_less_add1\<close>)
qed

lemma alias_ok_leave:
  assumes ok: "alias_ok st"
  shows "alias_ok (pp_leave st)"
proof (cases "pp_stack st")
  case Nil
  then show ?thesis using ok by (simp add: pp_leave_def)
next
  case (Cons p ps)
  note bl = pp_blocks_Cons [OF Cons]
  have "pp_blocks (pp_leave st) = pp_blocks (st\<lparr>pp_stack := ps\<rparr>)"
    "stack (pp_leave st) = (if seen_else p then stack_before_else p else stack st)"
    using Cons by (simp_all add: pp_leave_def pp_blocks_def)
  with alias_okD(1,2) [OF ok] bl show ?thesis
    by (intro alias_ok_pp [OF ok]) (auto simp: pp_leave_def Cons split: if_splits)
qed

lemma alias_ok_switch:
  assumes ok: "alias_ok st"
  shows "alias_ok (pp_switch st)"
proof (cases "pp_stack st")
  case Nil
  then show ?thesis using ok by (simp add: pp_switch_def)
next
  case (Cons p ps)
  define j where "j = (if seen_else p then next_id st else next_id st + length (stack st))"
  let ?rest = "pp_blocks (st\<lparr>pp_stack := ps\<rparr>)" and ?s = "deepcopy j (stack_before_if p)"
  let ?e = "if seen_else p then stack_before_else p else deepcopy (next_id st) (stack st)"
  note bl = pp_blocks_Cons [OF Cons]
  have eq: "stack (pp_switch st) = ?s" "pp_blocks (pp_switch st) = stack_before_if p @ ?e @ ?rest"
    "next_id (pp_switch st) = j + length (stack_before_if p)"
    "previous_stack_top (pp_switch st) = previous_stack_top st"
    using Cons by (simp_all add: pp_switch_def pp_blocks_def Let_def j_def)
  let ?old = "stack_before_if p @ (if seen_else p then stack_before_else p else []) @ ?rest"
  have old: "distinct (map bid ?old)" "\<forall>b \<in> set ?old. bid b < next_id st"
    using alias_okD(1,2) [OF ok] bl by auto
  have mid: "distinct (map bid (stack_before_if p @ ?e @ ?rest))"
    "\<forall>b \<in> set (stack_before_if p @ ?e @ ?rest). bid b < j"
    using old distinct_fresh [OF old, of "stack st"] by (auto simp: j_def)
  have "next_id st \<le> j" by (simp add: j_def)
  then show ?thesis
    using distinct_fresh [OF mid, of "stack_before_if p"] bl
    by (intro alias_ok_pp [OF ok]) (auto simp: eq dest: deepcopy_ids split: if_splits)
qed

lemma alias_ok_UpdatePreprocessor: "alias_ok st \<Longrightarrow> alias_ok (UpdatePreprocessor line st)"
  by (simp add: UpdatePreprocessor_def alias_ok_enter alias_ok_switch alias_ok_leave)

lemma alias_ok_Update:
  "alias_ok st \<Longrightarrow> n < length (elided cl) \<Longrightarrow> NestingState_Update f cl n st = Inr (st', ms) \<Longrightarrow> alias_ok st'"
  by (rule shared.I_Update [OF _ _ alias_ok_UpdatePreprocessor [OF alias_ok_remember]])

section \<open>Runs over a file\<close>

text \<open>The calls of \<open>Update\<close> that \<open>ProcessFileData\<close> makes, over a list of line numbers.\<close>

fun nesting_run ::
  "string \<Rightarrow> cleansed_lines \<Rightarrow> nat list \<Rightarrow> nesting_state \<Rightarrow> (nesting_state \<times> lint_msg list) py" where
  "nesting_run f cl [] st = Inr (st, [])"
| "nesting_run f cl (n # ns) st =
     py_bind (NestingState_Update f cl n st) (\<lambda>(st1, ms).
       py_bind (nesting_run f cl ns st1) (\<lambda>(st2, ms2). Inr (st2, ms @ ms2)))"

lemma nesting_run_ConsE:
  assumes "nesting_run f cl (n # ns) st = Inr (st', ms)"
  obtains st1 ms1 ms2 where "NestingState_Update f cl n st = Inr (st1, ms1)"
    "nesting_run f cl ns st1 = Inr (st', ms2)" "ms = ms1 @ ms2"
  using assms by (auto simp: py_bind_Inr_iff)

lemma alias_ok_run:
  "alias_ok st \<Longrightarrow> \<forall>n \<in> set ns. n < length (elided cl) \<Longrightarrow> nesting_run f cl ns st = Inr (st', ms) \<Longrightarrow> alias_ok st'"
proof (induction ns arbitrary: st ms)
  case (Cons n ns)
  from Cons.prems(3) obtain st1 ms1 ms2 where "NestingState_Update f cl n st = Inr (st1, ms1)"
    "nesting_run f cl ns st1 = Inr (st', ms2)" by (rule nesting_run_ConsE)
  moreover from this(1) have "alias_ok st1"
    by (rule alias_ok_Update [rotated 2]) (use Cons.prems in simp_all)
  ultimately show ?case using Cons.IH Cons.prems(2) by simp
qed simp

lemma alias_ok_init: "alias_ok init_nesting"
  by (simp add: alias_ok_def init_nesting_def pp_blocks_def)

text \<open>
  C25.  The objects of the parser state are shared only as the code intends.  After any run of
  \<open>Update\<close> from the initial state, the blocks of the stack and of the snapshots that
  \<open>UpdatePreprocessor\<close> keeps are pairwise distinct objects, and \<open>previous_stack_top\<close> is
  in no snapshot; when it is an object of the stack, it is that object with all later writes.
\<close>

theorem blocks_not_shared:
  assumes "nesting_run f cl ns init_nesting = Inr (st, ms)" and "\<forall>n \<in> set ns. n < length (elided cl)"
  shows "distinct (map bid (stack st @ pp_blocks st))
    \<and> (\<forall>p. previous_stack_top st = Some p \<longrightarrow>
         bid p \<notin> bid ` set (pp_blocks st) \<and> (\<forall>b \<in> set (stack st). bid b = bid p \<longrightarrow> b = p))"
  using alias_ok_run [OF alias_ok_init assms(2,1)] unfolding alias_ok_def by blast

section \<open>Conditional branches\<close>

text \<open>A stack with the identities of its blocks left out.\<close>

definition shape :: "block_info list \<Rightarrow> block_info list" where
  "shape bs = map (\<lambda>b. b\<lparr>bid := 0\<rparr>) bs"

lemma shape_deepcopy [simp]: "shape (deepcopy i bs) = shape bs"
  by (induction i bs rule: deepcopy.induct) (simp_all add: shape_def)

text \<open>Every conditional opened in the lines is closed in them, and none from before is.\<close>

fun pp_balanced :: "nat \<Rightarrow> string list \<Rightarrow> bool" where
  "pp_balanced d [] \<longleftrightarrow> d = 0"
| "pp_balanced d (l # ls) \<longleftrightarrow>
     (if is_pp_if l then pp_balanced (d + 1) ls
      else if is_pp_else l then pp_balanced d ls
      else if is_pp_endif l then 0 < d \<and> pp_balanced (d - 1) ls
      else pp_balanced d ls)"

interpretation conditionals: stack_invariant "\<lambda>st. pp_stack st = P" n for P n
  by unfold_locales (simp_all add: set_top_def push_def pop_def)

lemma pp_stack_Update:
  assumes "NestingState_Update f cl n st = Inr (st', ms)" and "n < length (elided cl)"
  shows "pp_stack st' = pp_stack (UpdatePreprocessor (elided cl ! n) (remember_top st))"
  using conditionals.I_Update [OF assms refl] .

lemma pp_stack_remember [simp]: "pp_stack (remember_top st) = pp_stack st" "stack (remember_top st) = stack st"
  by (simp_all add: remember_top_def)

text \<open>The conditional under \<open>d\<close> inner ones, once it has seen an \<open>#else\<close>, stays as it is.\<close>

definition else_frame :: "nat \<Rightarrow> pp_info \<Rightarrow> pp_info list \<Rightarrow> nesting_state \<Rightarrow> bool" where
  "else_frame d p ps st \<longleftrightarrow> (\<exists>qs. pp_stack st = qs @ p # ps \<and> length qs = d)"

lemma else_frame_enter: "else_frame d p ps st \<Longrightarrow> else_frame (d + 1) p ps (pp_enter st)"
  by (auto simp: else_frame_def pp_enter_def)

lemma else_frame_switch: "else_frame d p ps st \<Longrightarrow> seen_else p \<Longrightarrow> else_frame d p ps (pp_switch st)"
  by (cases d) (auto simp: else_frame_def pp_switch_def Let_def length_Suc_conv)

lemma else_frame_leave: "else_frame d p ps st \<Longrightarrow> 0 < d \<Longrightarrow> else_frame (d - 1) p ps (pp_leave st)"
  by (cases d) (auto simp: else_frame_def pp_leave_def length_Suc_conv)

lemma else_frame_run:
  "else_frame d p ps st \<Longrightarrow> seen_else p \<Longrightarrow> pp_balanced d (map ((!) (elided cl)) ns) \<Longrightarrow>
   \<forall>n \<in> set ns. n < length (elided cl) \<Longrightarrow> nesting_run f cl ns st = Inr (st', ms) \<Longrightarrow>
   pp_stack st' = p # ps"
proof (induction ns arbitrary: d st ms)
  case Nil
  then show ?case by (simp add: else_frame_def)
next
  case (Cons n ns)
  from Cons.prems(5) obtain st1 ms1 ms2 where u: "NestingState_Update f cl n st = Inr (st1, ms1)"
    and r: "nesting_run f cl ns st1 = Inr (st', ms2)" by (rule nesting_run_ConsE)
  let ?l = "elided cl ! n" and ?st = "remember_top st"
  have f: "else_frame d p ps ?st" using Cons.prems(1) by (simp add: else_frame_def)
  have eq: "else_frame e p ps st1 \<longleftrightarrow> else_frame e p ps (UpdatePreprocessor ?l ?st)" for e
    using pp_stack_Update [OF u] Cons.prems(4) by (simp add: else_frame_def)
  note ih = Cons.IH [OF _ Cons.prems(2) _ _ r]
  from f Cons.prems(2,3) obtain e where "else_frame e p ps st1" "pp_balanced e (map ((!) (elided cl)) ns)"
    unfolding eq UpdatePreprocessor_def
    by (cases "is_pp_if ?l"; cases "is_pp_else ?l"; cases "is_pp_endif ?l")
      (auto dest: else_frame_enter else_frame_switch else_frame_leave)
  then show ?case using ih Cons.prems(4) by simp
qed

text \<open>
  C23.  Whatever the branches after the first \<open>#else\<close> or \<open>#elif\<close> of a conditional do to the
  parser state, the matching \<open>#endif\<close> undoes it: it continues with the stack that the first
  branch left, field by field, under any nesting of conditionals in between.
\<close>

theorem else_branches_neutral:
  assumes "pp_stack st = p # ps" and "\<not> seen_else p"
    and "is_pp_else (elided cl ! e)" and "\<not> is_pp_if (elided cl ! e)" and "e < length (elided cl)"
    and "pp_balanced 0 (map ((!) (elided cl)) ns)" and "\<forall>n \<in> set ns. n < length (elided cl)"
    and "nesting_run f cl (e # ns) st = Inr (st', ms)"
    and "is_pp_endif endif" and "\<not> is_pp_if endif" and "\<not> is_pp_else endif"
  shows "shape (stack (UpdatePreprocessor endif (remember_top st'))) = shape (stack st)
    \<and> pp_stack (UpdatePreprocessor endif (remember_top st')) = ps"
proof -
  from assms(8) obtain st1 ms1 ms2 where u: "NestingState_Update f cl e st = Inr (st1, ms1)"
    and r: "nesting_run f cl ns st1 = Inr (st', ms2)" by (rule nesting_run_ConsE)
  let ?p = "p\<lparr>seen_else := True, stack_before_else := deepcopy (next_id st) (stack st)\<rparr>"
  have "next_id (remember_top st) = next_id st" by (simp add: remember_top_def)
  then have "pp_stack st1 = ?p # ps"
    using pp_stack_Update [OF u assms(5)] assms(1-4)
    by (simp add: UpdatePreprocessor_def pp_switch_def Let_def)
  then have "else_frame 0 ?p ps st1" by (simp add: else_frame_def)
  then have "pp_stack st' = ?p # ps" by (rule else_frame_run [OF _ _ assms(6,7) r]) simp
  then show ?thesis using assms(9-11) by (simp add: UpdatePreprocessor_def pp_leave_def)
qed

section \<open>Where blocks start\<close>

text \<open>Every block of the stack and of the snapshots starts on a line that has been processed.\<close>

definition starts_by :: "nat \<Rightarrow> nesting_state \<Rightarrow> bool" where
  "starts_by n st \<longleftrightarrow> (\<forall>b \<in> set (stack st @ pp_blocks st). starting_linenum b \<le> n)"

lemma deepcopy_starts: "starting_linenum ` set (deepcopy i bs) = starting_linenum ` set bs"
  by (induction i bs rule: deepcopy.induct) simp_all

lemma deepcopy_starts_le:
  "b \<in> set (deepcopy i bs) \<Longrightarrow> \<forall>b \<in> set bs. starting_linenum b \<le> n \<Longrightarrow> starting_linenum b \<le> n"
  using deepcopy_starts [of i bs] by (metis imageE imageI)

interpretation started: stack_invariant "starts_by n" n for n
proof unfold_locales
  fix st b assume s: "starts_by n st"
  show "stack st \<noteq> [] \<Longrightarrow> bid b = bid (hd (stack st)) \<Longrightarrow>
      starting_linenum b = starting_linenum (hd (stack st)) \<Longrightarrow> starts_by n (set_top b st)"
    using s by (cases "stack st") (auto simp: starts_by_def set_top_def pp_blocks_def)
  show "bid b = next_id st \<Longrightarrow> starting_linenum b = n \<Longrightarrow> starts_by n (push b st)"
    using s by (auto simp: starts_by_def push_def pp_blocks_def)
  show "starts_by n (pop st)"
    using s by (cases "stack st") (auto simp: starts_by_def pop_def pp_blocks_def)
qed

lemma starts_by_UpdatePreprocessor:
  assumes "starts_by n st"
  shows "starts_by n (UpdatePreprocessor line st)"
proof -
  have "starts_by n (pp_enter st)" using assms
    by (auto simp: starts_by_def pp_enter_def pp_blocks_def dest: deepcopy_starts_le)
  moreover have "starts_by n (pp_switch st)" "starts_by n (pp_leave st)" using assms
    by (cases "pp_stack st"; auto simp: starts_by_def pp_switch_def pp_leave_def pp_blocks_def Let_def
        intro: deepcopy_starts_le split: if_splits)+
  ultimately show ?thesis using assms by (simp add: UpdatePreprocessor_def)
qed

lemma starts_by_Update:
  assumes "NestingState_Update f cl n st = Inr (st', ms)" and "n < length (elided cl)" and "starts_by n st"
  shows "starts_by n st'"
proof -
  have "starts_by n (remember_top st)" using assms(3) by (simp add: starts_by_def remember_top_def pp_blocks_def)
  from started.I_Update [OF assms(1,2) starts_by_UpdatePreprocessor [OF this]] show ?thesis .
qed

lemma starts_by_mono: "starts_by n st \<Longrightarrow> n \<le> m \<Longrightarrow> starts_by m st"
  by (force simp: starts_by_def)

section \<open>Braces\<close>

text \<open>The stack height that counting braces gives; a closing brace at height 0 is ignored.\<close>

fun brace_depth :: "nat \<Rightarrow> string \<Rightarrow> nat" where
  "brace_depth d [] = d"
| "brace_depth d (c # cs) =
     brace_depth (if c = CHR ''{'' then d + 1 else if c = CHR ''}'' then d - 1 else d) cs"

lemma brace_depth_append: "brace_depth d (u @ v) = brace_depth (brace_depth d u) v"
  by (induction d u rule: brace_depth.induct) simp_all

lemma brace_depth_plain: "\<forall>x \<in> set u. \<not> in_items x brace_items \<Longrightarrow> brace_depth d u = d"
  by (induction u arbitrary: d) (auto simp: brace_items_def)

definition all_open :: "nesting_state \<Rightarrow> bool" where
  "all_open st \<longleftrightarrow> (\<forall>b \<in> set (stack st). seen_open_brace b)"

lemma all_open_seen: "all_open st \<Longrightarrow> SeenOpenBrace st"
  by (auto simp: all_open_def SeenOpenBrace_def split: list.split)

lemma brace_token_depth:
  assumes "all_open st" and "brace_token f cl n line [c] st = Inr (st1, ms)" and "in_items c brace_items"
  shows "all_open st1 \<and> length (stack st1) = brace_depth (length (stack st)) [c]"
proof -
  have "c \<in> {CHR ''{'', CHR ''}'', CHR '';'', CHR '')''}"
    using assms(3) by (auto simp: brace_items_def)
  then show ?thesis using assms(1,2) all_open_seen [OF assms(1)]
    by (elim insertE)
      (auto simp: brace_token_def open_brace_def end_statement_def close_brace_def push_def pop_def
        all_open_def ExternCInfo_def BlockInfo_def py_bind_Inr_iff split: list.splits if_splits)
qed

lemma re_brace_token_none:
  assumes "re_match re_brace_token line = None" and "newline \<notin> set line"
  shows "\<forall>x \<in> set line. \<not> in_items x brace_items"
proof (rule ccontr)
  assume "\<not> ?thesis"
  then have "\<exists>x \<in> set line. in_items x brace_items" by blast
  then obtain u c t where line: "line = u @ c # t" "in_items c brace_items"
    "\<forall>x \<in> set u. \<not> in_items x brace_items" using split_list_first_prop [of line "\<lambda>x. in_items x brace_items"] by blast
  have 1: "rm (Star (NotIn brace_items)) ([], line, []) (rev u, c # t, [])"
    using rm_Star_one_charI [OF one_char_Cls [of True brace_items], where w = u and p = "[]" and s' = "c # t" and c = "[]"]
      line by simp
  have 2: "\<exists>k. rm (Grp 1 (In brace_items)) (rev u, c # t, []) (c # rev u, t, k)"
    using rm_Grp [OF rm_Cls [of c brace_items False "rev u" t "[]"], of 1] line(2) by auto
  then obtain k where 2: "rm (Grp 1 (In brace_items)) (rev u, c # t, []) (c # rev u, t, k)" ..
  have "newline \<notin> set t" using assms(2) line(1) by simp
  then have "rm (Star Any) (c # rev u, t, k) (rev t @ c # rev u, [], k)"
    using rm_Star_one_charI [OF one_char_Any, where w = t and p = "c # rev u" and s' = "[]" and c = k] by auto
  then obtain k' where 3: "rm (Grp 2 (Star Any)) (c # rev u, t, k) (rev t @ c # rev u, [], k')"
    using rm_Grp by blast
  have "rm re_brace_token ([], line, []) (rev t @ c # rev u, [], k')"
    unfolding re_brace_token_eq Seqs.simps
    by (intro rm_Seq [OF rm_Bol] rm_Seq [OF 1] rm_Seq [OF 2] rm_Seq [OF 3] rm_Eol) simp
  with assms(1) show False by (simp add: re_match_None_iff)
qed

text \<open>
  C24.  The brace loop of \<open>Update\<close> computes brace counting.  When every block on the stack has
  seen its opening brace, which is so outside declarations, processing a line changes the
  height of the stack exactly as counting its braces does, whatever else the line holds, and
  keeps every block open.
\<close>

theorem brace_loop_counts:
  assumes "all_open st" and "newline \<notin> set line" and "brace_loop f cl n line st = Inr (st', ms)"
  shows "length (stack st') = brace_depth (length (stack st)) line \<and> all_open st'"
  using assms
proof (induction "length line" arbitrary: line st ms rule: less_induct)
  case less
  note step = brace_loop.simps [of f cl n line st]
  show ?case
  proof (cases "re_match re_brace_token line")
    case None
    with less.prems step brace_depth_plain [OF re_brace_token_none] show ?thesis by simp
  next
    case (Some m)
    from re_brace_token_parts [OF Some] less.prems(2) obtain u c where
      line: "line = u @ c # group_text m 2" "group_text m 1 = [c]" "in_items c brace_items"
      "\<forall>x \<in> set u. \<not> in_items x brace_items" by auto
    from Some less.prems(3) obtain st1 ms1 ms2 where
      t: "brace_token f cl n line [c] st = Inr (st1, ms1)"
      and r: "brace_loop f cl n (group_text m 2) st1 = Inr (st', ms2)"
      unfolding step by (auto simp: line(2) [simplified] py_bind_Inr_iff split: sum.splits)
    from line(1) less.prems(2) have "newline \<notin> set (group_text m 2)" by (metis Un_iff list.set_intros(2) set_append)
    with less.hyps [OF re_brace_token_shorter [OF Some] _ _ r] brace_token_depth [OF less.prems(1) t line(3)]
    have "length (stack st') = brace_depth (brace_depth (length (stack st)) [c]) (group_text m 2) \<and> all_open st'"
      by simp
    moreover have "brace_depth (length (stack st)) line
        = brace_depth (brace_depth (length (stack st)) [c]) (group_text m 2)"
      using brace_depth_plain [OF line(4)] by (subst line(1)) (simp add: brace_depth_append)
    ultimately show ?thesis by simp
  qed
qed

section \<open>No exception\<close>

text \<open>What \<open>CleansedLines\<close> guarantees of the lists that the parser indexes.\<close>

definition sized :: "cleansed_lines \<Rightarrow> bool" where
  "sized cl \<longleftrightarrow> length (elided cl) = NumLines cl \<and> length (raw_lines cl) = NumLines cl"

definition returns :: "'a py \<Rightarrow> bool" where
  "returns r \<longleftrightarrow> (\<exists>x. r = Inr x)"

lemma returns_Inr [simp]: "returns (Inr x)"
  by (simp add: returns_def)

lemma returns_bind: "returns m \<Longrightarrow> (\<And>x. m = Inr x \<Longrightarrow> returns (k x)) \<Longrightarrow> returns (py_bind m k)"
  by (auto simp: returns_def)

lemma returns_elided: "sized cl \<Longrightarrow> n < NumLines cl \<Longrightarrow> returns (py_nth (elided cl) (int n))"
  by (simp add: sized_def)

lemma returns_raw: "sized cl \<Longrightarrow> n < NumLines cl \<Longrightarrow> returns (py_nth (raw_lines cl) (int n))"
  by (simp add: sized_def)

lemma close_lines_returns: "sized cl \<Longrightarrow> returns (close_lines cl line n stk)"
proof (induction "NumLines cl - n" arbitrary: n line stk rule: less_induct)
  case less
  have "returns (py_nth (elided cl) (int (n + 1)))" if "int n < int (NumLines cl) - 1"
    by (rule returns_elided [OF less.prems]) (use that in simp)
  then show ?case
    by (subst close_lines.simps)
      (use less in \<open>auto intro!: returns_bind simp: split_beta Let_def\<close>)
qed

lemma CloseExpression_returns:
  "sized cl \<Longrightarrow> n < NumLines cl \<Longrightarrow> p < length (elided cl ! n) \<Longrightarrow> returns (CloseExpression cl n p)"
  unfolding CloseExpression_def
  by (intro returns_bind returns_elided) (auto simp: sized_def Let_def split_beta close_lines_returns)

lemma InTemplateArgumentList_returns: "sized cl \<Longrightarrow> returns (InTemplateArgumentList cl n p)"
proof (induction cl n p rule: InTemplateArgumentList.induct)
  case (1 cl n p)
  note step = InTemplateArgumentList.simps [of cl n p]
  show ?case
  proof (cases "n < NumLines cl")
    case True
    let ?line = "elided cl ! n"
    have line: "py_nth (elided cl) (int n) = Inr ?line" using True "1.prems" by (simp add: sized_def)
    show ?thesis
    proof (cases "re_match re_template_token (drop p ?line)")
      case None
      with 1 True line step show ?thesis by simp
    next
      case (Some m)
      let ?q = "p + length (m_text m)" and ?t = "group_text m 1"
      have "0 < length (m_text m)" "length (m_text m) \<le> length ?line - p"
        using re_template_token_minw [OF Some] by simp_all
      then have "?q - 1 < length ?line" by linarith
      with CloseExpression_returns [OF "1.prems" True] obtain l n' p' where
        ce: "CloseExpression cl n (?q - 1) = Inr (l, n', p')" by (force simp: returns_def)
      show ?thesis
      proof (cases "?t \<in> {''{'', ''}'', '';'', ''>'', ''='', ''['', '']'', ''.''}")
        case True
        with line Some \<open>n < NumLines cl\<close> step show ?thesis by auto
      next
        case False
        note ih = "1.IH"(2-4) [OF _ line Some refl refl]
        from False True show ?thesis
          unfolding step using ih ce line Some "1.prems" by (auto simp: Let_def)
      qed
    qed
  qed (simp add: step)
qed

lemma class_last_line_returns: "sized cl \<Longrightarrow> returns (class_last_line cl i d)"
proof (induction "NumLines cl - i" arbitrary: i d rule: less_induct)
  case less
  show ?case
    by (subst class_last_line.simps)
      (use less in \<open>auto intro!: returns_bind returns_elided simp: Let_def\<close>)
qed

lemma ClassInfo_returns: "sized cl \<Longrightarrow> n < NumLines cl \<Longrightarrow> returns (ClassInfo i name kw cl n)"
  unfolding ClassInfo_def by (intro returns_bind returns_raw class_last_line_returns) auto

lemma disallow_loop_returns: "sized cl \<Longrightarrow> n \<le> NumLines cl \<Longrightarrow> returns (disallow_loop f cl name start n b)"
  by (induction f cl name start n b rule: disallow_loop.induct)
    (auto intro!: returns_bind returns_elided split: option.split)

lemma CheckEnd_returns: "sized cl \<Longrightarrow> n < NumLines cl \<Longrightarrow> returns (CheckEnd f cl n b)"
  unfolding CheckEnd_def ClassInfo_CheckEnd_def NamespaceInfo_CheckEnd_def
  by (cases "kind b") (auto intro!: returns_bind returns_elided returns_raw disallow_loop_returns)

lemma brace_token_returns: "sized cl \<Longrightarrow> n < NumLines cl \<Longrightarrow> returns (brace_token f cl n line t st)"
  unfolding brace_token_def close_brace_def
  by (auto intro!: returns_bind CheckEnd_returns split: list.split)

lemma brace_loop_returns: "sized cl \<Longrightarrow> n < NumLines cl \<Longrightarrow> returns (brace_loop f cl n line st)"
proof (induction "length line" arbitrary: line st rule: less_induct)
  case less
  note step = brace_loop.simps [of f cl n line st]
  show ?case
  proof (cases "re_match re_brace_token line")
    case (Some m)
    obtain st1 ms where "brace_token f cl n line (group_text m 1) st = Inr (st1, ms)"
      using brace_token_returns [OF less.prems] by (force simp: returns_def)
    with Some less.hyps [OF re_brace_token_shorter [OF Some] less.prems] show ?thesis
      unfolding step by (auto intro!: returns_bind)
  qed (simp add: step)
qed

lemma class_step_returns: "sized cl \<Longrightarrow> n < NumLines cl \<Longrightarrow> returns (class_step cl n line st)"
  unfolding class_step_def
  by (auto intro!: returns_bind InTemplateArgumentList_returns ClassInfo_returns split: option.split)

lemma begin_step_returns: "sized cl \<Longrightarrow> n < NumLines cl \<Longrightarrow> returns (begin_step cl n st)"
  unfolding begin_step_def CheckBegin_def
  by (auto intro!: returns_bind returns_elided split: block_kind.split)

lemma Update_returns: "sized cl \<Longrightarrow> n < NumLines cl \<Longrightarrow> returns (NestingState_Update f cl n st)"
  unfolding NestingState_Update_def
  by (auto simp: Let_def split_beta
      intro!: returns_bind returns_elided class_step_returns begin_step_returns brace_loop_returns)

lemma nesting_run_returns:
  "sized cl \<Longrightarrow> \<forall>n \<in> set ns. n < NumLines cl \<Longrightarrow> returns (nesting_run f cl ns st)"
  by (induction ns arbitrary: st) (auto simp: split_beta intro!: returns_bind Update_returns)

text \<open>
  C22.  The parser never fails: for every file, \<open>CleansedLines\<close> succeeds and \<open>Update\<close> on all
  of its lines in order returns a state without an exception, whatever the text is.
\<close>

theorem nesting_never_raises:
  "\<exists>cl st ms. CleansedLines ls = Inr cl \<and> nesting_run f cl [0 ..< NumLines cl] init_nesting = Inr (st, ms)"
proof -
  obtain cl where cl: "CleansedLines ls = Inr cl" "raw_lines cl = ls" "NumLines cl = length ls"
    "length (elided cl) = length ls"
    by (rule CleansedLines_result [of ls]) (auto dest: list_all2_lengthD)
  then have "sized cl" by (simp add: sized_def)
  with nesting_run_returns [of cl "[0 ..< NumLines cl]" f init_nesting] cl(1) show ?thesis
    by (auto simp: returns_def)
qed

section \<open>Concrete runs\<close>

text \<open>Six lines in which the second branch of a conditional opens one brace too many.\<close>

definition sample_cl :: cleansed_lines where
  "sample_cl =
     (let ls = [''namespace a {'', ''#if X'', ''struct S {'', ''#else'', ''struct S { {'', ''#endif''] in
      \<lparr>elided = ls, lines = ls, raw_lines = ls, num_lines = 6, lines_without_raw_strings = ls\<rparr>)"

lemma sample_sized: "sized sample_cl" "NumLines sample_cl = 6" "length (elided sample_cl) = 6"
  by (simp_all add: sized_def sample_cl_def NumLines_def Let_def)

lemma file_sample_run: "\<forall>n \<in> set ns. n < 6 \<Longrightarrow> \<exists>st' ms. nesting_run f sample_cl ns st = Inr (st', ms)"
  using nesting_run_returns [OF sample_sized(1), of ns f st] by (auto simp: returns_def sample_sized)

theorem blocks_not_shared_witness:
  "\<exists>st ms. nesting_run ''f'' sample_cl [0, 1, 2, 3, 4, 5] init_nesting = Inr (st, ms)
     \<and> distinct (map bid (stack st @ pp_blocks st))"
proof -
  have "\<forall>n \<in> set [0, 1, 2, 3, 4, 5]. n < (6 :: nat)" by simp
  from file_sample_run [OF this] obtain st ms where
    "nesting_run ''f'' sample_cl [0, 1, 2, 3, 4, 5] init_nesting = Inr (st, ms)" by blast
  with blocks_not_shared [OF this] show ?thesis by (simp add: sample_sized)
qed

definition in_first_branch :: nesting_state where
  "in_first_branch =
     \<lparr>stack = [BlockInfo 2 2 True, BlockInfo 0 0 True], previous_stack_top = None,
      pp_stack = [\<lparr>stack_before_if = [BlockInfo 1 0 True], stack_before_else = [], seen_else = False\<rparr>],
      next_id = 3\<rparr>"

theorem else_branches_neutral_witness:
  "\<exists>st' ms. nesting_run ''f'' sample_cl [3, 4] in_first_branch = Inr (st', ms)
     \<and> shape (stack (UpdatePreprocessor ''#endif'' (remember_top st'))) = shape (stack in_first_branch)"
proof -
  obtain st' ms where run: "nesting_run ''f'' sample_cl [3, 4] in_first_branch = Inr (st', ms)"
    using file_sample_run [of "[3, 4]" "''f''" in_first_branch] by auto
  have pp: "pp_stack in_first_branch =
      [\<lparr>stack_before_if = [BlockInfo 1 0 True], stack_before_else = [], seen_else = False\<rparr>]"
    by (simp add: in_first_branch_def)
  have "is_pp_else (elided sample_cl ! 3)" "\<not> is_pp_if (elided sample_cl ! 3)"
    "pp_balanced 0 (map ((!) (elided sample_cl)) [4])"
    "is_pp_endif ''#endif''" "\<not> is_pp_if ''#endif''" "\<not> is_pp_else ''#endif''" by code_simp+
  with else_branches_neutral [OF pp, of sample_cl 3 "[4]" "''f''" st' ms "''#endif''"] run show ?thesis
    by (auto simp: sample_sized)
qed

theorem brace_loop_counts_witness:
  "\<exists>st' ms. brace_loop ''f'' sample_cl 4 ''a{b{};'' in_first_branch = Inr (st', ms)
     \<and> length (stack st') = 3"
proof -
  obtain st' ms where run: "brace_loop ''f'' sample_cl 4 ''a{b{};'' in_first_branch = Inr (st', ms)"
    using brace_loop_returns [OF sample_sized(1), of 4] by (force simp: returns_def sample_sized)
  have "all_open in_first_branch" by (simp add: all_open_def in_first_branch_def BlockInfo_def)
  from brace_loop_counts [OF this _ run] run show ?thesis
    by (auto simp: in_first_branch_def newline_def)
qed

end
