(* ===== verification/Task_Queue.thy ===== *)
theory Task_Queue
  imports Prelude "HOL-Library.Multiset"
begin

text \<open>
  \<open>queue.Queue\<close> of the Python library as \<open>run_clang_tidy.py\<close> uses it: a bounded FIFO queue that
  counts the tasks that were put and not yet reported done.  The locale \<open>bounded_queue\<close> is
  the contract that the clients rely on.
\<close>

record 'a py_queue =
  maxsize :: int
  items :: "'a list"
  unfinished_tasks :: nat

definition new_queue :: "int \<Rightarrow> 'a py_queue" where
  "new_queue n = \<lparr>maxsize = n, items = [], unfinished_tasks = 0\<rparr>"

definition queue_full :: "'a py_queue \<Rightarrow> bool" where
  "queue_full q \<longleftrightarrow> 0 < maxsize q \<and> maxsize q \<le> int (length (items q))"

text \<open>\<open>put\<close>, where \<open>None\<close> is \<open>queue.Full\<close>; a size that is not positive is no bound.\<close>

definition queue_put :: "'a \<Rightarrow> 'a py_queue \<Rightarrow> 'a py_queue option" where
  "queue_put x q =
     (if queue_full q then None
      else Some (q\<lparr>items := items q @ [x], unfinished_tasks := unfinished_tasks q + 1\<rparr>))"

text \<open>\<open>get\<close>, where \<open>None\<close> is a call that blocks.\<close>

definition queue_get :: "'a py_queue \<Rightarrow> ('a \<times> 'a py_queue) option" where
  "queue_get q = (case items q of [] \<Rightarrow> None | x # xs \<Rightarrow> Some (x, q\<lparr>items := xs\<rparr>))"

text \<open>\<open>task_done\<close>, where \<open>None\<close> is the \<open>ValueError\<close> of a call too many.\<close>

definition task_done :: "'a py_queue \<Rightarrow> 'a py_queue option" where
  "task_done q =
     (if unfinished_tasks q = 0 then None else Some (q\<lparr>unfinished_tasks := unfinished_tasks q - 1\<rparr>))"

locale bounded_queue =
  fixes put :: "'a \<Rightarrow> 'q \<Rightarrow> 'q option"
    and get :: "'q \<Rightarrow> ('a \<times> 'q) option"
    and finish :: "'q \<Rightarrow> 'q option"
    and waiting :: "'q \<Rightarrow> 'a multiset"
    and unfinished :: "'q \<Rightarrow> nat"
  assumes put_waiting: "put x q = Some q' \<Longrightarrow> waiting q' = add_mset x (waiting q)"
    and put_unfinished: "put x q = Some q' \<Longrightarrow> unfinished q' = Suc (unfinished q)"
    and get_waiting: "get q = Some (x, q') \<Longrightarrow> waiting q = add_mset x (waiting q')"
    and get_unfinished: "get q = Some (x, q') \<Longrightarrow> unfinished q' = unfinished q"
    and get_blocks: "get q = None \<longleftrightarrow> waiting q = {#}"
    and finish_waiting: "finish q = Some q' \<Longrightarrow> waiting q' = waiting q"
    and finish_unfinished: "finish q = Some q' \<Longrightarrow> unfinished q = Suc (unfinished q')"
    and finish_raises: "finish q = None \<longleftrightarrow> unfinished q = 0"
begin

text \<open>
  The accounting of a client that holds \<open>b\<close> tasks: what is unfinished is waiting or held.
\<close>

definition balanced :: "nat \<Rightarrow> 'q \<Rightarrow> bool" where
  "balanced b q \<longleftrightarrow> unfinished q = size (waiting q) + b"

lemma balanced_put: "balanced b q \<Longrightarrow> put x q = Some q' \<Longrightarrow> balanced b q'"
  by (simp add: balanced_def put_waiting put_unfinished)

lemma balanced_get: "balanced b q \<Longrightarrow> get q = Some (x, q') \<Longrightarrow> balanced (Suc b) q'"
  by (simp add: balanced_def get_waiting get_unfinished)

lemma balanced_finish: "balanced (Suc b) q \<Longrightarrow> finish q = Some q' \<Longrightarrow> balanced b q'"
  using finish_unfinished [of q q'] finish_waiting [of q q'] by (simp add: balanced_def)

lemma holder_can_finish: "balanced (Suc b) q \<Longrightarrow> \<exists>q'. finish q = Some q'"
  using finish_raises [of q] by (auto simp: balanced_def)

lemma all_done: "balanced b q \<Longrightarrow> unfinished q = 0 \<longleftrightarrow> waiting q = {#} \<and> b = 0"
  by (auto simp: balanced_def)

end

interpretation pyq: bounded_queue queue_put queue_get task_done "mset \<circ> items" unfinished_tasks
  by unfold_locales
    (auto simp: queue_put_def queue_get_def task_done_def split: if_splits list.splits)

end
