(* ===== verification/Clang_Tidy.thy ===== *)
theory Clang_Tidy
  imports Task_Queue File_Info
begin

text \<open>
  \<open>run_clang_tidy.py\<close> and \<open>run_clang_tidy_extra.py\<close>: the search for the compilation database,
  the command lines, the worker threads that share a queue, and \<open>main\<close>.  The operating
  system and the tools that are run are the fields of \<open>tidy_env\<close>.  The threads are a
  step relation: one step is what a thread does between two synchronisations.
\<close>

section \<open>CheckConfig\<close>

definition ignore_pats :: "string list" where
  "ignore_pats = [''.*/third_party/.*'']"

fun should_skip_from :: "string list \<Rightarrow> string \<Rightarrow> bool" where
  "should_skip_from [] path = False"
| "should_skip_from (pat # pats) path =
     (case compile_re pat of
        Some r \<Rightarrow> if re_match r path \<noteq> None then True else should_skip_from pats path
      | None \<Rightarrow> should_skip_from pats path)"

definition should_skip :: "string \<Rightarrow> bool" where
  "should_skip path = should_skip_from ignore_pats path"

section \<open>Command line and environment\<close>

record tidy_args =
  clang_tidy_binary :: string
  clang_apply_replacements_binary :: string
  checks :: "string option"
  config :: "string option"
  header_filter :: "string option"
  export_fixes :: "string option"
  jobs :: int
  file_pats :: "string list"
  fix_it :: bool
  format_it :: bool
  style :: string
  arg_build_path :: "string option"
  extra_arg :: "string list"
  extra_arg_before :: "string list"
  quiet :: bool

definition default_tidy_args :: tidy_args where
  "default_tidy_args =
     \<lparr>clang_tidy_binary = ''clang-tidy'', clang_apply_replacements_binary = ''clang-apply-replacements'',
      checks = None, config = None, header_filter = None, export_fixes = None, jobs = 0,
      file_pats = [''.*''], fix_it = False, format_it = False, style = ''file'',
      arg_build_path = None, extra_arg = [], extra_arg_before = [], quiet = False\<rparr>"

text \<open>
  What a run of \<open>clang-tidy\<close> gives: \<open>Popen\<close> may raise; otherwise there is a return code and the
  output, which may not be valid UTF-8.
\<close>

datatype tidy_outcome = PopenFails | Ran int "string option"

record db_entry =
  entry_file :: "string option"
  entry_directory :: "string option"

record tidy_env =
  isfile :: "string \<Rightarrow> bool"
  realpath :: "string \<Rightarrow> string"
  check_call :: "string list \<Rightarrow> bool"
  call_runs :: "string list \<Rightarrow> bool"
  json_load :: "string \<Rightarrow> db_entry list py"
  cpu_count :: int
  mkdtemp :: string
  mkstemp :: "string \<Rightarrow> string \<Rightarrow> string"
  re_compile :: "string \<Rightarrow> (string \<Rightarrow> bool) py"
  clang_tidy :: "string list \<Rightarrow> tidy_outcome"
  iglob :: "string \<Rightarrow> string list"
  yaml_load :: "(string \<Rightarrow> string list option option) option"

text \<open>An option that is \<open>None\<close> or the empty string is false.\<close>

definition truthy :: "string option \<Rightarrow> bool" where
  "truthy x \<longleftrightarrow> x \<noteq> None \<and> x \<noteq> Some []"

section \<open>Paths\<close>

partial_function (option) find_db_loop :: "tidy_env \<Rightarrow> string \<Rightarrow> string \<Rightarrow> string py option" where
  "find_db_loop env path result =
     (if isfile env (path_join result path) then Some (Inr (realpath env result))
      else if realpath env result = ''/'' then Some (Inl (SystemExit 1))
      else find_db_loop env path (result @ ''../''))"

declare find_db_loop.simps [code]

definition find_compilation_database :: "tidy_env \<Rightarrow> string \<Rightarrow> string py option" where
  "find_compilation_database env path = find_db_loop env path ''./''"

definition make_absolute :: "string \<Rightarrow> string \<Rightarrow> string" where
  "make_absolute f directory =
     (if startswith f ''/'' then f else path_normpath (path_join directory f))"

section \<open>Command lines of the tools\<close>

definition get_tidy_invocation ::
  "(string \<Rightarrow> string) \<Rightarrow> string \<Rightarrow> tidy_args \<Rightarrow> string option \<Rightarrow> string \<Rightarrow> string list" where
  "get_tidy_invocation new_file f args tmpdir build_path =
     [clang_tidy_binary args]
     @ (case header_filter args of Some h \<Rightarrow> [''-header-filter='' @ h] | None \<Rightarrow> [])
     @ (if truthy (checks args) then [''-checks='' @ the (checks args)] else [])
     @ (case tmpdir of Some d \<Rightarrow> [''-export-fixes'', new_file d] | None \<Rightarrow> [])
     @ map (\<lambda>a. ''-extra-arg='' @ a) (extra_arg args)
     @ map (\<lambda>a. ''-extra-arg-before='' @ a) (extra_arg_before args)
     @ [''-p='' @ build_path]
     @ (if quiet args then [''-quiet''] else [])
     @ (if truthy (config args) then [''-config='' @ the (config args)] else [])
     @ [f]"

text \<open>
  The \<open>yaml\<close> module is an argument, because the import is commented out: \<open>None\<close> is the name
  that is not defined.  A document is \<open>None\<close> when it is empty, otherwise the value of
  its \<open>Diagnostics\<close> key, if any.  The result is what is dumped, \<open>None\<close> for an emptied file.
\<close>

fun merge_loop ::
  "(string \<Rightarrow> string list option option) option \<Rightarrow> string list \<Rightarrow> string list \<Rightarrow> string list py" where
  "merge_loop yaml [] merged = Inr merged"
| "merge_loop None (f # fs) merged = Inl NameError"
| "merge_loop (Some load) (f # fs) merged =
     (case load f of
        None \<Rightarrow> merge_loop (Some load) fs merged
      | Some content \<Rightarrow> merge_loop (Some load) fs (merged @ (case content of None \<Rightarrow> [] | Some ds \<Rightarrow> ds)))"

definition merge_replacement_files :: "tidy_env \<Rightarrow> string \<Rightarrow> string list option py" where
  "merge_replacement_files env tmpdir =
     py_bind (merge_loop (yaml_load env) (iglob env (path_join tmpdir ''*.yaml'')) [])
       (\<lambda>merged. Inr (if merged \<noteq> [] then Some merged else None))"

definition check_clang_apply_replacements_binary :: "tidy_env \<Rightarrow> tidy_args \<Rightarrow> unit py" where
  "check_clang_apply_replacements_binary env args =
     (if check_call env [clang_apply_replacements_binary args, ''--version''] then Inr ()
      else Inl (SystemExit 1))"

definition apply_invocation :: "tidy_args \<Rightarrow> string \<Rightarrow> string list" where
  "apply_invocation args tmpdir =
     [clang_apply_replacements_binary args] @ (if format_it args then [''-format''] else [])
     @ (if style args \<noteq> [] then [''-style='' @ style args] else []) @ [tmpdir]"

definition apply_fixes :: "tidy_env \<Rightarrow> tidy_args \<Rightarrow> string \<Rightarrow> unit py" where
  "apply_fixes env args tmpdir =
     (if call_runs env (apply_invocation args tmpdir) then Inr () else Inl OSError)"

section \<open>The worker threads\<close>

text \<open>
  Where a worker of \<open>run_tidy\<close> is: at \<open>queue.get()\<close>, with a name, with the output of
  \<open>clang-tidy\<close> before \<open>with lock\<close>, or ended by an exception.  A thread that ended that
  way never calls \<open>task_done\<close>.
\<close>

datatype worker = Idle | Holding string | Printing "string option" | Dead

record tidy_job =
  job_files :: "string list"
  job_re :: "string \<Rightarrow> bool"
  job_max_task :: int
  job_tmpdir :: "string option"
  job_build_path :: string

record tidy_run =
  todo :: "string list"
  task_queue :: "string py_queue"
  workers :: "worker list"
  failed_files :: "string list"
  printed :: "string list"
  joined :: bool

definition start_run :: "tidy_job \<Rightarrow> tidy_run" where
  "start_run job =
     \<lparr>todo = job_files job, task_queue = new_queue (job_max_task job),
      workers = replicate (nat (job_max_task job)) Idle, failed_files = [], printed = [], joined = False\<rparr>"

definition tidy_outcome_of :: "tidy_env \<Rightarrow> tidy_args \<Rightarrow> tidy_job \<Rightarrow> string \<Rightarrow> tidy_outcome" where
  "tidy_outcome_of env args job name =
     clang_tidy env (get_tidy_invocation (mkstemp env name) name args (job_tmpdir job) (job_build_path job))"

definition set_worker :: "nat \<Rightarrow> worker \<Rightarrow> tidy_run \<Rightarrow> tidy_run" where
  "set_worker w x st = st\<lparr>workers := (workers st)[w := x]\<rparr>"

text \<open>
  The main thread puts the files one after the other; \<open>put\<close> gives up after a timeout and is
  tried again.  For a name that the filter rejects, the loop \<open>while not put_file\<close> runs on
  with nothing changed.
\<close>

inductive tidy_step :: "tidy_env \<Rightarrow> tidy_args \<Rightarrow> tidy_job \<Rightarrow> tidy_run \<Rightarrow> tidy_run \<Rightarrow> bool"
  for env :: tidy_env and args :: tidy_args and job :: tidy_job where
  put_file: "todo st = name # rest \<Longrightarrow> job_re job name \<Longrightarrow> queue_put name (task_queue st) = Some q \<Longrightarrow>
    tidy_step env args job st (st\<lparr>todo := rest, task_queue := q\<rparr>)"
| still_waiting: "todo st = name # rest \<Longrightarrow> job_re job name \<Longrightarrow> queue_put name (task_queue st) = None \<Longrightarrow>
    tidy_step env args job st st"
| not_matching: "todo st = name # rest \<Longrightarrow> \<not> job_re job name \<Longrightarrow> tidy_step env args job st st"
| get_name: "w < length (workers st) \<Longrightarrow> workers st ! w = Idle \<Longrightarrow> queue_get (task_queue st) = Some (name, q) \<Longrightarrow>
    tidy_step env args job st (set_worker w (Holding name) (st\<lparr>task_queue := q\<rparr>))"
| skip: "w < length (workers st) \<Longrightarrow> workers st ! w = Holding name \<Longrightarrow> should_skip name \<Longrightarrow>
    task_done (task_queue st) = Some q \<Longrightarrow>
    tidy_step env args job st (set_worker w Idle (st\<lparr>task_queue := q\<rparr>))"
| popen_fails: "w < length (workers st) \<Longrightarrow> workers st ! w = Holding name \<Longrightarrow> \<not> should_skip name \<Longrightarrow>
    tidy_outcome_of env args job name = PopenFails \<Longrightarrow>
    tidy_step env args job st (set_worker w Dead st)"
| ran: "w < length (workers st) \<Longrightarrow> workers st ! w = Holding name \<Longrightarrow> \<not> should_skip name \<Longrightarrow>
    tidy_outcome_of env args job name = Ran rc out \<Longrightarrow>
    tidy_step env args job st (set_worker w (Printing out)
      (st\<lparr>failed_files := failed_files st @ (if rc \<noteq> 0 then [name] else [])\<rparr>))"
| decode_fails: "w < length (workers st) \<Longrightarrow> workers st ! w = Printing None \<Longrightarrow>
    tidy_step env args job st (set_worker w Dead st)"
| print_output: "w < length (workers st) \<Longrightarrow> workers st ! w = Printing (Some out) \<Longrightarrow>
    task_done (task_queue st) = Some q \<Longrightarrow>
    tidy_step env args job st (set_worker w Idle
      (st\<lparr>task_queue := q, printed := printed st @ (if out \<noteq> [] then [newline # out] else [])\<rparr>))"
| join_queue: "todo st = [] \<Longrightarrow> \<not> joined st \<Longrightarrow> unfinished_tasks (task_queue st) = 0 \<Longrightarrow>
    tidy_step env args job st (st\<lparr>joined := True\<rparr>)"

inductive tidy_reach :: "tidy_env \<Rightarrow> tidy_args \<Rightarrow> tidy_job \<Rightarrow> tidy_run \<Rightarrow> tidy_run \<Rightarrow> bool"
  for env :: tidy_env and args :: tidy_args and job :: tidy_job where
  tidy_refl: "tidy_reach env args job st st"
| tidy_more: "tidy_reach env args job st st1 \<Longrightarrow> tidy_step env args job st1 st2 \<Longrightarrow> tidy_reach env args job st st2"

section \<open>main\<close>

fun db_files :: "db_entry list \<Rightarrow> string list py" where
  "db_files [] = Inr []"
| "db_files (e # es) =
     (case (entry_file e, entry_directory e) of
        (Some f, Some d) \<Rightarrow> py_bind (db_files es) (\<lambda>fs. Inr (make_absolute f d # fs))
      | _ \<Rightarrow> Inl KeyError)"

definition list_checks_invocation :: "tidy_args \<Rightarrow> string \<Rightarrow> string list" where
  "list_checks_invocation args build_path =
     [clang_tidy_binary args, ''-list-checks'', ''-p='' @ build_path]
     @ (if truthy (checks args) then [''-checks='' @ the (checks args)] else []) @ [''-'']"

definition db_path :: string where
  "db_path = ''compile_commands.json''"

definition choose_build_path :: "tidy_env \<Rightarrow> tidy_args \<Rightarrow> string py option" where
  "choose_build_path env args =
     (case arg_build_path args of Some p \<Rightarrow> Some (Inr p) | None \<Rightarrow> find_compilation_database env db_path)"

definition make_tmpdir :: "tidy_env \<Rightarrow> tidy_args \<Rightarrow> string option py" where
  "make_tmpdir env args =
     (if fix_it args \<or> truthy (export_fixes args)
      then py_bind (check_clang_apply_replacements_binary env args) (\<lambda>_. Inr (Some (mkdtemp env)))
      else Inr None)"

definition setup_job :: "tidy_env \<Rightarrow> tidy_args \<Rightarrow> string \<Rightarrow> tidy_job py" where
  "setup_job env args build_path =
     (if \<not> check_call env (list_checks_invocation args build_path) then Inl (SystemExit 1)
      else
        py_bind (json_load env (path_join build_path db_path)) (\<lambda>database.
        py_bind (db_files database) (\<lambda>files.
        py_bind (make_tmpdir env args) (\<lambda>tmpdir.
        py_bind (re_compile env (join ''|'' (file_pats args))) (\<lambda>file_name_re.
          Inr \<lparr>job_files = files, job_re = file_name_re,
               job_max_task = (if jobs args = 0 then cpu_count env else jobs args),
               job_tmpdir = tmpdir, job_build_path = build_path\<rparr>)))))"

text \<open>What \<open>main\<close> does after the threads, from the list of failed files to the exit code.\<close>

definition fails_py :: "'a py \<Rightarrow> bool" where
  "fails_py r \<longleftrightarrow> (case r of Inl _ \<Rightarrow> True | Inr _ \<Rightarrow> False)"

definition finish_code :: "tidy_env \<Rightarrow> tidy_args \<Rightarrow> string option \<Rightarrow> string list \<Rightarrow> int" where
  "finish_code env args tmpdir failed =
     (let code = (if failed \<noteq> [] then 1 else 0);
          code = (if truthy (export_fixes args) \<and> fails_py (merge_replacement_files env (the tmpdir))
                  then 1 else code)
      in if fix_it args \<and> fails_py (apply_fixes env args (the tmpdir)) then 1 else code)"

text \<open>
  \<open>main\<close> exits with a code, or ends with an exception that nothing catches.  A keyboard interrupt
  at any point of the run of the threads makes \<open>main\<close> end the process group by a signal, so that
  nothing after the threads is done.
\<close>

inductive tidy_main :: "tidy_env \<Rightarrow> tidy_args \<Rightarrow> py_error \<Rightarrow> bool" for env :: tidy_env and args :: tidy_args where
  no_database: "choose_build_path env args = Some (Inl e) \<Longrightarrow> tidy_main env args e"
| setup_fails: "choose_build_path env args = Some (Inr p) \<Longrightarrow> setup_job env args p = Inl e \<Longrightarrow>
    tidy_main env args e"
| finishes: "choose_build_path env args = Some (Inr p) \<Longrightarrow> setup_job env args p = Inr job \<Longrightarrow>
    tidy_reach env args job (start_run job) st \<Longrightarrow> joined st \<Longrightarrow>
    tidy_main env args (SystemExit (finish_code env args (job_tmpdir job) (failed_files st)))"
| interrupted: "choose_build_path env args = Some (Inr p) \<Longrightarrow> setup_job env args p = Inr job \<Longrightarrow>
    tidy_reach env args job (start_run job) st \<Longrightarrow> tidy_main env args Killed"

end
