(* ===== verification/Clang_Tidy_Laws.thy ===== *)
theory Clang_Tidy_Laws
  imports Clang_Tidy
begin

text \<open>
  Properties of \<open>run_clang_tidy.py\<close>.  The exit code does not depend on how the threads are
  scheduled; the run ends when every file passes the filter, and never ends otherwise.
\<close>

section \<open>What is skipped\<close>

lemma ignore_pats_src:
  "compile_re ''.*/third_party/.*'' = Some (Seqs [Star Any, Str ''/third_party/'', Star Any])"
  by code_simp

text \<open>
  \<open>CheckConfig.should_skip\<close> holds for exactly the paths with a directory \<open>third_party\<close>
  below another directory, as far as the part before it is on the first line of the name.
\<close>

lemma should_skip_iff:
  "should_skip path \<longleftrightarrow> (\<exists>u v. path = u @ ''/third_party/'' @ v \<and> newline \<notin> set u)"
proof -
  let ?r = "Seqs [Star Any, Str ''/third_party/'', Star Any]"
  have eq: "should_skip path \<longleftrightarrow> re_match ?r path \<noteq> None"
    unfolding should_skip_def ignore_pats_def should_skip_from.simps ignore_pats_src by simp
  show ?thesis
  proof
    assume "should_skip path"
    then obtain m where m: "re_match ?r path = Some m" unfolding eq by blast
    show "\<exists>u v. path = u @ ''/third_party/'' @ v \<and> newline \<notin> set u"
      by (rule re_match_segsE [OF m refl], simp) (elim seg_ConsE, auto simp only: seg_oks concat.simps append_assoc)
  next
    assume "\<exists>u v. path = u @ ''/third_party/'' @ v \<and> newline \<notin> set u"
    then obtain u v where p: "path = u @ ''/third_party/'' @ v" "newline \<notin> set u" by blast
    have 1: "rm (Star Any) ([], path, []) (rev u, ''/third_party/'' @ v, [])"
      using rm_Star_one_charI [OF one_char_Any, where w = u and p = "[]" and c = "[]" and s' = "''/third_party/'' @ v"] p
      by auto
    have "rm ?r ([], path, []) (rev ''/third_party/'' @ rev u, v, [])"
      unfolding Seqs.simps by (rule rm_Seq [OF 1 rm_Seq [OF rm_Str rm_Star0]])
    then show "should_skip path" unfolding eq re_match_None_iff by blast
  qed
qed

section \<open>The compilation database\<close>

definition up :: "nat \<Rightarrow> string" where
  "up k = ''./'' @ concat (replicate k ''../'')"

lemma concat_replicate_snoc: "concat (replicate k x) @ x = x @ concat (replicate k x)"
  by (induction k) simp_all

lemma up_Suc: "up k @ ''../'' = up (Suc k)"
  using concat_replicate_snoc [of k "''../''"] by (simp add: up_def)

definition rooted :: "string \<Rightarrow> bool" where
  "rooted p \<longleftrightarrow> (\<exists>s. p = slash # s \<and> \<not> startswith s ''/'')"

lemma path_head_rooted: "rooted p \<Longrightarrow> path_head p \<noteq> []"
  by (auto simp: rooted_def path_head_def)

lemma rstrip_slash_ne: "\<not> (\<forall>c \<in> set s. c = slash) \<Longrightarrow> rstrip_slash s \<noteq> [] \<and> last (rstrip_slash s) \<noteq> slash"
  unfolding rstrip_slash_def
  by (auto simp: last_rev dropWhile_eq_Nil_conv) (metis (mono_tags, lifting) dropWhile_eq_Nil_conv hd_dropWhile set_rev)

lemma rooted_dirname: "rooted p \<Longrightarrow> rooted (path_dirname p)"
proof -
  assume p: "rooted p"
  have "path_dirname p \<noteq> []"
    using path_head_rooted [OF p] rstrip_slash_ne [of "path_head p"] by (auto simp: path_dirname_def Let_def)
  moreover obtain t where "p = path_dirname p @ t" using path_dirname_prefix by blast
  ultimately show ?thesis using p
    unfolding rooted_def by (cases "path_dirname p") (auto simp: startswith_iff)
qed

lemma rooted_fixed:
  assumes p: "rooted p" and fp: "path_dirname p = p"
  shows "p = ''/''"
proof -
  have "\<forall>c \<in> set (path_head p). c = slash"
  proof (rule ccontr)
    assume slashes: "\<not> ?thesis"
    then have ne: "path_dirname p = rstrip_slash (path_head p)"
      using path_head_rooted [OF p] unfolding path_dirname_def Let_def by (simp only: not_False_eq_True simp_thms if_True)
    note last = rstrip_slash_ne [OF slashes, THEN conjunct2, folded ne]
    have "length (rstrip_slash (path_head p)) \<le> length (path_head p)"
      by (metis rstrip_slash_def length_dropWhile_le length_rev)
    moreover have "length (path_head p) \<le> length p" by (metis path_head_def length_dropWhile_le length_rev)
    ultimately have len: "length (path_head p) = length p" using ne fp by simp
    have "p = path_head p @ path_tail p"
      unfolding path_head_def path_tail_def by (metis rev_append rev_rev_ident takeWhile_dropWhile_id)
    with len have h: "path_head p = p" by (metis append_Nil2 append_eq_append_conv)
    have "List.last (path_head p) = slash"
      using path_head_rooted [OF p] hd_dropWhile [of "\<lambda>c. c \<noteq> slash" "rev p"]
      unfolding path_head_def by (auto simp: last_rev)
    with last h fp show False by simp
  qed
  then have "path_dirname p = path_head p"
    unfolding path_dirname_def Let_def by (intro if_not_P) blast
  with fp \<open>\<forall>c \<in> set (path_head p). c = slash\<close> have all: "\<forall>c \<in> set p. c = slash" by metis
  from p obtain s where s: "p = slash # s" "\<not> startswith s ''/''" unfolding rooted_def by blast
  with all show ?thesis by (cases s) auto
qed

text \<open>
  What is relied on of \<open>os.path.realpath\<close>: it gives an absolute path with one slash at its
  start, and one more step up gives the parent directory.
\<close>

definition climbs :: "(string \<Rightarrow> string) \<Rightarrow> bool" where
  "climbs real \<longleftrightarrow> rooted (real (up 0)) \<and> (\<forall>k. real (up (Suc k)) = path_dirname (real (up k)))"

lemma find_db_loop_returns:
  assumes "climbs (realpath env)" and "rooted (realpath env (up k))"
  shows "\<exists>n \<ge> k. (\<forall>j. k \<le> j \<and> j < n \<longrightarrow>
        \<not> isfile env (path_join (up j) path) \<and> realpath env (up j) \<noteq> ''/'')
      \<and> (if isfile env (path_join (up n) path) then find_db_loop env path (up k) = Some (Inr (realpath env (up n)))
         else realpath env (up n) = ''/'' \<and> find_db_loop env path (up k) = Some (Inl (SystemExit 1)))"
  using assms(2)
proof (induction "length (realpath env (up k))" arbitrary: k rule: less_induct)
  case less
  note step = find_db_loop.simps [of env path "up k", unfolded up_Suc]
  show ?case
  proof (cases "isfile env (path_join (up k) path) \<or> realpath env (up k) = ''/''")
    case True
    then show ?thesis by (intro exI [of _ k]) (auto simp: step)
  next
    case False
    have eq: "realpath env (up (Suc k)) = path_dirname (realpath env (up k))"
      using assms(1) by (simp add: climbs_def)
    have "rooted (realpath env (up (Suc k)))" using rooted_dirname [OF less.prems] eq by simp
    moreover have "length (realpath env (up (Suc k))) < length (realpath env (up k))"
      unfolding eq using False rooted_fixed [OF less.prems] by (intro path_dirname_shorter) blast
    ultimately obtain n where n: "Suc k \<le> n" "\<forall>j. Suc k \<le> j \<and> j < n \<longrightarrow>
        \<not> isfile env (path_join (up j) path) \<and> realpath env (up j) \<noteq> ''/''"
      "if isfile env (path_join (up n) path) then find_db_loop env path (up (Suc k)) = Some (Inr (realpath env (up n)))
         else realpath env (up n) = ''/'' \<and> find_db_loop env path (up (Suc k)) = Some (Inl (SystemExit 1))"
      using less.hyps [of "Suc k"] by blast
    moreover have "find_db_loop env path (up k) = find_db_loop env path (up (Suc k))" using False step by simp
    ultimately show ?thesis using False by (intro exI [of _ n]) (auto simp: not_less_eq_eq le_Suc_eq [symmetric] Suc_le_eq dest: le_neq_implies_less)
  qed
qed

text \<open>
  C30.  The search for the compilation database ends, and finds the nearest one: it returns the
  directory of the first level at which the file exists, or exits with code 1 after it
  has tried every level up to the root directory.
\<close>

theorem find_compilation_database_nearest:
  assumes "climbs (realpath env)"
  shows "\<exists>n. (\<forall>j < n. \<not> isfile env (path_join (up j) path) \<and> realpath env (up j) \<noteq> ''/'')
    \<and> (if isfile env (path_join (up n) path)
       then find_compilation_database env path = Some (Inr (realpath env (up n)))
       else realpath env (up n) = ''/'' \<and> find_compilation_database env path = Some (Inl (SystemExit 1)))"
  using find_db_loop_returns [OF assms, of 0 path] assms
  by (auto simp: find_compilation_database_def climbs_def up_def)


section \<open>The threads\<close>

definition busy :: "worker list \<Rightarrow> nat" where
  "busy ws = length (filter (\<lambda>w. w \<noteq> Idle) ws)"

fun held_name :: "worker \<Rightarrow> string list" where
  "held_name (Holding name) = [name]"
| "held_name _ = []"

definition held :: "worker list \<Rightarrow> string multiset" where
  "held ws = mset (concat (map held_name ws))"

lemma worker_split:
  assumes "w < length ws"
  obtains u v where "ws = u @ ws ! w # v" "\<And>x. ws[w := x] = u @ x # v"
  using assms id_take_nth_drop upd_conv_take_nth_drop that by metis

lemma busy_append [simp]: "busy (u @ v) = busy u + busy v" "busy (w # v) = (if w = Idle then 0 else 1) + busy v"
  by (simp_all add: busy_def)

lemma held_append [simp]: "held (u @ v) = held u + held v" "held (w # v) = mset (held_name w) + held v"
  by (simp_all add: held_def)

lemma busy_update:
  assumes "w < length ws"
  shows "busy (ws[w := x]) + (if ws ! w = Idle then 0 else 1) = busy ws + (if x = Idle then 0 else 1)"
proof -
  obtain u v where uv: "ws = u @ ws ! w # v" "\<And>x. ws[w := x] = u @ x # v" using worker_split [OF assms] by blast
  have "busy ws = busy u + ((if ws ! w = Idle then 0 else 1) + busy v)" by (subst uv(1)) (simp only: busy_append)
  then show ?thesis unfolding uv(2) by simp
qed

lemma held_update:
  assumes "w < length ws"
  shows "held (ws[w := x]) + mset (held_name (ws ! w)) = held ws + mset (held_name x)"
proof -
  obtain u v where uv: "ws = u @ ws ! w # v" "\<And>x. ws[w := x] = u @ x # v" using worker_split [OF assms] by blast
  have "held ws = held u + (mset (held_name (ws ! w)) + held v)" by (subst uv(1)) (simp only: held_append)
  then show ?thesis unfolding uv(2) by simp
qed

text \<open>A file that makes the run fail: it is not skipped and \<open>clang-tidy\<close> rejects it.\<close>

definition bad_file :: "tidy_env \<Rightarrow> tidy_args \<Rightarrow> tidy_job \<Rightarrow> string \<Rightarrow> bool" where
  "bad_file env args job name \<longleftrightarrow>
     \<not> should_skip name \<and> (\<exists>rc out. tidy_outcome_of env args job name = Ran rc out \<and> rc \<noteq> 0)"

definition open_files :: "tidy_run \<Rightarrow> string multiset" where
  "open_files st = mset (todo st) + mset (items (task_queue st)) + held (workers st)"

definition tidy_inv :: "tidy_env \<Rightarrow> tidy_args \<Rightarrow> tidy_job \<Rightarrow> tidy_run \<Rightarrow> bool" where
  "tidy_inv env args job st \<longleftrightarrow>
     pyq.balanced (busy (workers st)) (task_queue st)
     \<and> mset (failed_files st) + filter_mset (bad_file env args job) (open_files st)
       = filter_mset (bad_file env args job) (mset (job_files job))
     \<and> (joined st \<longrightarrow> todo st = [] \<and> unfinished_tasks (task_queue st) = 0)"

lemma tidy_inv_start: "tidy_inv env args job (start_run job)"
proof -
  have "busy (replicate n Idle) = 0" "held (replicate n Idle) = {#}" for n
    by (induction n) (simp_all add: busy_def held_def)
  then show ?thesis
    by (simp add: tidy_inv_def start_run_def new_queue_def open_files_def pyq.balanced_def)
qed

text \<open>The effect of one worker's step on the two measures of the invariant.\<close>

lemma worker_step:
  assumes "w < length (workers st)" and "workers st ! w = x"
  shows "x \<noteq> Idle \<Longrightarrow> busy (workers st) = busy ((workers st)[w := y]) + (if y = Idle then 1 else 0)"
    and "x = Idle \<Longrightarrow> y \<noteq> Idle \<Longrightarrow> busy ((workers st)[w := y]) = Suc (busy (workers st))"
    and "held ((workers st)[w := y]) + mset (held_name x) = held (workers st) + mset (held_name y)"
  using busy_update [OF assms(1), of y] held_update [OF assms(1), of y] assms(2) by (auto split: if_splits)

lemma tidy_inv_step:
  assumes "tidy_step env args job st st'" and inv: "tidy_inv env args job st"
  shows "tidy_inv env args job st'"
proof -
  have bal: "pyq.balanced (busy (workers st)) (task_queue st)"
    and cnt: "mset (failed_files st) + filter_mset (bad_file env args job) (open_files st)
       = filter_mset (bad_file env args job) (mset (job_files job))"
    and join: "joined st \<Longrightarrow> todo st = [] \<and> unfinished_tasks (task_queue st) = 0"
    using inv by (auto simp: tidy_inv_def)
  have idle: "\<not> joined st" if "w < length (workers st)" "workers st ! w \<noteq> Idle" for w
  proof
    assume "joined st"
    then have "busy (workers st) = 0" using join pyq.all_done [OF bal] by simp
    then show False using that by (auto simp: busy_def filter_empty_conv dest: nth_mem)
  qed
  note defs = tidy_inv_def open_files_def set_worker_def
  from assms(1) show ?thesis
  proof cases
    case (put_file name rest q)
    then show ?thesis
      using pyq.balanced_put [OF bal put_file(4)] pyq.put_waiting [OF put_file(4)] cnt join
      by (auto simp: defs)
  next
    case (get_name w name q)
    note ws = worker_step [OF get_name(2,3), of "Holding name"]
    have "\<not> joined st" using join pyq.all_done [OF bal] pyq.get_waiting [OF get_name(4)] by auto
    then show ?thesis
      using pyq.balanced_get [OF bal get_name(4)] pyq.get_waiting [OF get_name(4)] ws cnt get_name(1)
      by (simp add: defs)
  next
    case (skip w name q)
    note ws = worker_step(1) [OF skip(2,3), of Idle] worker_step(3) [OF skip(2,3), of Idle, symmetric]
    have "\<not> bad_file env args job name" using skip by (simp add: bad_file_def)
    then show ?thesis
      using pyq.balanced_finish [OF _ skip(5), of "busy ((workers st)[w := Idle])"] bal
        pyq.finish_waiting [OF skip(5)] ws cnt skip(1) idle [OF skip(2)] skip(3)
      by (simp add: defs)
  next
    case (popen_fails w name)
    note ws = worker_step(1) [OF popen_fails(2,3), of Dead] worker_step(3) [OF popen_fails(2,3), of Dead, symmetric]
    have "\<not> bad_file env args job name" using popen_fails by (simp add: bad_file_def)
    then show ?thesis using bal ws cnt popen_fails(1,3) idle [OF popen_fails(2)] by (simp add: defs)
  next
    case (ran w name rc out)
    note ws = worker_step(1) [OF ran(2,3), of "Printing out"] worker_step(3) [OF ran(2,3), of "Printing out", symmetric]
    have "bad_file env args job name \<longleftrightarrow> rc \<noteq> 0" using ran by (simp add: bad_file_def)
    then show ?thesis using bal ws cnt ran(1,3) idle [OF ran(2)] by (cases "rc = 0") (simp_all add: defs)
  next
    case (decode_fails w)
    note ws = worker_step(1) [OF decode_fails(2,3), of Dead] worker_step(3) [OF decode_fails(2,3), of Dead, symmetric]
    show ?thesis using bal ws cnt decode_fails(1,3) idle [OF decode_fails(2)] by (simp add: defs)
  next
    case (print_output w out q)
    note ws = worker_step(1) [OF print_output(2,3), of Idle] worker_step(3) [OF print_output(2,3), of Idle, symmetric]
    show ?thesis
      using pyq.balanced_finish [OF _ print_output(4), of "busy ((workers st)[w := Idle])"] bal
        pyq.finish_waiting [OF print_output(4)] ws cnt print_output(1,3) idle [OF print_output(2)]
      by (simp add: defs)
  next
    case join_queue
    then show ?thesis using bal cnt by (simp add: defs)
  qed (use inv in simp_all)
qed

lemma tidy_inv_reach:
  "tidy_reach env args job (start_run job) st \<Longrightarrow> tidy_inv env args job st"
  by (induction "start_run job" st rule: tidy_reach.induct) (auto intro: tidy_inv_start tidy_inv_step)

lemma joined_failed:
  assumes "tidy_reach env args job (start_run job) st" and "joined st"
  shows "mset (failed_files st) = filter_mset (bad_file env args job) (mset (job_files job))"
proof -
  note inv = tidy_inv_reach [OF assms(1), unfolded tidy_inv_def]
  with assms(2) have "todo st = []" "mset (items (task_queue st)) = {#}" "busy (workers st) = 0"
    using pyq.all_done [of "busy (workers st)" "task_queue st"] by auto
  moreover from this(3) have "held (workers st) = {#}"
    by (auto simp: busy_def held_def filter_empty_conv)
  ultimately show ?thesis using inv by (simp add: open_files_def)
qed

lemma finish_code_cong:
  "(failed = [] \<longleftrightarrow> failed' = []) \<Longrightarrow> finish_code env args tmpdir failed = finish_code env args tmpdir failed'"
  by (simp add: finish_code_def)

text \<open>
  C26.  The threads do not race on the result: whatever the schedule, a run of \<open>main\<close> that ends
  after the queue is joined has in \<open>failed_files\<close>, with its multiplicity, exactly each
  file of the database that is not skipped and that \<open>clang-tidy\<close> rejects, and the exit code
  is the one computed from that list.
\<close>

theorem tidy_schedule_independent:
  assumes "tidy_reach env args job (start_run job) st" and "joined st"
  shows "mset (failed_files st) = filter_mset (bad_file env args job) (mset (job_files job))
    \<and> finish_code env args tmpdir (failed_files st)
      = finish_code env args tmpdir (filter (bad_file env args job) (job_files job))"
proof
  show eq: "mset (failed_files st) = filter_mset (bad_file env args job) (mset (job_files job))"
    using joined_failed [OF assms] .
  then have "mset (failed_files st) = mset (filter (bad_file env args job) (job_files job))" by simp
  then have "failed_files st = [] \<longleftrightarrow> filter (bad_file env args job) (job_files job) = []"
    by (metis mset_zero_iff)
  then show "finish_code env args tmpdir (failed_files st)
      = finish_code env args tmpdir (filter (bad_file env args job) (job_files job))"
    by (rule finish_code_cong)
qed

text \<open>
  C29.  Without \<open>-fix\<close> and \<open>-export-fixes\<close>, once the job is set up, \<open>main\<close> ends with an exit code
  that says whether some file of the database failed: 1 when one did and 0 otherwise; only an
  interrupt, which kills the process, keeps it from it.
\<close>

theorem tidy_main_exit_code:
  assumes "tidy_main env args e" and "choose_build_path env args = Some (Inr p)"
    and "setup_job env args p = Inr job" and "\<not> fix_it args" and "\<not> truthy (export_fixes args)"
  shows "e = SystemExit (if \<exists>f \<in> set (job_files job). bad_file env args job f then 1 else 0) \<or> e = Killed"
  using assms(1)
proof cases
  case (finishes p' job' st)
  with assms(2,3) have job: "job' = job" by auto
  have "mset (failed_files st) = mset (filter (bad_file env args job) (job_files job))"
    using joined_failed [OF finishes(4,5)] unfolding job by simp
  then have "failed_files st = [] \<longleftrightarrow> filter (bad_file env args job) (job_files job) = []"
    by (metis mset_zero_iff)
  then show ?thesis using finishes(1) assms(4,5) by (auto simp: finish_code_def Let_def filter_empty_conv)
qed (use assms(2,3) in auto)

section \<open>Termination\<close>

text \<open>
  Every file passes the filter, there is a worker, and \<open>clang-tidy\<close> starts and prints UTF-8.
\<close>

definition healthy :: "tidy_env \<Rightarrow> tidy_args \<Rightarrow> tidy_job \<Rightarrow> bool" where
  "healthy env args job \<longleftrightarrow>
     0 < job_max_task job
     \<and> (\<forall>f \<in> set (job_files job). job_re job f
          \<and> (should_skip f \<or> (\<exists>rc out. tidy_outcome_of env args job f = Ran rc (Some out))))"

definition known_worker :: "tidy_env \<Rightarrow> tidy_args \<Rightarrow> tidy_job \<Rightarrow> worker \<Rightarrow> bool" where
  "known_worker env args job w \<longleftrightarrow>
     (case w of Idle \<Rightarrow> True | Holding f \<Rightarrow> f \<in> set (job_files job) | Printing out \<Rightarrow> out \<noteq> None | Dead \<Rightarrow> False)"

definition known :: "tidy_env \<Rightarrow> tidy_args \<Rightarrow> tidy_job \<Rightarrow> tidy_run \<Rightarrow> bool" where
  "known env args job st \<longleftrightarrow>
     set (todo st) \<union> set (items (task_queue st)) \<subseteq> set (job_files job)
     \<and> length (workers st) = nat (job_max_task job) \<and> maxsize (task_queue st) = job_max_task job
     \<and> (\<forall>w < length (workers st). known_worker env args job (workers st ! w))"

lemma queue_fields:
  "queue_put x q = Some q' \<Longrightarrow> maxsize q' = maxsize q \<and> set (items q') = insert x (set (items q))"
  "queue_get q = Some (x, q') \<Longrightarrow> maxsize q' = maxsize q \<and> set (items q) = insert x (set (items q'))"
  "task_done q = Some q' \<Longrightarrow> maxsize q' = maxsize q \<and> items q' = items q"
  by (auto simp: queue_put_def queue_get_def task_done_def split: if_splits list.splits)

lemma known_step:
  assumes "healthy env args job" and "tidy_step env args job st st'" and "known env args job st"
  shows "known env args job st'"
  using assms(2)
proof cases
  case (popen_fails w name)
  with assms(3) have "name \<in> set (job_files job)" by (force simp: known_def known_worker_def)
  with assms(1) popen_fails show ?thesis by (auto simp: healthy_def)
next
  case (ran w name rc out)
  with assms(3) have "name \<in> set (job_files job)" by (force simp: known_def known_worker_def)
  with assms(1) ran have "out \<noteq> None" by (force simp: healthy_def)
  with assms(3) ran show ?thesis by (auto simp: known_def known_worker_def set_worker_def nth_list_update)
next
  case (decode_fails w)
  with assms(3) show ?thesis by (force simp: known_def known_worker_def)
qed (use assms(3) in \<open>auto simp: known_def known_worker_def set_worker_def nth_list_update dest!: queue_fields\<close>)

text \<open>What is left to do; every step that changes the state makes it smaller.\<close>

fun worker_work :: "worker \<Rightarrow> nat" where
  "worker_work (Holding _) = 2"
| "worker_work (Printing _) = 1"
| "worker_work _ = 0"

definition work :: "tidy_run \<Rightarrow> nat" where
  "work st = 4 * length (todo st) + 3 * length (items (task_queue st))
     + sum_list (map worker_work (workers st)) + (if joined st then 0 else 1)"

lemma work_update:
  assumes "w < length ws"
  shows "sum_list (map worker_work (ws[w := x])) + worker_work (ws ! w) = sum_list (map worker_work ws) + worker_work x"
proof -
  obtain u v where uv: "ws = u @ ws ! w # v" "\<And>x. ws[w := x] = u @ x # v" using worker_split [OF assms] by blast
  have "sum_list (map worker_work ws) = sum_list (map worker_work u) + (worker_work (ws ! w) + sum_list (map worker_work v))"
    by (subst uv(1)) (simp only: map_append sum_list_append list.map sum_list.Cons)
  then show ?thesis unfolding uv(2) by simp
qed

lemma work_step: "tidy_step env args job st st' \<Longrightarrow> st' = st \<or> work st' < work st"
proof (induction rule: tidy_step.induct)
  case (get_name w st name q)
  then show ?case using work_update [of w "workers st" "Holding name"]
    by (auto simp: work_def set_worker_def queue_get_def split: list.splits)
next
  case (skip w st name q)
  then show ?case using work_update [of w "workers st" Idle]
    by (auto simp: work_def set_worker_def task_done_def split: if_splits)
next
  case (popen_fails w st name)
  then show ?case using work_update [of w "workers st" Dead] by (auto simp: work_def set_worker_def)
next
  case (ran w st name rc out)
  then show ?case using work_update [of w "workers st" "Printing out"] by (auto simp: work_def set_worker_def)
next
  case (decode_fails w st)
  then show ?case using work_update [of w "workers st" Dead] by (auto simp: work_def set_worker_def)
next
  case (print_output w st out q)
  then show ?case using work_update [of w "workers st" Idle]
    by (auto simp: work_def set_worker_def task_done_def split: if_splits)
qed (auto simp: work_def queue_put_def split: if_splits)

lemma changed_worker:
  "w < length (workers st) \<Longrightarrow> workers st ! w \<noteq> x \<Longrightarrow> workers st' = workers st \<Longrightarrow> set_worker w x st' \<noteq> st"
  by (auto simp: set_worker_def dest!: arg_cong [where f = "\<lambda>st. workers st ! w"])

lemma moves_worker:
  assumes "tidy_step env args job st (set_worker w x st')" and "w < length (workers st)"
    and "workers st ! w \<noteq> x" and "workers st' = workers st"
  shows "\<exists>st'. tidy_step env args job st st' \<and> st' \<noteq> st"
  using assms(1) changed_worker [OF assms(2-4)] by blast

lemma busy_worker_moves:
  assumes "healthy env args job" and "known env args job st" and "tidy_inv env args job st"
    and w: "w < length (workers st)" and "workers st ! w \<noteq> Idle"
  shows "\<exists>st'. tidy_step env args job st st' \<and> st' \<noteq> st"
proof -
  have "0 < busy (workers st)" using w assms(5) by (auto simp: busy_def filter_empty_conv dest: nth_mem)
  then have "pyq.balanced (Suc (busy (workers st) - 1)) (task_queue st)" using assms(3) by (simp add: tidy_inv_def)
  then obtain q where q: "task_done (task_queue st) = Some q" using pyq.holder_can_finish by blast
  have kw: "known_worker env args job (workers st ! w)" using assms(2) w by (auto simp: known_def)
  show ?thesis
  proof (cases "workers st ! w")
    case (Holding name)
    with kw have name: "name \<in> set (job_files job)" by (simp add: known_worker_def)
    show ?thesis
    proof (cases "should_skip name")
      case True
      show ?thesis by (rule moves_worker [OF tidy_step.skip [OF w Holding True q] w]) (simp_all add: Holding)
    next
      case False
      with assms(1) name obtain rc out where "tidy_outcome_of env args job name = Ran rc (Some out)"
        by (auto simp: healthy_def)
      then show ?thesis by (rule moves_worker [OF tidy_step.ran [OF w Holding False] w]) (simp_all add: Holding)
    qed
  next
    case (Printing out)
    with kw obtain o' where "workers st ! w = Printing (Some o')" by (auto simp: known_worker_def)
    then show ?thesis by (intro moves_worker [OF tidy_step.print_output [OF w _ q] w]) simp_all
  qed (use assms(5) kw in \<open>simp_all add: known_worker_def\<close>)
qed

lemma idle_run_moves:
  assumes "healthy env args job" and "known env args job st" and "tidy_inv env args job st"
    and idle: "\<forall>w < length (workers st). workers st ! w = Idle" and "\<not> joined st"
  shows "\<exists>st'. tidy_step env args job st st' \<and> st' \<noteq> st"
proof (cases "items (task_queue st)")
  case (Cons name rest)
  then have get: "queue_get (task_queue st) = Some (name, (task_queue st)\<lparr>items := rest\<rparr>)" by (simp add: queue_get_def)
  have w: "0 < length (workers st)" using assms(1,2) by (simp add: healthy_def known_def)
  with idle have "workers st ! 0 = Idle" by blast
  then show ?thesis by (intro moves_worker [OF tidy_step.get_name [OF w _ get] w]) simp_all
next
  case Nil
  show ?thesis
  proof (cases "todo st")
    case (Cons name rest)
    then have "job_re job name" using assms(1,2) by (auto simp: healthy_def known_def)
    moreover obtain q where "queue_put name (task_queue st) = Some q" using Nil by (simp add: queue_put_def queue_full_def)
    ultimately have "tidy_step env args job st (st\<lparr>todo := rest, task_queue := q\<rparr>)" by (rule tidy_step.put_file [OF Cons])
    moreover have "st\<lparr>todo := rest, task_queue := q\<rparr> \<noteq> st" using Cons by (auto dest: arg_cong [where f = todo])
    ultimately show ?thesis by blast
  next
    case todo: Nil
    have "busy (workers st) = 0" using idle by (auto simp: busy_def filter_empty_conv in_set_conv_nth)
    then have "unfinished_tasks (task_queue st) = 0"
      using Nil assms(3) pyq.all_done [of 0 "task_queue st"] by (simp add: tidy_inv_def)
    from tidy_step.join_queue [OF todo assms(5) this] have "tidy_step env args job st (st\<lparr>joined := True\<rparr>)" .
    moreover have "st\<lparr>joined := True\<rparr> \<noteq> st" using assms(5) by (auto dest: arg_cong [where f = joined])
    ultimately show ?thesis by blast
  qed
qed

lemma known_reach:
  assumes "healthy env args job" and "tidy_reach env args job (start_run job) st"
  shows "known env args job st"
  using assms(2)
proof (induction "start_run job" st rule: tidy_reach.induct)
  case tidy_refl
  show ?case by (simp add: known_def start_run_def new_queue_def known_worker_def)
qed (blast intro: known_step [OF assms(1)])

lemma tidy_moves:
  assumes "healthy env args job" and "tidy_reach env args job (start_run job) st" and "\<not> joined st"
  shows "\<exists>st'. tidy_step env args job st st' \<and> st' \<noteq> st"
  using busy_worker_moves [OF assms(1) known_reach tidy_inv_reach] idle_run_moves [OF assms(1) known_reach tidy_inv_reach]
    assms by blast

lemma tidy_reach_trans:
  "tidy_reach env args job st1 st2 \<Longrightarrow> tidy_reach env args job st st1 \<Longrightarrow> tidy_reach env args job st st2"
  by (induction rule: tidy_reach.induct) (auto intro: tidy_more)

lemma tidy_completes:
  assumes "healthy env args job"
  shows "tidy_reach env args job (start_run job) st \<Longrightarrow> \<exists>st'. tidy_reach env args job st st' \<and> joined st'"
proof (induction "work st" arbitrary: st rule: less_induct)
  case less
  show ?case
  proof (cases "joined st")
    case False
    with tidy_moves [OF assms less.prems] obtain st1 where st1: "tidy_step env args job st st1" "work st1 < work st"
      using work_step by blast
    from less.hyps [OF st1(2) tidy_more [OF less.prems st1(1)]] obtain st2 where
      "tidy_reach env args job st1 st2" "joined st2" by blast
    then show ?thesis using tidy_reach_trans [OF _ tidy_more [OF tidy_refl st1(1)]] by blast
  qed (blast intro: tidy_refl)
qed

text \<open>
  C27.  The pool of threads neither deadlocks nor livelocks.  When every file of the database
  passes the filter, there is at least one worker and \<open>clang-tidy\<close> can be run, then every
  state of the run that is not the end has a step that changes it, every such step leaves
  less to do, and so from every state of the run the end is reached.
\<close>

theorem tidy_run_completes:
  assumes "healthy env args job" and "tidy_reach env args job (start_run job) st"
  shows "(\<exists>st'. tidy_reach env args job st st' \<and> joined st')
    \<and> (\<not> joined st \<longrightarrow> (\<exists>st'. tidy_step env args job st st' \<and> st' \<noteq> st))
    \<and> (\<forall>st'. tidy_step env args job st st' \<longrightarrow> st' = st \<or> work st' < work st)"
  using tidy_completes [OF assms] tidy_moves [OF assms] work_step by blast

text \<open>
  C28.  One file that the filter rejects blocks the run for ever: \<open>put_file\<close> stays false, so
  \<open>main\<close> never joins the queue and never exits, whatever the workers do.
\<close>

theorem unmatched_file_blocks:
  assumes "f \<in> set (job_files job)" and "\<not> job_re job f"
    and "tidy_reach env args job (start_run job) st"
  shows "f \<in> set (todo st) \<and> \<not> joined st"
proof -
  from assms(3) have "f \<in> set (todo st)"
  proof (induction "start_run job" st rule: tidy_reach.induct)
    case tidy_refl
    show ?case using assms(1) by (simp add: start_run_def)
  next
    case (tidy_more st1 st2)
    from tidy_more(3,2) show ?case
      by (cases rule: tidy_step.cases) (use assms(2) in \<open>auto simp: set_worker_def\<close>)
  qed
  moreover have "joined st \<Longrightarrow> todo st = []" using tidy_inv_reach [OF assms(3)] by (simp add: tidy_inv_def)
  ultimately show ?thesis by auto
qed

section \<open>A concrete run\<close>

text \<open>
  A database with two files; \<open>clang-tidy\<close> rejects the names that end in \<open>b.cpp\<close>.  The working
  directory is \<open>/w/build\<close> and the database lies in \<open>/w\<close>.
\<close>

definition sample_env :: tidy_env where
  "sample_env =
     \<lparr>isfile = (\<lambda>p. p = ''./../compile_commands.json''),
      realpath = (\<lambda>r. (path_dirname ^^ ((length r - 2) div 3)) ''/w/build''),
      check_call = (\<lambda>_. True), call_runs = (\<lambda>_. True),
      json_load = (\<lambda>_. Inr [\<lparr>entry_file = Some ''a.cpp'', entry_directory = Some ''/w''\<rparr>,
        \<lparr>entry_file = Some ''b.cpp'', entry_directory = Some ''/w''\<rparr>]),
      cpu_count = 2, mkdtemp = ''/tmp/t'', mkstemp = (\<lambda>n d. d @ ''/x.yaml''),
      re_compile = (\<lambda>_. Inr (\<lambda>_. True)),
      clang_tidy = (\<lambda>inv. Ran (if endswith (last inv) ''b.cpp'' then 1 else 0) (Some [])),
      iglob = (\<lambda>_. []), yaml_load = None\<rparr>"

definition sample_args :: tidy_args where
  "sample_args = default_tidy_args\<lparr>arg_build_path := Some ''/w''\<rparr>"

definition sample_job :: tidy_job where
  "sample_job =
     \<lparr>job_files = [''/w/a.cpp'', ''/w/b.cpp''], job_re = (\<lambda>_. True), job_max_task = 2, job_tmpdir = None,
      job_build_path = ''/w''\<rparr>"

lemma sample_setup:
  "choose_build_path sample_env sample_args = Some (Inr ''/w'')"
  "setup_job sample_env sample_args ''/w'' = Inr sample_job"
proof -
  have "make_absolute ''a.cpp'' ''/w'' = ''/w/a.cpp''" "make_absolute ''b.cpp'' ''/w'' = ''/w/b.cpp''"
    by code_simp+
  then show "setup_job sample_env sample_args ''/w'' = Inr sample_job"
    by (simp add: setup_job_def sample_env_def sample_job_def make_tmpdir_def truthy_def
        sample_args_def default_tidy_args_def)
qed (simp add: choose_build_path_def sample_args_def)

lemma sample_outcome:
  "tidy_outcome_of sample_env args sample_job f = Ran (if endswith f ''b.cpp'' then 1 else 0) (Some [])"
  by (simp add: tidy_outcome_of_def sample_env_def get_tidy_invocation_def)

lemma sample_fields: "job_files sample_job = [''/w/a.cpp'', ''/w/b.cpp'']" "job_re sample_job f" "job_max_task sample_job = 2"
  by (simp_all add: sample_job_def)

lemma sample_healthy: "healthy sample_env args sample_job"
  by (simp add: healthy_def sample_outcome sample_fields)

lemma sample_bad: "bad_file sample_env args sample_job f \<longleftrightarrow> \<not> should_skip f \<and> endswith f ''b.cpp''"
  by (simp add: bad_file_def sample_outcome)

lemma sample_skips: "\<not> should_skip ''/w/b.cpp''"
  "\<not> endswith ''/w/a.cpp'' ''b.cpp''" "endswith ''/w/b.cpp'' ''b.cpp''"
  by code_simp+

lemma sample_run:
  obtains st where "tidy_reach sample_env sample_args sample_job (start_run sample_job) st" "joined st"
  using tidy_completes [OF sample_healthy tidy_refl, of sample_args] by blast

theorem tidy_run_completes_witness:
  "\<exists>st. tidy_reach sample_env sample_args sample_job (start_run sample_job) st \<and> joined st"
  using tidy_run_completes [OF sample_healthy tidy_refl, of sample_args] by blast

theorem tidy_schedule_independent_witness:
  "\<exists>st. tidy_reach sample_env sample_args sample_job (start_run sample_job) st
     \<and> mset (failed_files st) = {#''/w/b.cpp''#}"
proof -
  obtain st where st: "tidy_reach sample_env sample_args sample_job (start_run sample_job) st" "joined st"
    by (rule sample_run)
  have "filter_mset (bad_file sample_env sample_args sample_job) (mset (job_files sample_job)) = {#''/w/b.cpp''#}"
    unfolding sample_fields using sample_skips by (simp add: sample_bad)
  with tidy_schedule_independent [OF st, of None] have "mset (failed_files st) = {#''/w/b.cpp''#}" by metis
  with st(1) show ?thesis by blast
qed

theorem tidy_main_exit_code_witness: "tidy_main sample_env sample_args (SystemExit 1)"
proof -
  have o: "\<not> fix_it sample_args" "\<not> truthy (export_fixes sample_args)"
    by (simp_all add: sample_args_def default_tidy_args_def truthy_def)
  obtain st where "tidy_reach sample_env sample_args sample_job (start_run sample_job) st" "joined st"
    by (rule sample_run)
  note run = finishes [OF sample_setup this]
  have "\<exists>f \<in> set (job_files sample_job). bad_file sample_env sample_args sample_job f"
    unfolding sample_fields using sample_skips by (simp add: sample_bad)
  with tidy_main_exit_code [OF run sample_setup o] run show ?thesis
    by (simp only: if_True py_error.distinct simp_thms)
qed

theorem unmatched_file_blocks_witness:
  "\<not> joined (start_run (sample_job\<lparr>job_re := (\<lambda>f. f = ''/w/a.cpp'')\<rparr>))"
  using unmatched_file_blocks [of "''/w/b.cpp''" "sample_job\<lparr>job_re := (\<lambda>f. f = ''/w/a.cpp'')\<rparr>", OF _ _ tidy_refl]
  by (simp add: sample_job_def)

lemma length_up: "length (up k) = 2 + 3 * k"
  by (induction k) (simp_all add: up_def)

lemma sample_climbs: "climbs (realpath sample_env)"
  by (simp add: climbs_def length_up sample_env_def rooted_def)

theorem find_compilation_database_nearest_witness:
  "find_compilation_database sample_env db_path = Some (Inr ''/w'')"
proof -
  have 0: "\<not> isfile sample_env (path_join (up 0) db_path)" "realpath sample_env (up 0) \<noteq> ''/''"
    and 1: "isfile sample_env (path_join (up 1) db_path)" "realpath sample_env (up 1) = ''/w''"
    by code_simp+
  from find_compilation_database_nearest [OF sample_climbs, of db_path] obtain n where
    n: "\<forall>j < n. \<not> isfile sample_env (path_join (up j) db_path) \<and> realpath sample_env (up j) \<noteq> ''/''"
      "if isfile sample_env (path_join (up n) db_path)
       then find_compilation_database sample_env db_path = Some (Inr (realpath sample_env (up n)))
       else realpath sample_env (up n) = ''/'' \<and> find_compilation_database sample_env db_path = Some (Inl (SystemExit 1))"
    by blast
  have "n \<noteq> 0" using n(2) 0 by metis
  moreover have "\<not> 1 < n" using n(1) 1(1) by blast
  ultimately have "n = 1" by linarith
  with n(2) 1 show ?thesis by simp
qed

end
