(* ===== verification/Clang_Format.thy ===== *)
theory Clang_Format
  imports File_Info
begin

text \<open>
  \<open>run_clang_format.py\<close>: which files are formatted, the comparison of a file with the output of
  \<open>clang-format\<close>, and the exit code.  \<open>fnmatch.fnmatch\<close> and \<open>str.splitlines\<close> of the library
  are written out; the file system and \<open>clang-format\<close> are the fields of \<open>format_env\<close>.
\<close>

section \<open>fnmatch\<close>

datatype glob_tok = GStar | GAny | GLit char | GSet bool "(char \<times> char) list"

text \<open>The members of a bracket expression; a range with its ends swapped is empty.\<close>

function glob_items :: "string \<Rightarrow> (char \<times> char) list" where
  "glob_items s =
     (case s of
        [] \<Rightarrow> []
      | c # cs \<Rightarrow>
          if startswith cs ''-'' \<and> tl cs \<noteq> [] then (c, hd (tl cs)) # glob_items (tl (tl cs))
          else (c, c) # glob_items cs)"
  by pat_completeness auto
termination by (relation "measure length") auto

declare glob_items.simps [simp del]

text \<open>A bracket expression after its \<open>[\<close>, and the rest of the pattern; \<open>None\<close> if it is not closed.\<close>

definition glob_set :: "string \<Rightarrow> (glob_tok \<times> string) option" where
  "glob_set s =
     (let neg = startswith s ''!'';
          s1 = (if neg then tl s else s);
          pre = (if startswith s1 '']'' then '']'' else []);
          s2 = drop (length pre) s1;
          body = takeWhile (\<lambda>c. c \<noteq> CHR '']'') s2;
          after = drop (length body) s2
      in if after = [] then None else Some (GSet neg (glob_items (pre @ body)), tl after))"

lemma glob_set_shorter: "glob_set s = Some (t, r) \<Longrightarrow> length r < Suc (length s)"
  by (auto simp: glob_set_def Let_def split: if_splits)

function glob_parse :: "string \<Rightarrow> glob_tok list" where
  "glob_parse p =
     (case p of
        [] \<Rightarrow> []
      | c # cs \<Rightarrow>
          if c = CHR ''*'' then GStar # glob_parse cs
          else if c = CHR ''?'' then GAny # glob_parse cs
          else if c = CHR ''['' then
            (case glob_set cs of
               None \<Rightarrow> GLit c # glob_parse cs
             | Some (t, rest) \<Rightarrow> t # glob_parse rest)
          else GLit c # glob_parse cs)"
  by pat_completeness auto
termination by (relation "measure length") (auto dest: glob_set_shorter)

declare glob_parse.simps [simp del]

definition in_ranges :: "char \<Rightarrow> (char \<times> char) list \<Rightarrow> bool" where
  "in_ranges c rs \<longleftrightarrow> (\<exists>(lo, hi) \<in> set rs. chr_code lo \<le> (chr_code c :: nat) \<and> chr_code c \<le> (chr_code hi :: nat))"

fun tok_char :: "glob_tok \<Rightarrow> char \<Rightarrow> bool" where
  "tok_char GStar c = True"
| "tok_char GAny c = True"
| "tok_char (GLit d) c = (c = d)"
| "tok_char (GSet neg rs) c = (in_ranges c rs \<noteq> neg)"

fun glob_match :: "glob_tok list \<Rightarrow> string \<Rightarrow> bool" where
  "glob_match [] s = (s = [])"
| "glob_match (t # ts) [] = (t = GStar \<and> glob_match ts [])"
| "glob_match (t # ts) (c # cs) =
     (if t = GStar then glob_match ts (c # cs) \<or> glob_match (t # ts) cs
      else tok_char t c \<and> glob_match ts cs)"

definition fnmatch :: "string \<Rightarrow> string \<Rightarrow> bool" where
  "fnmatch name pat = glob_match (glob_parse pat) name"

section \<open>splitlines\<close>

definition is_linebreak :: "char \<Rightarrow> bool" where
  "is_linebreak c \<longleftrightarrow> (let n = (chr_code c :: nat) in (10 \<le> n \<and> n \<le> 13) \<or> (28 \<le> n \<and> n \<le> 30) \<or> n = 133)"

fun next_line :: "string \<Rightarrow> string \<times> string" where
  "next_line [] = ([], [])"
| "next_line (c # cs) =
     (if chr_code c = (13 :: nat) \<and> startswith cs [newline] then ([c, newline], tl cs)
      else if is_linebreak c then ([c], cs)
      else (let (l, r) = next_line cs in (c # l, r)))"

lemma next_line_append: "next_line s = (l, r) \<Longrightarrow> s = l @ r"
  by (induction s arbitrary: l r)
    (auto simp: Let_def startswith_iff split: if_splits prod.splits)

lemma next_line_ne: "s \<noteq> [] \<Longrightarrow> fst (next_line s) \<noteq> []"
  by (cases s) (auto simp: split_beta)

lemma next_line_shorter: "s \<noteq> [] \<Longrightarrow> length (snd (next_line s)) < length s"
  using next_line_append [of s "fst (next_line s)" "snd (next_line s)"] next_line_ne [of s]
  by (metis add_less_cancel_right add_0 length_append length_greater_0_conv prod.collapse)

text \<open>\<open>s.splitlines(True)\<close>: the lines with their line ends.\<close>

function splitlines :: "string \<Rightarrow> string list" where
  "splitlines s = (if s = [] then [] else fst (next_line s) # splitlines (snd (next_line s)))"
  by pat_completeness auto
termination by (relation "measure length") (auto simp: next_line_shorter)

declare splitlines.simps [simp del]

section \<open>check\<close>

record format_args =
  clang_format_binary :: string
  source_dirs :: "string option"
  fix_files :: bool
  quiet_mode :: bool

record format_env =
  os_walk :: "string \<Rightarrow> (string \<times> string list) list"
  open_read :: "string \<Rightarrow> string py"
  run_format :: "string list \<Rightarrow> string py"
  utf8 :: "string \<Rightarrow> string py"
  call_format :: "string list \<Rightarrow> unit py"

definition is_source_name :: "string \<Rightarrow> bool" where
  "is_source_name x \<longleftrightarrow> endswith x ''.h'' \<or> endswith x ''.cpp''"

definition dir_files :: "string list \<Rightarrow> string \<times> string list \<Rightarrow> string list" where
  "dir_files exclude_globs entry =
     (case entry of (directory, filenames) \<Rightarrow>
        filter (\<lambda>filename. \<not> (\<exists>g \<in> set exclude_globs. fnmatch filename g))
          (filter is_source_name (map (path_join directory) filenames)))"

definition formatted_filenames :: "format_env \<Rightarrow> string list \<Rightarrow> string \<Rightarrow> string list" where
  "formatted_filenames env exclude_globs source_dir =
     concat (map (dir_files exclude_globs) (os_walk env source_dir))"

text \<open>\<open>difflib.unified_diff\<close> yields nothing exactly for equal sequences of lines.\<close>

definition has_diff :: "string list \<Rightarrow> string list \<Rightarrow> bool" where
  "has_diff original formatted \<longleftrightarrow> original \<noteq> formatted"

definition check_file :: "format_env \<Rightarrow> format_args \<Rightarrow> string \<Rightarrow> bool py" where
  "check_file env args filename =
     py_bind (open_read env filename) (\<lambda>reader.
     py_bind (run_format env [clang_format_binary args, filename]) (\<lambda>out.
     py_bind (utf8 env out) (\<lambda>formatted.
     py_bind (utf8 env reader) (\<lambda>original.
       Inr (has_diff (splitlines original) (splitlines formatted))))))"

definition issue_line :: "string \<Rightarrow> string" where
  "issue_line filename = filename @ '' had clang-format style issues''"

text \<open>The lines that are printed, and \<open>error\<close>.\<close>

fun check_files :: "format_env \<Rightarrow> format_args \<Rightarrow> string list \<Rightarrow> (string list \<times> bool) py" where
  "check_files env args [] = Inr ([], False)"
| "check_files env args (f # fs) =
     py_bind (check_file env args f) (\<lambda>diff.
     py_bind (check_files env args fs) (\<lambda>(out, error).
       Inr ((if quiet_mode args then [] else [''Checking '' @ f]) @ (if diff then [issue_line f] else []) @ out,
            diff \<or> error)))"

definition check :: "format_env \<Rightarrow> format_args \<Rightarrow> string list \<Rightarrow> string \<Rightarrow> (string list \<times> bool) py" where
  "check env args exclude_globs source_dir =
     (let files = formatted_filenames env exclude_globs source_dir in
      if fix_files args then
        py_bind (call_format env ([clang_format_binary args, ''-i''] @ files)) (\<lambda>_.
          Inr (if quiet_mode args then [] else [join [newline] (map (\<lambda>x. ''Formatting '' @ x) files)], False))
      else check_files env args files)"

section \<open>The main program\<close>

fun check_dirs :: "format_env \<Rightarrow> format_args \<Rightarrow> string list \<Rightarrow> string list \<Rightarrow> bool \<Rightarrow> bool py" where
  "check_dirs env args globs [] had_err = Inr had_err"
| "check_dirs env args globs (d # ds) had_err =
     (if 0 < length d then
        py_bind (check env args globs d) (\<lambda>(out, error). check_dirs env args globs ds error)
      else check_dirs env args globs ds had_err)"

definition format_main :: "format_env \<Rightarrow> format_args \<Rightarrow> string list \<Rightarrow> py_error" where
  "format_main env args glob_lines =
     (case source_dirs args of
        None \<Rightarrow> AttributeError
      | Some dirs \<Rightarrow>
          (case check_dirs env args (map strip glob_lines) (split_on (CHR '','') dirs) False of
             Inl e \<Rightarrow> e
           | Inr had_err \<Rightarrow> SystemExit (if had_err then 1 else 0)))"

section \<open>Laws of the library functions\<close>

lemma concat_splitlines: "concat (splitlines s) = s"
proof (induction s rule: splitlines.induct)
  case (1 s)
  then show ?case
    using next_line_append [of s "fst (next_line s)" "snd (next_line s)"]
    by (subst splitlines.simps) auto
qed

lemma splitlines_inject: "splitlines s = splitlines t \<longleftrightarrow> s = t"
  by (metis concat_splitlines)

text \<open>What a token may match.\<close>

definition tok_ok :: "glob_tok \<Rightarrow> string \<Rightarrow> bool" where
  "tok_ok t u \<longleftrightarrow> t = GStar \<or> (\<exists>c. u = [c] \<and> tok_char t c)"

definition pieces :: "glob_tok list \<Rightarrow> string \<Rightarrow> bool" where
  "pieces ts s \<longleftrightarrow> (\<exists>us. list_all2 tok_ok ts us \<and> s = concat us)"

lemma pieces_Nil: "pieces [] s \<longleftrightarrow> s = []"
  by (auto simp: pieces_def)

lemma pieces_Cons: "pieces (t # ts) s \<longleftrightarrow> (\<exists>u v. s = u @ v \<and> tok_ok t u \<and> pieces ts v)"
proof
  assume "\<exists>u v. s = u @ v \<and> tok_ok t u \<and> pieces ts v"
  then obtain u v us where "s = u @ v" "tok_ok t u" "list_all2 tok_ok ts us" "v = concat us"
    by (auto simp: pieces_def)
  then show "pieces (t # ts) s" unfolding pieces_def by (intro exI [of _ "u # us"]) simp
next
  assume "pieces (t # ts) s"
  then obtain u us where "s = u @ concat us" "tok_ok t u" "list_all2 tok_ok ts us"
    by (auto simp: pieces_def list_all2_Cons1)
  then show "\<exists>u v. s = u @ v \<and> tok_ok t u \<and> pieces ts v" unfolding pieces_def by blast
qed

lemma pieces_Star: "pieces (GStar # ts) s \<longleftrightarrow> (\<exists>u v. s = u @ v \<and> pieces ts v)"
  by (simp add: pieces_Cons tok_ok_def)

lemma glob_match_iff_pieces: "glob_match ts s \<longleftrightarrow> pieces ts s"
proof (induction ts s rule: glob_match.induct)
  case (2 t ts)
  then show ?case by (auto simp: pieces_Cons tok_ok_def)
next
  case (3 t ts c cs)
  have "pieces (GStar # ts) (c # cs) \<longleftrightarrow> pieces ts (c # cs) \<or> pieces (GStar # ts) cs"
    by (auto simp: pieces_Star Cons_eq_append_conv)
  moreover have "pieces (t # ts) (c # cs) \<longleftrightarrow> tok_char t c \<and> pieces ts cs" if "t \<noteq> GStar"
    using that unfolding pieces_Cons tok_ok_def by (auto, metis append_Cons append_Nil)
  ultimately show ?case using 3 by (cases "t = GStar") simp_all
qed (simp add: pieces_Nil)

text \<open>
  The matcher of globs is exact: a name matches a pattern if and only if it can be cut
  into consecutive pieces, one per token, an arbitrary piece for a star and one character
  that the token admits for every other token.
\<close>

lemma fnmatch_pieces:
  "fnmatch name pat \<longleftrightarrow> (\<exists>us. list_all2 tok_ok (glob_parse pat) us \<and> name = concat us)"
  by (simp add: fnmatch_def glob_match_iff_pieces pieces_def)

section \<open>What is reported\<close>

text \<open>The decoded file and the decoded output of \<open>clang-format\<close>.\<close>

definition texts :: "format_env \<Rightarrow> format_args \<Rightarrow> string \<Rightarrow> (string \<times> string) py" where
  "texts env args f =
     py_bind (open_read env f) (\<lambda>reader. py_bind (run_format env [clang_format_binary args, f]) (\<lambda>out.
     py_bind (utf8 env out) (\<lambda>formatted. py_bind (utf8 env reader) (\<lambda>original. Inr (original, formatted)))))"

definition misformatted :: "format_env \<Rightarrow> format_args \<Rightarrow> string \<Rightarrow> bool" where
  "misformatted env args f \<longleftrightarrow> (\<exists>a b. texts env args f = Inr (a, b) \<and> a \<noteq> b)"

lemma check_file_iff: "check_file env args f = Inr d \<Longrightarrow> d \<longleftrightarrow> misformatted env args f"
  by (auto simp: check_file_def misformatted_def texts_def py_bind_Inr_iff has_diff_def splitlines_inject)

lemma check_files_error:
  "check_files env args fs = Inr (out, error) \<Longrightarrow> error \<longleftrightarrow> (\<exists>f \<in> set fs. misformatted env args f)"
  by (induction fs arbitrary: out error) (auto simp: py_bind_Inr_iff dest: check_file_iff)

lemma formatted_filenames_iff:
  "f \<in> set (formatted_filenames env globs dir) \<longleftrightarrow>
     (\<exists>(d, names) \<in> set (os_walk env dir). \<exists>n \<in> set names. f = path_join d n)
     \<and> is_source_name f \<and> \<not> (\<exists>g \<in> set globs. fnmatch f g)"
  by (auto simp: formatted_filenames_def dir_files_def)

text \<open>
  C31.  In checking mode \<open>check\<close> reports an error for a directory if and only if some file below
  it with a source extension that no exclusion glob matches differs from the output of
  \<open>clang-format\<close>.  The comparison by lines loses nothing: it is equality of the texts.
\<close>

theorem format_check_exact:
  assumes "check env args globs dir = Inr (out, error)" and "\<not> fix_files args"
  shows "error \<longleftrightarrow> (\<exists>(d, names) \<in> set (os_walk env dir). \<exists>n \<in> set names.
      is_source_name (path_join d n) \<and> \<not> (\<exists>g \<in> set globs. fnmatch (path_join d n) g)
      \<and> misformatted env args (path_join d n))"
proof -
  from assms have "check_files env args (formatted_filenames env globs dir) = Inr (out, error)"
    by (simp add: check_def)
  from check_files_error [OF this] show ?thesis by (auto simp: Bex_def formatted_filenames_iff)
qed

lemma check_dirs_last:
  "check_dirs env args globs ds had_err = Inr r \<Longrightarrow>
     (let xs = filter (\<lambda>d. d \<noteq> []) ds in
      if xs = [] then r = had_err else \<exists>out. check env args globs (last xs) = Inr (out, r))"
proof (induction ds arbitrary: had_err)
  case (Cons d ds)
  show ?case
  proof (cases "d = []")
    case False
    with Cons.prems obtain out error where "check env args globs d = Inr (out, error)"
      "check_dirs env args globs ds error = Inr r" by (auto simp: py_bind_Inr_iff)
    with Cons.IH [of error] False show ?thesis by (auto simp: Let_def split: if_splits)
  qed (use Cons in simp)
qed simp

lemma check_dirs_returns:
  assumes "\<And>x e. check env args globs x \<noteq> Inl e"
  shows "\<exists>r. check_dirs env args globs ds h = Inr r"
proof (induction ds arbitrary: h)
  case (Cons d ds)
  obtain out error where "check env args globs d = Inr (out, error)"
    using assms [of d] by (cases "check env args globs d") auto
  with Cons show ?case by simp
qed simp

text \<open>
  C32.  The exit code of \<open>run_clang_format.py\<close> tells only about the last directory: when no
  check raises, the program exits with 1 if and only if the check of the last non-empty
  entry of \<open>--source_dirs\<close> reported an error.  Errors in the directories before it are lost.
\<close>

theorem format_exit_code_last_dir:
  assumes "source_dirs args = Some dirs"
    and "filter (\<lambda>d. d \<noteq> []) (split_on (CHR '','') dirs) = ds @ [d]"
    and "\<And>x e. check env args (map strip glob_lines) x \<noteq> Inl e"
  shows "\<exists>out error. check env args (map strip glob_lines) d = Inr (out, error)
    \<and> format_main env args glob_lines = SystemExit (if error then 1 else 0)"
proof -
  obtain r where r: "check_dirs env args (map strip glob_lines) (split_on (CHR '','') dirs) False = Inr r"
    using check_dirs_returns [OF assms(3)] by blast
  then have "format_main env args glob_lines = SystemExit (if r then 1 else 0)"
    using assms(1) by (simp add: format_main_def)
  moreover have "\<exists>out. check env args (map strip glob_lines) d = Inr (out, r)"
    using check_dirs_last [OF r] unfolding assms(2) by simp
  ultimately show ?thesis by blast
qed

section \<open>Concrete checks\<close>

text \<open>Two directories; \<open>clang-format\<close> would change the file of the first one only.\<close>

definition sample_format_env :: format_env where
  "sample_format_env =
     \<lparr>os_walk = (\<lambda>d. [(d, [''x.h'', ''x.txt''])]), open_read = (\<lambda>f. Inr ''a''),
      run_format = (\<lambda>inv. Inr (if last inv = ''p/x.h'' then ''b'' else ''a'')),
      utf8 = Inr, call_format = (\<lambda>_. Inr ())\<rparr>"

definition sample_format_args :: format_args where
  "sample_format_args =
     \<lparr>clang_format_binary = ''clang-format'', source_dirs = Some ''p,q'', fix_files = False, quiet_mode = True\<rparr>"

theorem format_check_exact_witness:
  "misformatted sample_format_env sample_format_args ''p/x.h''
   \<and> check sample_format_env sample_format_args [] ''p'' = Inr ([issue_line ''p/x.h''], True)"
proof -
  have c: "check sample_format_env sample_format_args [] ''p'' = Inr ([issue_line ''p/x.h''], True)"
    and files: "os_walk sample_format_env ''p'' = [(''p'', [''x.h'', ''x.txt''])]" by code_simp+
  have "path_join ''p'' ''x.h'' = ''p/x.h''" "\<not> is_source_name (path_join ''p'' ''x.txt'')" by code_simp+
  with format_check_exact [OF c] files c show ?thesis by (auto simp: sample_format_args_def)
qed

lemma sample_check_returns: "check sample_format_env sample_format_args [] x \<noteq> Inl e"
proof -
  have "\<exists>r. check_file sample_format_env sample_format_args f = Inr r" for f
    by (simp add: check_file_def sample_format_env_def)
  then have "\<exists>r. check_files sample_format_env sample_format_args fs = Inr r" for fs
  proof (induction fs)
    case (Cons f fs)
    from Cons.prems [of f] Cons.IH [OF Cons.prems] show ?case by auto
  qed auto
  then have "\<exists>r. check sample_format_env sample_format_args [] x = Inr r"
    by (simp add: check_def) (simp add: sample_format_args_def)
  then show ?thesis by auto
qed

theorem format_exit_code_last_dir_witness:
  "(\<exists>out. check sample_format_env sample_format_args [] ''p'' = Inr (out, True))
   \<and> format_main sample_format_env sample_format_args [] = SystemExit 0"
proof -
  have dirs: "source_dirs sample_format_args = Some ''p,q''"
    "filter (\<lambda>d. d \<noteq> []) (split_on (CHR '','') ''p,q'') = [''p''] @ [''q'']" by code_simp+
  have "check sample_format_env sample_format_args [] ''q'' = Inr ([], False)"
    and p: "check sample_format_env sample_format_args [] ''p'' = Inr ([issue_line ''p/x.h''], True)" by code_simp+
  with format_exit_code_last_dir [OF dirs, of sample_format_env "[]"] sample_check_returns p show ?thesis by auto
qed

end
