(* ===== verification/Lint_Check.thy ===== *)
theory Lint_Check
  imports Nesting_Laws
begin

text \<open>
  Vocabulary of the checks over single lines: \<open>Search(p, s)\<close> and \<open>Match(p, s)\<close> as conditions,
  and a call of \<open>error(...)\<close> under a condition.  The predicate \<open>checked\<close> is the contract of
  a check: it returns, and its messages name the file, a line of the file, a registered
  category and a confidence from 0 to 5.  The confidence of a function-length message can be
  negative when the verbosity is.
\<close>

definition hit :: "regexp \<Rightarrow> string \<Rightarrow> bool" where
  "hit r s \<longleftrightarrow> re_search r s \<noteq> None"

definition fits :: "regexp \<Rightarrow> string \<Rightarrow> bool" where
  "fits r s \<longleftrightarrow> re_match r s \<noteq> None"

definition lint :: "bool \<Rightarrow> string \<Rightarrow> nat \<Rightarrow> string \<Rightarrow> int \<Rightarrow> string \<Rightarrow> lint_msg list" where
  "lint b filename linenum cat conf t = (if b then [err_at filename (int linenum) cat conf t] else [])"

definition elided_at :: "cleansed_lines \<Rightarrow> int \<Rightarrow> string py" where
  "elided_at cl i = py_nth (elided cl) i"

definition line_at :: "cleansed_lines \<Rightarrow> int \<Rightarrow> string py" where
  "line_at cl i = py_nth (lines cl) i"

definition raw_at :: "cleansed_lines \<Rightarrow> int \<Rightarrow> string py" where
  "raw_at cl i = py_nth (lines_without_raw_strings cl) i"

definition IsBlankLine :: "string \<Rightarrow> bool" where
  "IsBlankLine line \<longleftrightarrow> (\<forall>c \<in> set line. isspace c)"

section \<open>The contract of a check\<close>

definition wf_cat :: "string \<Rightarrow> bool" where
  "wf_cat cat \<longleftrightarrow> cat \<in> set ERROR_CATEGORIES"

definition msg_ok :: "string \<Rightarrow> cleansed_lines \<Rightarrow> lint_msg \<Rightarrow> bool" where
  "msg_ok f cl m \<longleftrightarrow> l_file m = f \<and> (\<exists>n < NumLines cl. l_line m = Some (int n)) \<and> wf_cat (l_cat m)
     \<and> (0 \<le> l_conf m \<or> l_cat m = ''readability/fn_size'') \<and> l_conf m \<le> 5"

definition msgs_ok :: "string \<Rightarrow> cleansed_lines \<Rightarrow> lint_msg list \<Rightarrow> bool" where
  "msgs_ok f cl ms \<longleftrightarrow> (\<forall>m \<in> set ms. msg_ok f cl m)"

definition checked :: "string \<Rightarrow> cleansed_lines \<Rightarrow> lint_msg list py \<Rightarrow> bool" where
  "checked f cl r \<longleftrightarrow> (\<exists>ms. r = Inr ms \<and> msgs_ok f cl ms)"

text \<open>All four lists of \<open>CleansedLines\<close> have the length \<open>NumLines\<close>.\<close>

definition full :: "cleansed_lines \<Rightarrow> bool" where
  "full cl \<longleftrightarrow> sized cl \<and> length (lines cl) = NumLines cl \<and> length (lines_without_raw_strings cl) = NumLines cl"

lemma full_sized: "full cl \<Longrightarrow> sized cl"
  by (simp add: full_def)

lemma at_line [simp]:
  assumes "full cl" and "n < NumLines cl"
  shows "elided_at cl (int n) = Inr (elided cl ! n)" and "line_at cl (int n) = Inr (lines cl ! n)"
    and "raw_at cl (int n) = Inr (lines_without_raw_strings cl ! n)"
  using assms by (simp_all add: full_def sized_def elided_at_def line_at_def raw_at_def)

text \<open>The line after a line and the line before one, in the normal form of their index.\<close>

lemma at_next [simp]:
  assumes "full cl" and "Suc n < NumLines cl"
  shows "elided_at cl (1 + int n) = Inr (elided cl ! Suc n)"
    and "line_at cl (1 + int n) = Inr (lines cl ! Suc n)"
    and "raw_at cl (1 + int n) = Inr (lines_without_raw_strings cl ! Suc n)"
  using at_line [OF assms] by simp_all

lemma at_before [simp]:
  assumes "full cl" and "0 < n" and "n - 1 < NumLines cl"
  shows "elided_at cl (int n - 1) = Inr (elided cl ! (n - 1))"
  using at_line(1) [OF assms(1,3)] assms(2) by (simp add: of_nat_diff)

text \<open>The index \<open>linenum - 1\<close>, which is the last line for the first one.\<close>

lemma at_previous:
  assumes "full cl" and "n < NumLines cl"
  shows "returns (elided_at cl (int n - 1))" and "returns (line_at cl (int n - 1))"
  using assms by (auto simp: full_def sized_def elided_at_def line_at_def returns_def py_nth_def)

lemma msgs_ok_simps [simp]:
  "msgs_ok f cl []" "msgs_ok f cl (xs @ ys) \<longleftrightarrow> msgs_ok f cl xs \<and> msgs_ok f cl ys"
  "msgs_ok f cl (m # ms) \<longleftrightarrow> msg_ok f cl m \<and> msgs_ok f cl ms"
  "msgs_ok f cl (concat mss) \<longleftrightarrow> (\<forall>ms \<in> set mss. msgs_ok f cl ms)"
  by (auto simp: msgs_ok_def)

lemma msgs_ok_lint [intro!]:
  "n < NumLines cl \<Longrightarrow> wf_cat cat \<Longrightarrow> 0 \<le> conf \<Longrightarrow> conf \<le> 5 \<Longrightarrow> msgs_ok f cl (lint b f n cat conf t)"
  by (auto simp: lint_def msg_ok_def)

text \<open>Rules that follow the structure of a list of messages.\<close>

lemma msgs_ok_split: "(b \<Longrightarrow> msgs_ok f cl xs) \<Longrightarrow> (\<not> b \<Longrightarrow> msgs_ok f cl ys) \<Longrightarrow> msgs_ok f cl (if b then xs else ys)"
  by simp

lemma msgs_ok_append: "msgs_ok f cl xs \<Longrightarrow> msgs_ok f cl ys \<Longrightarrow> msgs_ok f cl (xs @ ys)"
  by simp

lemma msgs_ok_option:
  "(x = None \<Longrightarrow> msgs_ok f cl xs) \<Longrightarrow> (\<And>a. x = Some a \<Longrightarrow> msgs_ok f cl (k a))
     \<Longrightarrow> msgs_ok f cl (case x of None \<Rightarrow> xs | Some a \<Rightarrow> k a)"
  by (cases x) simp_all

lemmas msgs_ok_rules = msgs_ok_split msgs_ok_append msgs_ok_option msgs_ok_lint msgs_ok_simps(1)

lemma checked_Inr [simp]: "checked f cl (Inr ms) \<longleftrightarrow> msgs_ok f cl ms"
  by (simp add: checked_def)

lemma checked_bind:
  "returns m \<Longrightarrow> (\<And>x. m = Inr x \<Longrightarrow> checked f cl (k x)) \<Longrightarrow> checked f cl (py_bind m k)"
  by (auto simp: returns_def)

lemma checked_app:
  "checked f cl m \<Longrightarrow> (\<And>ms. msgs_ok f cl ms \<Longrightarrow> checked f cl (k ms)) \<Longrightarrow> checked f cl (py_bind m k)"
  by (auto simp: checked_def)

lemma checked_returns: "checked f cl r \<Longrightarrow> returns r"
  by (auto simp: checked_def returns_def)

lemma checked_split: "(b \<Longrightarrow> checked f cl x) \<Longrightarrow> (\<not> b \<Longrightarrow> checked f cl y) \<Longrightarrow> checked f cl (if b then x else y)"
  by simp

section \<open>Categories\<close>

lemma wf_cats [simp]:
  "wf_cat ''build/class''" "wf_cat ''build/c++11''" "wf_cat ''build/c++tr1''" "wf_cat ''build/deprecated''"
  "wf_cat ''build/endif_comment''" "wf_cat ''build/explicit_make_pair''" "wf_cat ''build/forward_decl''"
  "wf_cat ''build/header_guard''" "wf_cat ''build/include''" "wf_cat ''build/include_subdir''"
  "wf_cat ''build/include_alpha''" "wf_cat ''build/include_order''" "wf_cat ''build/include_what_you_use''"
  "wf_cat ''build/namespaces''" "wf_cat ''build/printf_format''" "wf_cat ''build/storage_class''"
  by code_simp+

lemma wf_cats_readability [simp]:
  "wf_cat ''readability/alt_tokens''" "wf_cat ''readability/braces''" "wf_cat ''readability/casting''"
  "wf_cat ''readability/check''" "wf_cat ''readability/constructors''" "wf_cat ''readability/fn_size''"
  "wf_cat ''readability/inheritance''" "wf_cat ''readability/multiline_comment''"
  "wf_cat ''readability/multiline_string''" "wf_cat ''readability/namespace''" "wf_cat ''readability/nolint''"
  "wf_cat ''readability/todo''"
  by code_simp+

lemma wf_cats_runtime [simp]:
  "wf_cat ''runtime/arrays''" "wf_cat ''runtime/casting''" "wf_cat ''runtime/explicit''" "wf_cat ''runtime/int''"
  "wf_cat ''runtime/init''" "wf_cat ''runtime/invalid_increment''" "wf_cat ''runtime/member_string_references''"
  "wf_cat ''runtime/memset''" "wf_cat ''runtime/indentation_namespace''" "wf_cat ''runtime/operator''"
  "wf_cat ''runtime/printf''" "wf_cat ''runtime/printf_format''" "wf_cat ''runtime/references''"
  "wf_cat ''runtime/string''" "wf_cat ''runtime/threadsafe_fn''" "wf_cat ''runtime/vlog''"
  by code_simp+

lemma wf_cats_whitespace [simp]:
  "wf_cat ''whitespace/blank_line''" "wf_cat ''whitespace/braces''" "wf_cat ''whitespace/comma''"
  "wf_cat ''whitespace/comments''" "wf_cat ''whitespace/empty_conditional_body''"
  "wf_cat ''whitespace/empty_if_body''" "wf_cat ''whitespace/empty_loop_body''"
  "wf_cat ''whitespace/end_of_line''" "wf_cat ''whitespace/ending_newline''" "wf_cat ''whitespace/forcolon''"
  "wf_cat ''whitespace/indent''" "wf_cat ''whitespace/line_length''" "wf_cat ''whitespace/newline''"
  "wf_cat ''whitespace/operators''" "wf_cat ''whitespace/parens''" "wf_cat ''whitespace/semicolon''"
  "wf_cat ''whitespace/tab''" "wf_cat ''whitespace/todo''"
  by code_simp+

lemmas wf_categories = wf_cats wf_cats_readability wf_cats_runtime wf_cats_whitespace

end
