(* ===== verification/Patterns_Constructs.thy ===== *)
theory Patterns_Constructs
  imports Py_Regex_Syntax
begin

text \<open>
  The regular expressions of the checks in \<open>Check_Constructs\<close>, as in \<open>Patterns\<close>.
\<close>

definition re_printf_q :: regexp where
  \<open>re_printf_q =
     Seqs [Str ''printf'', Star Spc, Str ''('', Star Any, Str ''"'', Star Any, Str ''%'', Opt
       (In [CC (CHR ''-''), CC (CHR ''+''), CC (CHR '' '')]), Star Dig, Str ''q'']\<close>

definition re_printf_N :: regexp where
  \<open>re_printf_N =
     Seqs [Str ''printf'', Star Spc, Str ''('', Star Any, Str ''"'', Star Any, Str ''%'', Plus
       Dig, Str ''$'']\<close>

definition re_undef_escape :: regexp where
  \<open>re_undef_escape =
     Seqs [Grp 1 (Alts [Str ''"'', Str [CHR 0x27]]), Star Any, Str [CHR 0x5C], Grp 2 (Alts [Str
       ''%'', Str ''['', Str ''('', Str ''{''])]\<close>

definition re_storage_class :: regexp where
  \<open>re_storage_class =
     Seqs [Wordb, Grp 1 (Alts [Str ''const'', Str ''volatile'', Str ''void'', Str ''char'', Str
       ''short'', Str ''int'', Str ''long'', Str ''float'', Str ''double'', Str ''signed'', Str
       ''unsigned'', Str ''schar'', Seqs [Opt (Str ''u''), Str ''int8''], Seqs [Opt (Str ''u''),
       Str ''int16''], Seqs [Opt (Str ''u''), Str ''int32''], Seqs [Opt (Str ''u''), Str
       ''int64'']]), Plus Spc, Grp 2 (Alts [Str ''register'', Str ''static'', Str ''extern'',
       Str ''typedef'']), Wordb]\<close>

definition re_endif_text :: regexp where
  \<open>re_endif_text =
     Seqs [Star Spc, Str ''#'', Star Spc, Str ''endif'', Star Spc, Plus (NotIn [CC (CHR ''/''),
       CSpace])]\<close>

definition re_inner_forward :: regexp where
  \<open>re_inner_forward =
     Seqs [Star Spc, Str ''class'', Plus Spc, Plus (Grp 1 (Seqs [Plus Wrd, Star Spc, Str ''::'',
       Star Spc])), Plus Wrd, Star Spc, Str '';'']\<close>

definition re_maxmin :: regexp where
  \<open>re_maxmin =
     Seqs [Grp 1 (Alts [Plus Wrd, Seqs [Opt (In [CC (CHR ''+''), CC (CHR ''-'')]), Plus Dig, Opt
       (Grp 2 (Seqs [Str ''.'', Star Dig]))]]), Star Spc, Grp 3 (Alts [Str ''<'', Str ''>'']),
       Str ''?'', Opt (Str ''=''), Star Spc, Grp 4 (Alts [Plus Wrd, Seqs [Opt (In [CC (CHR
       ''+''), CC (CHR ''-'')]), Plus Dig]]), Opt (Grp 5 (Seqs [Str ''.'', Star Dig]))]\<close>

definition re_const_string_ref :: regexp where
  \<open>re_const_string_ref =
     Seqs [Bol, Star Spc, Str ''const'', Star Spc, Str ''string'', Star Spc, Str ''&'', Star
       Spc, Plus Wrd, Star Spc, Str '';'']\<close>

definition re_initializer_list :: regexp where
  \<open>re_initializer_list =
     Seqs [Wordb, Str ''std'', Star Spc, Str ''::'', Star Spc, Str ''initializer_list'', Wordb]\<close>

definition re_fn_decl :: regexp where
  \<open>re_fn_decl =
     Seqs [Grp 1 (Seqs [Wrd, Star (Grp 2 (Alts [Wrd, Str ''::'', Str ''*'', Str ''&'', Spc]))]),
       Str ''('']\<close>

definition re_all_caps :: regexp where
  \<open>re_all_caps =
     Seqs [Plus (In [CR (CHR ''A'') (CHR ''Z''), CC (CHR ''_'')]), Eol]\<close>

definition re_semi_or_close :: regexp where
  \<open>re_semi_or_close =
     Grp 1 (Alts [Str '';'', Str ''}''])\<close>

definition re_open_brace :: regexp where
  \<open>re_open_brace =
     Str ''{''\<close>

definition re_fn_name :: regexp where
  \<open>re_fn_name =
     Seqs [Grp 1 (Star (Grp 2 (Alts [Wrd, Str '':'']))), Str ''('']\<close>

definition re_test_macro :: regexp where
  \<open>re_test_macro =
     Str ''TEST''\<close>

definition re_fn_params :: regexp where
  \<open>re_fn_params =
     Grp 1 (Seqs [Str ''('', Star Any, Str '')''])\<close>

definition re_fn_end :: regexp where
  \<open>re_fn_end =
     Seqs [Bol, Str ''}'', Star Spc, Eol]\<close>

definition re_leading_ws :: regexp where
  \<open>re_leading_ws =
     Seqs [Bol, Plus Spc]\<close>

section \<open>The patterns are those of the source\<close>

lemma re_printf_q_src: \<open>compile_re (re_text ''printf`s*`(.*".*%[-+ ]?`d*q'') = Some re_printf_q\<close>
  by code_simp

lemma re_printf_N_src: \<open>compile_re (re_text ''printf`s*`(.*".*%`d+`$'') = Some re_printf_N\<close>
  by code_simp

lemma re_undef_escape_src: \<open>compile_re (re_text ''("|`\').*``(%|`[|`(|{)'') = Some re_undef_escape\<close>
  by code_simp

lemma re_storage_class_src: \<open>compile_re (re_text ''`b(const|volatile|void|char|short|int|long|float|double|signed|unsigned|schar|u?int8|u?int16|u?int32|u?int64)`s+(register|static|extern|typedef)`b'') = Some re_storage_class\<close>
  by code_simp

lemma re_endif_text_src: \<open>compile_re (re_text ''`s*#`s*endif`s*[^/`s]+'') = Some re_endif_text\<close>
  by code_simp

lemma re_inner_forward_src: \<open>compile_re (re_text ''`s*class`s+(`w+`s*::`s*)+`w+`s*;'') = Some re_inner_forward\<close>
  by code_simp

lemma re_maxmin_src: \<open>compile_re (re_text ''(`w+|[+-]?`d+(`.`d*)?)`s*(<|>)`?=?`s*(`w+|[+-]?`d+)(`.`d*)?'') = Some re_maxmin\<close>
  by code_simp

lemma re_const_string_ref_src: \<open>compile_re (re_text ''^`s*const`s*string`s*&`s*`w+`s*;'') = Some re_const_string_ref\<close>
  by code_simp

lemma re_initializer_list_src: \<open>compile_re (re_text ''`bstd`s*::`s*initializer_list`b'') = Some re_initializer_list\<close>
  by code_simp

lemma re_fn_decl_src: \<open>compile_re (re_text ''(`w(`w|::|`*|`&|`s)*)`('') = Some re_fn_decl\<close>
  by code_simp

lemma re_all_caps_src: \<open>compile_re (re_text ''[A-Z_]+$'') = Some re_all_caps\<close>
  by code_simp

lemma re_semi_or_close_src: \<open>compile_re (re_text ''(;|})'') = Some re_semi_or_close\<close>
  by code_simp

lemma re_open_brace_src: \<open>compile_re (re_text ''{'') = Some re_open_brace\<close>
  by code_simp

lemma re_fn_name_src: \<open>compile_re (re_text ''((`w|:)*)`('') = Some re_fn_name\<close>
  by code_simp

lemma re_test_macro_src: \<open>compile_re (re_text ''TEST'') = Some re_test_macro\<close>
  by code_simp

lemma re_fn_params_src: \<open>compile_re (re_text ''(`(.*`))'') = Some re_fn_params\<close>
  by code_simp

lemma re_fn_end_src: \<open>compile_re (re_text ''^`}`s*$'') = Some re_fn_end\<close>
  by code_simp

lemma re_leading_ws_src: \<open>compile_re (re_text ''^`s+'') = Some re_leading_ws\<close>
  by code_simp

end
