(* ===== verification/Check_Constructs.thy ===== *)
theory Check_Constructs
  imports Lint_Check Function_State Patterns_Constructs
begin

text \<open>
  \<open>CheckForNonStandardConstructs\<close> with its analysis of constructor arguments,
  \<open>CheckForFunctionLengths\<close>, and the indentation checks inside namespaces.
\<close>

section \<open>Constructors\<close>

text \<open>\<open>name.split('::')[-1]\<close>\<close>

function last_component :: "string \<Rightarrow> string" where
  "last_component s = (case find_opt s ''::'' of None \<Rightarrow> s | Some i \<Rightarrow> last_component (drop (i + 2) s))"
  by pat_completeness auto
termination by (relation "measure length") (auto dest: find_opt_Some)

declare last_component.simps [simp del]

text \<open>The class name is a word, so \<open>re.escape\<close> leaves it as it is.\<close>

definition re_constructor :: "string \<Rightarrow> regexp" where
  "re_constructor name =
     (let specs = Star (Seqs [Alts [Str ''inline'', Str ''constexpr''], Plus Spc]);
          inner = NotIn [CC (CHR ''(''), CC (CHR '')'')]
      in Seqs [Plus Spc, specs, Opt (Grp 1 (Seqs [Str ''explicit'', Plus Spc])), specs, Str name, Star Spc,
               Str ''('', Grp 2 (Star (Alts [inner, Seqs [Str ''('', Star inner, Str '')'']])), Str '')''])"

definition re_copy_argument :: "string \<Rightarrow> regexp" where
  "re_copy_argument name =
     Seqs [Opt (Grp 1 (Seqs [Str ''const'', Plus Spc])), Str name,
           Opt (Grp 2 (Seqs [Star Spc, Str ''<'', Star (NotIn [CC (CHR ''>'')]), Str ''>''])),
           Opt (Grp 3 (Seqs [Plus Spc, Str ''const''])), Star Spc,
           Opt (Seqs [Str ''<'', Plus Wrd, Str ''>'', Star Spc]), Str ''&'']"

definition arg_open :: "string \<Rightarrow> bool" where
  "arg_open a \<longleftrightarrow> py_count a ''>'' < py_count a ''<'' \<or> py_count a '')'' < py_count a ''(''"

text \<open>
  The loop that joins pieces until brackets balance: \<open>constructor_args[i + 1]\<close> raises when there
  is no further piece.
\<close>

fun collapse_from :: "string \<Rightarrow> string list \<Rightarrow> string list py" where
  "collapse_from arg [] = (if arg_open arg then Inl IndexError else Inr [arg])"
| "collapse_from arg (b # bs) =
     (if arg_open arg then collapse_from (arg @ '','' @ b) bs
      else py_bind (collapse_from b bs) (\<lambda>args. Inr (arg # args)))"

definition collapse_args :: "string list \<Rightarrow> string list py" where
  "collapse_args args = (case args of [] \<Rightarrow> Inr [] | a # as \<Rightarrow> collapse_from a as)"

definition constructor_args :: "match_obj \<Rightarrow> string list" where
  "constructor_args m = (if group_text m 2 = [] then [] else split_on (CHR '','') (group_text m 2))"

definition noarg_constructor :: "string list \<Rightarrow> bool" where
  "noarg_constructor args \<longleftrightarrow> args = [] \<or> (length args = 1 \<and> strip (hd args) = ''void'')"

definition variadic_args :: "string list \<Rightarrow> string list" where
  "variadic_args args = filter (\<lambda>a. contains a ''&&...'') args"

definition defaulted_args :: "string list \<Rightarrow> string list" where
  "defaulted_args args = filter (\<lambda>a. contains a ''='') args"

definition onearg_constructor :: "string list \<Rightarrow> bool" where
  "onearg_constructor args \<longleftrightarrow>
     (length args = 1 \<and> \<not> noarg_constructor args)
     \<or> (1 \<le> length args \<and> \<not> noarg_constructor args \<and> length args \<le> length (defaulted_args args) + 1)
     \<or> (length args \<le> 2 \<and> 1 \<le> length (variadic_args args))"

definition explicit_msgs :: "string \<Rightarrow> nat \<Rightarrow> string \<Rightarrow> bool \<Rightarrow> string list \<Rightarrow> lint_msg list" where
  "explicit_msgs filename linenum base marked args =
     (let onearg = onearg_constructor args;
          initializer_list = (onearg \<and> hit re_initializer_list (hd args));
          copy = (onearg \<and> fits (re_copy_argument base) (strip (hd args)))
      in if \<not> marked \<and> onearg \<and> \<not> initializer_list \<and> \<not> copy then
           lint True filename linenum ''runtime/explicit'' 5
             (if defaulted_args args \<noteq> [] \<or> variadic_args args \<noteq> []
              then ''Constructors callable with one argument should be marked explicit.''
              else ''Single-parameter constructors should be marked explicit.'')
         else lint (marked \<and> \<not> onearg \<and> noarg_constructor args) filename linenum ''runtime/explicit'' 5
                ''Zero-parameter constructors should not be marked explicit.'')"

definition check_constructor :: "string \<Rightarrow> nat \<Rightarrow> string \<Rightarrow> string \<Rightarrow> lint_msg list py" where
  "check_constructor filename linenum line classname =
     (let base = last_component classname in
      case re_match (re_constructor base) line of
        None \<Rightarrow> Inr []
      | Some m \<Rightarrow>
          py_bind (collapse_args (constructor_args m)) (\<lambda>args.
            Inr (explicit_msgs filename linenum base (group_text m 1 \<noteq> []) args)))"

section \<open>CheckForNonStandardConstructs\<close>

definition nonstandard_strings :: "string \<Rightarrow> nat \<Rightarrow> string \<Rightarrow> lint_msg list" where
  "nonstandard_strings filename linenum line =
     lint (hit re_printf_q line) filename linenum ''runtime/printf_format'' 3
       ''%q in format strings is deprecated.  Use %ll instead.''
     @ lint (hit re_printf_N line) filename linenum ''runtime/printf_format'' 2
         ''%N$ formats are unconventional.  Try rewriting to avoid them.''
     @ lint (hit re_undef_escape (py_replace line [backslash, backslash] [])) filename linenum ''build/printf_format'' 3
         ''%, [, (, and { are undefined character escapes.  Unescape them.''"

definition nonstandard_code :: "string \<Rightarrow> nat \<Rightarrow> string \<Rightarrow> lint_msg list" where
  "nonstandard_code filename linenum line =
     lint (hit re_storage_class line) filename linenum ''build/storage_class'' 5
       (''Storage-class specifier (static, extern, typedef, etc) should be '' @
        ''at the beginning of the declaration.'')
     @ lint (fits re_endif_text line) filename linenum ''build/endif_comment'' 5
         ''Uncommented text after #endif is non-standard.  Use a comment.''
     @ lint (fits re_inner_forward line) filename linenum ''build/forward_decl'' 5
         ''Inner-style forward declarations are invalid.  Remove this line.''
     @ lint (hit re_maxmin line) filename linenum ''build/deprecated'' 3
         ''>? and <? (max and min) operators are non-standard and deprecated.''
     @ lint (hit re_const_string_ref line) filename linenum ''runtime/member_string_references'' 2
         (''const string& members are dangerous. It is much better to use '' @
          ''alternatives, such as pointers or simple constants.'')"

definition class_name_of :: "block_info \<Rightarrow> string" where
  "class_name_of b = (case kind b of ClassKind c \<Rightarrow> c_name c | _ \<Rightarrow> [])"

definition CheckForNonStandardConstructs ::
  "string \<Rightarrow> cleansed_lines \<Rightarrow> nat \<Rightarrow> nesting_state \<Rightarrow> lint_msg list py" where
  "CheckForNonStandardConstructs filename cl linenum st =
     py_bind (line_at cl (int linenum)) (\<lambda>line.
     py_bind (elided_at cl (int linenum)) (\<lambda>elided_line.
     py_bind (case InnermostClass st of
                Some b \<Rightarrow> if seen_open_brace b
                          then check_constructor filename linenum elided_line (class_name_of b) else Inr []
              | None \<Rightarrow> Inr [])
       (\<lambda>ms. Inr (nonstandard_strings filename linenum line @ nonstandard_code filename linenum elided_line @ ms))))"

section \<open>CheckForFunctionLengths\<close>

definition starts_function :: "string \<Rightarrow> bool py" where
  "starts_function line =
     (case re_match re_fn_decl line of
        None \<Rightarrow> Inr False
      | Some m \<Rightarrow>
          py_bind (py_nth (split_ws (group_text m 1)) (-1)) (\<lambda>function_name.
            Inr (function_name = ''TEST'' \<or> function_name = ''TEST_F'' \<or> \<not> fits re_all_caps function_name)))"

definition function_title :: "string \<Rightarrow> string \<Rightarrow> string py" where
  "function_title line joined_line =
     (case re_search re_fn_name line of
        None \<Rightarrow> Inl AttributeError
      | Some m \<Rightarrow>
          let function = group_text m 1 in
          if fits re_test_macro function then
            (case re_search re_fn_params joined_line of
               None \<Rightarrow> Inr function
             | Some p \<Rightarrow> Inr (function @ group_text p 1))
          else Inr (function @ ''()''))"

text \<open>
  The search for the body; the result is the function state and whether a body or a
  declaration was found.
\<close>

fun find_body :: "string \<Rightarrow> string list \<Rightarrow> string \<Rightarrow> fn_state \<Rightarrow> (fn_state \<times> bool) py" where
  "find_body line [] joined_line st = Inr (st, False)"
| "find_body line (start_line # rest) joined_line st =
     (let joined_line = joined_line @ '' '' @ lstrip start_line in
      if hit re_semi_or_close start_line then Inr (st, True)
      else if hit re_open_brace start_line then
        py_bind (function_title line joined_line) (\<lambda>function. Inr (Begin function st, True))
      else find_body line rest joined_line st)"

definition CheckForFunctionLengths ::
  "int \<Rightarrow> string \<Rightarrow> cleansed_lines \<Rightarrow> nat \<Rightarrow> fn_state \<Rightarrow> (fn_state \<times> lint_msg list) py" where
  "CheckForFunctionLengths verbose filename cl linenum st =
     py_bind (line_at cl (int linenum)) (\<lambda>line.
     py_bind (starts_function line) (\<lambda>starting_func.
       if starting_func then
         py_bind (find_body line (take (NumLines cl - linenum) (drop linenum (lines cl))) [] st) (\<lambda>(st', body_found).
           Inr (st', lint (\<not> body_found) filename linenum ''readability/fn_size'' 5
                       ''Lint failed to find start of function body.''))
       else if fits re_fn_end line then Inr (End st, Check verbose filename (int linenum) st)
       else if \<not> fits re_blank line then Inr (Count st, [])
       else Inr (st, [])))"

section \<open>Indentation in namespaces\<close>

definition IsBlockInNameSpace :: "nesting_state \<Rightarrow> bool \<Rightarrow> bool" where
  "IsBlockInNameSpace st is_forward_declaration \<longleftrightarrow>
     (if is_forward_declaration then stack st \<noteq> [] \<and> is_namespace (hd (stack st))
      else 1 < length (stack st) \<and> check_namespace_indentation (hd (stack st))
           \<and> is_namespace (stack st ! 1))"

definition ShouldCheckNamespaceIndentation :: "nesting_state \<Rightarrow> bool \<Rightarrow> string list \<Rightarrow> nat \<Rightarrow> bool py" where
  "ShouldCheckNamespaceIndentation st is_namespace_indent_item ls linenum =
     py_bind (IsForwardClassDeclaration ls linenum) (\<lambda>is_forward_declaration.
       if \<not> (is_namespace_indent_item \<or> is_forward_declaration) then Inr False
       else py_bind (IsMacroDefinition ls linenum) (\<lambda>is_macro.
         Inr (\<not> is_macro \<and> IsBlockInNameSpace st is_forward_declaration)))"

definition CheckItemIndentationInNamespace :: "string \<Rightarrow> string list \<Rightarrow> nat \<Rightarrow> lint_msg list py" where
  "CheckItemIndentationInNamespace filename ls linenum =
     py_bind (py_nth ls (int linenum)) (\<lambda>line.
       Inr (lint (fits re_leading_ws line) filename linenum ''runtime/indentation_namespace'' 4
              ''Do not indent within a namespace''))"

text \<open>\<open>previous_stack_top == stack[-2]\<close> compares objects.\<close>

definition namespace_indent_item :: "nesting_state \<Rightarrow> bool" where
  "namespace_indent_item st \<longleftrightarrow>
     1 < length (stack st) \<and> check_namespace_indentation (hd (stack st))
     \<and> (case previous_stack_top st of None \<Rightarrow> False | Some p \<Rightarrow> is_namespace p \<and> bid p = bid (stack st ! 1))"

definition CheckForNamespaceIndentation ::
  "string \<Rightarrow> nesting_state \<Rightarrow> cleansed_lines \<Rightarrow> nat \<Rightarrow> lint_msg list py" where
  "CheckForNamespaceIndentation filename st cl linenum =
     py_bind (ShouldCheckNamespaceIndentation st (namespace_indent_item st) (elided cl) linenum) (\<lambda>b.
       if b then CheckItemIndentationInNamespace filename (elided cl) linenum else Inr [])"

end
