(* ===== verification/Patterns_Include.thy ===== *)
theory Patterns_Include
  imports Py_Regex_Syntax
begin

text \<open>
  The regular expressions of the checks in \<open>Check_Include\<close>, as in \<open>Patterns\<close>.
\<close>

definition RE_FIRST_COMPONENT :: regexp where
  \<open>RE_FIRST_COMPONENT =
     Seqs [Bol, Plus (NotIn [CC (CHR ''-''), CC (CHR ''_''), CC (CHR ''.'')])]\<close>

definition re_bare_include :: regexp where
  \<open>re_bare_include =
     Seqs [Str ''#include'', Star Spc, Str ''"'', Grp 1 (Seqs [Plus (NotIn [CC (CHR ''/'')]),
       Str ''.h'']), Str ''"'']\<close>

definition THIRD_PARTY_HEADERS_PATTERN :: regexp where
  \<open>THIRD_PARTY_HEADERS_PATTERN =
     Seqs [Bol, Alts [Seqs [Star (NotIn [CC (CHR ''/'')]), In [CR (CHR ''A'') (CHR ''Z'')], Star
       (NotIn [CC (CHR ''/'')]), Str ''.h''], Str ''lua.h'', Str ''lauxlib.h'', Str
       ''lualib.h''], Eol]\<close>

definition RE_PATTERN_STRING :: regexp where
  \<open>RE_PATTERN_STRING =
     Seqs [Wordb, Str ''string'', Wordb]\<close>

definition re_maybe_set :: regexp where
  \<open>re_maybe_set =
     Seqs [NotIn [CC (CHR ''>''), CC (CHR ''.'')], Wordb, Str ''set'', Star Spc, Str ''<'']\<close>

definition re_maybe_map :: regexp where
  \<open>re_maybe_map =
     Alts [Grp 1 (Seqs [Str ''std'', Wordb, Str ''::'', Wordb, Str ''map'', Star Spc, Str
       ''<'']), Grp 2 (Seqs [Bol, Grp 3 (Seqs [Str ''std'', Wordb, Str ''::'', Wordb]), Str
       ''map'', Wordb, Str ''('', Star Spc, Str ''<''])]\<close>

definition re_flymake_cc :: regexp where
  \<open>re_flymake_cc =
     Seqs [Str ''_flymake.cc'', Eol]\<close>

definition RE_PATTERN_EXPLICIT_MAKEPAIR :: regexp where
  \<open>RE_PATTERN_EXPLICIT_MAKEPAIR =
     Seqs [Wordb, Str ''make_pair'', Star Spc, Str ''<'']\<close>

definition re_include_any :: regexp where
  \<open>re_include_any =
     Seqs [Star Spc, Str ''#'', Star Spc, Str ''include'', Plus Spc, In [CC (CHR ''<''), CC (CHR
       ''"'')], Grp 1 (Plus (NotIn [CC (CHR ''<''), CC (CHR ''"'')])), In [CC (CHR ''"''), CC
       (CHR ''>'')]]\<close>

definition re_pp_define :: regexp where
  \<open>re_pp_define =
     Seqs [Star Spc, Str ''#'', Star Spc, Str ''define'', Wordb]\<close>

definition re_hash_line :: regexp where
  \<open>re_hash_line =
     Seqs [Star Spc, Str ''#'']\<close>

section \<open>The patterns are those of the source\<close>

lemma RE_FIRST_COMPONENT_src: \<open>compile_re (re_text ''^[^-_.]+'') = Some RE_FIRST_COMPONENT\<close>
  by code_simp

lemma re_bare_include_src: \<open>compile_re (re_text ''#include`s*"([^/]+`.h)"'') = Some re_bare_include\<close>
  by code_simp

lemma THIRD_PARTY_HEADERS_PATTERN_src: \<open>compile_re (re_text ''^(?:[^/]*[A-Z][^/]*`.h|lua`.h|lauxlib`.h|lualib`.h)$'') = Some THIRD_PARTY_HEADERS_PATTERN\<close>
  by code_simp

lemma RE_PATTERN_STRING_src: \<open>compile_re (re_text ''`bstring`b'') = Some RE_PATTERN_STRING\<close>
  by code_simp

lemma re_maybe_set_src: \<open>compile_re (re_text ''[^>.]`bset`s*`<'') = Some re_maybe_set\<close>
  by code_simp

lemma re_maybe_map_src: \<open>compile_re (re_text ''(std`b::`bmap`s*`<)|(^(std`b::`b)map`b`(`s*`<)'') = Some re_maybe_map\<close>
  by code_simp

lemma re_flymake_cc_src: \<open>compile_re (re_text ''_flymake`.cc$'') = Some re_flymake_cc\<close>
  by code_simp

lemma RE_PATTERN_EXPLICIT_MAKEPAIR_src: \<open>compile_re (re_text ''`bmake_pair`s*<'') = Some RE_PATTERN_EXPLICIT_MAKEPAIR\<close>
  by code_simp

lemma re_include_any_src: \<open>compile_re (re_text ''`s*#`s*include`s+[<"]([^<"]+)[">]'') = Some re_include_any\<close>
  by code_simp

lemma re_pp_define_src: \<open>compile_re (re_text ''`s*#`s*define`b'') = Some re_pp_define\<close>
  by code_simp

lemma re_hash_line_src: \<open>compile_re (re_text ''`s*#'') = Some re_hash_line\<close>
  by code_simp

end
