(* ===== verification/Check_Include.thy ===== *)
theory Check_Include
  imports Check_Constructs Patterns_Include "HOL-Library.Product_Lexorder" "HOL-Library.AList"
begin

text \<open>
  The include checks: \<open>_DropCommonSuffixes\<close>, \<open>_ClassifyInclude\<close>, \<open>CheckIncludeLine\<close>,
  \<open>FilesBelongToSameModule\<close>, \<open>UpdateIncludeState\<close> and \<open>CheckForIncludeWhatYouUse\<close>.

  Python iterates over a set of extensions in an order that the model takes as the parameter
  \<open>ord\<close>, which lists the elements of a set.  The lines of a header that \<open>UpdateIncludeState\<close>
  opens are the parameter \<open>rd\<close>, \<open>None\<close> for a file that cannot be opened.  A call of
  \<open>RepositoryName\<close> that does not return is the value \<^const>\<open>NoReturn\<close>.
\<close>

type_synonym set_order = "string set \<Rightarrow> string list"
type_synonym file_reader = "string \<Rightarrow> string list option"

definition terminating :: "'a option \<Rightarrow> 'a py" where
  "terminating x = (case x of None \<Rightarrow> Inl NoReturn | Some a \<Rightarrow> Inr a)"

text \<open>\<open>s[:-n]\<close>, which is empty for \<open>n = 0\<close>.\<close>

definition drop_end :: "nat \<Rightarrow> string \<Rightarrow> string" where
  "drop_end n s = (if n = 0 then [] else take (length s - n) s)"

section \<open>Common suffixes\<close>

definition TEST_SUFFIXES :: "string list" where
  "TEST_SUFFIXES = [''_test'', ''_regtest'', ''_unittest'']"

definition common_suffixes :: "set_order \<Rightarrow> ext_state \<Rightarrow> string list" where
  "common_suffixes ord exts =
     concat (map (\<lambda>test_suffix. map (\<lambda>ext. dropWhile (\<lambda>c. c = CHR ''_'') test_suffix @ ''.'' @ ext)
       (ord (GetNonHeaderExtensions exts))) TEST_SUFFIXES)
     @ concat (map (\<lambda>suffix. map (\<lambda>ext. suffix @ ''.'' @ ext) (ord (GetHeaderExtensions exts)))
         [''inl'', ''imp'', ''internal''])"

definition has_suffix :: "string \<Rightarrow> string \<Rightarrow> bool" where
  "has_suffix filename suffix \<longleftrightarrow>
     endswith filename suffix \<and> length suffix < length filename
     \<and> filename ! (length filename - length suffix - 1) \<in> {CHR ''-'', CHR ''_''}"

definition DropCommonSuffixes :: "set_order \<Rightarrow> ext_state \<Rightarrow> string \<Rightarrow> string" where
  "DropCommonSuffixes ord exts filename =
     (case List.find (has_suffix filename) (common_suffixes ord exts) of
        Some suffix \<Rightarrow> take (length filename - length suffix - 1) filename
      | None \<Rightarrow> fst (path_splitext filename))"

section \<open>Kinds of headers\<close>

definition CPP_HEADERS :: "string list" where
  "CPP_HEADERS =
    [''algobase.h'', ''algo.h'', ''alloc.h'', ''builtinbuf.h'', ''bvector.h'', ''complex.h'',
     ''defalloc.h'', ''deque.h'', ''editbuf.h'', ''fstream.h'', ''function.h'', ''hash_map'',
     ''hash_map.h'', ''hash_set'', ''hash_set.h'', ''hashtable.h'', ''heap.h'', ''indstream.h'',
     ''iomanip.h'', ''iostream.h'', ''istream.h'', ''iterator.h'', ''list.h'', ''map.h'',
     ''multimap.h'', ''multiset.h'', ''ostream.h'', ''pair.h'', ''parsestream.h'', ''pfstream.h'',
     ''procbuf.h'', ''pthread_alloc'', ''pthread_alloc.h'', ''rope'', ''rope.h'', ''ropeimpl.h'',
     ''set.h'', ''slist'', ''slist.h'', ''stack.h'', ''stdiostream.h'', ''stl_alloc.h'',
     ''stl_relops.h'', ''streambuf.h'', ''stream.h'', ''strfile.h'', ''strstream.h'', ''tempbuf.h'',
     ''tree.h'', ''type_traits.h'', ''vector.h'', ''algorithm'', ''array'', ''atomic'', ''bitset'',
     ''chrono'', ''codecvt'', ''complex'', ''condition_variable'', ''deque'', ''exception'',
     ''forward_list'', ''fstream'', ''functional'', ''future'', ''initializer_list'', ''iomanip'',
     ''ios'', ''iosfwd'', ''iostream'', ''istream'', ''iterator'', ''limits'', ''list'', ''locale'',
     ''map'', ''memory'', ''mutex'', ''new'', ''numeric'', ''ostream'', ''queue'', ''random'',
     ''ratio'', ''regex'', ''scoped_allocator'', ''set'', ''sstream'', ''stack'', ''stdexcept'',
     ''streambuf'', ''string'', ''strstream'', ''system_error'', ''thread'', ''tuple'',
     ''typeindex'', ''typeinfo'', ''type_traits'', ''unordered_map'', ''unordered_set'',
     ''utility'', ''valarray'', ''vector'', ''shared_mutex'', ''any'', ''charconv'', ''codecvt'',
     ''execution'', ''filesystem'', ''memory_resource'', ''optional'', ''string_view'', ''variant'',
     ''cassert'', ''ccomplex'', ''cctype'', ''cerrno'', ''cfenv'', ''cfloat'', ''cinttypes'',
     ''ciso646'', ''climits'', ''clocale'', ''cmath'', ''csetjmp'', ''csignal'', ''cstdalign'',
     ''cstdarg'', ''cstdbool'', ''cstddef'', ''cstdint'', ''cstdio'', ''cstdlib'', ''cstring'',
     ''ctgmath'', ''ctime'', ''cuchar'', ''cwchar'', ''cwctype'']"

definition first_component :: "string \<Rightarrow> string option" where
  "first_component base = map_option m_text (re_match RE_FIRST_COMPONENT base)"

definition own_header :: "set_order \<Rightarrow> ext_state \<Rightarrow> string \<Rightarrow> string \<Rightarrow> header_type" where
  "own_header ord exts repository_name include =
     (let (target_dir, target_base) = path_split (DropCommonSuffixes ord exts repository_name);
          (include_dir, include_base) = path_split (DropCommonSuffixes ord exts include);
          target_dir_pub = py_replace (path_normpath (target_dir @ ''/../public'')) [backslash] ''/''
      in if target_base = include_base \<and> (include_dir = target_dir \<or> include_dir = target_dir_pub)
         then LIKELY_MY_HEADER
         else if first_component target_base \<noteq> None \<and> first_component target_base = first_component include_base
         then POSSIBLE_MY_HEADER else OTHER_HEADER)"

definition ClassifyInclude ::
  "set_order \<Rightarrow> ext_state \<Rightarrow> file_sys \<Rightarrow> string \<Rightarrow> string \<Rightarrow> bool \<Rightarrow> header_type py" where
  "ClassifyInclude ord exts fs filename include is_system =
     (if is_system \<and> snd (path_splitext include) \<notin> {''.hpp'', ''.hxx'', ''.h++''}
      then Inr (if include \<in> set CPP_HEADERS then CPP_SYS_HEADER else C_SYS_HEADER)
      else py_bind (terminating (RepositoryName fs filename)) (\<lambda>name. Inr (own_header ord exts name include)))"

section \<open>CheckIncludeLine\<close>

definition third_party :: "string \<Rightarrow> bool" where
  "third_party include \<longleftrightarrow> fits THIRD_PARTY_HEADERS_PATTERN include"

definition subdir_msgs :: "string \<Rightarrow> nat \<Rightarrow> string \<Rightarrow> lint_msg list" where
  "subdir_msgs filename linenum line =
     (case re_match re_bare_include line of
        None \<Rightarrow> []
      | Some m \<Rightarrow> lint (\<not> third_party (group_text m 1)) filename linenum ''build/include_subdir'' 4
                    ''Include the directory when naming .h files'')"

text \<open>The first source extension of a file of another directory that is included.\<close>

fun foreign_source :: "file_sys \<Rightarrow> string \<Rightarrow> string \<Rightarrow> string list \<Rightarrow> string option py" where
  "foreign_source fs filename include [] = Inr None"
| "foreign_source fs filename include (extension # exts) =
     (if endswith include (''.'' @ extension) then
        py_bind (terminating (RepositoryName fs filename)) (\<lambda>name.
          if path_dirname name \<noteq> path_dirname include then Inr (Some extension)
          else foreign_source fs filename include exts)
      else foreign_source fs filename include exts)"

fun third_src_header :: "file_sys \<Rightarrow> string \<Rightarrow> string \<Rightarrow> string list \<Rightarrow> bool py" where
  "third_src_header fs filename include [] = Inr False"
| "third_src_header fs filename include (ext # exts) =
     py_bind (terminating (Extension fs filename)) (\<lambda>extension.
       let basefilename = take (length filename - length extension) filename in
       py_bind (terminating (RepositoryName fs (basefilename @ ''.'' @ ext))) (\<lambda>headername.
         if contains include headername \<or> contains headername include then Inr True
         else third_src_header fs filename include exts))"

text \<open>\<open>include_list[-1].append((include, linenum))\<close>\<close>

definition add_include :: "string \<Rightarrow> nat \<Rightarrow> include_state \<Rightarrow> include_state py" where
  "add_include include linenum st =
     (if include_list st = [] then Inl IndexError
      else Inr (st\<lparr>include_list := butlast (include_list st)
                     @ [last (include_list st) @ [(include, int linenum)]]\<rparr>))"

definition order_msgs :: "file_sys \<Rightarrow> string \<Rightarrow> nat \<Rightarrow> string \<Rightarrow> lint_msg list py" where
  "order_msgs fs filename linenum error_message =
     (if error_message = [] then Inr []
      else py_bind (terminating (BaseName fs filename)) (\<lambda>base.
        Inr (lint True filename linenum ''build/include_order'' 4
               (error_message @ ''. Should be: '' @ base @ ''.h, c system, c++ system, other.''))))"

definition record_include ::
  "set_order \<Rightarrow> ext_state \<Rightarrow> file_sys \<Rightarrow> string \<Rightarrow> cleansed_lines \<Rightarrow> nat \<Rightarrow> string \<Rightarrow> bool \<Rightarrow> include_state
     \<Rightarrow> (include_state \<times> lint_msg list) py" where
  \<open>record_include ord exts fs filename cl linenum include is_system st =
     py_bind (add_include include linenum st) (\<lambda>st1.
     py_bind (ClassifyInclude ord exts fs filename include is_system) (\<lambda>header_type.
       let (st2, error_message) = CheckNextIncludeOrder header_type st1;
           canonical_include = CanonicalizeAlphabeticalOrder include in
       py_bind (order_msgs fs filename linenum error_message) (\<lambda>ms1.
       py_bind (IsInAlphabeticalOrder st2 (elided cl) (int linenum) canonical_include) (\<lambda>in_order.
         Inr (SetLastHeader canonical_include st2,
              ms1 @ lint (\<not> in_order) filename linenum ''build/include_alpha'' 4
                      (''Include "'' @ include @ ''" not in alphabetical order''))))))\<close>

definition include_checks ::
  "set_order \<Rightarrow> ext_state \<Rightarrow> file_sys \<Rightarrow> string \<Rightarrow> cleansed_lines \<Rightarrow> nat \<Rightarrow> string \<Rightarrow> bool \<Rightarrow> include_state
     \<Rightarrow> (include_state \<times> lint_msg list) py" where
  \<open>include_checks ord exts fs filename cl linenum include is_system st =
     (let duplicate_line = FindHeader st include in
      if 0 \<le> duplicate_line then
        Inr (st, lint True filename linenum ''build/include'' 4
                   (''"'' @ include @ ''" already included at '' @ filename @ '':'' @ int_str duplicate_line))
      else py_bind (foreign_source fs filename include (ord (GetNonHeaderExtensions exts))) (\<lambda>foreign.
        case foreign of
          Some extension \<Rightarrow>
            Inr (st, lint True filename linenum ''build/include'' 4
                       (''Do not include .'' @ extension @ '' files from other packages''))
        | None \<Rightarrow>
            py_bind (third_src_header fs filename include (ord (GetHeaderExtensions exts))) (\<lambda>own.
              if own \<or> \<not> third_party include
              then record_include ord exts fs filename cl linenum include is_system st
              else Inr (st, []))))\<close>

definition CheckIncludeLine ::
  "set_order \<Rightarrow> ext_state \<Rightarrow> file_sys \<Rightarrow> string \<Rightarrow> cleansed_lines \<Rightarrow> nat \<Rightarrow> include_state
     \<Rightarrow> (include_state \<times> lint_msg list) py" where
  "CheckIncludeLine ord exts fs filename cl linenum st =
     py_bind (line_at cl (int linenum)) (\<lambda>line.
       case re_search RE_PATTERN_INCLUDE line of
         None \<Rightarrow> Inr (st, subdir_msgs filename linenum line)
       | Some m \<Rightarrow>
           py_bind (include_checks ord exts fs filename cl linenum (group_text m 2)
                      (group_text m 1 = ''<'') st) (\<lambda>(st', ms).
             Inr (st', subdir_msgs filename linenum line @ ms)))"

section \<open>Modules\<close>

definition module_of_source :: "file_sys \<Rightarrow> string \<Rightarrow> string \<Rightarrow> string py" where
  "module_of_source fs filename_cc extension =
     py_bind (terminating (BaseName fs filename_cc)) (\<lambda>base.
       let stem = drop_end (length extension) filename_cc;
           stem = (case re_search TEST_FILE_SUFFIX base of
                     None \<Rightarrow> stem
                   | Some m \<Rightarrow> drop_end (length (group_text m 1)) stem)
       in Inr (py_replace (py_replace stem ''/public/'' ''/'') ''/internal/'' ''/''))"

definition module_of_header :: "string \<Rightarrow> string \<Rightarrow> string" where
  "module_of_header filename_h extension =
     (let stem = drop_end (length extension) filename_h;
          stem = (if endswith stem ''-inl'' then drop_end 4 stem else stem)
      in py_replace (py_replace stem ''/public/'' ''/'') ''/internal/'' ''/'')"

definition strip_dots :: "string \<Rightarrow> string" where
  "strip_dots s = dropWhile (\<lambda>c. c = CHR ''.'') s"

definition FilesBelongToSameModule ::
  "file_sys \<Rightarrow> ext_state \<Rightarrow> string \<Rightarrow> string \<Rightarrow> (bool \<times> string) py" where
  "FilesBelongToSameModule fs exts filename_cc filename_h =
     py_bind (terminating (Extension fs filename_cc)) (\<lambda>ext_cc.
       if strip_dots ext_cc \<notin> GetNonHeaderExtensions exts then Inr (False, [])
       else py_bind (terminating (Extension fs filename_h)) (\<lambda>ext_h.
         if \<not> IsHeaderExtension exts (strip_dots ext_h) then Inr (False, [])
         else py_bind (module_of_source fs filename_cc ext_cc) (\<lambda>cc.
           let h = module_of_header filename_h ext_h in
           Inr (endswith cc h, if endswith cc h then drop_end (length h) cc else []))))"

section \<open>Headers of a header\<close>

type_synonym include_dict = "(string \<times> int) list"

definition setdefault :: "string \<Rightarrow> int \<Rightarrow> include_dict \<Rightarrow> include_dict" where
  "setdefault k v d = (if k \<in> fst ` set d then d else d @ [(k, v)])"

fun read_includes :: "string list \<Rightarrow> int \<Rightarrow> include_dict \<Rightarrow> include_dict" where
  "read_includes [] linenum d = d"
| "read_includes (line # ls) linenum d =
     read_includes ls (linenum + 1)
       (case re_search RE_PATTERN_INCLUDE (CleanseComments line) of
          None \<Rightarrow> d
        | Some m \<Rightarrow> setdefault (group_text m 2) (linenum + 1) d)"

definition UpdateIncludeState :: "file_reader \<Rightarrow> string \<Rightarrow> include_dict \<Rightarrow> bool \<times> include_dict" where
  "UpdateIncludeState rd filename d =
     (case rd filename of
        None \<Rightarrow> (False, d)
      | Some ls \<Rightarrow> (True, read_includes ls 0 d))"

section \<open>CheckForIncludeWhatYouUse\<close>

definition HEADERS_CONTAINING_TEMPLATES :: "(string \<times> string list) list" where
  "HEADERS_CONTAINING_TEMPLATES = [
     (''<deque>'', [''deque'']),
     (''<functional>'', [''unary_function'', ''binary_function'', ''plus'', ''minus'', ''multiplies'', ''divides'',
        ''modulus'', ''negate'', ''equal_to'', ''not_equal_to'', ''greater'', ''less'',
        ''greater_equal'', ''less_equal'', ''logical_and'', ''logical_or'', ''logical_not'',
        ''unary_negate'', ''not1'', ''binary_negate'', ''not2'', ''bind1st'', ''bind2nd'',
        ''pointer_to_unary_function'', ''pointer_to_binary_function'', ''ptr_fun'', ''mem_fun_t'',
        ''mem_fun'', ''mem_fun1_t'', ''mem_fun1_ref_t'', ''mem_fun_ref_t'', ''const_mem_fun_t'',
        ''const_mem_fun1_t'', ''const_mem_fun_ref_t'', ''const_mem_fun1_ref_t'', ''mem_fun_ref'']),
     (''<limits>'', [''numeric_limits'']),
     (''<list>'', [''list'']),
     (''<map>'', [''multimap'']),
     (''<memory>'', [''allocator'', ''make_shared'', ''make_unique'', ''shared_ptr'', ''unique_ptr'',
        ''weak_ptr'']),
     (''<queue>'', [''queue'', ''priority_queue'']),
     (''<set>'', [''multiset'']),
     (''<stack>'', [''stack'']),
     (''<string>'', [''char_traits'', ''basic_string'']),
     (''<tuple>'', [''tuple'']),
     (''<unordered_map>'', [''unordered_map'', ''unordered_multimap'']),
     (''<unordered_set>'', [''unordered_set'', ''unordered_multiset'']),
     (''<utility>'', [''pair'']),
     (''<vector>'', [''vector'']),
     (''<hash_map>'', [''hash_map'', ''hash_multimap'']),
     (''<hash_set>'', [''hash_set'', ''hash_multiset'']),
     (''<slist>'', [''slist''])]"

definition HEADERS_MAYBE_TEMPLATES :: "(string \<times> string list) list" where
  "HEADERS_MAYBE_TEMPLATES = [
     (''<algorithm>'', [''copy'', ''max'', ''min'', ''min_element'', ''sort'', ''transform'']),
     (''<utility>'', [''forward'', ''make_pair'', ''move'', ''swap''])]"

definition re_maybe_template :: "string \<Rightarrow> regexp" where
  "re_maybe_template t =
     Seqs [NotIn [CC (CHR ''>''), CC (CHR ''.'')], Wordb, Str t,
           Opt (Grp 1 (Seqs [Str ''<'', LStar Any, Str ''>''])), Str ''('', NotIn [CC (CHR '')'')]]"

definition re_template :: "string \<Rightarrow> regexp" where
  "re_template t = Seqs [Grp 1 (Alts [Str ''<'', Wordb]), Str t, Star Spc, Str ''<'']"

definition maybe_templates :: "(regexp \<times> string \<times> string) list" where
  "maybe_templates =
     concat (map (\<lambda>(header, ts). map (\<lambda>t. (re_maybe_template t, t, header)) ts) HEADERS_MAYBE_TEMPLATES)
     @ [(re_maybe_set, ''set<>'', ''<set>''), (re_maybe_map, ''map<>'', ''<map>'')]"

definition template_patterns :: "(regexp \<times> string \<times> string) list" where
  "template_patterns =
     concat (map (\<lambda>(header, ts). map (\<lambda>t. (re_template t, t @ ''<>'', header)) ts) HEADERS_CONTAINING_TEMPLATES)"

text \<open>The patterns are those that the source puts together from the names.\<close>

lemma re_template_src:
  "\<forall>t \<in> set (concat (map snd HEADERS_CONTAINING_TEMPLATES)).
     compile_re (re_text (''(`<|`b)'' @ t @ ''`s*`<'')) = Some (re_template t)"
  by code_simp

lemma re_maybe_template_src:
  "\<forall>t \<in> set (concat (map snd HEADERS_MAYBE_TEMPLATES)).
     compile_re (re_text (''[^>.]`b'' @ t @ ''(<.*?>)?`([^`)]'')) = Some (re_maybe_template t)"
  by code_simp

type_synonym required_dict = "(string \<times> nat \<times> string) list"

definition std_prefix :: "string \<Rightarrow> match_obj \<Rightarrow> bool" where
  "std_prefix line m \<longleftrightarrow>
     (let prefix = take (m_start m) line in endswith prefix ''std::'' \<or> \<not> endswith prefix ''::'')"

fun require_maybe :: "(regexp \<times> string \<times> string) list \<Rightarrow> nat \<Rightarrow> string \<Rightarrow> required_dict \<Rightarrow> required_dict" where
  "require_maybe [] linenum line d = d"
| "require_maybe ((pattern, template, header) # ps) linenum line d =
     require_maybe ps linenum line
       (if hit pattern line then AList.update header (linenum, template) d else d)"

fun require_std :: "(regexp \<times> string \<times> string) list \<Rightarrow> nat \<Rightarrow> string \<Rightarrow> required_dict \<Rightarrow> required_dict" where
  "require_std [] linenum line d = d"
| "require_std ((pattern, template, header) # ps) linenum line d =
     require_std ps linenum line
       (case re_search pattern line of
          None \<Rightarrow> d
        | Some m \<Rightarrow> if std_prefix line m then AList.update header (linenum, template) d else d)"

definition require_line :: "nat \<Rightarrow> string \<Rightarrow> required_dict \<Rightarrow> required_dict" where
  "require_line linenum line d =
     (if line = [] \<or> hd line = CHR ''#'' then d
      else
        let d1 = require_std [(RE_PATTERN_STRING, ''string'', ''<string>'')] linenum line d;
            d2 = require_maybe maybe_templates linenum line d1
        in if CHR ''<'' \<in> set line then require_std template_patterns linenum line d2 else d2)"

fun required_from :: "string list \<Rightarrow> nat \<Rightarrow> required_dict \<Rightarrow> required_dict" where
  "required_from [] linenum d = d"
| "required_from (line # ls) linenum d = required_from ls (linenum + 1) (require_line linenum line d)"

text \<open>\<open>dict(items)\<close>: a later item overwrites the value of an earlier one.\<close>

definition flatten_includes :: "include_state \<Rightarrow> include_dict" where
  "flatten_includes st = fold (\<lambda>(k, v). AList.update k v) (concat (include_list st)) []"

fun read_headers ::
  "file_sys \<Rightarrow> ext_state \<Rightarrow> file_reader \<Rightarrow> string \<Rightarrow> string list \<Rightarrow> bool \<Rightarrow> include_dict \<Rightarrow> (bool \<times> include_dict) py" where
  "read_headers fs exts rd abs_filename [] header_found d = Inr (header_found, d)"
| "read_headers fs exts rd abs_filename (header # hs) header_found d =
     py_bind (FilesBelongToSameModule fs exts abs_filename header) (\<lambda>(same_module, common_path).
       if same_module then
         let (found, d') = UpdateIncludeState rd (common_path @ header) d
         in read_headers fs exts rd abs_filename hs (header_found \<or> found) d'
       else read_headers fs exts rd abs_filename hs header_found d)"

definition strip_quotes :: "string \<Rightarrow> string" where
  "strip_quotes s = rev (dropWhile (\<lambda>c. c \<in> {CHR ''<'', CHR ''>'', dquote})
     (rev (dropWhile (\<lambda>c. c \<in> {CHR ''<'', CHR ''>'', dquote}) s)))"

definition missing_includes :: "string \<Rightarrow> required_dict \<Rightarrow> include_dict \<Rightarrow> lint_msg list" where
  "missing_includes filename required d =
     concat (map (\<lambda>(header, linenum, template).
         lint (strip_quotes header \<notin> fst ` set d) filename linenum ''build/include_what_you_use'' 4
           (''Add #include '' @ header @ '' for '' @ template))
       (sort_key snd required))"

definition CheckForIncludeWhatYouUse ::
  "set_order \<Rightarrow> ext_state \<Rightarrow> file_sys \<Rightarrow> file_reader \<Rightarrow> string \<Rightarrow> cleansed_lines \<Rightarrow> include_state \<Rightarrow> lint_msg list py" where
  "CheckForIncludeWhatYouUse ord exts fs rd filename cl st =
     (let required = required_from (take (NumLines cl) (elided cl)) 0 [];
          d = flatten_includes st;
          abs_filename = re_sub re_flymake_cc ''.cc'' (FullName fs filename)
      in py_bind (read_headers fs exts rd abs_filename (map fst d) False d) (\<lambda>(header_found, d').
           if \<not> header_found \<and> (\<exists>extension \<in> GetNonHeaderExtensions exts. endswith filename (''.'' @ extension))
           then Inr []
           else Inr (missing_includes filename required d')))"

section \<open>Makepair and restricted headers\<close>

definition CheckMakePairUsesDeduction :: "string \<Rightarrow> cleansed_lines \<Rightarrow> nat \<Rightarrow> lint_msg list py" where
  "CheckMakePairUsesDeduction filename cl linenum =
     py_bind (elided_at cl (int linenum)) (\<lambda>line.
       Inr (lint (hit RE_PATTERN_EXPLICIT_MAKEPAIR line) filename linenum ''build/explicit_make_pair'' 4
              (''For C++11-compatibility, omit template arguments from make_pair'' @
               '' OR use pair directly OR if appropriate, construct a pair directly'')))"

definition included_name :: "string \<Rightarrow> string option" where
  "included_name line = map_option (\<lambda>m. group_text m 1) (re_match re_include_any line)"

definition CXX11_HEADERS :: "string list" where
  "CXX11_HEADERS = [''cfenv'', ''condition_variable'', ''fenv.h'', ''future'', ''mutex'', ''thread'',
     ''chrono'', ''ratio'', ''regex'', ''system_error'']"

definition re_std_name :: "string \<Rightarrow> regexp" where
  "re_std_name top_name = Seqs [Wordb, Str (''std::'' @ top_name), Wordb]"

definition cxx11_name_text :: "string \<Rightarrow> string" where
  "cxx11_name_text top_name =
     ''std::'' @ top_name @ '' is an unapproved C++11 class or function.  Send c-style '' @
     ''an example of where it would make your code more readable, and they may let you use it.''"

definition FlagCxx11Features :: "string \<Rightarrow> cleansed_lines \<Rightarrow> nat \<Rightarrow> lint_msg list py" where
  "FlagCxx11Features filename cl linenum =
     py_bind (elided_at cl (int linenum)) (\<lambda>line.
       Inr ((case included_name line of
               None \<Rightarrow> []
             | Some name \<Rightarrow>
                 lint (startswith name ''tr1/'') filename linenum ''build/c++tr1'' 5
                   (''C++ TR1 headers such as <'' @ name @ ''> are unapproved.'')
                 @ lint (name \<in> set CXX11_HEADERS) filename linenum ''build/c++11'' 5
                     (''<'' @ name @ ''> is an unapproved C++11 header.''))
          @ (if fits re_hash_line line \<and> \<not> fits re_pp_define line then []
             else concat (map (\<lambda>top_name. lint (hit (re_std_name top_name) line) filename linenum ''build/c++11'' 5
                    (cxx11_name_text top_name)) [''alignment_of'', ''aligned_union'']))))"

definition FlagCxx14Features :: "string \<Rightarrow> cleansed_lines \<Rightarrow> nat \<Rightarrow> lint_msg list py" where
  "FlagCxx14Features filename cl linenum =
     py_bind (elided_at cl (int linenum)) (\<lambda>line.
       Inr (case included_name line of
              None \<Rightarrow> []
            | Some name \<Rightarrow>
                lint (name \<in> set [''scoped_allocator'', ''shared_mutex'']) filename linenum ''build/c++14'' 5
                  (''<'' @ name @ ''> is an unapproved C++14 header.'')))"

end
