(* ===== verification/Patterns_Spacing.thy ===== *)
theory Patterns_Spacing
  imports Py_Regex_Syntax
begin

text \<open>
  The regular expressions of the checks in \<open>Check_Spacing\<close>, as in \<open>Patterns\<close>.
\<close>

definition re_if_call :: regexp where
  \<open>re_if_call =
     Seqs [Wordb, Str ''if'', Star Spc, Str ''('', Grp 1 (Star Any), Str '')'', Star Spc, Str
       ''{'']\<close>

definition re_for_call :: regexp where
  \<open>re_for_call =
     Seqs [Wordb, Str ''for'', Star Spc, Str ''('', Grp 1 (Star Any), Str '')'', Star Spc, Str
       ''{'']\<close>

definition re_while_call :: regexp where
  \<open>re_while_call =
     Seqs [Wordb, Str ''while'', Star Spc, Str ''('', Grp 1 (Star Any), Str '')'', Star Spc, In
       [CC (CHR ''{''), CC (CHR '';'')]]\<close>

definition re_switch_call :: regexp where
  \<open>re_switch_call =
     Seqs [Wordb, Str ''switch'', Star Spc, Str ''('', Grp 1 (Star Any), Str '')'', Star Spc,
       Str ''{'']\<close>

definition re_control_word :: regexp where
  \<open>re_control_word =
     Seqs [Wordb, Grp 1 (Alts [Str ''if'', Str ''for'', Str ''while'', Str ''switch'', Str
       ''return'', Str ''new'', Str ''delete'', Str ''catch'', Str ''sizeof'']), Wordb]\<close>

definition re_fn_pointer :: regexp where
  \<open>re_fn_pointer =
     Seqs [Str '' ('', Plus (NotIn [CC (CHR '')'')]), Str '')('', Star (NotIn [CC (CHR '')'')]),
       Grp 1 (Alts [Str '')'', Seqs [Str '','', Eol]])]\<close>

definition re_array_ref :: regexp where
  \<open>re_array_ref =
     Seqs [Str '' ('', Plus (NotIn [CC (CHR '')'')]), Str '')['', Plus (NotIn [CC (CHR '']'')]),
       Str '']'']\<close>

definition re_call_space :: regexp where
  \<open>re_call_space =
     Seqs [Wrd, Star Spc, Str ''('', Spc, Look False (Seqs [Star Spc, Str [CHR 0x5C], Eol])]\<close>

definition re_paren_space :: regexp where
  \<open>re_paren_space =
     Seqs [Str ''('', Plus Spc, Look False (Alts [Grp 1 (Seqs [Star Spc, Str [CHR 0x5C]]), Str
       ''(''])]\<close>

definition re_space_before_paren :: regexp where
  \<open>re_space_before_paren =
     Seqs [Wrd, Plus Spc, Str ''('']\<close>

definition re_asm_volatile :: regexp where
  \<open>re_asm_volatile =
     Seqs [Opt (Seqs [Str ''_'', Opt (Str ''_'')]), Str ''asm'', Opt (Seqs [Str ''_'', Opt (Str
       ''_'')]), Plus Spc, Opt (Seqs [Str ''_'', Opt (Str ''_'')]), Str ''volatile'', Opt (Seqs
       [Str ''_'', Opt (Str ''_'')]), Plus Spc, Str ''('']\<close>

definition re_define_typedef :: regexp where
  \<open>re_define_typedef =
     Alts [Seqs [Str ''#'', Star Spc, Str ''define''], Str ''typedef'', Seqs [Str ''using'',
       Plus Spc, Plus Wrd, Star Spc, Str ''='']]\<close>

definition re_member_pointer :: regexp where
  \<open>re_member_pointer =
     Seqs [Wrd, Plus Spc, Str ''('', Star (Grp 1 (Seqs [Plus Wrd, Str ''::''])), Str ''*'', Plus
       Wrd, Str '')('']\<close>

definition re_case_paren :: regexp where
  \<open>re_case_paren =
     Seqs [Wordb, Str ''case'', Plus Spc, Str ''('']\<close>

definition re_operator_word :: regexp where
  \<open>re_operator_word =
     Seqs [Wordb, Str ''operator'', Star (Str ''_''), Wordb]\<close>

definition re_space_close_paren :: regexp where
  \<open>re_space_close_paren =
     Seqs [NotIn [CC (CHR '')'')], Plus Spc, Str '')'', Star Spc, NotIn [CC (CHR ''{''),
       CSpace]]\<close>

definition re_only_close_paren :: regexp where
  \<open>re_only_close_paren =
     Seqs [Bol, Plus Spc, Str '')'']\<close>

definition RE_PATTERN_TODO :: regexp where
  \<open>RE_PATTERN_TODO =
     Seqs [Bol, Str ''//'', Grp 1 (Star Spc), Str ''TODO'', Opt (Grp 2 (Seqs [Str ''('', Seqs
       [Any, LStar Any], Str '')''])), Opt (Str '':''), Opt (Grp 3 (Alts [Spc, Eol]))]\<close>

definition re_escaped_char :: regexp where
  \<open>re_escaped_char =
     Seqs [Str [CHR 0x5C], Any]\<close>

definition re_scope_comment :: regexp where
  \<open>re_scope_comment =
     Seqs [Bol, Star Any, Str ''{'', Star (Str '' ''), Str ''//'']\<close>

definition re_comment_no_space :: regexp where
  \<open>re_comment_no_space =
     Seqs [Str ''//'', Star (NotIn [CC (CHR '' '')]), Wrd]\<close>

definition re_doxygen :: regexp where
  \<open>re_doxygen =
     Seqs [Grp 1 (Alts [Str ''///'', Str ''//!'']), Grp 2 (Alts [Plus Spc, Eol])]\<close>

definition re_six_spaces :: regexp where
  \<open>re_six_spaces =
     Seqs [Str ''      '', Wrd]\<close>

definition re_four_args :: regexp where
  \<open>re_four_args =
     Seqs [Str ''    '', Wrd, Star (NotIn [CC (CHR ''('')]), Str '')'', Star Spc, Opt (Grp 1
       (Seqs [Str ''const'', Star Spc])), Grp 2 (Alts [Seqs [Str ''{'', Star Spc, Eol], Str
       '':''])]\<close>

definition re_four_colon :: regexp where
  \<open>re_four_colon =
     Str ''    :''\<close>

definition re_close_start :: regexp where
  \<open>re_close_start =
     Seqs [Star Spc, Str ''}'']\<close>

definition re_section :: regexp where
  \<open>re_section =
     Seqs [Star Spc, Grp 1 (Alts [Str ''public'', Str ''protected'', Str ''private'']), Str
       '':'']\<close>

definition re_space_bracket :: regexp where
  \<open>re_space_bracket =
     Seqs [Wrd, Plus Spc, Str ''['']\<close>

definition re_bracket_ok :: regexp where
  \<open>re_bracket_ok =
     Seqs [Alts [Seqs [Str ''auto'', Opt (Str ''&'')], Str ''delete'', Str ''return''], Plus
       Spc, Str ''['']\<close>

definition re_for_colon1 :: regexp where
  \<open>re_for_colon1 =
     Seqs [Str ''for'', Star (Str '' ''), Str ''('', Star Any, NotIn [CC (CHR '':'')], Str
       '':'', NotIn [CC (CHR '':''), CC (CHR '' '')]]\<close>

definition re_for_colon2 :: regexp where
  \<open>re_for_colon2 =
     Seqs [Str ''for'', Star (Str '' ''), Str ''('', Star Any, NotIn [CC (CHR '':''), CC (CHR
       '' '')], Str '':'', NotIn [CC (CHR '':'')]]\<close>

definition re_operator_method :: regexp where
  \<open>re_operator_method =
     Seqs [Bol, Grp 1 (Seqs [Star Any, Wordb, Str ''operator'', Wordb]), Grp 2 (Plus NSpc), Grp
       3 (Seqs [Star Spc, Str ''('', Star Any]), Eol]\<close>

definition re_eq_left :: regexp where
  \<open>re_eq_left =
     Seqs [In [CWord, CC (CHR ''.'')], Str ''='']\<close>

definition re_eq_right :: regexp where
  \<open>re_eq_right =
     Seqs [Str ''='', In [CWord, CC (CHR ''.'')]]\<close>

definition re_if_while_for_sp :: regexp where
  \<open>re_if_while_for_sp =
     Seqs [Wordb, Grp 1 (Alts [Str ''if'', Str ''while'', Str ''for'']), Str '' '']\<close>

definition re_compound_op :: regexp where
  \<open>re_compound_op =
     Grp 1 (Alts [Str ''>='', Str ''<='', Str ''=='', Str ''!='', Str ''&='', Str ''^='', Str
       ''|='', Str ''+='', Str ''*='', Str ''/='', Str ''%=''])\<close>

definition re_operator_eq :: regexp where
  \<open>re_operator_eq =
     Str ''operator=''\<close>

definition re_tight_cmp :: regexp where
  \<open>re_tight_cmp =
     Seqs [NotIn [CC (CHR ''<''), CC (CHR ''>''), CC (CHR ''=''), CC (CHR ''!''), CSpace], Grp 1
       (Alts [Str ''=='', Str ''!='', Str ''<='', Str ''>='', Str ''||'']), NotIn [CC (CHR
       ''<''), CC (CHR ''>''), CC (CHR ''=''), CC (CHR ''!''), CSpace, CC (CHR '',''), CC (CHR
       '';''), CC (CHR '')'')]]\<close>

definition re_include_line :: regexp where
  \<open>re_include_line =
     Seqs [Str ''#'', Star Any, Str ''include'']\<close>

definition re_tight_lt :: regexp where
  \<open>re_tight_lt =
     Seqs [Bol, Grp 1 (Seqs [Star Any, NotIn [CSpace, CC (CHR ''<'')]]), Str ''<'', NotIn
       [CSpace, CC (CHR ''=''), CC (CHR ''<''), CC (CHR '','')]]\<close>

definition re_tight_gt :: regexp where
  \<open>re_tight_gt =
     Seqs [Bol, Grp 1 (Seqs [Star Any, NotIn [CC (CHR ''-''), CSpace, CC (CHR ''>'')]]), Str
       ''>'', NotIn [CSpace, CC (CHR ''=''), CC (CHR ''>''), CC (CHR '','')]]\<close>

definition re_tight_shl :: regexp where
  \<open>re_tight_shl =
     Seqs [Grp 1 (Alts [Str ''operator'', NotIn [CSpace, CC (CHR ''(''), CC (CHR ''<'')]]), Opt
       (Alts [Str ''L'', Str ''UL'', Str ''LL'', Str ''ULL'', Str ''l'', Str ''ul'', Str ''ll'',
       Str ''ull'']), Str ''<<'', Grp 2 (NotIn [CSpace, CC (CHR '',''), CC (CHR ''=''), CC (CHR
       ''<'')])]\<close>

definition re_tight_shr :: regexp where
  \<open>re_tight_shr =
     Seqs [Str ''>>'', In [CR (CHR ''a'') (CHR ''z''), CR (CHR ''A'') (CHR ''Z''), CC (CHR
       ''_'')]]\<close>

definition re_unary_space :: regexp where
  \<open>re_unary_space =
     Grp 1 (Alts [Seqs [Str ''!'', Spc], Seqs [Str ''~'', Spc], Seqs [Spc, Str ''--'', In
       [CSpace, CC (CHR '';'')]], Seqs [Spc, Str ''++'', In [CSpace, CC (CHR '';'')]]])\<close>

definition re_control_nospace :: regexp where
  \<open>re_control_nospace =
     Seqs [Str '' '', Grp 1 (Alts [Str ''if('', Str ''for('', Str ''while('', Str ''switch(''])]\<close>

definition re_control_parens :: regexp where
  \<open>re_control_parens =
     Seqs [Wordb, Grp 1 (Alts [Str ''if'', Str ''for'', Str ''while'', Str ''switch'']), Star
       Spc, Str ''('', Grp 2 (Star (In [CC (CHR '' '')])), Grp 3 Any, Star Any, Plus (NotIn [CC
       (CHR '' '')]), Grp 4 (Star (In [CC (CHR '' '')])), Str '')'', Star Spc, Str ''{'', Star
       Spc, Eol]\<close>

definition re_for_semi :: regexp where
  \<open>re_for_semi =
     Seqs [Wordb, Str ''for'', Star Spc, Str ''('', Star Any, Str ''; )'']\<close>

definition re_tight_comma :: regexp where
  \<open>re_tight_comma =
     Seqs [Str '','', NotIn [CC (CHR '',''), CSpace]]\<close>

definition re_operator_comma :: regexp where
  \<open>re_operator_comma =
     Seqs [Wordb, Str ''operator'', Star Spc, Str '','', Star Spc, Str ''('']\<close>

definition re_tight_semi :: regexp where
  \<open>re_tight_semi =
     Seqs [Str '';'', NotIn [CSpace, CC (CHR ''}''), CC (CHR '';''), CC (CHR 0x5C), CC (CHR
       '')''), CC (CHR ''/'')]]\<close>

definition re_types :: regexp where
  \<open>re_types =
     Seqs [Bol, Alts [Grp 1 (Seqs [Str ''char'', Opt (Grp 2 (Alts [Str ''16_t'', Str
       ''32_t'']))]), Str ''wchar_t'', Str ''bool'', Str ''short'', Str ''int'', Str ''long'',
       Str ''signed'', Str ''unsigned'', Str ''float'', Str ''double'', Grp 3 (Alts [Str
       ''ptrdiff_t'', Str ''size_t'', Str ''max_align_t'', Str ''nullptr_t'']), Grp 4 (Seqs [Opt
       (Str ''u''), Str ''int'', Opt (Grp 5 (Alts [Str ''_fast'', Str ''_least''])), Grp 6 (Alts
       [Str ''8'', Str ''16'', Str ''32'', Str ''64'']), Str ''_t'']), Opt (Grp 7 (Seqs [Opt
       (Str ''u''), Str ''int'', Grp 8 (Alts [Str ''max'', Str ''ptr'']), Str ''_t'']))], Eol]\<close>

definition re_last_token :: regexp where
  \<open>re_last_token =
     Seqs [Bol, Star Any, Grp 1 (Seqs [Wordb, Plus NSpc]), Eol]\<close>

definition re_tight_brace :: regexp where
  \<open>re_tight_brace =
     Seqs [Bol, Grp 1 (Seqs [Star Any, NotIn [CC (CHR '' ''), CC (CHR ''(''), CC (CHR ''{''), CC
       (CHR ''>'')]]), Str ''{'']\<close>

definition re_brace_trail :: regexp where
  \<open>re_brace_trail =
     Seqs [Bol, Star (In [CSpace, CC (CHR ''}'')]), In [CC (CHR ''{''), CC (CHR ''.''), CC (CHR
       '';''), CC (CHR '',''), CC (CHR '')''), CC (CHR ''<''), CC (CHR ''>''), CC (CHR '']''),
       CC (CHR '':'')]]\<close>

definition re_close_else :: regexp where
  \<open>re_close_else =
     Str ''}else''\<close>

definition re_label_semi :: regexp where
  \<open>re_label_semi =
     Seqs [Str '':'', Star Spc, Str '';'', Star Spc, Eol]\<close>

definition re_only_semi :: regexp where
  \<open>re_only_semi =
     Seqs [Bol, Star Spc, Str '';'', Star Spc, Eol]\<close>

definition re_space_semi :: regexp where
  \<open>re_space_semi =
     Seqs [Plus Spc, Str '';'', Star Spc, Eol]\<close>

definition re_for_word :: regexp where
  \<open>re_for_word =
     Seqs [Wordb, Str ''for'', Wordb]\<close>

definition re_decltype_end :: regexp where
  \<open>re_decltype_end =
     Seqs [Wordb, Str ''decltype'', Star Spc, Eol]\<close>

definition re_class_word :: regexp where
  \<open>re_class_word =
     Seqs [Wordb, Grp 1 (Alts [Str ''class'', Str ''struct'']), Wordb]\<close>

definition re_bs_end :: regexp where
  \<open>re_bs_end =
     Seqs [Str [CHR 0x5C], Eol]\<close>

definition re_open_end :: regexp where
  \<open>re_open_end =
     Seqs [Str ''{'', Star Spc, Eol]\<close>

section \<open>The patterns are those of the source\<close>

lemma re_if_call_src: \<open>compile_re (re_text ''`bif`s*`((.*)`)`s*{'') = Some re_if_call\<close>
  by code_simp

lemma re_for_call_src: \<open>compile_re (re_text ''`bfor`s*`((.*)`)`s*{'') = Some re_for_call\<close>
  by code_simp

lemma re_while_call_src: \<open>compile_re (re_text ''`bwhile`s*`((.*)`)`s*[{;]'') = Some re_while_call\<close>
  by code_simp

lemma re_switch_call_src: \<open>compile_re (re_text ''`bswitch`s*`((.*)`)`s*{'') = Some re_switch_call\<close>
  by code_simp

lemma re_control_word_src: \<open>compile_re (re_text ''`b(if|for|while|switch|return|new|delete|catch|sizeof)`b'') = Some re_control_word\<close>
  by code_simp

lemma re_fn_pointer_src: \<open>compile_re (re_text '' `([^)]+`)`([^)]*(`)|,$)'') = Some re_fn_pointer\<close>
  by code_simp

lemma re_array_ref_src: \<open>compile_re (re_text '' `([^)]+`)`[[^`]]+`]'') = Some re_array_ref\<close>
  by code_simp

lemma re_call_space_src: \<open>compile_re (re_text ''`w`s*`(`s(?!`s*``$)'') = Some re_call_space\<close>
  by code_simp

lemma re_paren_space_src: \<open>compile_re (re_text ''`(`s+(?!(`s*``)|`()'') = Some re_paren_space\<close>
  by code_simp

lemma re_space_before_paren_src: \<open>compile_re (re_text ''`w`s+`('') = Some re_space_before_paren\<close>
  by code_simp

lemma re_asm_volatile_src: \<open>compile_re (re_text ''_{0,2}asm_{0,2}`s+_{0,2}volatile_{0,2}`s+`('') = Some re_asm_volatile\<close>
  by code_simp

lemma re_define_typedef_src: \<open>compile_re (re_text ''#`s*define|typedef|using`s+`w+`s*='') = Some re_define_typedef\<close>
  by code_simp

lemma re_member_pointer_src: \<open>compile_re (re_text ''`w`s+`((`w+::)*`*`w+`)`('') = Some re_member_pointer\<close>
  by code_simp

lemma re_case_paren_src: \<open>compile_re (re_text ''`bcase`s+`('') = Some re_case_paren\<close>
  by code_simp

lemma re_operator_word_src: \<open>compile_re (re_text ''`boperator_*`b'') = Some re_operator_word\<close>
  by code_simp

lemma re_space_close_paren_src: \<open>compile_re (re_text ''[^)]`s+`)`s*[^{`s]'') = Some re_space_close_paren\<close>
  by code_simp

lemma re_only_close_paren_src: \<open>compile_re (re_text ''^`s+`)'') = Some re_only_close_paren\<close>
  by code_simp

lemma RE_PATTERN_TODO_src: \<open>compile_re (re_text ''^//(`s*)TODO(`(.+?`))?:?(`s|$)?'') = Some RE_PATTERN_TODO\<close>
  by code_simp

lemma re_escaped_char_src: \<open>compile_re (re_text ''``.'') = Some re_escaped_char\<close>
  by code_simp

lemma re_scope_comment_src: \<open>compile_re (re_text ''^.*{ *//'') = Some re_scope_comment\<close>
  by code_simp

lemma re_comment_no_space_src: \<open>compile_re (re_text ''//[^ ]*`w'') = Some re_comment_no_space\<close>
  by code_simp

lemma re_doxygen_src: \<open>compile_re (re_text ''(///|//`!)(`s+|$)'') = Some re_doxygen\<close>
  by code_simp

lemma re_six_spaces_src: \<open>compile_re (re_text '' {6}`w'') = Some re_six_spaces\<close>
  by (simp add: compile_simps re_six_spaces_def)

lemma re_four_args_src: \<open>compile_re (re_text '' {4}`w[^`(]*`)`s*(const`s*)?(`{`s*$|:)'') = Some re_four_args\<close>
  by (simp add: compile_simps re_four_args_def)

lemma re_four_colon_src: \<open>compile_re (re_text '' {4}:'') = Some re_four_colon\<close>
  by (simp add: compile_simps re_four_colon_def)

lemma re_close_start_src: \<open>compile_re (re_text ''`s*}'') = Some re_close_start\<close>
  by code_simp

lemma re_section_src: \<open>compile_re (re_text ''`s*(public|protected|private):'') = Some re_section\<close>
  by code_simp

lemma re_space_bracket_src: \<open>compile_re (re_text ''`w`s+`['') = Some re_space_bracket\<close>
  by code_simp

lemma re_bracket_ok_src: \<open>compile_re (re_text ''(?:auto&?|delete|return)`s+`['') = Some re_bracket_ok\<close>
  by code_simp

lemma re_for_colon1_src: \<open>compile_re (re_text ''for *`(.*[^:]:[^: ]'') = Some re_for_colon1\<close>
  by code_simp

lemma re_for_colon2_src: \<open>compile_re (re_text ''for *`(.*[^: ]:[^:]'') = Some re_for_colon2\<close>
  by code_simp

lemma re_operator_method_src: \<open>compile_re (re_text ''^(.*`boperator`b)(`S+)(`s*`(.*)$'') = Some re_operator_method\<close>
  by code_simp

lemma re_eq_left_src: \<open>compile_re (re_text ''[`w.]='') = Some re_eq_left\<close>
  by code_simp

lemma re_eq_right_src: \<open>compile_re (re_text ''=[`w.]'') = Some re_eq_right\<close>
  by code_simp

lemma re_if_while_for_sp_src: \<open>compile_re (re_text ''`b(if|while|for) '') = Some re_if_while_for_sp\<close>
  by code_simp

lemma re_compound_op_src: \<open>compile_re (re_text ''(>=|<=|==|!=|&=|`^=|`|=|`+=|`*=|`/=|`%=)'') = Some re_compound_op\<close>
  by code_simp

lemma re_operator_eq_src: \<open>compile_re (re_text ''operator='') = Some re_operator_eq\<close>
  by code_simp

lemma re_tight_cmp_src: \<open>compile_re (re_text ''[^<>=!`s](==|!=|<=|>=|`|`|)[^<>=!`s,;`)]'') = Some re_tight_cmp\<close>
  by code_simp

lemma re_include_line_src: \<open>compile_re (re_text ''#.*include'') = Some re_include_line\<close>
  by code_simp

lemma re_tight_lt_src: \<open>compile_re (re_text ''^(.*[^`s<])<[^`s=<,]'') = Some re_tight_lt\<close>
  by code_simp

lemma re_tight_gt_src: \<open>compile_re (re_text ''^(.*[^-`s>])>[^`s=>,]'') = Some re_tight_gt\<close>
  by code_simp

lemma re_tight_shl_src: \<open>compile_re (re_text ''(operator|[^`s(<])(?:L|UL|LL|ULL|l|ul|ll|ull)?<<([^`s,=<])'') = Some re_tight_shl\<close>
  by code_simp

lemma re_tight_shr_src: \<open>compile_re (re_text ''>>[a-zA-Z_]'') = Some re_tight_shr\<close>
  by code_simp

lemma re_unary_space_src: \<open>compile_re (re_text ''(!`s|~`s|[`s]--[`s;]|[`s]`+`+[`s;])'') = Some re_unary_space\<close>
  by code_simp

lemma re_control_nospace_src: \<open>compile_re (re_text '' (if`(|for`(|while`(|switch`()'') = Some re_control_nospace\<close>
  by code_simp

lemma re_control_parens_src: \<open>compile_re (re_text ''`b(if|for|while|switch)`s*`(([ ]*)(.).*[^ ]+([ ]*)`)`s*{`s*$'') = Some re_control_parens\<close>
  by code_simp

lemma re_for_semi_src: \<open>compile_re (re_text ''`bfor`s*`(.*; `)'') = Some re_for_semi\<close>
  by code_simp

lemma re_tight_comma_src: \<open>compile_re (re_text '',[^,`s]'') = Some re_tight_comma\<close>
  by code_simp

lemma re_operator_comma_src: \<open>compile_re (re_text ''`boperator`s*,`s*`('') = Some re_operator_comma\<close>
  by code_simp

lemma re_tight_semi_src: \<open>compile_re (re_text '';[^`s};``)/]'') = Some re_tight_semi\<close>
  by code_simp

lemma re_types_src: \<open>compile_re (re_text ''^(?:(char(16_t|32_t)?)|wchar_t|bool|short|int|long|signed|unsigned|float|double|(ptrdiff_t|size_t|max_align_t|nullptr_t)|(u?int(_fast|_least)?(8|16|32|64)_t)|(u?int(max|ptr)_t)|)$'') = Some re_types\<close>
  by code_simp

lemma re_last_token_src: \<open>compile_re (re_text ''^.*(`b`S+)$'') = Some re_last_token\<close>
  by code_simp

lemma re_tight_brace_src: \<open>compile_re (re_text ''^(.*[^ ({>]){'') = Some re_tight_brace\<close>
  by code_simp

lemma re_brace_trail_src: \<open>compile_re (re_text ''^[`s}]*[{.;,)<>`]:]'') = Some re_brace_trail\<close>
  by code_simp

lemma re_close_else_src: \<open>compile_re (re_text ''}else'') = Some re_close_else\<close>
  by code_simp

lemma re_label_semi_src: \<open>compile_re (re_text '':`s*;`s*$'') = Some re_label_semi\<close>
  by code_simp

lemma re_only_semi_src: \<open>compile_re (re_text ''^`s*;`s*$'') = Some re_only_semi\<close>
  by code_simp

lemma re_space_semi_src: \<open>compile_re (re_text ''`s+;`s*$'') = Some re_space_semi\<close>
  by code_simp

lemma re_for_word_src: \<open>compile_re (re_text ''`bfor`b'') = Some re_for_word\<close>
  by code_simp

lemma re_decltype_end_src: \<open>compile_re (re_text ''`bdecltype`s*$'') = Some re_decltype_end\<close>
  by code_simp

lemma re_class_word_src: \<open>compile_re (re_text ''`b(class|struct)`b'') = Some re_class_word\<close>
  by code_simp

lemma re_bs_end_src: \<open>compile_re (re_text ''``$'') = Some re_bs_end\<close>
  by code_simp

lemma re_open_end_src: \<open>compile_re (re_text ''`{`s*$'') = Some re_open_end\<close>
  by code_simp

end
