(* ===== verification/Check_Spacing.thy ===== *)
theory Check_Spacing
  imports Check_Constructs Patterns_Spacing
begin

text \<open>
  The checks of horizontal and vertical space: \<open>CheckSpacingForFunctionCall\<close>, \<open>CheckComment\<close>,
  \<open>CheckSpacing\<close>, \<open>CheckOperatorSpacing\<close>, \<open>CheckParenthesisSpacing\<close>, \<open>CheckCommaSpacing\<close>,
  \<open>_IsType\<close>, \<open>CheckBracesSpacing\<close> and \<open>CheckSectionSpacing\<close>.
\<close>

section \<open>Function calls\<close>

definition first_group :: "regexp list \<Rightarrow> string \<Rightarrow> string" where
  "first_group rs line =
     (case List.find (\<lambda>r. hit r line) rs of
        None \<Rightarrow> line
      | Some r \<Rightarrow> group_text (the (re_search r line)) 1)"

definition function_call_text :: "string \<Rightarrow> string" where
  "function_call_text line = first_group [re_if_call, re_for_call, re_while_call, re_switch_call] line"

definition CheckSpacingForFunctionCall :: "string \<Rightarrow> cleansed_lines \<Rightarrow> nat \<Rightarrow> lint_msg list py" where
  "CheckSpacingForFunctionCall filename cl linenum =
     py_bind (elided_at cl (int linenum)) (\<lambda>line.
       let fncall = function_call_text line in
       if hit re_control_word fncall \<or> hit re_fn_pointer fncall \<or> hit re_array_ref fncall then Inr []
       else Inr
         ((if hit re_call_space fncall
           then lint True filename linenum ''whitespace/parens'' 4 ''Extra space after ( in function call''
           else lint (hit re_paren_space fncall) filename linenum ''whitespace/parens'' 2 ''Extra space after ('')
          @ lint (hit re_space_before_paren fncall \<and> \<not> hit re_asm_volatile fncall \<and> \<not> hit re_define_typedef fncall
                  \<and> \<not> hit re_member_pointer fncall \<and> \<not> hit re_case_paren fncall)
              filename linenum ''whitespace/parens'' (if hit re_operator_word line then 0 else 4)
              ''Extra space before ( in function call''
          @ lint (hit re_space_close_paren fncall) filename linenum ''whitespace/parens'' 2
              (if hit re_only_close_paren fncall then ''Closing ) should be moved to the previous line''
               else ''Extra space before )'')))"

section \<open>Comments\<close>

text \<open>\<open>string.whitespace\<close>\<close>

definition ascii_space :: "char \<Rightarrow> bool" where
  "ascii_space c \<longleftrightarrow> c \<in> {CHR 0x20, CHR 0x09, CHR 0x0A, CHR 0x0D, CHR 0x0B, CHR 0x0C}"

definition todo_msgs :: "string \<Rightarrow> nat \<Rightarrow> string \<Rightarrow> lint_msg list" where
  \<open>todo_msgs filename linenum comment =
     (case re_match RE_PATTERN_TODO comment of
        None \<Rightarrow> []
      | Some m \<Rightarrow>
          lint (1 < length (group_text m 1)) filename linenum ''whitespace/todo'' 2 ''Too many spaces before TODO''
          @ lint (group_text m 2 = []) filename linenum ''readability/todo'' 2
              (''Missing username in TODO; it should look like '' @ ''"// TODO(my_username): Stuff."'')
          @ lint (group m 3 \<noteq> Some '' '' \<and> group m 3 \<noteq> Some []) filename linenum ''whitespace/todo'' 2
              ''TODO(my_username) should be followed by a space'')\<close>

definition far_enough :: "string \<Rightarrow> nat \<Rightarrow> bool" where
  "far_enough line commentpos \<longleftrightarrow>
     \<not> ((1 \<le> commentpos \<and> \<not> ascii_space (line ! (commentpos - 1)))
        \<or> (2 \<le> commentpos \<and> \<not> ascii_space (line ! (commentpos - 2))))"

definition CheckComment :: "string \<Rightarrow> string \<Rightarrow> nat \<Rightarrow> nat \<Rightarrow> lint_msg list" where
  "CheckComment line filename linenum next_line_start =
     (case find_opt line ''//'' of
        None \<Rightarrow> []
      | Some commentpos \<Rightarrow>
          if odd (py_count (re_sub re_escaped_char [] (take commentpos line)) [dquote]) then []
          else
            let comment = drop commentpos line in
            lint (\<not> (fits re_scope_comment line \<and> next_line_start = commentpos) \<and> \<not> far_enough line commentpos)
              filename linenum ''whitespace/comments'' 2 ''At least two spaces is best between code and comments''
            @ todo_msgs filename linenum comment
            @ lint (fits re_comment_no_space comment \<and> \<not> fits re_doxygen comment) filename linenum
                ''whitespace/comments'' 4 ''Should have a space between // and comment'')"

section \<open>CheckSpacing\<close>

fun rfind_char :: "char \<Rightarrow> string \<Rightarrow> nat option" where
  "rfind_char c [] = None"
| "rfind_char c (x # xs) =
     (case rfind_char c xs of
        Some i \<Rightarrow> Some (i + 1)
      | None \<Rightarrow> if x = c then Some 0 else None)"

text \<open>
  \<open>while search_position >= 0 and Match(r' {6}\w', elided[search_position])\<close>; the argument is
  \<open>search_position + 1\<close>, and so is the result.
\<close>

fun initializer_start :: "string list \<Rightarrow> nat \<Rightarrow> nat py" where
  "initializer_start els 0 = Inr 0"
| "initializer_start els (Suc i) =
     py_bind (py_nth els (int i)) (\<lambda>l. if fits re_six_spaces l then initializer_start els i else Inr (Suc i))"

definition blank_exception :: "cleansed_lines \<Rightarrow> nat \<Rightarrow> string \<Rightarrow> bool py" where
  "blank_exception cl linenum prev_line =
     (if fits re_six_spaces prev_line then
        py_bind (initializer_start (elided cl) (linenum - 1)) (\<lambda>k.
          if k = 0 then Inr False
          else py_bind (elided_at cl (int (k - 1))) (\<lambda>l. Inr (take 5 l = ''    :'')))
      else Inr (fits re_four_args prev_line \<or> fits re_four_colon prev_line))"

definition blank_start :: "string \<Rightarrow> cleansed_lines \<Rightarrow> nat \<Rightarrow> string \<Rightarrow> lint_msg list py" where
  "blank_start filename cl linenum prev_line =
     (case rfind_char (CHR ''{'') prev_line of
        None \<Rightarrow> Inr []
      | Some prevbrace \<Rightarrow>
          if find_opt (drop prevbrace prev_line) ''}'' \<noteq> None then Inr []
          else py_bind (blank_exception cl linenum prev_line) (\<lambda>exception.
            Inr (lint (\<not> exception) filename linenum ''whitespace/blank_line'' 2
                   ''Redundant blank line at the start of a code block should be deleted.'')))"

definition blank_end :: "string \<Rightarrow> cleansed_lines \<Rightarrow> nat \<Rightarrow> lint_msg list py" where
  "blank_end filename cl linenum =
     (if linenum + 1 < NumLines cl then
        py_bind (raw_at cl (int (linenum + 1))) (\<lambda>next_line.
          Inr (lint (next_line \<noteq> [] \<and> fits re_close_start next_line \<and> find_opt next_line ''} else '' = None)
                 filename linenum ''whitespace/blank_line'' 3
                 ''Redundant blank line at the end of a code block should be deleted.''))
      else Inr [])"

definition blank_section :: "string \<Rightarrow> nat \<Rightarrow> string \<Rightarrow> lint_msg list" where
  \<open>blank_section filename linenum prev_line =
     (case re_match re_section prev_line of
        None \<Rightarrow> []
      | Some m \<Rightarrow> lint True filename linenum ''whitespace/blank_line'' 3
                    (''Do not leave a blank line after "'' @ group_text m 1 @ '':"''))\<close>

definition blank_line_msgs :: "string \<Rightarrow> cleansed_lines \<Rightarrow> nat \<Rightarrow> lint_msg list py" where
  "blank_line_msgs filename cl linenum =
     py_bind (elided_at cl (int linenum - 1)) (\<lambda>prev_line.
     py_bind (blank_start filename cl linenum prev_line) (\<lambda>ms1.
     py_bind (blank_end filename cl linenum) (\<lambda>ms2.
       Inr (ms1 @ ms2 @ blank_section filename linenum prev_line))))"

definition next_line_indent :: "cleansed_lines \<Rightarrow> nat \<Rightarrow> nat py" where
  "next_line_indent cl linenum =
     (if linenum + 1 < NumLines cl then
        py_bind (raw_at cl (int (linenum + 1))) (\<lambda>next_line. Inr (length next_line - length (lstrip next_line)))
      else Inr 0)"

definition CheckSpacing :: "string \<Rightarrow> cleansed_lines \<Rightarrow> nat \<Rightarrow> nesting_state \<Rightarrow> lint_msg list py" where
  "CheckSpacing filename cl linenum st =
     py_bind (raw_at cl (int linenum)) (\<lambda>raw_line.
     py_bind (if IsBlankLine raw_line \<and> \<not> InNamespaceBody st \<and> \<not> InExternC st
              then blank_line_msgs filename cl linenum else Inr []) (\<lambda>blanks.
     py_bind (next_line_indent cl linenum) (\<lambda>next_line_start.
     py_bind (elided_at cl (int linenum)) (\<lambda>line.
       Inr (blanks @ CheckComment raw_line filename linenum next_line_start
         @ lint (hit re_space_bracket line \<and> \<not> hit re_bracket_ok line) filename linenum ''whitespace/braces'' 5
             ''Extra space before [''
         @ lint (hit re_for_colon1 line \<or> hit re_for_colon2 line) filename linenum ''whitespace/forcolon'' 2
             ''Missing space around colon in range-based for loop'')))))"

section \<open>Operators\<close>

lemma re_operator_method_eq:
  "re_operator_method = Seqs [Bol, Grp 1 (Seqs [Star Any, Wordb, Str ''operator'', Wordb]), Grp 2 (Plus NSpc),
     Grp 3 (Seqs [Star Spc, Str ''('', Star Any]), Eol]"
  by (simp add: re_operator_method_def)

lemma operator_method_parts:
  assumes "re_match re_operator_method line = Some m"
  shows "\<exists>t c. line = group_text m 1 @ group_text m 2 @ group_text m 3 @ t
    \<and> group_text m 2 = c # tl (group_text m 2) \<and> \<not> isword c"
proof -
  from re_match_SomeD [OF assms] obtain s' where
    "rm re_operator_method ([], line, []) (rev (m_text m), s', m_caps m)" by blast
  then have "rm (Seq Bol (Seq (Grp 1 (Seqs [Star Any, Wordb, Str ''operator'', Wordb])) (Seq (Grp 2 (Plus NSpc))
     (Seq (Grp 3 (Seqs [Star Spc, Str ''('', Star Any])) Eol)))) ([], line, []) (rev (m_text m), s', m_caps m)"
    by (simp only: re_operator_method_eq Seqs.simps)
  then obtain u1 s1 c1 u2 s2 c2 u3 s3 c3 where
    1: "rm (Grp 1 (Seqs [Star Any, Wordb, Str ''operator'', Wordb])) ([], u1 @ s1, []) (rev u1, s1, c1)" "line = u1 @ s1"
    and 2: "rm (Grp 2 (Plus NSpc)) (rev u1, u2 @ s2, c1) (rev u2 @ rev u1, s2, c2)" "s1 = u2 @ s2"
    and 3: "rm (Grp 3 (Seqs [Star Spc, Str ''('', Star Any])) (rev u2 @ rev u1, u3 @ s3, c2) (rev u3 @ rev u2 @ rev u1, s3, c3)" "s2 = u3 @ s3"
    and 4: "rm Eol (rev u3 @ rev u2 @ rev u1, s3, c3) (rev (m_text m), s', m_caps m)"
    by (elim rm_SeqE) (auto simp: rm_Bol_iff)
  from 1(1) obtain d1 where r1: "rm (Seqs [Star Any, Wordb, Str ''operator'', Wordb]) ([], u1 @ s1, []) (rev u1, s1, d1)"
    and c1: "c1 = (1, 0, u1) # d1" using rm_GrpE [of 1 _ "[]" u1 s1 "[]" c1] by auto
  from r1 have "\<exists>p. rev u1 = rev ''operator'' @ p \<and> at_wordb (rev u1) s1"
    by (auto simp only: Seqs.simps rm_Seq_iff rm_Wordb_iff) (auto simp: rm_Wordb_iff rm_Str_iff)
  then have w: "\<not> (case s1 of [] \<Rightarrow> False | x # _ \<Rightarrow> isword x)" by (auto simp: at_wordb_def isword_def isalnum_def)
  from 2(1) obtain d2 where r2: "rm (Plus NSpc) (rev u1, u2 @ s2, c1) (rev u2 @ rev u1, s2, d2)"
    and c2: "c2 = (2, length (rev u1), u2) # d2" using rm_GrpE [of 2 _ "rev u1" u2 s2 c1 c2] by blast
  have "u2 \<noteq> []" using rm_minw [OF r2] by auto
  from 3(1) obtain d3 where "rm (Seqs [Star Spc, Str ''('', Star Any]) (rev u2 @ rev u1, u3 @ s3, c2) (rev u3 @ rev u2 @ rev u1, s3, d3)"
    and c3: "c3 = (3, length (rev u2 @ rev u1), u3) # d3" using rm_GrpE [of 3 _ "rev u2 @ rev u1" u3 s3 c2 c3] by auto
  have "d3 = c2" "d2 = c1"
    using rm_grp_freeD [OF \<open>rm (Seqs [Star Spc, Str ''('', Star Any]) _ _\<close>] rm_grp_freeD [OF r2] by simp_all
  moreover have "m_caps m = c3" using 4 by (simp add: rm_Eol_iff)
  ultimately have "group_text m 1 = u1" "group_text m 2 = u2" "group_text m 3 = u3"
    using c1 c2 c3 by (simp_all add: group_text_def group_def)
  moreover have "line = u1 @ u2 @ u3 @ s3" using 1 2 3 by simp
  moreover obtain c where "u2 = c # tl u2" "\<not> isword c" using \<open>u2 \<noteq> []\<close> w 2(2) by (cases u2) auto
  ultimately show ?thesis by auto
qed

text \<open>Every round blanks out at least one character that is not an underscore.\<close>

function hide_operators :: "string \<Rightarrow> string" where
  "hide_operators line =
     (case re_match re_operator_method line of
        None \<Rightarrow> line
      | Some m \<Rightarrow> hide_operators (group_text m 1 @ replicate (length (group_text m 2)) (CHR ''_'') @ group_text m 3))"
  by pat_completeness auto
termination
proof (relation "measure (\<lambda>line. length (filter (\<lambda>c. c \<noteq> CHR ''_'') line))")
  fix line :: string and m
  assume "re_match re_operator_method line = Some m"
  from operator_method_parts [OF this] obtain t c where
    line: "line = group_text m 1 @ group_text m 2 @ group_text m 3 @ t"
    and c: "group_text m 2 = c # tl (group_text m 2)" "\<not> isword c" by blast
  have "0 < length (filter (\<lambda>c. c \<noteq> CHR ''_'') (group_text m 2))"
  proof -
    have "c \<in> set (group_text m 2)" by (subst c(1)) simp
    with c(2) show ?thesis by (auto simp: filter_empty_conv isword_def)
  qed
  then show "(group_text m 1 @ replicate (length (group_text m 2)) (CHR ''_'') @ group_text m 3, line)
      \<in> measure (\<lambda>line. length (filter (\<lambda>c. c \<noteq> CHR ''_'') line))"
    using arg_cong [OF line, of "\<lambda>l. length (filter (\<lambda>c. c \<noteq> CHR ''_'') l)"] by simp
qed simp

declare hide_operators.simps [simp del]

definition tight_lt :: "string \<Rightarrow> cleansed_lines \<Rightarrow> nat \<Rightarrow> string \<Rightarrow> lint_msg list py" where
  "tight_lt filename cl linenum line =
     (case re_match re_tight_lt line of
        None \<Rightarrow> Inr []
      | Some m \<Rightarrow>
          py_bind (CloseExpression cl linenum (length (group_text m 1))) (\<lambda>(_, _, end_pos).
            Inr (lint (end_pos \<le> -1) filename linenum ''whitespace/operators'' 3 ''Missing spaces around <'')))"

definition tight_gt :: "string \<Rightarrow> cleansed_lines \<Rightarrow> nat \<Rightarrow> string \<Rightarrow> lint_msg list py" where
  "tight_gt filename cl linenum line =
     (case re_match re_tight_gt line of
        None \<Rightarrow> Inr []
      | Some m \<Rightarrow>
          py_bind (ReverseCloseExpression cl linenum (length (group_text m 1))) (\<lambda>(_, _, start_pos).
            Inr (lint (start_pos \<le> -1) filename linenum ''whitespace/operators'' 3 ''Missing spaces around >'')))"

definition comparison_msgs :: "string \<Rightarrow> cleansed_lines \<Rightarrow> nat \<Rightarrow> string \<Rightarrow> lint_msg list py" where
  "comparison_msgs filename cl linenum line =
     (case re_search re_tight_cmp line of
        Some m \<Rightarrow> Inr (lint True filename linenum ''whitespace/operators'' 3
                          (''Missing spaces around '' @ group_text m 1))
      | None \<Rightarrow>
          if fits re_include_line line then Inr []
          else py_bind (tight_lt filename cl linenum line) (\<lambda>ms1.
               py_bind (tight_gt filename cl linenum line) (\<lambda>ms2. Inr (ms1 @ ms2))))"

text \<open>\<open>str.isdigit\<close>, which also accepts the superscripts two, three and one.\<close>

definition digit_char :: "char \<Rightarrow> bool" where
  "digit_char c \<longleftrightarrow> isdigit c \<or> chr_code c \<in> {178, 179, 185}"

definition all_digits :: "string \<Rightarrow> bool" where
  "all_digits s \<longleftrightarrow> s \<noteq> [] \<and> (\<forall>c \<in> set s. digit_char c)"

definition shift_msgs :: "string \<Rightarrow> nat \<Rightarrow> string \<Rightarrow> lint_msg list" where
  "shift_msgs filename linenum line =
     (case re_search re_tight_shl line of
        None \<Rightarrow> []
      | Some m \<Rightarrow>
          lint (\<not> (all_digits (group_text m 1) \<and> all_digits (group_text m 2))
                \<and> \<not> (group_text m 1 = ''operator'' \<and> group_text m 2 = '';''))
            filename linenum ''whitespace/operators'' 3 ''Missing spaces around <<'')
     @ lint (hit re_tight_shr line) filename linenum ''whitespace/operators'' 3 ''Missing spaces around >>''
     @ (case re_search re_unary_space line of
          None \<Rightarrow> []
        | Some m \<Rightarrow> lint True filename linenum ''whitespace/operators'' 4
                      (''Extra space for operator '' @ group_text m 1))"

definition CheckOperatorSpacing :: "string \<Rightarrow> cleansed_lines \<Rightarrow> nat \<Rightarrow> lint_msg list py" where
  "CheckOperatorSpacing filename cl linenum =
     py_bind (elided_at cl (int linenum)) (\<lambda>line0.
       let line = hide_operators line0 in
       py_bind (comparison_msgs filename cl linenum line) (\<lambda>ms.
         Inr (lint ((hit re_eq_left line \<or> hit re_eq_right line) \<and> \<not> hit re_if_while_for_sp line
                    \<and> \<not> hit re_compound_op line \<and> \<not> hit re_operator_eq line)
                filename linenum ''whitespace/operators'' 4 ''Missing spaces around =''
              @ ms @ shift_msgs filename linenum line)))"

section \<open>Parentheses and commas\<close>

definition paren_balance :: "string \<Rightarrow> nat \<Rightarrow> string \<Rightarrow> match_obj \<Rightarrow> lint_msg list" where
  "paren_balance filename linenum line m =
     lint (length (group_text m 2) \<noteq> length (group_text m 4)
           \<and> \<not> ((group_text m 3 = '';'' \<and> length (group_text m 2) = 1 + length (group_text m 4))
                \<or> (group_text m 2 = [] \<and> hit re_for_semi line)))
       filename linenum ''whitespace/parens'' 5 (''Mismatching spaces inside () in '' @ group_text m 1)
     @ lint (length (group_text m 2) \<notin> {0, 1}) filename linenum ''whitespace/parens'' 5
         (''Should have zero or one spaces inside ( and ) in '' @ group_text m 1)"

definition CheckParenthesisSpacing :: "string \<Rightarrow> cleansed_lines \<Rightarrow> nat \<Rightarrow> lint_msg list py" where
  "CheckParenthesisSpacing filename cl linenum =
     py_bind (elided_at cl (int linenum)) (\<lambda>line.
       Inr ((case re_search re_control_nospace line of
               None \<Rightarrow> []
             | Some m \<Rightarrow> lint True filename linenum ''whitespace/parens'' 5
                           (''Missing space before ( in '' @ group_text m 1))
          @ (case re_search re_control_parens line of
               None \<Rightarrow> []
             | Some m \<Rightarrow> paren_balance filename linenum line m)))"

definition CheckCommaSpacing :: "string \<Rightarrow> cleansed_lines \<Rightarrow> nat \<Rightarrow> lint_msg list py" where
  "CheckCommaSpacing filename cl linenum =
     py_bind (elided_at cl (int linenum)) (\<lambda>line.
     py_bind (if hit re_tight_comma (re_sub re_operator_comma ''F('' line)
              then py_bind (raw_at cl (int linenum)) (\<lambda>raw. Inr (hit re_tight_comma raw)) else Inr False) (\<lambda>comma.
       Inr (lint comma filename linenum ''whitespace/comma'' 3 ''Missing space after ,''
            @ lint (hit re_tight_semi line) filename linenum ''whitespace/semicolon'' 3 ''Missing space after ;'')))"

section \<open>Types and braces\<close>

definition re_typename :: "string \<Rightarrow> regexp" where
  "re_typename token =
     Seqs [Wordb, Alts [Str ''typename'', Str ''class'', Str ''struct''], Plus Spc, Str token, Wordb]"

text \<open>
  \<open>while first_line >= next_block_start\<close>, from \<open>first_line + 1\<close>; the result is the line with
  \<open>template\<close>, if there is one.
\<close>

fun template_line :: "string list \<Rightarrow> nat \<Rightarrow> nat \<Rightarrow> nat option py" where
  "template_line els start 0 = Inr None"
| "template_line els start (Suc i) =
     (if i < start then Inr None
      else py_bind (py_nth els (int i)) (\<lambda>l.
        if contains l ''template'' then Inr (Some i) else template_line els start i))"

fun any_line :: "(string \<Rightarrow> bool) \<Rightarrow> string list \<Rightarrow> nat list \<Rightarrow> bool py" where
  "any_line P els [] = Inr False"
| "any_line P els (i # is) = py_bind (py_nth els (int i)) (\<lambda>l. if P l then Inr True else any_line P els is)"

text \<open>The walk from the innermost block outward; a namespace ends it.\<close>

fun is_template_type :: "cleansed_lines \<Rightarrow> string \<Rightarrow> block_info list \<Rightarrow> bool py" where
  "is_template_type cl token [] = Inr False"
| "is_template_type cl token (b # bs) =
     (if is_namespace b then Inr False
      else
        let last_line = starting_linenum b;
            next_block_start = (case bs of [] \<Rightarrow> 0 | b' # _ \<Rightarrow> starting_linenum b')
        in py_bind (template_line (elided cl) next_block_start (last_line + 1)) (\<lambda>first_line.
             case first_line of
               None \<Rightarrow> is_template_type cl token bs
             | Some i \<Rightarrow>
                 py_bind (any_line (hit (re_typename token)) (elided cl) [i ..< last_line + 1]) (\<lambda>found.
                   if found then Inr True else is_template_type cl token bs)))"

definition IsType :: "cleansed_lines \<Rightarrow> nesting_state \<Rightarrow> string \<Rightarrow> bool py" where
  "IsType cl st expr =
     (let token = (case re_match re_last_token expr of None \<Rightarrow> expr | Some m \<Rightarrow> group_text m 1) in
      if fits re_types token then Inr True else is_template_type cl token (stack st))"

fun join_lines :: "string list \<Rightarrow> nat list \<Rightarrow> string py" where
  "join_lines els [] = Inr []"
| "join_lines els (i # is) =
     py_bind (py_nth els (int i)) (\<lambda>l. py_bind (join_lines els is) (\<lambda>r. Inr (l @ r)))"

definition tight_brace :: "string \<Rightarrow> cleansed_lines \<Rightarrow> nat \<Rightarrow> nesting_state \<Rightarrow> string \<Rightarrow> lint_msg list py" where
  "tight_brace filename cl linenum st line =
     (case re_match re_tight_brace line of
        None \<Rightarrow> Inr []
      | Some m \<Rightarrow>
          py_bind (CloseExpression cl linenum (length (group_text m 1))) (\<lambda>(endline, endlinenum, endpos).
          py_bind (join_lines (elided cl) [endlinenum + 1 ..< min (endlinenum + 3) (NumLines cl - 1)]) (\<lambda>following.
            let trailing_text = (if endpos > -1 then drop (nat endpos) endline else []) @ following in
            if fits re_brace_trail trailing_text then Inr []
            else py_bind (IsType cl st (group_text m 1)) (\<lambda>is_type.
              Inr (lint (\<not> is_type) filename linenum ''whitespace/braces'' 5 ''Missing space before {'')))))"

definition semicolon_msgs :: "string \<Rightarrow> nat \<Rightarrow> string \<Rightarrow> lint_msg list" where
  "semicolon_msgs filename linenum line =
     (if hit re_label_semi line
      then lint True filename linenum ''whitespace/semicolon'' 5 ''Semicolon defining empty statement. Use {} instead.''
      else if hit re_only_semi line
      then lint True filename linenum ''whitespace/semicolon'' 5
             ''Line contains only semicolon. If this should be an empty statement, use {} instead.''
      else lint (hit re_space_semi line \<and> \<not> hit re_for_word line) filename linenum ''whitespace/semicolon'' 5
             ''Extra space before last semicolon. If this should be an empty statement, use {} instead.'')"

definition CheckBracesSpacing :: "string \<Rightarrow> cleansed_lines \<Rightarrow> nat \<Rightarrow> nesting_state \<Rightarrow> lint_msg list py" where
  "CheckBracesSpacing filename cl linenum st =
     py_bind (elided_at cl (int linenum)) (\<lambda>line.
     py_bind (tight_brace filename cl linenum st line) (\<lambda>ms.
       Inr (ms @ lint (hit re_close_else line) filename linenum ''whitespace/braces'' 5 ''Missing space before else''
            @ semicolon_msgs filename linenum line)))"

definition IsDecltype :: "cleansed_lines \<Rightarrow> nat \<Rightarrow> nat \<Rightarrow> bool py" where
  "IsDecltype cl linenum column =
     py_bind (ReverseCloseExpression cl linenum column) (\<lambda>(text, _, start_col).
       Inr (0 \<le> start_col \<and> hit re_decltype_end (take (nat start_col) text)))"

section \<open>Sections\<close>

fun end_class_head :: "cleansed_lines \<Rightarrow> nat \<Rightarrow> nat list \<Rightarrow> nat py" where
  "end_class_head cl start [] = Inr start"
| "end_class_head cl start (i # is) =
     py_bind (line_at cl (int i)) (\<lambda>l. if hit re_open_end l then Inr i else end_class_head cl start is)"

definition CheckSectionSpacing ::
  "string \<Rightarrow> cleansed_lines \<Rightarrow> nat \<Rightarrow> class_fields \<Rightarrow> nat \<Rightarrow> lint_msg list py" where
  \<open>CheckSectionSpacing filename cl start c linenum =
     (if int (last_line c) - int start \<le> 24 \<or> linenum \<le> start then Inr []
      else py_bind (line_at cl (int linenum)) (\<lambda>line.
        case re_match re_section line of
          None \<Rightarrow> Inr []
        | Some m \<Rightarrow>
            py_bind (line_at cl (int linenum - 1)) (\<lambda>prev_line.
              if IsBlankLine prev_line \<or> hit re_class_word prev_line \<or> hit re_bs_end prev_line then Inr []
              else py_bind (end_class_head cl start [start ..< linenum]) (\<lambda>head.
                Inr (lint (head + 1 < linenum) filename linenum ''whitespace/blank_line'' 3
                       (''"'' @ group_text m 1 @ '':" should be preceded by a blank line''))))))\<close>

end
