(* ===== verification/Patterns_Braces.thy ===== *)
theory Patterns_Braces
  imports Py_Regex_Syntax
begin

text \<open>
  The regular expressions of the checks in \<open>Check_Braces\<close>, as in \<open>Patterns\<close>.
\<close>

definition re_only_open :: regexp where
  \<open>re_only_open =
     Seqs [Star Spc, Str ''{'', Star Spc, Eol]\<close>

definition re_brace_ok_before :: regexp where
  \<open>re_brace_ok_before =
     Seqs [In [CC (CHR '',''), CC (CHR '';''), CC (CHR '':''), CC (CHR ''}''), CC (CHR ''{''),
       CC (CHR ''('')], Star Spc, Eol]\<close>

definition re_hash_start :: regexp where
  \<open>re_hash_start =
     Seqs [Star Spc, Str ''#'']\<close>

definition re_else_start :: regexp where
  \<open>re_else_start =
     Seqs [Star Spc, Str ''else'', Wordb, Star Spc, Alts [Seqs [Str ''if'', Wordb], Str ''{'',
       Eol]]\<close>

definition re_only_close :: regexp where
  \<open>re_only_close =
     Seqs [Star Spc, Str ''}'', Star Spc, Eol]\<close>

definition re_else_if :: regexp where
  \<open>re_else_if =
     Seqs [Str ''else if'', Star Spc, Str ''('']\<close>

definition re_close_else_if :: regexp where
  \<open>re_close_else_if =
     Seqs [Str ''}'', Star Spc, Str ''else if'', Star Spc, Str ''('']\<close>

definition re_close_else_only :: regexp where
  \<open>re_close_else_only =
     Seqs [Str ''}'', Star Spc, Str ''else'', Star (NotIn [CC (CHR ''{'')]), Eol]\<close>

definition re_else_open_only :: regexp where
  \<open>re_else_open_only =
     Seqs [Star (NotIn [CC (CHR ''}'')]), Str ''else'', Star Spc, Str ''{'']\<close>

definition re_else_clause :: regexp where
  \<open>re_else_clause =
     Seqs [Wordb, Str ''else '', NotIn [CSpace, CC (CHR ''{'')]]\<close>

definition re_else_if_word :: regexp where
  \<open>re_else_if_word =
     Seqs [Wordb, Str ''else if'', Wordb]\<close>

definition re_do_clause :: regexp where
  \<open>re_do_clause =
     Seqs [Star Spc, Str ''do '', NotIn [CSpace, CC (CHR ''{'')]]\<close>

definition re_if_else :: regexp where
  \<open>re_if_else =
     Seqs [Wordb, Grp 1 (Alts [Seqs [Str ''if'', Star Spc, Str ''(''], Seqs [Str ''else'',
       Wordb]])]\<close>

definition re_if_paren :: regexp where
  \<open>re_if_paren =
     Seqs [Wordb, Str ''if'', Star Spc, Str ''('']\<close>

definition re_open_start :: regexp where
  \<open>re_open_start =
     Seqs [Star Spc, Str ''{'']\<close>

definition re_rest_blank :: regexp where
  \<open>re_rest_blank =
     Seqs [Star Spc, Eol]\<close>

definition re_semi_last :: regexp where
  \<open>re_semi_last =
     Seqs [Str '';'', Star (In [CSpace, CC (CHR ''}'')]), Grp 1 (Opt (Str [CHR 0x5C])), Eol]\<close>

definition re_lambda_line :: regexp where
  \<open>re_lambda_line =
     Seqs [Bol, Star (NotIn [CC (CHR ''{''), CC (CHR ''}''), CC (CHR '';'')]), Str ''['', Star
       (NotIn [CC (CHR ''[''), CC (CHR '']'')]), Str '']'', Star (NotIn [CC (CHR ''{''), CC (CHR
       ''}'')]), Str ''{'', Star (NotIn [CC (CHR ''{''), CC (CHR ''}'')]), Str ''}'', Star Spc,
       Star (Str '')''), In [CC (CHR '';''), CC (CHR '','')], Star Spc, Eol]\<close>

definition re_else_word_start :: regexp where
  \<open>re_else_word_start =
     Seqs [Star Spc, Str ''else'', Wordb]\<close>

definition re_paren_open :: regexp where
  \<open>re_paren_open =
     Seqs [Bol, Grp 1 (Seqs [Star Any, Str '')'', Star Spc]), Str ''{'']\<close>

definition re_macro_end :: regexp where
  \<open>re_macro_end =
     Seqs [Wordb, Grp 1 (Seqs [In [CR (CHR ''A'') (CHR ''Z''), CC (CHR ''_'')], Star (In [CR
       (CHR ''A'') (CHR ''Z''), CR (CHR ''0'') (CHR ''9''), CC (CHR ''_'')])]), Star Spc, Eol]\<close>

definition re_bracket_end :: regexp where
  \<open>re_bracket_end =
     Seqs [Bol, Grp 1 (Seqs [Star Any, Str '']'']), Star Spc, Eol]\<close>

definition re_operator_brackets :: regexp where
  \<open>re_operator_brackets =
     Seqs [Wordb, Str ''operator'', Star Spc, Str ''['', Star Spc, Str '']'']\<close>

definition re_alignas_end :: regexp where
  \<open>re_alignas_end =
     Seqs [Wordb, Alts [Str ''struct'', Str ''union''], Plus Spc, Str ''alignas'', Star Spc,
       Eol]\<close>

definition re_decltype_only_end :: regexp where
  \<open>re_decltype_only_end =
     Seqs [Wordb, Str ''decltype'', Eol]\<close>

definition re_assign_end :: regexp where
  \<open>re_assign_end =
     Seqs [Plus Spc, Str ''='', Star Spc, Eol]\<close>

definition re_close_bracket_end :: regexp where
  \<open>re_close_bracket_end =
     Seqs [Str '']'', Star Spc, Eol]\<close>

definition re_else_const_open :: regexp where
  \<open>re_else_const_open =
     Seqs [Bol, Grp 1 (Seqs [Star Any, Alts [Str ''else'', Seqs [Str '')'', Star Spc, Str
       ''const'']], Star Spc]), Str ''{'']\<close>

definition re_stmt_end :: regexp where
  \<open>re_stmt_end =
     Seqs [In [CC (CHR '';''), CC (CHR ''{''), CC (CHR ''}'')], Star Spc, Eol]\<close>

definition re_indent_open :: regexp where
  \<open>re_indent_open =
     Seqs [Bol, Grp 1 (Star Spc), Str ''{'']\<close>

definition re_semi_start :: regexp where
  \<open>re_semi_start =
     Seqs [Bol, Star Spc, Str '';'']\<close>

definition re_loop_head :: regexp where
  \<open>re_loop_head =
     Seqs [Star Spc, Grp 1 (Alts [Str ''for'', Str ''while'', Str ''if'']), Star Spc, Str ''('']\<close>

definition re_semi_first :: regexp where
  \<open>re_semi_first =
     Str '';''\<close>

definition re_brace_first :: regexp where
  \<open>re_brace_first =
     Seqs [Bol, Star Spc, Str ''{'']\<close>

definition re_not_blank :: regexp where
  \<open>re_not_blank =
     Seqs [Bol, Look False (Seqs [Star Spc, Eol])]\<close>

definition re_blank_or_else :: regexp where
  \<open>re_blank_or_else =
     Alts [Seqs [Bol, Star Spc, Eol], Seqs [Bol, Look True (Seqs [Star Spc, Str ''else''])]]\<close>

definition re_else_ahead :: regexp where
  \<open>re_else_ahead =
     Seqs [Bol, Look True (Seqs [Star Spc, Str ''else''])]\<close>

definition re_semi_ws :: regexp where
  \<open>re_semi_ws =
     Seqs [Star Spc, Str '';'']\<close>

definition re_check_token :: regexp where
  \<open>re_check_token =
     Seqs [Bol, Star Spc, Grp 1 (Alts [Str ''<<'', Str ''<<='', Str ''>>'', Str ''>>='', Str
       ''->*'', Str ''->'', Str ''&&'', Str ''||'', Str ''=='', Str ''!='', Str ''>='', Str
       ''>'', Str ''<='', Str ''<'', Str ''('']), Grp 2 (Star Any), Eol]\<close>

definition re_check_operand :: regexp where
  \<open>re_check_operand =
     Seqs [Bol, Grp 1 (Plus (NotIn [CC (CHR ''-''), CC (CHR ''=''), CC (CHR ''!''), CC (CHR
       ''<''), CC (CHR ''>''), CC (CHR ''(''), CC (CHR '')''), CC (CHR ''&''), CC (CHR
       ''|'')])), Grp 2 (Star Any), Eol]\<close>

definition re_check_char :: regexp where
  \<open>re_check_char =
     Seqs [Bol, Grp 1 (Seqs [Star Spc, NSpc]), Grp 2 (Star Any), Eol]\<close>

definition re_constant :: regexp where
  \<open>re_constant =
     Seqs [Bol, Grp 1 (Alts [Seqs [Opt (In [CC (CHR ''-''), CC (CHR ''+'')]), Grp 2 (Alts [Plus
       Dig, Seqs [Str ''0'', In [CC (CHR ''x''), CC (CHR ''X'')], Plus (In [CR (CHR ''0'') (CHR
       ''9''), CR (CHR ''a'') (CHR ''f''), CR (CHR ''A'') (CHR ''F'')])]]), Opt (Seqs [In [CC
       (CHR ''l''), CC (CHR ''L''), CC (CHR ''u''), CC (CHR ''U'')], Opt (Seqs [In [CC (CHR
       ''l''), CC (CHR ''L''), CC (CHR ''u''), CC (CHR ''U'')], Opt (In [CC (CHR ''l''), CC (CHR
       ''L''), CC (CHR ''u''), CC (CHR ''U'')])])])], Seqs [Str ''"'', Star Any, Str ''"''],
       Seqs [Str [CHR 0x27], Star Any, Str [CHR 0x27]]]), Eol]\<close>

definition re_pp_line :: regexp where
  \<open>re_pp_line =
     Seqs [Bol, Star Spc, Str ''#'']\<close>

definition ALT_TOKEN_REPLACEMENT_PATTERN :: regexp where
  \<open>ALT_TOKEN_REPLACEMENT_PATTERN =
     Seqs [In [CC (CHR '' ''), CC (CHR ''=''), CC (CHR ''(''), CC (CHR '')'')], Grp 1 (Alts [Str
       ''and'', Str ''bitor'', Str ''or'', Str ''xor'', Str ''compl'', Str ''bitand'', Str
       ''and_eq'', Str ''or_eq'', Str ''xor_eq'', Str ''not'', Str ''not_eq'']), Look True (Alts
       [In [CC (CHR '' ''), CC (CHR ''('')], Eol])]\<close>

definition re_label :: regexp where
  \<open>re_label =
     Seqs [Star Spc, Plus Wrd, Star Spc, Str '':'', Star Spc, Opt (Str [CHR 0x5C]), Eol]\<close>

definition re_continuation :: regexp where
  \<open>re_continuation =
     Seqs [In [CC (CHR ''"''), CC (CHR '',''), CC (CHR ''=''), CC (CHR ''>''), CC (CHR ''<'')],
       Star (Str '' ''), Eol]\<close>

definition re_empty_string_start :: regexp where
  \<open>re_empty_string_start =
     Seqs [Bol, Star Spc, Str ''""'']\<close>

definition re_url_comment :: regexp where
  \<open>re_url_comment =
     Seqs [Bol, Star Spc, Str ''//'', Star Any, Str ''http'', Grp 1 (Opt (Str ''s'')), Str
       ''://'', Star NSpc, Eol]\<close>

definition re_word_comment :: regexp where
  \<open>re_word_comment =
     Seqs [Bol, Star Spc, Str ''//'', Star Spc, Star (NotIn [CSpace]), Eol]\<close>

definition re_id_comment :: regexp where
  \<open>re_id_comment =
     Seqs [Bol, Str ''// $Id:'', Star Any, Str ''#'', Plus (In [CR (CHR ''0'') (CHR ''9'')]),
       Str '' $'', Eol]\<close>

definition re_copydoc :: regexp where
  \<open>re_copydoc =
     Seqs [Bol, Star Spc, Str ''/// '', In [CC (CHR ''@''), CC (CHR 0x5C)], Grp 1 (Alts [Str
       ''copydoc'', Str ''copydetails'', Str ''copybrief'']), Str '' '', Star Any, Eol]\<close>

definition re_simple_lambda :: regexp where
  \<open>re_simple_lambda =
     Seqs [Bol, Star (NotIn [CC (CHR ''{''), CC (CHR ''}''), CC (CHR '';'')]), Str ''['', Star
       (NotIn [CC (CHR ''[''), CC (CHR '']'')]), Str '']'', Star (NotIn [CC (CHR ''{''), CC (CHR
       ''}'')]), Str ''{'', Star (NotIn [CC (CHR ''{''), CC (CHR ''}''), CC (CHR 0x0A), CC (CHR
       0x0D)]), Str ''}'']\<close>

section \<open>The patterns are those of the source\<close>

lemma re_only_open_src: \<open>compile_re (re_text ''`s*{`s*$'') = Some re_only_open\<close>
  by code_simp

lemma re_brace_ok_before_src: \<open>compile_re (re_text ''[,;:}{(]`s*$'') = Some re_brace_ok_before\<close>
  by code_simp

lemma re_hash_start_src: \<open>compile_re (re_text ''`s*#'') = Some re_hash_start\<close>
  by code_simp

lemma re_else_start_src: \<open>compile_re (re_text ''`s*else`b`s*(?:if`b|`{|$)'') = Some re_else_start\<close>
  by code_simp

lemma re_only_close_src: \<open>compile_re (re_text ''`s*}`s*$'') = Some re_only_close\<close>
  by code_simp

lemma re_else_if_src: \<open>compile_re (re_text ''else if`s*`('') = Some re_else_if\<close>
  by code_simp

lemma re_close_else_if_src: \<open>compile_re (re_text ''}`s*else if`s*`('') = Some re_close_else_if\<close>
  by code_simp

lemma re_close_else_only_src: \<open>compile_re (re_text ''}`s*else[^{]*$'') = Some re_close_else_only\<close>
  by code_simp

lemma re_else_open_only_src: \<open>compile_re (re_text ''[^}]*else`s*{'') = Some re_else_open_only\<close>
  by code_simp

lemma re_else_clause_src: \<open>compile_re (re_text ''`belse [^`s{]'') = Some re_else_clause\<close>
  by code_simp

lemma re_else_if_word_src: \<open>compile_re (re_text ''`belse if`b'') = Some re_else_if_word\<close>
  by code_simp

lemma re_do_clause_src: \<open>compile_re (re_text ''`s*do [^`s{]'') = Some re_do_clause\<close>
  by code_simp

lemma re_if_else_src: \<open>compile_re (re_text ''`b(if`s*`(|else`b)'') = Some re_if_else\<close>
  by code_simp

lemma re_if_paren_src: \<open>compile_re (re_text ''`bif`s*`('') = Some re_if_paren\<close>
  by code_simp

lemma re_open_start_src: \<open>compile_re (re_text ''`s*{'') = Some re_open_start\<close>
  by code_simp

lemma re_rest_blank_src: \<open>compile_re (re_text ''`s*$'') = Some re_rest_blank\<close>
  by code_simp

lemma re_semi_last_src: \<open>compile_re (re_text '';[`s}]*(``?)$'') = Some re_semi_last\<close>
  by code_simp

lemma re_lambda_line_src: \<open>compile_re (re_text ''^[^{};]*`[[^`[`]]*`][^{}]*`{[^{}]*`}`s*`)*[;,]`s*$'') = Some re_lambda_line\<close>
  by code_simp

lemma re_else_word_start_src: \<open>compile_re (re_text ''`s*else`b'') = Some re_else_word_start\<close>
  by code_simp

lemma re_paren_open_src: \<open>compile_re (re_text ''^(.*`)`s*)`{'') = Some re_paren_open\<close>
  by code_simp

lemma re_macro_end_src: \<open>compile_re (re_text ''`b([A-Z_][A-Z0-9_]*)`s*$'') = Some re_macro_end\<close>
  by code_simp

lemma re_bracket_end_src: \<open>compile_re (re_text ''^(.*`])`s*$'') = Some re_bracket_end\<close>
  by code_simp

lemma re_operator_brackets_src: \<open>compile_re (re_text ''`boperator`s*`[`s*`]'') = Some re_operator_brackets\<close>
  by code_simp

lemma re_alignas_end_src: \<open>compile_re (re_text ''`b(?:struct|union)`s+alignas`s*$'') = Some re_alignas_end\<close>
  by code_simp

lemma re_decltype_only_end_src: \<open>compile_re (re_text ''`bdecltype$'') = Some re_decltype_only_end\<close>
  by code_simp

lemma re_assign_end_src: \<open>compile_re (re_text ''`s+=`s*$'') = Some re_assign_end\<close>
  by code_simp

lemma re_close_bracket_end_src: \<open>compile_re (re_text ''`]`s*$'') = Some re_close_bracket_end\<close>
  by code_simp

lemma re_else_const_open_src: \<open>compile_re (re_text ''^(.*(?:else|`)`s*const)`s*)`{'') = Some re_else_const_open\<close>
  by code_simp

lemma re_stmt_end_src: \<open>compile_re (re_text ''[;{}]`s*$'') = Some re_stmt_end\<close>
  by code_simp

lemma re_indent_open_src: \<open>compile_re (re_text ''^(`s*)`{'') = Some re_indent_open\<close>
  by code_simp

lemma re_semi_start_src: \<open>compile_re (re_text ''^`s*;'') = Some re_semi_start\<close>
  by code_simp

lemma re_loop_head_src: \<open>compile_re (re_text ''`s*(for|while|if)`s*`('') = Some re_loop_head\<close>
  by code_simp

lemma re_semi_first_src: \<open>compile_re (re_text '';'') = Some re_semi_first\<close>
  by code_simp

lemma re_brace_first_src: \<open>compile_re (re_text ''^`s*`{'') = Some re_brace_first\<close>
  by code_simp

lemma re_not_blank_src: \<open>compile_re (re_text ''^(?!`s*$)'') = Some re_not_blank\<close>
  by code_simp

lemma re_blank_or_else_src: \<open>compile_re (re_text ''^`s*$|^(?=`s*else)'') = Some re_blank_or_else\<close>
  by code_simp

lemma re_else_ahead_src: \<open>compile_re (re_text ''^(?=`s*else)'') = Some re_else_ahead\<close>
  by code_simp

lemma re_semi_ws_src: \<open>compile_re (re_text ''`s*;'') = Some re_semi_ws\<close>
  by code_simp

lemma re_check_token_src: \<open>compile_re (re_text ''^`s*(<<|<<=|>>|>>=|->`*|->|&&|`|`||==|!=|>=|>|<=|<|`()(.*)$'') = Some re_check_token\<close>
  by code_simp

lemma re_check_operand_src: \<open>compile_re (re_text ''^([^-=!<>()&|]+)(.*)$'') = Some re_check_operand\<close>
  by code_simp

lemma re_check_char_src: \<open>compile_re (re_text ''^(`s*`S)(.*)$'') = Some re_check_char\<close>
  by code_simp

lemma re_constant_src: \<open>compile_re (re_text ''^([-+]?(`d+|0[xX][0-9a-fA-F]+)[lLuU]{0,3}|".*"|`\'.*`\')$'') = Some re_constant\<close>
  by code_simp

lemma re_pp_line_src: \<open>compile_re (re_text ''^`s*#'') = Some re_pp_line\<close>
  by code_simp

lemma ALT_TOKEN_REPLACEMENT_PATTERN_src: \<open>compile_re (re_text ''[ =()](and|bitor|or|xor|compl|bitand|and_eq|or_eq|xor_eq|not|not_eq)(?=[ (]|$)'') = Some ALT_TOKEN_REPLACEMENT_PATTERN\<close>
  by code_simp

lemma re_label_src: \<open>compile_re (re_text ''`s*`w+`s*:`s*``?$'') = Some re_label\<close>
  by code_simp

lemma re_continuation_src: \<open>compile_re (re_text ''[",=><] *$'') = Some re_continuation\<close>
  by code_simp

lemma re_empty_string_start_src: \<open>compile_re (re_text ''^`s*""'') = Some re_empty_string_start\<close>
  by code_simp

lemma re_url_comment_src: \<open>compile_re (re_text ''^`s*//.*http(s?)://`S*$'') = Some re_url_comment\<close>
  by code_simp

lemma re_word_comment_src: \<open>compile_re (re_text ''^`s*//`s*[^`s]*$'') = Some re_word_comment\<close>
  by code_simp

lemma re_id_comment_src: \<open>compile_re (re_text ''^// `$Id:.*#[0-9]+ `$$'') = Some re_id_comment\<close>
  by code_simp

lemma re_copydoc_src: \<open>compile_re (re_text ''^`s*/// [@``](copydoc|copydetails|copybrief) .*$'') = Some re_copydoc\<close>
  by code_simp

lemma re_simple_lambda_src: \<open>compile_re (re_text ''^[^{};]*`[[^`[`]]*`][^{}]*`{[^{}`n`r]*`}'') = Some re_simple_lambda\<close>
  by code_simp

end
