(* ===== verification/Check_Braces.thy ===== *)
theory Check_Braces
  imports Check_Spacing Patterns_Braces
begin

text \<open>
  The checks of braces, semicolons and macros that \<open>CheckStyle\<close> runs, and \<open>CheckStyle\<close> itself.
  \<open>CheckTrailingSemicolon\<close> calls \<open>ParseNolintSuppressions\<close>, so it returns actions.
\<close>

section \<open>Python slices\<close>

text \<open>\<open>s[i:]\<close>, where a negative index counts from the end.\<close>

definition py_from :: "string \<Rightarrow> int \<Rightarrow> string" where
  "py_from s i = (if 0 \<le> i then drop (nat i) s else drop (nat (int (length s) + i)) s)"

definition find_after :: "string \<Rightarrow> string \<Rightarrow> nat \<Rightarrow> nat option" where
  "find_after s sub start = map_option (\<lambda>i. start + i) (find_opt (drop start s) sub)"

section \<open>Lines\<close>

text \<open>The argument is \<open>prevlinenum + 1\<close>.\<close>

fun previous_line_from :: "string list \<Rightarrow> nat \<Rightarrow> (string \<times> int) py" where
  "previous_line_from els 0 = Inr ([], -1)"
| "previous_line_from els (Suc i) =
     py_bind (py_nth els (int i)) (\<lambda>prevline.
       if \<not> IsBlankLine prevline then Inr (prevline, int i) else previous_line_from els i)"

definition GetPreviousNonBlankLine :: "cleansed_lines \<Rightarrow> nat \<Rightarrow> (string \<times> int) py" where
  "GetPreviousNonBlankLine cl linenum = previous_line_from (elided cl) linenum"

text \<open>Below 256 there are no wide and no combining characters and nothing to compose.\<close>

definition GetLineWidth :: "string \<Rightarrow> nat" where
  "GetLineWidth line = length line"

section \<open>CheckBraces\<close>

definition braces_alone :: "int \<Rightarrow> string \<Rightarrow> cleansed_lines \<Rightarrow> nat \<Rightarrow> string \<Rightarrow> lint_msg list py" where
  "braces_alone line_length filename cl linenum line =
     (if fits re_only_open line then
        py_bind (GetPreviousNonBlankLine cl linenum) (\<lambda>(prevline, _).
          Inr (lint (\<not> hit re_brace_ok_before prevline \<and> \<not> fits re_hash_start prevline
                     \<and> \<not> (int (GetLineWidth prevline) > line_length - 2 \<and> contains prevline ''[]''))
                 filename linenum ''whitespace/braces'' 4
                 ''{ should almost always be at the end of the previous line''))
      else Inr [])"

definition braces_else_newline :: "string \<Rightarrow> cleansed_lines \<Rightarrow> nat \<Rightarrow> string \<Rightarrow> lint_msg list py" where
  "braces_else_newline filename cl linenum line =
     (if fits re_else_start line then
        py_bind (GetPreviousNonBlankLine cl linenum) (\<lambda>(prevline, _).
          Inr (lint (fits re_only_close prevline) filename linenum ''whitespace/newline'' 4
                 ''An else should appear on the same line as the preceding }''))
      else Inr [])"

definition both_sides_text :: string where
  "both_sides_text = ''If an else has a brace on one side, it should have it on both''"

definition braces_else_sides :: "string \<Rightarrow> cleansed_lines \<Rightarrow> nat \<Rightarrow> string \<Rightarrow> lint_msg list py" where
  "braces_else_sides filename cl linenum line =
     (if hit re_else_if line then
        let brace_on_left = hit re_close_else_if line in
        case find_after line ''('' (case find_opt line ''else if'' of None \<Rightarrow> 0 | Some i \<Rightarrow> i) of
          None \<Rightarrow> Inr []
        | Some pos \<Rightarrow>
            if pos = 0 then Inr []
            else py_bind (CloseExpression cl linenum pos) (\<lambda>(endline, _, endpos).
              Inr (lint (brace_on_left \<noteq> contains (py_from endline endpos) ''{'') filename linenum
                     ''readability/braces'' 5 both_sides_text))
      else Inr (lint (hit re_close_else_only line \<or> fits re_else_open_only line) filename linenum
                  ''readability/braces'' 5 both_sides_text))"

text \<open>
  The line with the first semicolon at or after a position:
  \<open>while endlinenum < len(elided) and ';' not in elided[endlinenum][endpos:]\<close>.
\<close>

fun semicolon_line :: "string list \<Rightarrow> nat \<Rightarrow> (nat \<times> string) option" where
  "semicolon_line [] n = None"
| "semicolon_line (l # ls) n = (if contains l '';'' then Some (n, l) else semicolon_line ls (n + 1))"

definition statement_end :: "cleansed_lines \<Rightarrow> nat \<Rightarrow> int \<Rightarrow> nat option" where
  "statement_end cl endlinenum endpos =
     (case drop endlinenum (elided cl) of
        [] \<Rightarrow> None
      | l # ls \<Rightarrow> map_option fst (semicolon_line (py_from l endpos # ls) endlinenum))"

definition multiple_text :: string where
  "multiple_text = ''If/else bodies with multiple statements require braces''"

definition body_msgs :: "string \<Rightarrow> cleansed_lines \<Rightarrow> nat \<Rightarrow> nat \<Rightarrow> bool \<Rightarrow> nat \<Rightarrow> lint_msg list py" where
  "body_msgs filename cl linenum if_indent if_match endlinenum =
     py_bind (elided_at cl (int endlinenum)) (\<lambda>endline.
       let tail = (case find_opt endline '';'' of None \<Rightarrow> py_from endline (-1) | Some i \<Rightarrow> drop i endline) in
       if \<not> fits re_semi_last tail then
         Inr (lint (\<not> fits re_lambda_line endline) filename linenum ''readability/braces'' 4 multiple_text)
       else if endlinenum + 1 < length (elided cl) then
         py_bind (elided_at cl (int (endlinenum + 1))) (\<lambda>next_line.
           let next_indent = GetIndentLevel next_line in
           Inr (if if_match \<and> fits re_else_word_start next_line \<and> next_indent \<noteq> if_indent
                then lint True filename linenum ''readability/braces'' 4
                       (''Else clause should be indented at the same level as if. '' @
                        ''Ambiguous nested if/else chains require braces.'')
                else lint (if_indent < next_indent) filename linenum ''readability/braces'' 4 multiple_text))
       else Inr [])"

definition braces_bodies :: "string \<Rightarrow> cleansed_lines \<Rightarrow> nat \<Rightarrow> string \<Rightarrow> lint_msg list py" where
  "braces_bodies filename cl linenum line =
     (case re_search re_if_else line of
        None \<Rightarrow> Inr []
      | Some if_else_match \<Rightarrow>
          if fits re_hash_start line then Inr []
          else
            py_bind (case re_search re_if_paren line of
                       None \<Rightarrow> Inr (line, linenum, int (m_end if_else_match))
                     | Some if_match \<Rightarrow> CloseExpression cl linenum (m_end if_match - 1))
              (\<lambda>(endline, endlinenum, endpos).
                 let tail = py_from endline endpos in
                 if fits re_open_start tail then Inr []
                 else py_bind (if fits re_rest_blank tail \<and> endlinenum + 1 < length (elided cl)
                               then py_bind (elided_at cl (int (endlinenum + 1))) (\<lambda>l. Inr (fits re_open_start l))
                               else Inr False)
                   (\<lambda>brace_follows.
                      if brace_follows then Inr []
                      else case statement_end cl endlinenum endpos of
                             None \<Rightarrow> Inr []
                           | Some n \<Rightarrow> body_msgs filename cl linenum (GetIndentLevel line)
                                         (hit re_if_paren line) n)))"

definition CheckBraces :: "int \<Rightarrow> string \<Rightarrow> cleansed_lines \<Rightarrow> nat \<Rightarrow> lint_msg list py" where
  "CheckBraces line_length filename cl linenum =
     py_bind (elided_at cl (int linenum)) (\<lambda>line.
     py_bind (braces_alone line_length filename cl linenum line) (\<lambda>ms1.
     py_bind (braces_else_newline filename cl linenum line) (\<lambda>ms2.
     py_bind (braces_else_sides filename cl linenum line) (\<lambda>ms3.
     py_bind (braces_bodies filename cl linenum line) (\<lambda>ms4.
       Inr (ms1 @ ms2 @ ms3
         @ lint (hit re_else_clause line \<and> \<not> hit re_else_if_word line) filename linenum ''whitespace/newline'' 4
             ''Else clause should never be on same line as else (use 2 lines)''
         @ lint (fits re_do_clause line) filename linenum ''whitespace/newline'' 4
             ''do/while clauses should not be on a single line''
         @ ms4))))))"

section \<open>CheckTrailingSemicolon\<close>

definition SAFE_MACROS :: "string list" where
  "SAFE_MACROS = [''TEST'', ''TEST_F'', ''MATCHER'', ''MATCHER_P'', ''TYPED_TEST'',
     ''EXCLUSIVE_LOCKS_REQUIRED'', ''SHARED_LOCKS_REQUIRED'', ''LOCKS_EXCLUDED'', ''INTERFACE_DEF'']"

definition not_a_block :: "string \<Rightarrow> bool" where
  "not_a_block line_prefix \<longleftrightarrow>
     (case re_search re_macro_end line_prefix of None \<Rightarrow> False | Some m \<Rightarrow> group_text m 1 \<notin> set SAFE_MACROS)
     \<or> (case re_match re_bracket_end line_prefix of
          None \<Rightarrow> False | Some m \<Rightarrow> \<not> hit re_operator_brackets (group_text m 1))
     \<or> hit re_alignas_end line_prefix \<or> hit re_decltype_only_end line_prefix \<or> hit re_assign_end line_prefix"

text \<open>The column of the brace of a block that must not be followed by a semicolon.\<close>

definition block_after_paren :: "cleansed_lines \<Rightarrow> nat \<Rightarrow> string \<Rightarrow> nat option py" where
  "block_after_paren cl linenum head =
     (case rfind_char (CHR '')'') head of
        None \<Rightarrow> Inr None
      | Some closing_brace_pos \<Rightarrow>
          py_bind (ReverseCloseExpression cl linenum closing_brace_pos) (\<lambda>(opening_line, opening_linenum, opening_pos).
            if opening_pos > -1 \<and> not_a_block (take (nat opening_pos) opening_line) then Inr None
            else if 1 < opening_linenum then
              py_bind (elided_at cl (int opening_linenum - 1)) (\<lambda>before.
                Inr (if hit re_close_bracket_end before then None else Some (length head)))
            else Inr (Some (length head))))"

definition block_column :: "cleansed_lines \<Rightarrow> nat \<Rightarrow> string \<Rightarrow> nat option py" where
  "block_column cl linenum line =
     (case re_match re_paren_open line of
        Some m \<Rightarrow> block_after_paren cl linenum (group_text m 1)
      | None \<Rightarrow>
          (case re_match re_else_const_open line of
             Some m \<Rightarrow> Inr (Some (length (group_text m 1)))
           | None \<Rightarrow>
               py_bind (GetPreviousNonBlankLine cl linenum) (\<lambda>(prevline, _).
                 Inr (if prevline \<noteq> [] \<and> hit re_stmt_end prevline
                      then map_option (\<lambda>m. length (group_text m 1)) (re_match re_indent_open line)
                      else None))))"

definition CheckTrailingSemicolon :: "string \<Rightarrow> cleansed_lines \<Rightarrow> nat \<Rightarrow> lint_act list py" where
  "CheckTrailingSemicolon filename cl linenum =
     py_bind (elided_at cl (int linenum)) (\<lambda>line.
     py_bind (block_column cl linenum line) (\<lambda>column.
       case column of
         None \<Rightarrow> Inr []
       | Some pos \<Rightarrow>
           py_bind (CloseExpression cl linenum pos) (\<lambda>(endline, endlinenum, endpos).
             if endpos > -1 \<and> fits re_semi_start (drop (nat endpos) endline) then
               py_bind (py_nth (raw_lines cl) (int endlinenum - 1)) (\<lambda>raw1.
               py_bind (py_nth (raw_lines cl) (int endlinenum)) (\<lambda>raw2.
                 Inr [ParseNolint raw1 (int endlinenum - 1), ParseNolint raw2 (int endlinenum),
                      Report (err_at filename (int endlinenum) ''readability/braces'' 4
                        (''You don'' @ [squote] @ ''t need a ; after a }''))]))
             else Inr [])))"

section \<open>CheckEmptyBlockBody\<close>

text \<open>The line with the opening brace, and that line from where it was looked at.\<close>

fun opening_brace :: "string \<Rightarrow> nat \<Rightarrow> string list \<Rightarrow> (nat \<times> string) option" where
  "opening_brace fragment n rest =
     (if hit re_brace_first fragment then Some (n, fragment)
      else if hit re_not_blank fragment then None
      else case rest of [] \<Rightarrow> None | l # ls \<Rightarrow> opening_brace l (n + 1) ls)"

declare opening_brace.simps [simp del]

fun followed_by_else :: "string \<Rightarrow> string list \<Rightarrow> bool" where
  "followed_by_else fragment rest =
     (if hit re_blank_or_else fragment then
        if hit re_else_ahead fragment then True
        else (case rest of [] \<Rightarrow> False | l # ls \<Rightarrow> followed_by_else l ls)
      else False)"

declare followed_by_else.simps [simp del]

text \<open>
  The text between the braces.  \<open>list(opening_line[opening_pos+1:])\<close> is a list of characters, so
  \<open>join\<close> puts line ends between them.
\<close>

definition block_text :: "cleansed_lines \<Rightarrow> string \<Rightarrow> nat \<Rightarrow> nat \<Rightarrow> nat \<Rightarrow> nat \<Rightarrow> string py" where
  "block_text cl opening_line opening_linenum opening_pos closing_linenum closing_pos =
     (if opening_linenum < closing_linenum then
        py_bind (elided_at cl (int closing_linenum)) (\<lambda>closing.
          Inr (join [newline] (map (\<lambda>c. [c]) (drop (opening_pos + 1) opening_line)
                @ take (closing_linenum - (opening_linenum + 1)) (drop (opening_linenum + 1) (raw_lines cl))
                @ [take (closing_pos - 1) closing])))
      else Inr (drop (opening_pos + 1) (take (closing_pos - 1) opening_line)))"

definition empty_if_body :: "string \<Rightarrow> cleansed_lines \<Rightarrow> string \<Rightarrow> nat \<Rightarrow> nat \<Rightarrow> lint_msg list py" where
  "empty_if_body filename cl end_line end_linenum end_pos =
     (case opening_brace (drop end_pos end_line) end_linenum (drop (end_linenum + 1) (elided cl)) of
        None \<Rightarrow> Inr []
      | Some (opening_linenum, fragment) \<Rightarrow>
          py_bind (elided_at cl (int opening_linenum)) (\<lambda>opening_line.
            let opening_pos = (case find_opt fragment ''{'' of None \<Rightarrow> 0 | Some i \<Rightarrow> i)
                              + (if opening_linenum = end_linenum then end_pos else 0) in
            py_bind (CloseExpression cl opening_linenum opening_pos) (\<lambda>(closing_line, closing_linenum, closing_pos).
              if closing_pos < 0 then Inr []
              else py_bind (py_nth (raw_lines cl) (int opening_linenum)) (\<lambda>raw.
                if raw \<noteq> CleanseComments raw then Inr []
                else py_bind (block_text cl opening_line opening_linenum opening_pos closing_linenum (nat closing_pos))
                  (\<lambda>body.
                    Inr (lint (hit re_blank body
                               \<and> \<not> followed_by_else (drop (nat closing_pos) closing_line)
                                     (drop (closing_linenum + 1) (elided cl)))
                           filename end_linenum ''whitespace/empty_if_body'' 4
                           ''If statement had no body and no else clause''))))))"

definition empty_body_text :: "string \<Rightarrow> nat \<Rightarrow> string \<Rightarrow> lint_msg list" where
  "empty_body_text filename end_linenum keyword =
     (if keyword = ''if''
      then lint True filename end_linenum ''whitespace/empty_conditional_body'' 5
             ''Empty conditional bodies should use {}''
      else lint True filename end_linenum ''whitespace/empty_loop_body'' 5
             ''Empty loop bodies should use {} or continue'')"

definition CheckEmptyBlockBody :: "string \<Rightarrow> cleansed_lines \<Rightarrow> nat \<Rightarrow> lint_msg list py" where
  "CheckEmptyBlockBody filename cl linenum =
     py_bind (elided_at cl (int linenum)) (\<lambda>line.
       case (re_match re_loop_head line, find_opt line ''('') of
         (Some matched, Some paren) \<Rightarrow>
           py_bind (CloseExpression cl linenum paren) (\<lambda>(end_line, end_linenum, end_pos).
             if 0 \<le> end_pos then
               py_bind (if group_text matched 1 = ''if''
                        then empty_if_body filename cl end_line end_linenum (nat end_pos) else Inr []) (\<lambda>ms.
                 Inr ((if fits re_semi_first (drop (nat end_pos) end_line)
                       then empty_body_text filename end_linenum (group_text matched 1) else []) @ ms))
             else Inr [])
       | _ \<Rightarrow> Inr [])"

section \<open>CheckCheck\<close>

definition CHECK_MACROS :: "string list" where
  "CHECK_MACROS = [''DCHECK'', ''CHECK'', ''EXPECT_TRUE'', ''ASSERT_TRUE'', ''EXPECT_FALSE'', ''ASSERT_FALSE'']"

definition CHECK_OPS :: "(string \<times> string \<times> string) list" where
  "CHECK_OPS =
     [(''=='', ''EQ'', ''NE''), (''!='', ''NE'', ''EQ''), (''>='', ''GE'', ''LT''), (''>'', ''GT'', ''LE''),
      (''<='', ''LE'', ''GT''), (''<'', ''LT'', ''GE'')]"

definition CHECK_REPLACEMENT :: "string \<Rightarrow> string \<Rightarrow> string py" where
  "CHECK_REPLACEMENT check_macro op =
     (case map_of CHECK_OPS op of
        None \<Rightarrow> Inl KeyError
      | Some (repl, inv_repl) \<Rightarrow>
          if check_macro = ''DCHECK'' then Inr (''DCHECK_'' @ repl)
          else if check_macro = ''CHECK'' then Inr (''CHECK_'' @ repl)
          else if check_macro = ''EXPECT_TRUE'' then Inr (''EXPECT_'' @ repl)
          else if check_macro = ''ASSERT_TRUE'' then Inr (''ASSERT_'' @ repl)
          else if check_macro = ''EXPECT_FALSE'' then Inr (''EXPECT_'' @ inv_repl)
          else if check_macro = ''ASSERT_FALSE'' then Inr (''ASSERT_'' @ inv_repl)
          else Inl KeyError)"

definition re_macro_call :: "string \<Rightarrow> regexp" where
  "re_macro_call macro = Seqs [Bol, Grp 1 (Seqs [Star Any, Wordb, Str macro, Star Spc]), Str ''('']"

fun find_macro :: "string list \<Rightarrow> string \<Rightarrow> (string \<times> nat) option" where
  "find_macro [] line = None"
| "find_macro (macro # ms) line =
     (if contains line macro then
        (case re_match (re_macro_call macro) line of
           None \<Rightarrow> find_macro ms line
         | Some m \<Rightarrow> Some (macro, length (group_text m 1)))
      else find_macro ms line)"

definition FindCheckMacro :: "string \<Rightarrow> (string \<times> nat) option" where
  "FindCheckMacro line = find_macro CHECK_MACROS line"

lemma re_check_token_shorter:
  assumes "re_match re_check_token s = Some m"
  shows "length (group_text m 2) < length s"
  by (rule re_match_segsE [OF assms re_check_token_def], simp)
    (elim seg_ConsE, auto simp: group_text_def group_def)

lemma re_check_operand_shorter:
  assumes "re_match re_check_operand s = Some m"
  shows "length (group_text m 2) < length s"
  by (rule re_match_segsE [OF assms re_check_operand_def], simp)
    (elim seg_ConsE, auto simp: group_text_def group_def)

lemma re_check_char_shorter:
  assumes "re_match re_check_char s = Some m"
  shows "length (group_text m 2) < length s"
  by (rule re_match_segsE [OF assms re_check_char_def], simp)
    (elim seg_ConsE, auto simp: group_text_def group_def)

text \<open>
  The loop over the expression.  \<open>None\<close> is an early return; otherwise the left side, the
  operator if one was found, and the right side.
\<close>

function parse_check :: "string \<Rightarrow> string \<Rightarrow> (string \<times> string option \<times> string) option" where
  "parse_check expression lhs =
     (if expression = [] then Some (lhs, None, [])
      else case re_match re_check_token expression of
        Some m \<Rightarrow>
          let token = group_text m 1; rest = group_text m 2 in
          if token = ''('' then
            (case FindEndOfExpressionInLine rest 0 [CHR ''(''] of (end, _) \<Rightarrow>
               if end < 0 then None
               else parse_check (drop (nat end) rest) (lhs @ ''('' @ take (nat end) rest))
          else if token = ''&&'' \<or> token = ''||'' then None
          else if token \<in> {''<<'', ''<<='', ''>>'', ''>>='', ''->*'', ''->''} then parse_check rest (lhs @ token)
          else Some (lhs, Some token, rest)
      | None \<Rightarrow>
          (case re_match re_check_operand expression of
             Some m \<Rightarrow> parse_check (group_text m 2) (lhs @ group_text m 1)
           | None \<Rightarrow>
               (case re_match re_check_char expression of
                  Some m \<Rightarrow> parse_check (group_text m 2) (lhs @ group_text m 1)
                | None \<Rightarrow> Some (lhs, None, []))))"
  by pat_completeness auto
termination
  by (relation "measure (\<lambda>(e, l). length e)")
    (auto dest: re_check_token_shorter re_check_operand_shorter re_check_char_shorter)

declare parse_check.simps [simp del]

definition check_expression :: "cleansed_lines \<Rightarrow> nat \<Rightarrow> nat \<Rightarrow> string \<Rightarrow> nat \<Rightarrow> nat \<Rightarrow> string py" where
  "check_expression cl linenum start_pos final_line end_line end_pos =
     py_bind (elided_at cl (int linenum)) (\<lambda>line.
       if linenum = end_line then Inr (drop (start_pos + 1) (take (end_pos - 1) line))
       else py_bind (join_lines (elided cl) [linenum + 1 ..< end_line]) (\<lambda>mid.
         Inr (drop (start_pos + 1) line @ mid @ take (end_pos - 1) final_line)))"

definition check_suggestion :: "string \<Rightarrow> nat \<Rightarrow> string \<Rightarrow> string \<Rightarrow> lint_msg list py" where
  "check_suggestion filename linenum check_macro expression =
     (case parse_check expression [] of
        Some (lhs, Some operator, rhs) \<Rightarrow>
          if lhs = [] \<or> rhs = [] \<or> contains rhs ''&&'' \<or> contains rhs ''||'' then Inr []
          else if fits re_constant (strip lhs) \<or> fits re_constant (strip rhs) then
            py_bind (CHECK_REPLACEMENT check_macro operator) (\<lambda>replacement.
              Inr (lint True filename linenum ''readability/check'' 2
                     (''Consider using '' @ replacement @ '' instead of '' @ check_macro @ ''(a '' @ operator @ '' b)'')))
          else Inr []
      | _ \<Rightarrow> Inr [])"

definition CheckCheck :: "string \<Rightarrow> cleansed_lines \<Rightarrow> nat \<Rightarrow> lint_msg list py" where
  "CheckCheck filename cl linenum =
     py_bind (elided_at cl (int linenum)) (\<lambda>line.
       case FindCheckMacro line of
         None \<Rightarrow> Inr []
       | Some (check_macro, start_pos) \<Rightarrow>
           py_bind (CloseExpression cl linenum start_pos) (\<lambda>(final_line, end_line, end_pos).
             if end_pos < 0 \<or> \<not> fits re_semi_ws (drop (nat end_pos) final_line) then Inr []
             else py_bind (check_expression cl linenum start_pos final_line end_line (nat end_pos)) (\<lambda>expression.
               check_suggestion filename linenum check_macro expression)))"

section \<open>CheckAltTokens\<close>

definition ALT_TOKEN_REPLACEMENT :: "(string \<times> string) list" where
  "ALT_TOKEN_REPLACEMENT =
     [(''and'', ''&&''), (''bitor'', ''|''), (''or'', ''||''), (''xor'', ''^''), (''compl'', ''~''),
      (''bitand'', ''&''), (''and_eq'', ''&=''), (''or_eq'', ''|=''), (''xor_eq'', ''^=''), (''not'', ''!''),
      (''not_eq'', ''!='')]"

text \<open>\<open>finditer\<close>, for a pattern that matches no empty text.\<close>

function finditer_from :: "regexp \<Rightarrow> string \<Rightarrow> string \<Rightarrow> match_obj list" where
  "finditer_from r p s =
     (case s of
        [] \<Rightarrow> []
      | x # xs \<Rightarrow>
          (case match_at r p s of
             Some m \<Rightarrow>
               if m_text m = [] then m # finditer_from r (x # p) xs
               else m # finditer_from r (rev (m_text m) @ p) (drop (length (m_text m)) s)
           | None \<Rightarrow> finditer_from r (x # p) xs))"
  by pat_completeness auto
termination by (relation "measure (\<lambda>(r, p, s). length s)") auto

declare finditer_from.simps [simp del]

fun alt_msgs :: "string \<Rightarrow> nat \<Rightarrow> match_obj list \<Rightarrow> lint_msg list py" where
  "alt_msgs filename linenum [] = Inr []"
| "alt_msgs filename linenum (m # ms) =
     (case map_of ALT_TOKEN_REPLACEMENT (group_text m 1) of
        None \<Rightarrow> Inl KeyError
      | Some op \<Rightarrow>
          py_bind (alt_msgs filename linenum ms) (\<lambda>rest.
            Inr (lint True filename linenum ''readability/alt_tokens'' 2
                   (''Use operator '' @ op @ '' instead of '' @ group_text m 1) @ rest)))"

definition CheckAltTokens :: "string \<Rightarrow> cleansed_lines \<Rightarrow> nat \<Rightarrow> lint_msg list py" where
  "CheckAltTokens filename cl linenum =
     py_bind (elided_at cl (int linenum)) (\<lambda>line.
       if fits re_pp_line line \<or> contains line ''/*'' \<or> contains line ''*/'' then Inr []
       else alt_msgs filename linenum (finditer_from ALT_TOKEN_REPLACEMENT_PATTERN [] line))"

section \<open>CheckStyle\<close>

definition initial_spaces :: "string \<Rightarrow> nat" where
  "initial_spaces line = length (takeWhile (\<lambda>c. c = CHR '' '') line)"

definition indent_msgs :: "string \<Rightarrow> nat \<Rightarrow> string \<Rightarrow> string \<Rightarrow> string \<Rightarrow> string \<Rightarrow> lint_msg list" where
  "indent_msgs filename linenum line prev cleansed_line raw_line =
     lint (\<not> hit re_continuation prev \<and> initial_spaces line \<in> {1, 3} \<and> \<not> fits re_label cleansed_line
           \<and> \<not> (raw_line \<noteq> line \<and> fits re_empty_string_start line))
       filename linenum ''whitespace/indent'' 3
       ''Weird number of spaces at line-start.  Are you using a 2-space indent?''"

definition is_guard_line :: "string \<Rightarrow> string \<Rightarrow> bool" where
  "is_guard_line cppvar line \<longleftrightarrow>
     startswith line (''#ifndef '' @ cppvar) \<or> startswith line (''#define '' @ cppvar)
     \<or> startswith line (''#endif  // '' @ cppvar)"

definition may_be_long :: "string \<Rightarrow> bool" where
  "may_be_long line \<longleftrightarrow>
     startswith line ''#include'' \<or> fits re_url_comment line \<or> fits re_word_comment line
     \<or> fits re_id_comment line \<or> fits re_copydoc line"

definition long_line_msgs :: "int \<Rightarrow> string \<Rightarrow> nat \<Rightarrow> bool \<Rightarrow> string \<Rightarrow> lint_msg list" where
  "long_line_msgs line_length filename linenum is_header_guard line =
     lint (\<not> is_header_guard \<and> \<not> may_be_long line \<and> int (GetLineWidth line) > line_length)
       filename linenum ''whitespace/line_length'' 2
       (''Lines should be <= '' @ int_str line_length @ '' characters long'')"

definition many_commands :: "string \<Rightarrow> string \<Rightarrow> string \<Rightarrow> bool" where
  "many_commands line cleansed_line prevline \<longleftrightarrow>
     1 < py_count cleansed_line '';'' \<and> \<not> fits re_simple_lambda line \<and> \<not> contains cleansed_line ''for''
     \<and> (\<not> contains prevline ''for'' \<or> contains prevline '';'')
     \<and> \<not> ((contains cleansed_line ''case '' \<or> contains cleansed_line ''default:'')
          \<and> contains cleansed_line ''break;'')"

definition header_guard_line :: "file_sys \<Rightarrow> ext_state \<Rightarrow> string \<Rightarrow> string \<Rightarrow> string \<Rightarrow> bool py" where
  "header_guard_line fs exts filename file_extension line =
     (if IsHeaderExtension exts file_extension then
        (case GetHeaderGuardCPPVariable fs filename of
           None \<Rightarrow> Inl NoReturn
         | Some cppvar \<Rightarrow> Inr (is_guard_line cppvar line))
      else Inr False)"

definition section_spacing :: "string \<Rightarrow> cleansed_lines \<Rightarrow> nat \<Rightarrow> nesting_state \<Rightarrow> lint_msg list py" where
  "section_spacing filename cl linenum st =
     (case InnermostClass st of
        None \<Rightarrow> Inr []
      | Some b \<Rightarrow>
          (case kind b of
             ClassKind c \<Rightarrow> CheckSectionSpacing filename cl (starting_linenum b) c linenum
           | _ \<Rightarrow> Inr []))"

text \<open>The checks that \<open>CheckStyle\<close> runs on every line, in their order, as actions.\<close>

definition reports :: "lint_msg list py \<Rightarrow> lint_act list py" where
  "reports r = py_bind r (\<lambda>ms. Inr (map Report ms))"

fun run_checks :: "lint_act list py list \<Rightarrow> lint_act list py" where
  "run_checks [] = Inr []"
| "run_checks (r # rs) = py_bind r (\<lambda>as. py_bind (run_checks rs) (\<lambda>bs. Inr (as @ bs)))"

definition style_checks :: "int \<Rightarrow> string \<Rightarrow> cleansed_lines \<Rightarrow> nat \<Rightarrow> nesting_state \<Rightarrow> lint_act list py list" where
  "style_checks line_length filename cl linenum st =
     [reports (CheckBraces line_length filename cl linenum),
      CheckTrailingSemicolon filename cl linenum,
      reports (CheckEmptyBlockBody filename cl linenum),
      reports (CheckSpacing filename cl linenum st),
      reports (CheckOperatorSpacing filename cl linenum),
      reports (CheckParenthesisSpacing filename cl linenum),
      reports (CheckCommaSpacing filename cl linenum),
      reports (CheckBracesSpacing filename cl linenum st),
      reports (CheckSpacingForFunctionCall filename cl linenum),
      reports (CheckCheck filename cl linenum),
      reports (CheckAltTokens filename cl linenum),
      reports (section_spacing filename cl linenum st)]"

definition line_style :: "file_sys \<Rightarrow> ext_state \<Rightarrow> int \<Rightarrow> string \<Rightarrow> cleansed_lines \<Rightarrow> nat \<Rightarrow> string \<Rightarrow> lint_msg list py" where
  "line_style fs exts line_length filename cl linenum file_extension =
     py_bind (raw_at cl (int linenum)) (\<lambda>line.
     py_bind (if 0 < linenum then raw_at cl (int linenum - 1) else Inr []) (\<lambda>prev.
     py_bind (elided_at cl (int linenum)) (\<lambda>cleansed_line.
     py_bind (py_nth (raw_lines cl) (int linenum)) (\<lambda>raw_line.
     py_bind (header_guard_line fs exts filename file_extension line) (\<lambda>is_header_guard.
     py_bind (GetPreviousNonBlankLine cl linenum) (\<lambda>(prevline, _).
       Inr (lint (contains line [CHR 0x09]) filename linenum ''whitespace/tab'' 1 ''Tab found; better to use spaces''
         @ indent_msgs filename linenum line prev cleansed_line raw_line
         @ lint (line \<noteq> [] \<and> isspace (last line)) filename linenum ''whitespace/end_of_line'' 4
             ''Line ends in whitespace.  Consider deleting these extra spaces.''
         @ long_line_msgs line_length filename linenum is_header_guard line
         @ lint (many_commands line cleansed_line prevline) filename linenum ''whitespace/newline'' 0
             ''More than one command on the same line'')))))))"

definition CheckStyle ::
  "file_sys \<Rightarrow> ext_state \<Rightarrow> int \<Rightarrow> string \<Rightarrow> cleansed_lines \<Rightarrow> nat \<Rightarrow> string \<Rightarrow> nesting_state \<Rightarrow> lint_act list py" where
  "CheckStyle fs exts line_length filename cl linenum file_extension st =
     run_checks (reports (line_style fs exts line_length filename cl linenum file_extension)
                 # style_checks line_length filename cl linenum st)"

end
