(* ===== verification/Patterns_Language.thy ===== *)
theory Patterns_Language
  imports Py_Regex_Syntax
begin

text \<open>
  The regular expressions of the checks in \<open>Check_Language\<close>, as in \<open>Patterns\<close>.
\<close>

definition re_pp_conditional :: regexp where
  \<open>re_pp_conditional =
     Seqs [Bol, Star Spc, Str ''#'', Star Spc, Grp 1 (Alts [Str ''if'', Str ''ifdef'', Str
       ''ifndef'', Str ''elif'', Str ''else'', Str ''endif'']), Wordb]\<close>

definition re_short_port :: regexp where
  \<open>re_short_port =
     Seqs [Wordb, Str ''short port'', Wordb]\<close>

definition re_unsigned_short_port :: regexp where
  \<open>re_unsigned_short_port =
     Seqs [Wordb, Str ''unsigned short port'', Wordb]\<close>

definition re_c_integer :: regexp where
  \<open>re_c_integer =
     Seqs [Wordb, Grp 1 (Alts [Str ''short'', Seqs [Str ''long'', Look False (Seqs [Plus (Str
       '' ''), Str ''double''])], Str ''long long'']), Wordb]\<close>

definition re_unary_ampersand :: regexp where
  \<open>re_unary_ampersand =
     Seqs [Wordb, Str ''operator'', Star Spc, Str ''&'', Star Spc, Str ''('', Star Spc, Str
       '')'']\<close>

definition re_close_if :: regexp where
  \<open>re_close_if =
     Seqs [Str ''}'', Star Spc, Str ''if'', Star Spc, Str ''('']\<close>

definition re_printf_start :: regexp where
  \<open>re_printf_start =
     Seqs [Wordb, Opt (Grp 1 (Str ''string'')), Str ''printf'', Star Spc, Str ''('']\<close>

definition re_printf_name :: regexp where
  \<open>re_printf_name =
     Seqs [Wordb, Grp 1 (Seqs [Opt (Str ''string''), Str ''printf'']), Star Spc, Str ''('']\<close>

definition re_printf_arg :: regexp where
  \<open>re_printf_arg =
     Seqs [Grp 1 (Plus (In [CWord, CC (CHR ''.''), CC (CHR ''-''), CC (CHR ''>''), CC (CHR
       ''(''), CC (CHR '')'')])), Eol]\<close>

definition re_memset :: regexp where
  \<open>re_memset =
     Seqs [Str ''memset'', Star Spc, Str ''('', Grp 1 (Star (NotIn [CC (CHR '','')])), Str
       '','', Star Spc, Grp 2 (Star (NotIn [CC (CHR '','')])), Str '','', Star Spc, Str ''0'',
       Star Spc, Str '')'']\<close>

definition re_memset_size :: regexp where
  \<open>re_memset_size =
     Alts [Seqs [Bol, Str [CHR 0x27, CHR 0x27]], Seqs [Opt (Str ''-''), Plus (In [CR (CHR ''0'')
       (CHR ''9'')])], Seqs [Str ''0x'', In [CR (CHR ''0'') (CHR ''9''), CR (CHR ''A'') (CHR
       ''F''), CR (CHR ''a'') (CHR ''f'')], Eol]]\<close>

definition re_using_namespace :: regexp where
  \<open>re_using_namespace =
     Seqs [Wordb, Str ''using namespace'', Wordb]\<close>

definition re_literals :: regexp where
  \<open>re_literals =
     Seqs [Wordb, Str ''literals'', Wordb]\<close>

definition re_array_decl :: regexp where
  \<open>re_array_decl =
     Seqs [Star Spc, Opt (Grp 1 (Seqs [Plus Any, Str ''::''])), Grp 2 (Plus Wrd), Str '' '', In
       [CR (CHR ''a'') (CHR ''z'')], Star Wrd, Str ''['', Grp 3 (Plus Any), Str ''];'']\<close>

definition re_size_delim :: regexp where
  \<open>re_size_delim =
     Alts [Spc, Str ''+'', Str ''-'', Str ''*'', Str ''/'', Str ''<<'', Str ''>>]'']\<close>

definition re_sizeof :: regexp where
  \<open>re_sizeof =
     Seqs [Str ''sizeof('', Plus Any, Str '')'']\<close>

definition re_arraysize :: regexp where
  \<open>re_arraysize =
     Seqs [Str ''arraysize('', Plus Wrd, Str '')'']\<close>

definition re_digits :: regexp where
  \<open>re_digits =
     Plus Dig\<close>

definition re_hex :: regexp where
  \<open>re_hex =
     Seqs [Str ''0'', In [CC (CHR ''x''), CC (CHR ''X'')], Plus (In [CR (CHR ''0'') (CHR ''9''),
       CR (CHR ''a'') (CHR ''f''), CR (CHR ''A'') (CHR ''F'')])]\<close>

definition re_k_constant :: regexp where
  \<open>re_k_constant =
     Seqs [Str ''k'', In [CR (CHR ''A'') (CHR ''Z''), CR (CHR ''0'') (CHR ''9'')], Star Wrd]\<close>

definition re_k_constant_ns :: regexp where
  \<open>re_k_constant_ns =
     Seqs [Opt (Grp 1 (Seqs [Plus Any, Str ''::''])), Str ''k'', In [CR (CHR ''A'') (CHR ''Z''),
       CR (CHR ''0'') (CHR ''9'')], Star Wrd]\<close>

definition re_upper_constant :: regexp where
  \<open>re_upper_constant =
     Seqs [Opt (Grp 1 (Seqs [Plus Any, Str ''::''])), In [CR (CHR ''A'') (CHR ''Z'')], Star (In
       [CR (CHR ''A'') (CHR ''Z''), CR (CHR ''0'') (CHR ''9''), CC (CHR ''_'')])]\<close>

definition re_unnamed_namespace :: regexp where
  \<open>re_unnamed_namespace =
     Seqs [Wordb, Str ''namespace'', Star Spc, Str ''{'']\<close>

definition re_stmt_char :: regexp where
  \<open>re_stmt_char =
     In [CC (CHR '';''), CC (CHR ''(''), CC (CHR ''{'')]\<close>

definition re_global_string :: regexp where
  \<open>re_global_string =
     Seqs [Grp 1 (Seqs [Alts [Eps, Seqs [Str ''static '', Star (Str '' '')]], Alts [Eps, Seqs
       [Str ''const '', Star (Str '' '')]]]), Opt (Seqs [Star (Str '':''), Str ''std::'']), Str
       ''string'', Opt (Grp 2 (Seqs [Plus (Str '' ''), Str ''const''])), Plus (Str '' ''), Grp 3
       (Plus (In [CR (CHR ''a'') (CHR ''z''), CR (CHR ''A'') (CHR ''Z''), CR (CHR ''0'') (CHR
       ''9''), CC (CHR ''_''), CC (CHR '':'')])), Wordb, Grp 4 (Star Any)]\<close>

definition re_string_pointer :: regexp where
  \<open>re_string_pointer =
     Seqs [Wordb, Str ''string'', Wordb, Opt (Grp 1 (Seqs [Plus Spc, Str ''const''])), Star Spc,
       In [CC (CHR ''*''), CC (CHR ''&'')], Star Spc, Opt (Grp 2 (Seqs [Str ''const'', Plus
       Spc])), Wrd]\<close>

definition re_operator_nonword :: regexp where
  \<open>re_operator_nonword =
     Seqs [Wordb, Str ''operator'', NWrd]\<close>

definition re_string_function :: regexp where
  \<open>re_string_function =
     Seqs [Star Spc, Opt (Grp 1 (Seqs [Str ''<'', Star Any, Str ''>''])), Star (Grp 2 (Seqs [Str
       ''::'', Plus (In [CR (CHR ''a'') (CHR ''z''), CR (CHR ''A'') (CHR ''Z''), CR (CHR ''0'')
       (CHR ''9''), CC (CHR ''_'')])])), Star Spc, Str ''('', Grp 3 (Alts [NotIn [CC (CHR
       ''"'')], Eol])]\<close>

definition re_const_word :: regexp where
  \<open>re_const_word =
     Seqs [Wordb, Str ''const'', Wordb]\<close>

definition re_self_init :: regexp where
  \<open>re_self_init =
     Seqs [Wordb, Grp 1 (Seqs [Star (In [CR (CHR ''A'') (CHR ''Z''), CR (CHR ''a'') (CHR ''z''),
       CR (CHR ''0'') (CHR ''9''), CC (CHR ''_'')]), Str ''_'']), Str ''('', Back 1, Str '')'']\<close>

definition re_self_init_checked :: regexp where
  \<open>re_self_init_checked =
     Seqs [Wordb, Grp 1 (Seqs [Star (In [CR (CHR ''A'') (CHR ''Z''), CR (CHR ''a'') (CHR ''z''),
       CR (CHR ''0'') (CHR ''9''), CC (CHR ''_'')]), Str ''_'']), Str ''(CHECK_NOTNULL('', Back
       1, Str ''))'']\<close>

definition re_snprintf :: regexp where
  \<open>re_snprintf =
     Seqs [Str ''snprintf'', Star Spc, Str ''('', Grp 1 (Star (NotIn [CC (CHR '','')])), Str
       '','', Star Spc, Grp 2 (Star (In [CR (CHR ''0'') (CHR ''9'')])), Star Spc, Str '','']\<close>

definition re_sprintf :: regexp where
  \<open>re_sprintf =
     Seqs [Wordb, Str ''sprintf'', Star Spc, Str ''('']\<close>

definition re_strcpy :: regexp where
  \<open>re_strcpy =
     Seqs [Wordb, Grp 1 (Alts [Str ''strcpy'', Str ''strcat'']), Star Spc, Str ''('']\<close>

definition re_fn_open :: regexp where
  \<open>re_fn_open =
     Seqs [Bol, Grp 1 (Seqs [Star (NotIn [CC (CHR ''(''), CC (CHR '')'')]), Plus Wrd]), Str
       ''('']\<close>

definition re_override :: regexp where
  \<open>re_override =
     Seqs [Wordb, Str ''override'', Wordb]\<close>

definition re_out_of_line :: regexp where
  \<open>re_out_of_line =
     Seqs [Bol, Star (NotIn [CC (CHR ''(''), CC (CHR '')'')]), Plus Wrd, Str ''::'', Plus Wrd,
       Str ''('']\<close>

definition re_body_open :: regexp where
  \<open>re_body_open =
     Seqs [Bol, Grp 1 (Star Any), Str ''{'', Star Spc, Eol]\<close>

definition re_init_colon :: regexp where
  \<open>re_init_colon =
     Seqs [Spc, Str '':'', Star Spc, Plus Wrd, In [CC (CHR ''(''), CC (CHR ''{'')]]\<close>

definition re_close_comma :: regexp where
  \<open>re_close_comma =
     Seqs [Str ''}'', Star Spc, Str '','', Star Spc, Eol]\<close>

definition re_brace_semi_end :: regexp where
  \<open>re_brace_semi_end =
     Seqs [In [CC (CHR ''{''), CC (CHR ''}''), CC (CHR '';'')], Star Spc, Eol]\<close>

definition re_cont_type :: regexp where
  \<open>re_cont_type =
     Seqs [Star Spc, Str ''::'', Plus (Alts [In [CWord, CC (CHR ''<''), CC (CHR ''>'')], Str
       ''::'']), Star Spc, Str ''&'', Star Spc, NSpc]\<close>

definition re_prev_type :: regexp where
  \<open>re_prev_type =
     Seqs [Wordb, Grp 1 (Seqs [Opt (Seqs [Str ''const'', Star Spc]), Plus (Alts [In [CWord, CC
       (CHR ''<''), CC (CHR ''>'')], Str ''::'']), In [CWord, CC (CHR ''<''), CC (CHR ''>'')]]),
       Star Spc, Eol]\<close>

definition re_cont_ident :: regexp where
  \<open>re_cont_ident =
     Seqs [Star Spc, In [CR (CHR ''a'') (CHR ''z''), CR (CHR ''A'') (CHR ''Z''), CC (CHR
       ''_'')], Plus (Grp 1 (Alts [In [CWord, CC (CHR ''<''), CC (CHR ''>'')], Str ''::''])),
       Star Spc, Str ''&'', Star Spc, NSpc]\<close>

definition re_prev_scope :: regexp where
  \<open>re_prev_scope =
     Seqs [Wordb, Grp 1 (Seqs [Opt (Seqs [Str ''const'', Star Spc]), Plus (Alts [In [CWord, CC
       (CHR ''<''), CC (CHR ''>'')], Str ''::'']), Str ''::'']), Star Spc, Eol]\<close>

definition re_paren_comma_end :: regexp where
  \<open>re_paren_comma_end =
     Seqs [In [CC (CHR '')''), CC (CHR '','')], Star Spc, Eol]\<close>

definition re_colon_start :: regexp where
  \<open>re_colon_start =
     Seqs [Bol, Star Spc, Str '':'', Plus Spc, NSpc]\<close>

definition re_bs_ws_end :: regexp where
  \<open>re_bs_ws_end =
     Seqs [Str [CHR 0x5C], Star Spc, Eol]\<close>

definition re_whitelisted :: regexp where
  \<open>re_whitelisted =
     Seqs [Alts [Seqs [In [CC (CHR ''s''), CC (CHR ''S'')], Str ''wap'', Opt (Seqs [Str ''<'',
       Wrd, Plus (Str '':''), Str ''>''])], Seqs [Str ''operator'', Star Spc, In [CC (CHR
       ''<''), CC (CHR ''>'')], In [CC (CHR ''<''), CC (CHR ''>'')]], Str ''static_assert'', Str
       ''COMPILE_ASSERT''], Star Spc, Str ''('']\<close>

definition re_call_open_end :: regexp where
  \<open>re_call_open_end =
     Seqs [Plus NSpc, Str ''('', Star (NotIn [CC (CHR '')'')]), Eol]\<close>

definition re_fn_body :: regexp where
  \<open>re_fn_body =
     Seqs [Str ''{'', Star (NotIn [CC (CHR ''}'')]), Str ''}'']\<close>

definition RE_PATTERN_REF_PARAM :: regexp where
  \<open>RE_PATTERN_REF_PARAM =
     Seqs [Grp 1 (Seqs [Opt (Seqs [Str ''const'', Plus Spc]), Opt (Alts [Seqs [Str ''typename'',
       Plus Spc], Seqs [Str ''class'', Plus Spc], Seqs [Str ''struct'', Plus Spc], Seqs [Str
       ''union'', Plus Spc], Seqs [Str ''enum'', Plus Spc]]), Plus (Alts [Wrd, Seqs [Star Spc,
       Str ''<'', Star (Alts [Seqs [Str ''<'', Star (Alts [Seqs [Str ''<'', Star (NotIn [CC (CHR
       ''<''), CC (CHR ''>'')]), Str ''>''], NotIn [CC (CHR ''<''), CC (CHR ''>'')]]), Str
       ''>''], NotIn [CC (CHR ''<''), CC (CHR ''>'')]]), Str ''>''], Str ''::'']), Star (Seqs
       [Star Spc, Alts [Seqs [Wordb, Str ''const'', Wordb], In [CC (CHR ''*'')]]]), Star Spc,
       Str ''&'', Star Spc, In [CC (CHR ''_''), CR (CHR ''a'') (CHR ''z''), CR (CHR ''A'') (CHR
       ''Z'')], Star Wrd]), Star Spc, Opt (Seqs [Str ''='', Plus (NotIn [CC (CHR '',''), CC (CHR
       ''(''), CC (CHR '')'')])]), In [CC (CHR '',''), CC (CHR '')'')]]\<close>

definition RE_PATTERN_CONST_REF_PARAM :: regexp where
  \<open>RE_PATTERN_CONST_REF_PARAM =
     Alts [Seqs [Star Any, Star Spc, Wordb, Str ''const'', Star Spc, Str ''&'', Star Spc, In [CC
       (CHR ''_''), CR (CHR ''a'') (CHR ''z''), CR (CHR ''A'') (CHR ''Z'')], Star Wrd], Seqs
       [Str ''const'', Plus Spc, Opt (Seqs [Str ''const'', Plus Spc]), Opt (Alts [Seqs [Str
       ''typename'', Plus Spc], Seqs [Str ''class'', Plus Spc], Seqs [Str ''struct'', Plus Spc],
       Seqs [Str ''union'', Plus Spc], Seqs [Str ''enum'', Plus Spc]]), Plus (Alts [Wrd, Seqs
       [Star Spc, Str ''<'', Star (Alts [Seqs [Str ''<'', Star (Alts [Seqs [Str ''<'', Star
       (NotIn [CC (CHR ''<''), CC (CHR ''>'')]), Str ''>''], NotIn [CC (CHR ''<''), CC (CHR
       ''>'')]]), Str ''>''], NotIn [CC (CHR ''<''), CC (CHR ''>'')]]), Str ''>''], Str
       ''::'']), Star Spc, Str ''&'', Star Spc, In [CC (CHR ''_''), CR (CHR ''a'') (CHR ''z''),
       CR (CHR ''A'') (CHR ''Z'')], Star Wrd]]\<close>

definition RE_PATTERN_REF_STREAM_PARAM :: regexp where
  \<open>RE_PATTERN_REF_STREAM_PARAM =
     Seqs [Star Any, Str ''stream'', Star Spc, Str ''&'', Star Spc, In [CC (CHR ''_''), CR (CHR
       ''a'') (CHR ''z''), CR (CHR ''A'') (CHR ''Z'')], Star Wrd]\<close>

definition re_spaces_lt :: regexp where
  \<open>re_spaces_lt =
     Seqs [Star (Str '' ''), Str ''<'']\<close>

definition re_fn_cast :: regexp where
  \<open>re_fn_cast =
     Seqs [Opt (Grp 1 (Alts [Seqs [Wordb, Str ''new'', Plus Spc, Opt (Seqs [Str ''const'', Plus
       Spc])], Seqs [NSpc, Str ''<'', Star Spc, Opt (Seqs [Str ''const'', Plus Spc])]])), Wordb,
       Grp 2 (Alts [Str ''int'', Str ''float'', Str ''double'', Str ''bool'', Str ''char'', Str
       ''int32'', Str ''uint32'', Str ''int64'', Str ''uint64'']), Grp 3 (Seqs [Str ''('', NotIn
       [CC (CHR '')'')], Star Any])]\<close>

definition re_cast_array :: regexp where
  \<open>re_cast_array =
     Seqs [Str ''('', Plus (NotIn [CC (CHR ''(''), CC (CHR '')'')]), Str '')'', Star Spc, Str
       ''['']\<close>

definition re_cast_funcptr :: regexp where
  \<open>re_cast_funcptr =
     Seqs [Str ''('', Opt (Seqs [Plus (NotIn [CC (CHR ''(''), CC (CHR '')''), CC (CHR '' '')]),
       Str ''::'', Star Spc, Str ''*'', Star Spc]), Plus (NotIn [CC (CHR ''(''), CC (CHR '')''),
       CC (CHR '' '')]), Str '')'', Star Spc, Str ''('']\<close>

definition re_static_cast :: regexp where
  \<open>re_static_cast =
     Seqs [Str ''('', Grp 1 (Alts [Str ''int'', Str ''float'', Str ''double'', Str ''bool'', Str
       ''char'', Seqs [Opt (Str ''u''), Str ''int'', Grp 2 (Alts [Str ''16'', Str ''32'', Str
       ''64''])]]), Str '')'']\<close>

definition re_const_cast :: regexp where
  \<open>re_const_cast =
     Seqs [Str ''('', Grp 1 (Seqs [Str ''char'', Opt Spc, Plus (Str ''*''), Opt Spc]), Str
       '')'', Star Spc, Str ''"'']\<close>

definition re_reinterpret_cast :: regexp where
  \<open>re_reinterpret_cast =
     Seqs [Str ''('', Grp 1 (Seqs [Plus Wrd, Opt Spc, Plus (Str ''*''), Opt Spc]), Str '')'']\<close>

definition re_address_cast :: regexp where
  \<open>re_address_cast =
     Alts [Seqs [NotIn [CWord], Str ''&('', Grp 1 (Seqs [NotIn [CC (CHR '')''), CC (CHR ''*'')],
       Star (NotIn [CC (CHR '')'')])]), Str '')'', In [CWord, CC (CHR ''('')]], Seqs [NotIn
       [CWord], Str ''&'', Grp 2 (Alts [Str ''static'', Str ''dynamic'', Str ''down'', Str
       ''reinterpret'']), Str ''_cast'', Wordb]]\<close>

definition re_address_named_cast :: regexp where
  \<open>re_address_named_cast =
     Seqs [Bol, Grp 1 (Seqs [Star Any, Str ''&'', Alts [Str ''static'', Str ''dynamic'', Str
       ''down'', Str ''reinterpret''], Str ''_cast'', Wordb]), Str ''<'']\<close>

definition re_arrow_bracket :: regexp where
  \<open>re_arrow_bracket =
     Seqs [Star Spc, Alts [Str ''->'', Str ''['']]\<close>

definition re_keyword_context :: regexp where
  \<open>re_keyword_context =
     Seqs [Star Any, Wordb, Alts [Str ''sizeof'', Str ''alignof'', Str ''alignas'', Seqs [In [CC
       (CHR ''_''), CR (CHR ''A'') (CHR ''Z'')], Star (In [CC (CHR ''_''), CR (CHR ''A'') (CHR
       ''Z''), CR (CHR ''0'') (CHR ''9'')])]], Star Spc, Eol]\<close>

definition re_macro_context :: regexp where
  \<open>re_macro_context =
     Seqs [Star Any, Wordb, In [CC (CHR ''_''), CR (CHR ''A'') (CHR ''Z'')], Star (In [CC (CHR
       ''_''), CR (CHR ''A'') (CHR ''Z''), CR (CHR ''0'') (CHR ''9'')]), Star Spc, Str ''('',
       Star (Alts [Seqs [Str ''('', Star (NotIn [CC (CHR ''(''), CC (CHR '')'')]), Str '')''],
       NotIn [CC (CHR ''(''), CC (CHR '')'')]]), Eol]\<close>

definition re_cast_remainder :: regexp where
  \<open>re_cast_remainder =
     Seqs [Bol, Star Spc, Alts [Str '';'', Seqs [Str ''const'', Wordb], Seqs [Str ''throw'',
       Wordb], Seqs [Str ''final'', Wordb], Seqs [Str ''override'', Wordb], In [CC (CHR ''=''),
       CC (CHR ''>''), CC (CHR ''{''), CC (CHR '')''), CC (CHR '','')], Str ''->'']]\<close>

definition re_mock_method :: regexp where
  \<open>re_mock_method =
     Seqs [Bol, Star Spc, Str ''MOCK_'', Opt (Grp 1 (Str ''CONST_'')), Str ''METHOD'', Plus Dig,
       Opt (Grp 2 (Str ''_T'')), Str ''('']\<close>

definition re_mock_method1 :: regexp where
  \<open>re_mock_method1 =
     Seqs [Bol, Star Spc, Str ''MOCK_'', Opt (Str ''CONST_''), Str ''METHOD'', Plus Dig, Opt
       (Str ''_T''), Str ''('', Opt (Seqs [Plus NSpc, Str '','']), Star Spc, Eol]\<close>

definition re_mock_method2 :: regexp where
  \<open>re_mock_method2 =
     Seqs [Bol, Star Spc, Str ''MOCK_'', Opt (Str ''CONST_''), Str ''METHOD'', Plus Dig, Opt
       (Str ''_T''), Str ''('', Star Spc, Eol]\<close>

definition re_std_function :: regexp where
  \<open>re_std_function =
     Seqs [Wordb, Str ''std::'', Opt (Str ''m''), Str ''function'', Star Spc, Str ''<'', Star
       Spc, Eol]\<close>

definition re_virtual :: regexp where
  \<open>re_virtual =
     Seqs [Bol, Grp 1 (Star Any), Grp 2 (Seqs [Wordb, Str ''virtual'', Wordb]), Grp 3 (Star
       Any), Eol]\<close>

definition re_access_end :: regexp where
  \<open>re_access_end =
     Seqs [Wordb, Grp 1 (Alts [Str ''public'', Str ''protected'', Str ''private'']), Plus Spc,
       Eol]\<close>

definition re_access_start :: regexp where
  \<open>re_access_start =
     Seqs [Bol, Plus Spc, Grp 1 (Alts [Str ''public'', Str ''protected'', Str ''private'']),
       Wordb]\<close>

definition re_lone_colon :: regexp where
  \<open>re_lone_colon =
     Seqs [Bol, Star Any, NotIn [CC (CHR '':'')], Str '':'', NotIn [CC (CHR '':'')], Star Any,
       Eol]\<close>

definition re_param_list :: regexp where
  \<open>re_param_list =
     Seqs [Bol, Grp 1 (Star (NotIn [CC (CHR ''('')])), Str ''('']\<close>

definition re_override_final :: regexp where
  \<open>re_override_final =
     Seqs [Wordb, Grp 1 (Alts [Str ''override'', Str ''final'']), Wordb]\<close>

definition re_nonword_end :: regexp where
  \<open>re_nonword_end =
     Seqs [NotIn [CWord], Star Spc, Eol]\<close>

definition re_final :: regexp where
  \<open>re_final =
     Seqs [Wordb, Str ''final'', Wordb]\<close>

section \<open>The patterns are those of the source\<close>

lemma re_pp_conditional_src: \<open>compile_re (re_text ''^`s*#`s*(if|ifdef|ifndef|elif|else|endif)`b'') = Some re_pp_conditional\<close>
  by code_simp

lemma re_short_port_src: \<open>compile_re (re_text ''`bshort port`b'') = Some re_short_port\<close>
  by code_simp

lemma re_unsigned_short_port_src: \<open>compile_re (re_text ''`bunsigned short port`b'') = Some re_unsigned_short_port\<close>
  by code_simp

lemma re_c_integer_src: \<open>compile_re (re_text ''`b(short|long(?! +double)|long long)`b'') = Some re_c_integer\<close>
  by code_simp

lemma re_unary_ampersand_src: \<open>compile_re (re_text ''`boperator`s*&`s*`(`s*`)'') = Some re_unary_ampersand\<close>
  by code_simp

lemma re_close_if_src: \<open>compile_re (re_text ''`}`s*if`s*`('') = Some re_close_if\<close>
  by code_simp

lemma re_printf_start_src: \<open>compile_re (re_text ''`b(string)?printf`s*`('') = Some re_printf_start\<close>
  by code_simp

lemma re_printf_name_src: \<open>compile_re (re_text ''`b((?:string)?printf)`s*`('') = Some re_printf_name\<close>
  by code_simp

lemma re_printf_arg_src: \<open>compile_re (re_text ''([`w.`->()]+)$'') = Some re_printf_arg\<close>
  by code_simp

lemma re_memset_src: \<open>compile_re (re_text ''memset`s*`(([^,]*),`s*([^,]*),`s*0`s*`)'') = Some re_memset\<close>
  by code_simp

lemma re_memset_size_src: \<open>compile_re (re_text (''^'' @ [CHR 0x27, CHR 0x27] @ ''|-?[0-9]+|0x[0-9A-Fa-f]$'')) = Some re_memset_size\<close>
  by code_simp

lemma re_using_namespace_src: \<open>compile_re (re_text ''`busing namespace`b'') = Some re_using_namespace\<close>
  by code_simp

lemma re_literals_src: \<open>compile_re (re_text ''`bliterals`b'') = Some re_literals\<close>
  by code_simp

lemma re_array_decl_src: \<open>compile_re (re_text ''`s*(.+::)?(`w+) [a-z]`w*`[(.+)];'') = Some re_array_decl\<close>
  by code_simp

lemma re_size_delim_src: \<open>compile_re (re_text ''`s|`+|`-|`*|`/|<<|>>]'') = Some re_size_delim\<close>
  by code_simp

lemma re_sizeof_src: \<open>compile_re (re_text ''sizeof`(.+`)'') = Some re_sizeof\<close>
  by code_simp

lemma re_arraysize_src: \<open>compile_re (re_text ''arraysize`(`w+`)'') = Some re_arraysize\<close>
  by code_simp

lemma re_digits_src: \<open>compile_re (re_text ''`d+'') = Some re_digits\<close>
  by code_simp

lemma re_hex_src: \<open>compile_re (re_text ''0[xX][0-9a-fA-F]+'') = Some re_hex\<close>
  by code_simp

lemma re_k_constant_src: \<open>compile_re (re_text ''k[A-Z0-9]`w*'') = Some re_k_constant\<close>
  by code_simp

lemma re_k_constant_ns_src: \<open>compile_re (re_text ''(.+::)?k[A-Z0-9]`w*'') = Some re_k_constant_ns\<close>
  by code_simp

lemma re_upper_constant_src: \<open>compile_re (re_text ''(.+::)?[A-Z][A-Z0-9_]*'') = Some re_upper_constant\<close>
  by code_simp

lemma re_unnamed_namespace_src: \<open>compile_re (re_text ''`bnamespace`s*{'') = Some re_unnamed_namespace\<close>
  by code_simp

lemma re_stmt_char_src: \<open>compile_re (re_text ''[;({]'') = Some re_stmt_char\<close>
  by code_simp

lemma re_global_string_src: \<open>compile_re (re_text ''((?:|static +)(?:|const +))(?::*std::)?string( +const)? +([a-zA-Z0-9_:]+)`b(.*)'') = Some re_global_string\<close>
  by code_simp

lemma re_string_pointer_src: \<open>compile_re (re_text ''`bstring`b(`s+const)?`s*[`*`&]`s*(const`s+)?`w'') = Some re_string_pointer\<close>
  by code_simp

lemma re_operator_nonword_src: \<open>compile_re (re_text ''`boperator`W'') = Some re_operator_nonword\<close>
  by code_simp

lemma re_string_function_src: \<open>compile_re (re_text ''`s*(<.*>)?(::[a-zA-Z0-9_]+)*`s*`(([^"]|$)'') = Some re_string_function\<close>
  by code_simp

lemma re_const_word_src: \<open>compile_re (re_text ''`bconst`b'') = Some re_const_word\<close>
  by code_simp

lemma re_self_init_src: \<open>compile_re (re_text ''`b([A-Za-z0-9_]*_)`(`1`)'') = Some re_self_init\<close>
  by code_simp

lemma re_self_init_checked_src: \<open>compile_re (re_text ''`b([A-Za-z0-9_]*_)`(CHECK_NOTNULL`(`1`)`)'') = Some re_self_init_checked\<close>
  by code_simp

lemma re_snprintf_src: \<open>compile_re (re_text ''snprintf`s*`(([^,]*),`s*([0-9]*)`s*,'') = Some re_snprintf\<close>
  by code_simp

lemma re_sprintf_src: \<open>compile_re (re_text ''`bsprintf`s*`('') = Some re_sprintf\<close>
  by code_simp

lemma re_strcpy_src: \<open>compile_re (re_text ''`b(strcpy|strcat)`s*`('') = Some re_strcpy\<close>
  by code_simp

lemma re_fn_open_src: \<open>compile_re (re_text ''^([^()]*`w+)`('') = Some re_fn_open\<close>
  by code_simp

lemma re_override_src: \<open>compile_re (re_text ''`boverride`b'') = Some re_override\<close>
  by code_simp

lemma re_out_of_line_src: \<open>compile_re (re_text ''^[^()]*`w+::`w+`('') = Some re_out_of_line\<close>
  by code_simp

lemma re_body_open_src: \<open>compile_re (re_text ''^(.*)`{`s*$'') = Some re_body_open\<close>
  by code_simp

lemma re_init_colon_src: \<open>compile_re (re_text ''`s:`s*`w+[({]'') = Some re_init_colon\<close>
  by code_simp

lemma re_close_comma_src: \<open>compile_re (re_text ''`}`s*,`s*$'') = Some re_close_comma\<close>
  by code_simp

lemma re_brace_semi_end_src: \<open>compile_re (re_text ''[{};]`s*$'') = Some re_brace_semi_end\<close>
  by code_simp

lemma re_cont_type_src: \<open>compile_re (re_text ''`s*::(?:[`w<>]|::)+`s*&`s*`S'') = Some re_cont_type\<close>
  by code_simp

lemma re_prev_type_src: \<open>compile_re (re_text ''`b((?:const`s*)?(?:[`w<>]|::)+[`w<>])`s*$'') = Some re_prev_type\<close>
  by code_simp

lemma re_cont_ident_src: \<open>compile_re (re_text ''`s*[a-zA-Z_]([`w<>]|::)+`s*&`s*`S'') = Some re_cont_ident\<close>
  by code_simp

lemma re_prev_scope_src: \<open>compile_re (re_text ''`b((?:const`s*)?(?:[`w<>]|::)+::)`s*$'') = Some re_prev_scope\<close>
  by code_simp

lemma re_paren_comma_end_src: \<open>compile_re (re_text ''[),]`s*$'') = Some re_paren_comma_end\<close>
  by code_simp

lemma re_colon_start_src: \<open>compile_re (re_text ''^`s*:`s+`S'') = Some re_colon_start\<close>
  by code_simp

lemma re_bs_ws_end_src: \<open>compile_re (re_text ''```s*$'') = Some re_bs_ws_end\<close>
  by code_simp

lemma re_whitelisted_src: \<open>compile_re (re_text ''(?:[sS]wap(?:<`w:+>)?|operator`s*[<>][<>]|static_assert|COMPILE_ASSERT)`s*`('') = Some re_whitelisted\<close>
  by code_simp

lemma re_call_open_end_src: \<open>compile_re (re_text ''`S+`([^)]*$'') = Some re_call_open_end\<close>
  by code_simp

lemma re_fn_body_src: \<open>compile_re (re_text ''{[^}]*}'') = Some re_fn_body\<close>
  by code_simp

lemma RE_PATTERN_REF_PARAM_src: \<open>compile_re (re_text ''((?:const`s+)?(?:typename`s+|class`s+|struct`s+|union`s+|enum`s+)?(?:`w|`s*<(?:<(?:<[^<>]*>|[^<>])*>|[^<>])*>|::)+(?:`s*(?:`bconst`b|[*]))*`s*&`s*[_a-zA-Z]`w*)`s*(?:=[^,()]+)?[,)]'') = Some RE_PATTERN_REF_PARAM\<close>
  by code_simp

lemma RE_PATTERN_CONST_REF_PARAM_src: \<open>compile_re (re_text ''(?:.*`s*`bconst`s*&`s*[_a-zA-Z]`w*|const`s+(?:const`s+)?(?:typename`s+|class`s+|struct`s+|union`s+|enum`s+)?(?:`w|`s*<(?:<(?:<[^<>]*>|[^<>])*>|[^<>])*>|::)+`s*&`s*[_a-zA-Z]`w*)'') = Some RE_PATTERN_CONST_REF_PARAM\<close>
  by code_simp

lemma RE_PATTERN_REF_STREAM_PARAM_src: \<open>compile_re (re_text ''(?:.*stream`s*&`s*[_a-zA-Z]`w*)'') = Some RE_PATTERN_REF_STREAM_PARAM\<close>
  by code_simp

lemma re_spaces_lt_src: \<open>compile_re (re_text '' *<'') = Some re_spaces_lt\<close>
  by code_simp

lemma re_fn_cast_src: \<open>compile_re (re_text ''(`bnew`s+(?:const`s+)?|`S<`s*(?:const`s+)?)?`b(int|float|double|bool|char|int32|uint32|int64|uint64)(`([^)].*)'') = Some re_fn_cast\<close>
  by code_simp

lemma re_cast_array_src: \<open>compile_re (re_text ''`([^()]+`)`s*`['') = Some re_cast_array\<close>
  by code_simp

lemma re_cast_funcptr_src: \<open>compile_re (re_text ''`((?:[^() ]+::`s*`*`s*)?[^() ]+`)`s*`('') = Some re_cast_funcptr\<close>
  by code_simp

lemma re_static_cast_src: \<open>compile_re (re_text ''`((int|float|double|bool|char|u?int(16|32|64))`)'') = Some re_static_cast\<close>
  by code_simp

lemma re_const_cast_src: \<open>compile_re (re_text ''`((char`s?`*+`s?)`)`s*"'') = Some re_const_cast\<close>
  by code_simp

lemma re_reinterpret_cast_src: \<open>compile_re (re_text ''`((`w+`s?`*+`s?)`)'') = Some re_reinterpret_cast\<close>
  by code_simp

lemma re_address_cast_src: \<open>compile_re (re_text ''(?:[^`w]&`(([^)*][^)]*)`)[`w(])|(?:[^`w]&(static|dynamic|down|reinterpret)_cast`b)'') = Some re_address_cast\<close>
  by code_simp

lemma re_address_named_cast_src: \<open>compile_re (re_text ''^(.*&(?:static|dynamic|down|reinterpret)_cast`b)<'') = Some re_address_named_cast\<close>
  by code_simp

lemma re_arrow_bracket_src: \<open>compile_re (re_text ''`s*(?:->|`[)'') = Some re_arrow_bracket\<close>
  by code_simp

lemma re_keyword_context_src: \<open>compile_re (re_text ''.*`b(?:sizeof|alignof|alignas|[_A-Z][_A-Z0-9]*)`s*$'') = Some re_keyword_context\<close>
  by code_simp

lemma re_macro_context_src: \<open>compile_re (re_text ''.*`b[_A-Z][_A-Z0-9]*`s*`((?:`([^()]*`)|[^()])*$'') = Some re_macro_context\<close>
  by code_simp

lemma re_cast_remainder_src: \<open>compile_re (re_text ''^`s*(?:;|const`b|throw`b|final`b|override`b|[=>{),]|->)'') = Some re_cast_remainder\<close>
  by code_simp

lemma re_mock_method_src: \<open>compile_re (re_text ''^`s*MOCK_(CONST_)?METHOD`d+(_T)?`('') = Some re_mock_method\<close>
  by code_simp

lemma re_mock_method1_src: \<open>compile_re (re_text ''^`s*MOCK_(?:CONST_)?METHOD`d+(?:_T)?`((?:`S+,)?`s*$'') = Some re_mock_method1\<close>
  by code_simp

lemma re_mock_method2_src: \<open>compile_re (re_text ''^`s*MOCK_(?:CONST_)?METHOD`d+(?:_T)?`(`s*$'') = Some re_mock_method2\<close>
  by code_simp

lemma re_std_function_src: \<open>compile_re (re_text ''`bstd::m?function`s*`<`s*$'') = Some re_std_function\<close>
  by code_simp

lemma re_virtual_src: \<open>compile_re (re_text ''^(.*)(`bvirtual`b)(.*)$'') = Some re_virtual\<close>
  by code_simp

lemma re_access_end_src: \<open>compile_re (re_text ''`b(public|protected|private)`s+$'') = Some re_access_end\<close>
  by code_simp

lemma re_access_start_src: \<open>compile_re (re_text ''^`s+(public|protected|private)`b'') = Some re_access_start\<close>
  by code_simp

lemma re_lone_colon_src: \<open>compile_re (re_text ''^.*[^:]:[^:].*$'') = Some re_lone_colon\<close>
  by code_simp

lemma re_param_list_src: \<open>compile_re (re_text ''^([^(]*)`('') = Some re_param_list\<close>
  by code_simp

lemma re_override_final_src: \<open>compile_re (re_text ''`b(override|final)`b'') = Some re_override_final\<close>
  by code_simp

lemma re_nonword_end_src: \<open>compile_re (re_text ''[^`w]`s*$'') = Some re_nonword_end\<close>
  by code_simp

lemma re_final_src: \<open>compile_re (re_text ''`bfinal`b'') = Some re_final\<close>
  by code_simp

end
