(* ===== verification/Check_Language.thy ===== *)
theory Check_Language
  imports Check_Include Check_Braces Patterns_Language
begin

text \<open>
  The language checks: \<open>CheckLanguage\<close> with \<open>CheckCasts\<close>, \<open>CheckGlobalStatic\<close> and
  \<open>CheckPrintf\<close>, \<open>CheckForNonConstReference\<close>, \<open>CheckRedundantVirtual\<close> and
  \<open>CheckRedundantOverrideOrFinal\<close>.
\<close>

section \<open>Text inside brackets\<close>

text \<open>The loop of \<open>_GetTextInside\<close>: the number of characters up to and with the last bracket.\<close>

definition closing_punctuation :: "char \<Rightarrow> char option" where
  "closing_punctuation c =
     map_of [(CHR ''('', CHR '')''), (CHR ''{'', CHR ''}''), (CHR ''['', CHR '']'')] c"

fun inside_loop :: "char list \<Rightarrow> string \<Rightarrow> nat \<Rightarrow> nat option" where
  "inside_loop [] text position = Some position"
| "inside_loop (p # ps) [] position = None"
| "inside_loop (p # ps) (c # text) position =
     (if c = p then inside_loop ps text (position + 1)
      else if c \<in> set '')}]'' then None
      else case closing_punctuation c of
        Some q \<Rightarrow> inside_loop (q # p # ps) text (position + 1)
      | None \<Rightarrow> inside_loop (p # ps) text (position + 1))"

text \<open>
  The two assertions of \<open>_GetTextInside\<close> are about the pattern: its match ends with an
  opening bracket.  The flag \<open>(?i)\<close> of the one caller is modelled by matching in lower case,
  which keeps positions.
\<close>

definition GetTextInside :: "string \<Rightarrow> regexp \<Rightarrow> string option py" where
  "GetTextInside text start_pattern =
     (case re_search start_pattern (lower text) of
        None \<Rightarrow> Inr None
      | Some m \<Rightarrow>
          let start_position = m_end m in
          if start_position = 0 then Inl AssertionError
          else case closing_punctuation (text ! (start_position - 1)) of
            None \<Rightarrow> Inl AssertionError
          | Some p \<Rightarrow>
              let rest = drop start_position text in
              Inr (map_option (\<lambda>k. take (k - 1) rest) (inside_loop [p] rest 0)))"

section \<open>CheckLanguage\<close>

definition int_msgs :: "string \<Rightarrow> nat \<Rightarrow> string \<Rightarrow> lint_msg list" where
  \<open>int_msgs filename linenum line =
     (if hit re_short_port line then
        lint (\<not> hit re_unsigned_short_port line) filename linenum ''runtime/int'' 4
          (''Use "unsigned short" for ports, not "short"'')
      else case re_search re_c_integer line of
        None \<Rightarrow> []
      | Some m \<Rightarrow> lint True filename linenum ''runtime/int'' 4
                    (''Use int16/int64/etc, rather than the C type '' @ group_text m 1))\<close>

text \<open>\<open>re.search(pattern, line, re.I).group(1)\<close>, the text as it is in the line.\<close>

definition printf_name :: "string \<Rightarrow> string py" where
  "printf_name line =
     (case re_search re_printf_name (lower line) of
        None \<Rightarrow> Inl AttributeError
      | Some m \<Rightarrow>
          (case map_of (m_caps m) 1 of
             None \<Rightarrow> Inl AttributeError
           | Some (start, w) \<Rightarrow> Inr (take (length w) (drop start line))))"

definition format_msgs :: "string \<Rightarrow> nat \<Rightarrow> string \<Rightarrow> lint_msg list py" where
  \<open>format_msgs filename linenum line =
     py_bind (GetTextInside line re_printf_start) (\<lambda>printf_args.
       case printf_args of
         None \<Rightarrow> Inr []
       | Some args \<Rightarrow>
           (case (if args = [] then None else re_match re_printf_arg args) of
              None \<Rightarrow> Inr []
            | Some m \<Rightarrow>
                if group_text m 1 = ''__VA_ARGS__'' then Inr []
                else py_bind (printf_name line) (\<lambda>function_name.
                  Inr (lint True filename linenum ''runtime/printf'' 4
                    (''Potential format string bug. Do '' @ function_name @ ''("%s", '' @ group_text m 1 @ '') instead.'')))))\<close>

definition memset_msgs :: "string \<Rightarrow> nat \<Rightarrow> string \<Rightarrow> lint_msg list" where
  \<open>memset_msgs filename linenum line =
     (case re_search re_memset line of
        None \<Rightarrow> []
      | Some m \<Rightarrow>
          lint (\<not> fits re_memset_size (group_text m 2)) filename linenum ''runtime/memset'' 4
            (''Did you mean "memset('' @ group_text m 1 @ '', 0, '' @ group_text m 2 @ '')"?''))\<close>

definition using_msgs :: "string \<Rightarrow> nat \<Rightarrow> string \<Rightarrow> lint_msg list" where
  "using_msgs filename linenum line =
     lint (hit re_using_namespace line) filename linenum
       (if hit re_literals line then ''build/namespaces_literals'' else ''build/namespaces'') 5
       ''Do not use namespace using-directives.  Use using-declarations instead.''"

text \<open>\<open>re.split\<close> at a pattern that matches no empty text.\<close>

function split_at :: "regexp \<Rightarrow> string \<Rightarrow> string \<Rightarrow> string \<Rightarrow> string list" where
  "split_at r p s piece =
     (case s of
        [] \<Rightarrow> [rev piece]
      | x # xs \<Rightarrow>
          (case match_at r p s of
             None \<Rightarrow> split_at r (x # p) xs (x # piece)
           | Some m \<Rightarrow>
               if m_text m = [] then split_at r (x # p) xs (x # piece)
               else rev piece # split_at r (rev (m_text m) @ p) (drop (length (m_text m)) s) []))"
  by pat_completeness auto
termination by (relation "measure (\<lambda>(r, p, s, piece). length s)") auto

declare split_at.simps [simp del]

definition re_split :: "regexp \<Rightarrow> string \<Rightarrow> string list" where
  "re_split r s = split_at r [] s []"

definition strip_parens :: "string \<Rightarrow> string" where
  "strip_parens tok = rev (dropWhile (\<lambda>c. c = CHR '')'') (rev (dropWhile (\<lambda>c. c = CHR ''('') tok)))"

definition constant_token :: "string \<Rightarrow> bool" where
  "constant_token tok \<longleftrightarrow>
     tok = [] \<or> fits re_digits tok \<or> fits re_hex tok \<or> fits re_k_constant tok \<or> fits re_k_constant_ns tok
     \<or> fits re_upper_constant tok"

text \<open>The loop over the tokens of an array size; the flag is \<open>skip_next\<close>, the result \<open>is_const\<close>.\<close>

fun const_size :: "string list \<Rightarrow> bool \<Rightarrow> bool" where
  "const_size [] skip_next = True"
| "const_size (tok # toks) skip_next =
     (if skip_next then const_size toks False
      else if hit re_sizeof tok \<or> hit re_arraysize tok then const_size toks False
      else if constant_token (strip_parens tok) then const_size toks False
      else if startswith (strip_parens tok) ''sizeof'' then const_size toks True
      else False)"

definition array_msgs :: "string \<Rightarrow> nat \<Rightarrow> string \<Rightarrow> lint_msg list" where
  "array_msgs filename linenum line =
     (case re_match re_array_decl line of
        None \<Rightarrow> []
      | Some m \<Rightarrow>
          lint (group_text m 2 \<notin> {''return'', ''delete''} \<and> CHR '']'' \<notin> set (group_text m 3)
                \<and> \<not> const_size (re_split re_size_delim (group_text m 3)) False)
            filename linenum ''runtime/arrays'' 1
            (''Do not use variable-length arrays.  Use an appropriately named (''
             @ [squote] @ ''k'' @ [squote] @ '' followed by CamelCase) compile-time constant for the size.''))"

definition unnamed_namespace_text :: string where
  "unnamed_namespace_text =
     ''Do not use unnamed namespaces in header files.  See '' @
     ''https://google-styleguide.googlecode.com/svn/trunk/cppguide.xml#Namespaces'' @ '' for more information.''"

section \<open>Global strings and printf\<close>

definition joined_declaration :: "cleansed_lines \<Rightarrow> nat \<Rightarrow> string py" where
  "joined_declaration cl linenum =
     py_bind (elided_at cl (int linenum)) (\<lambda>line.
       if linenum + 1 < NumLines cl \<and> \<not> hit re_stmt_char line
       then py_bind (elided_at cl (int (linenum + 1))) (\<lambda>next. Inr (line @ strip next))
       else Inr line)"

definition global_string :: "string \<Rightarrow> match_obj option" where
  "global_string line =
     (case re_match re_global_string line of
        None \<Rightarrow> None
      | Some m \<Rightarrow>
          if hit re_string_pointer line \<or> hit re_operator_nonword line \<or> fits re_string_function (group_text m 4)
          then None else Some m)"

definition CheckGlobalStatic :: "string \<Rightarrow> cleansed_lines \<Rightarrow> nat \<Rightarrow> lint_msg list py" where
  \<open>CheckGlobalStatic filename cl linenum =
     py_bind (joined_declaration cl linenum) (\<lambda>line.
       Inr ((case global_string line of
               None \<Rightarrow> []
             | Some m \<Rightarrow>
                 lint True filename linenum ''runtime/string'' 4
                   (if hit re_const_word line
                    then ''For a static/global string constant, use a C style string instead: "''
                         @ group_text m 1 @ ''char'' @ group_text m 2 @ '' '' @ group_text m 3 @ ''[]".''
                    else ''Static/global string variables are not permitted.''))
          @ lint (hit re_self_init line \<or> hit re_self_init_checked line) filename linenum ''runtime/init'' 4
              ''You seem to be initializing a member variable with itself.''))\<close>

definition CheckPrintf :: "string \<Rightarrow> cleansed_lines \<Rightarrow> nat \<Rightarrow> lint_msg list py" where
  "CheckPrintf filename cl linenum =
     py_bind (elided_at cl (int linenum)) (\<lambda>line.
       Inr ((case re_search re_snprintf line of
               None \<Rightarrow> []
             | Some m \<Rightarrow>
                 lint (group_text m 2 \<noteq> ''0'') filename linenum ''runtime/printf'' 3
                   (''If you can, use sizeof('' @ group_text m 1 @ '') instead of '' @ group_text m 2 @
                    '' as the 2nd arg to snprintf.''))
          @ lint (hit re_sprintf line) filename linenum ''runtime/printf'' 5
              ''Never use sprintf. Use snprintf instead.''
          @ (case re_search re_strcpy line of
               None \<Rightarrow> []
             | Some m \<Rightarrow> lint True filename linenum ''runtime/printf'' 4
                           (''Almost always, snprintf is better than '' @ group_text m 1))))"

section \<open>Casts\<close>

definition ExpectingFunctionArgs :: "cleansed_lines \<Rightarrow> nat \<Rightarrow> bool py" where
  "ExpectingFunctionArgs cl linenum =
     py_bind (elided_at cl (int linenum)) (\<lambda>line.
       if fits re_mock_method line then Inr True
       else if 2 \<le> linenum then
         py_bind (elided_at cl (int linenum - 1)) (\<lambda>before.
         py_bind (elided_at cl (int linenum - 2)) (\<lambda>before2.
           Inr (fits re_mock_method1 before \<or> fits re_mock_method2 before2 \<or> hit re_std_function before)))
       else Inr False)"

text \<open>Up to four lines before, without the first line of the file: \<open>xrange(linenum - 1, max(0, linenum - 5), -1)\<close>.\<close>

definition lines_back :: "nat \<Rightarrow> nat \<Rightarrow> nat list" where
  "lines_back linenum k = rev [max 1 (linenum + 1 - k) ..< linenum]"

definition cast_context :: "cleansed_lines \<Rightarrow> nat \<Rightarrow> string \<Rightarrow> string py" where
  "cast_context cl linenum context =
     py_bind (join_lines (elided cl) (rev (lines_back linenum 5))) (\<lambda>before. Inr (before @ context))"

text \<open>The messages and whether one was emitted.\<close>

definition CheckCStyleCast ::
  "string \<Rightarrow> cleansed_lines \<Rightarrow> nat \<Rightarrow> string \<Rightarrow> regexp \<Rightarrow> (bool \<times> lint_msg list) py" where
  "CheckCStyleCast filename cl linenum cast_type pattern =
     py_bind (elided_at cl (int linenum)) (\<lambda>line.
       case re_search pattern line of
         None \<Rightarrow> Inr (False, [])
       | Some m \<Rightarrow>
           let context = take (fst (the (map_of (m_caps m) 1)) - 1) line in
           if fits re_keyword_context context then Inr (False, [])
           else py_bind (cast_context cl linenum context) (\<lambda>context.
             if fits re_macro_context context
                \<or> endswith context '' operator++'' \<or> endswith context '' operator--''
                \<or> fits re_cast_remainder (drop (m_end m) line)
             then Inr (False, [])
             else Inr (True, lint True filename linenum ''readability/casting'' 4
                    (''Using C-style cast.  Use '' @ cast_type @ ''<'' @ group_text m 1 @ ''>(...) instead''))))"

text \<open>\<open>matched_type\<close> is one of the words of the pattern, so it matches just itself.\<close>

definition re_using_alias :: "string \<Rightarrow> regexp" where
  "re_using_alias matched_type =
     Seqs [Star Spc, Str ''using'', Plus Spc, Plus NSpc, Star Spc, Str ''='', Star Spc, Str matched_type]"

definition re_placement_new :: "string \<Rightarrow> regexp" where
  "re_placement_new matched_type = Seqs [Str ''new('', Plus NSpc, Str '')'', Star Spc, Str matched_type]"

text \<open>\<open>None\<close> is the early return for an array.\<close>

definition function_cast :: "string \<Rightarrow> nat \<Rightarrow> string \<Rightarrow> match_obj \<Rightarrow> lint_msg list option" where
  "function_cast filename linenum line m =
     (let matched_type = group_text m 2; matched_funcptr = group_text m 3 in
      if fits re_cast_array matched_funcptr then None
      else Some (lint (group m 1 = None
                       \<and> \<not> (matched_funcptr \<noteq> [] \<and> (fits re_cast_funcptr matched_funcptr \<or> startswith matched_funcptr ''(*)''))
                       \<and> \<not> fits (re_using_alias matched_type) line \<and> \<not> hit (re_placement_new matched_type) line)
                   filename linenum ''readability/casting'' 4
                   (''Using deprecated casting style.  Use static_cast<'' @ matched_type @ ''>(...) instead'')))"

definition cast_dereferenced :: "cleansed_lines \<Rightarrow> nat \<Rightarrow> string \<Rightarrow> bool py" where
  "cast_dereferenced cl linenum line =
     (case re_match re_address_named_cast line of
        None \<Rightarrow> Inr False
      | Some m \<Rightarrow>
          py_bind (CloseExpression cl linenum (length (group_text m 1))) (\<lambda>(_, y1, x1).
            if x1 < 0 then Inr False
            else py_bind (elided_at cl (int y1)) (\<lambda>line1.
              py_bind (py_nth line1 x1) (\<lambda>c.
                if c \<noteq> CHR ''('' then Inr False
                else py_bind (CloseExpression cl y1 (nat x1)) (\<lambda>(_, y2, x2).
                  if x2 < 0 then Inr False
                  else py_bind (elided_at cl (int y2)) (\<lambda>line2.
                    py_bind (if y2 + 1 < NumLines cl then elided_at cl (int (y2 + 1)) else Inr []) (\<lambda>after.
                      Inr (fits re_arrow_bracket (drop (nat x2) line2 @ after))))))))) "

definition address_msgs :: "string \<Rightarrow> cleansed_lines \<Rightarrow> nat \<Rightarrow> string \<Rightarrow> lint_msg list py" where
  "address_msgs filename cl linenum line =
     (if hit re_address_cast line then
        py_bind (cast_dereferenced cl linenum line) (\<lambda>parenthesis_error.
          Inr (if parenthesis_error
               then lint True filename linenum ''readability/casting'' 4
                      (''Are you taking an address of something dereferenced '' @
                       ''from a cast?  Wrapping the dereferenced expression in '' @
                       ''parentheses will make the binding more obvious'')
               else lint True filename linenum ''runtime/casting'' 4
                      (''Are you taking an address of a cast?  '' @
                       ''This is dangerous: could be a temp var.  '' @
                       ''Take the address before doing the cast, rather than after'')))
      else Inr [])"

definition c_style_casts :: "string \<Rightarrow> cleansed_lines \<Rightarrow> nat \<Rightarrow> bool \<Rightarrow> lint_msg list py" where
  "c_style_casts filename cl linenum expecting_function =
     py_bind (if expecting_function then Inr (False, [])
              else CheckCStyleCast filename cl linenum ''static_cast'' re_static_cast) (\<lambda>(_, ms1).
     py_bind (CheckCStyleCast filename cl linenum ''const_cast'' re_const_cast) (\<lambda>(b, ms2).
     py_bind (if b then Inr (False, [])
              else CheckCStyleCast filename cl linenum ''reinterpret_cast'' re_reinterpret_cast) (\<lambda>(_, ms3).
       Inr (ms1 @ ms2 @ ms3))))"

definition CheckCasts :: "string \<Rightarrow> cleansed_lines \<Rightarrow> nat \<Rightarrow> lint_msg list py" where
  "CheckCasts filename cl linenum =
     py_bind (elided_at cl (int linenum)) (\<lambda>line.
     py_bind (ExpectingFunctionArgs cl linenum) (\<lambda>expecting_function.
       case (case re_search re_fn_cast line of
               None \<Rightarrow> Some []
             | Some m \<Rightarrow> if expecting_function then Some [] else function_cast filename linenum line m) of
         None \<Rightarrow> Inr []
       | Some ms1 \<Rightarrow>
           py_bind (c_style_casts filename cl linenum expecting_function) (\<lambda>ms2.
           py_bind (address_msgs filename cl linenum line) (\<lambda>ms3. Inr (ms1 @ ms2 @ ms3)))))"

section \<open>The dispatch of CheckLanguage\<close>

definition plain_language ::
  "ext_state \<Rightarrow> string \<Rightarrow> cleansed_lines \<Rightarrow> nat \<Rightarrow> string \<Rightarrow> string \<Rightarrow> lint_msg list py" where
  \<open>plain_language exts filename cl linenum file_extension line =
     py_bind (CheckCasts filename cl linenum) (\<lambda>ms1.
     py_bind (CheckGlobalStatic filename cl linenum) (\<lambda>ms2.
     py_bind (CheckPrintf filename cl linenum) (\<lambda>ms3.
     py_bind (format_msgs filename linenum line) (\<lambda>ms4.
       Inr (ms1 @ ms2 @ ms3 @ int_msgs filename linenum line
         @ lint (hit re_unary_ampersand line) filename linenum ''runtime/operator'' 4
             ''Unary operator& is dangerous.  Do not use it.''
         @ lint (hit re_close_if line) filename linenum ''readability/braces'' 4
             (''Did you mean "else if"? If not, start a new line for "if".'')
         @ ms4 @ memset_msgs filename linenum line @ using_msgs filename linenum line
         @ array_msgs filename linenum line
         @ lint (IsHeaderExtension exts file_extension \<and> hit re_unnamed_namespace line \<and> last line \<noteq> backslash)
             filename linenum ''build/namespaces'' 4 unnamed_namespace_text)))))\<close>

definition CheckLanguage ::
  "set_order \<Rightarrow> ext_state \<Rightarrow> file_sys \<Rightarrow> string \<Rightarrow> cleansed_lines \<Rightarrow> nat \<Rightarrow> string \<Rightarrow> include_state
     \<Rightarrow> (include_state \<times> lint_msg list) py" where
  "CheckLanguage ord exts fs filename cl linenum file_extension st =
     py_bind (elided_at cl (int linenum)) (\<lambda>line.
       if line = [] then Inr (st, [])
       else if hit RE_PATTERN_INCLUDE line then CheckIncludeLine ord exts fs filename cl linenum st
       else py_bind (case re_match re_pp_conditional line of
                       None \<Rightarrow> Inr st
                     | Some m \<Rightarrow> ResetSection (group_text m 1) st) (\<lambda>st'.
            py_bind (plain_language exts filename cl linenum file_extension line) (\<lambda>ms. Inr (st', ms))))"

section \<open>Non-const references\<close>

text \<open>\<open>xrange(linenum, max(-1, linenum - 10), -1)\<close>\<close>

definition ten_back :: "nat \<Rightarrow> nat list" where
  "ten_back linenum = rev [linenum + 1 - 10 ..< linenum + 1]"

fun derived_from :: "cleansed_lines \<Rightarrow> nat list \<Rightarrow> bool py" where
  "derived_from cl [] = Inr False"
| "derived_from cl (i # is) =
     py_bind (elided_at cl (int i)) (\<lambda>l.
       case re_match re_fn_open l of
         None \<Rightarrow> derived_from cl is
       | Some m \<Rightarrow>
           py_bind (CloseExpression cl i (length (group_text m 1))) (\<lambda>(line, _, closing_paren).
             Inr (0 \<le> closing_paren \<and> hit re_override (drop (nat closing_paren) line))))"

definition IsDerivedFunction :: "cleansed_lines \<Rightarrow> nat \<Rightarrow> bool py" where
  "IsDerivedFunction cl linenum = derived_from cl (ten_back linenum)"

fun out_of_line_from :: "cleansed_lines \<Rightarrow> nat list \<Rightarrow> bool py" where
  "out_of_line_from cl [] = Inr False"
| "out_of_line_from cl (i # is) =
     py_bind (elided_at cl (int i)) (\<lambda>l.
       if fits re_fn_open l then Inr (fits re_out_of_line l) else out_of_line_from cl is)"

definition IsOutOfLineMethodDefinition :: "cleansed_lines \<Rightarrow> nat \<Rightarrow> bool py" where
  "IsOutOfLineMethodDefinition cl linenum = out_of_line_from cl (ten_back linenum)"

text \<open>\<open>xrange(linenum, 1, -1)\<close>\<close>

fun initializer_from :: "cleansed_lines \<Rightarrow> nat \<Rightarrow> nat list \<Rightarrow> bool py" where
  "initializer_from cl linenum [] = Inr False"
| "initializer_from cl linenum (i # is) =
     py_bind (elided_at cl (int i)) (\<lambda>l.
       let line = (if i = linenum
                   then (case re_match re_body_open l of None \<Rightarrow> l | Some m \<Rightarrow> group_text m 1) else l)
       in if hit re_init_colon line then Inr True
          else if hit re_close_comma line then Inr True
          else if hit re_brace_semi_end line then Inr False
          else initializer_from cl linenum is)"

definition IsInitializerList :: "cleansed_lines \<Rightarrow> nat \<Rightarrow> bool py" where
  "IsInitializerList cl linenum = initializer_from cl linenum (rev [2 ..< linenum + 1])"

fun join_stripped :: "string list \<Rightarrow> nat list \<Rightarrow> string py" where
  "join_stripped els [] = Inr []"
| "join_stripped els (i # is) =
     py_bind (py_nth els (int i)) (\<lambda>l. py_bind (join_stripped els is) (\<lambda>r. Inr (strip l @ r)))"

text \<open>The line, joined with what comes before if a type is split over lines.\<close>

definition split_type_prefix :: "string \<Rightarrow> string \<Rightarrow> string option" where
  "split_type_prefix line before =
     (if fits re_cont_type line then map_option (\<lambda>m. group_text m 1) (re_search re_prev_type before)
      else if fits re_cont_ident line then map_option (\<lambda>m. group_text m 1) (re_search re_prev_scope before)
      else None)"

definition rejoin_type :: "cleansed_lines \<Rightarrow> nat \<Rightarrow> string \<Rightarrow> string py" where
  "rejoin_type cl linenum line =
     (if linenum \<le> 1 then Inr line
      else py_bind (elided_at cl (int linenum - 1)) (\<lambda>before.
        case split_type_prefix line before of
          Some previous \<Rightarrow> Inr (previous @ lstrip line)
        | None \<Rightarrow>
            (case rfind_char (CHR ''>'') line of
               None \<Rightarrow> Inr line
             | Some endpos \<Rightarrow>
                 py_bind (ReverseCloseExpression cl linenum endpos) (\<lambda>(_, startline, startpos).
                   if startpos > -1 \<and> startline < linenum
                   then join_stripped (elided cl) [startline ..< linenum + 1] else Inr line))))"

text \<open>\<open>xrange(linenum - 1, max(0, linenum - 10), -1)\<close>: whether an initializer list starts there.\<close>

fun initializer_before :: "cleansed_lines \<Rightarrow> nat list \<Rightarrow> bool py" where
  "initializer_before cl [] = Inr False"
| "initializer_before cl (i # is) =
     py_bind (elided_at cl (int i)) (\<lambda>previous_line.
       if \<not> hit re_paren_comma_end previous_line then Inr False
       else if fits re_colon_start previous_line then Inr True
       else initializer_before cl is)"

definition whitelisted :: "cleansed_lines \<Rightarrow> nat \<Rightarrow> string \<Rightarrow> bool py" where
  "whitelisted cl linenum line =
     (if hit re_whitelisted line then Inr True
      else if hit re_call_open_end line then Inr False
      else py_bind (if 0 < linenum then py_bind (elided_at cl (int linenum - 1)) (\<lambda>l. Inr (hit re_whitelisted l))
                    else Inr False) (\<lambda>b.
        if b then Inr True
        else if 1 < linenum then py_bind (elided_at cl (int linenum - 2)) (\<lambda>l. Inr (hit re_whitelisted l))
        else Inr False))"

definition reference_msgs :: "string \<Rightarrow> nat \<Rightarrow> string \<Rightarrow> lint_msg list" where
  "reference_msgs filename linenum line =
     concat (map (\<lambda>m. let parameter = group_text m 1 in
         lint (\<not> fits RE_PATTERN_CONST_REF_PARAM parameter \<and> \<not> fits RE_PATTERN_REF_STREAM_PARAM parameter)
           filename linenum ''runtime/references'' 2
           (''Is this a non-const reference? If so, make const or use a pointer: '' @
            re_sub re_spaces_lt ''<'' parameter))
       (finditer_from RE_PATTERN_REF_PARAM [] (re_sub re_fn_body '' '' line)))"

definition in_function_body :: "nesting_state \<Rightarrow> bool" where
  "in_function_body st \<longleftrightarrow>
     (case previous_stack_top st of
        None \<Rightarrow> False
      | Some b \<Rightarrow> \<not> is_class b \<and> \<not> is_namespace b)"

definition reference_allowed :: "cleansed_lines \<Rightarrow> nat \<Rightarrow> string \<Rightarrow> nesting_state \<Rightarrow> bool py" where
  "reference_allowed cl linenum line st =
     (if in_function_body st then Inr True
      else py_bind (initializer_before cl (lines_back linenum 10)) (\<lambda>b.
        if b \<or> hit re_bs_ws_end line then Inr True
        else py_bind (IsInitializerList cl linenum) (\<lambda>b.
          if b then Inr True else whitelisted cl linenum line)))"

definition CheckForNonConstReference ::
  "string \<Rightarrow> cleansed_lines \<Rightarrow> nat \<Rightarrow> nesting_state \<Rightarrow> lint_msg list py" where
  "CheckForNonConstReference filename cl linenum st =
     py_bind (elided_at cl (int linenum)) (\<lambda>line0.
       if CHR ''&'' \<notin> set line0 then Inr []
       else py_bind (IsDerivedFunction cl linenum) (\<lambda>derived.
         if derived then Inr []
         else py_bind (IsOutOfLineMethodDefinition cl linenum) (\<lambda>out_of_line.
           if out_of_line then Inr []
           else py_bind (rejoin_type cl linenum line0) (\<lambda>line.
                py_bind (reference_allowed cl linenum line st) (\<lambda>allowed.
                  Inr (if allowed then [] else reference_msgs filename linenum line))))))"

section \<open>Virtual, override and final\<close>

text \<open>The search for the parameter list: the line and the column after it, if it is found.\<close>

fun parameter_end :: "cleansed_lines \<Rightarrow> nat list \<Rightarrow> nat \<Rightarrow> (nat \<times> int) option py" where
  "parameter_end cl [] start_col = Inr None"
| "parameter_end cl (start_line # ns) start_col =
     py_bind (elided_at cl (int start_line)) (\<lambda>l.
       case re_match re_param_list (drop start_col l) of
         Some m \<Rightarrow>
           py_bind (CloseExpression cl start_line (start_col + length (group_text m 1))) (\<lambda>(_, end_line, end_col).
             Inr (if end_col < 0 then None else Some (end_line, end_col)))
       | None \<Rightarrow> parameter_end cl ns 0)"

fun redundant_msgs :: "string \<Rightarrow> cleansed_lines \<Rightarrow> nat \<Rightarrow> nat list \<Rightarrow> nat \<Rightarrow> lint_msg list py" where
  "redundant_msgs filename cl linenum [] end_col = Inr []"
| "redundant_msgs filename cl linenum (i # is) end_col =
     py_bind (elided_at cl (int i)) (\<lambda>l.
       let line = drop end_col l;
           ms = (case re_search re_override_final line of
                   None \<Rightarrow> []
                 | Some m \<Rightarrow> lint True filename linenum ''readability/inheritance'' 4
                     ([dquote] @ ''virtual'' @ [dquote] @ '' is redundant since function is already declared as ''
                      @ [dquote] @ group_text m 1 @ [dquote]))
       in if hit re_nonword_end line then Inr ms
          else py_bind (redundant_msgs filename cl linenum is 0) (\<lambda>rest. Inr (ms @ rest)))"

definition CheckRedundantVirtual :: "string \<Rightarrow> cleansed_lines \<Rightarrow> nat \<Rightarrow> lint_msg list py" where
  "CheckRedundantVirtual filename cl linenum =
     py_bind (elided_at cl (int linenum)) (\<lambda>line.
       case re_match re_virtual line of
         None \<Rightarrow> Inr []
       | Some virtual \<Rightarrow>
           if hit re_access_end (group_text virtual 1) \<or> fits re_access_start (group_text virtual 3)
              \<or> fits re_lone_colon line
           then Inr []
           else py_bind (parameter_end cl [linenum ..< min (linenum + 3) (NumLines cl)]
                           (length (group_text virtual 2))) (\<lambda>found.
             case found of
               None \<Rightarrow> Inr []
             | Some (end_line, end_col) \<Rightarrow>
                 redundant_msgs filename cl linenum [end_line ..< min (end_line + 3) (NumLines cl)] (nat end_col)))"

definition override_fragment :: "cleansed_lines \<Rightarrow> nat \<Rightarrow> string \<Rightarrow> string option py" where
  "override_fragment cl linenum line =
     (case rfind_char (CHR '')'') line of
        Some declarator_end \<Rightarrow> Inr (Some (drop declarator_end line))
      | None \<Rightarrow>
          if 1 < linenum then
            py_bind (elided_at cl (int linenum - 1)) (\<lambda>before.
              Inr (if CHR '')'' \<in> set before then Some line else None))
          else Inr None)"

definition CheckRedundantOverrideOrFinal :: "string \<Rightarrow> cleansed_lines \<Rightarrow> nat \<Rightarrow> lint_msg list py" where
  \<open>CheckRedundantOverrideOrFinal filename cl linenum =
     py_bind (elided_at cl (int linenum)) (\<lambda>line.
     py_bind (override_fragment cl linenum line) (\<lambda>found.
       case found of
         None \<Rightarrow> Inr []
       | Some fragment \<Rightarrow>
           Inr (lint (hit re_override fragment \<and> hit re_final fragment) filename linenum ''readability/inheritance'' 4
                  (''"override" is redundant since function is already declared as "final"''))))\<close>

end
