(* ===== verification/Process_File.thy ===== *)
theory Process_File
  imports Error_Report Check_Language
begin

text \<open>
  The run over one file: \<open>ProcessLine\<close> with its parser state, \<open>ProcessFileData\<close>,
  \<open>ProcessConfigOverrides\<close> and \<open>ProcessFile\<close>.

  A check returns what it does to the error handler as a list of actions, and \<open>run_acts\<close>
  hands them to the handler in order.  An exception that a check raises ends the run; the
  messages printed before it are not part of the result.

  What the run reads from outside is the record \<open>world\<close>: the order in which a set is
  iterated, the compiler of the patterns in configuration files, and the files.
\<close>

record world =
  w_order :: set_order
  w_compile :: "string \<Rightarrow> regexp option"  \<comment> \<open>\<open>re.compile\<close>\<close>
  w_text :: "string \<Rightarrow> string option"  \<comment> \<open>the decoded text of a file, \<open>None\<close> for \<open>IOError\<close>\<close>
  w_lines :: "string \<Rightarrow> string list option"  \<comment> \<open>the lines of an opened file, likewise\<close>
  w_isfile :: "string \<Rightarrow> bool"

record run_state =
  r_env :: lint_env
  r_exts :: ext_state
  r_fs :: file_sys  \<comment> \<open>with \<open>_root\<close> and \<open>_repository\<close>\<close>
  r_line_length :: int

definition on_cstate :: "(cpplint_state \<Rightarrow> cpplint_state) \<Rightarrow> run_state \<Rightarrow> run_state" where
  "on_cstate f run = run\<lparr>r_env := (r_env run)\<lparr>cstate := f (cstate (r_env run))\<rparr>\<rparr>"

section \<open>Actions\<close>

fun report_all :: "lint_msg list \<Rightarrow> lint_env \<Rightarrow> lint_env py" where
  "report_all [] env = Inr env"
| "report_all (m # ms) env = py_bind (Error m env) (report_all ms)"

fun run_acts :: "string \<Rightarrow> lint_act list \<Rightarrow> lint_env \<Rightarrow> lint_env py" where
  "run_acts filename [] env = Inr env"
| "run_acts filename (Report m # acts) env = py_bind (Error m env) (run_acts filename acts)"
| "run_acts filename (ParseNolint raw n # acts) env =
     (let (tab, ms) = ParseNolintSuppressions filename raw n (nolint_tab env)
      in py_bind (report_all ms (env\<lparr>nolint_tab := tab\<rparr>)) (run_acts filename acts))"

section \<open>ProcessLine\<close>

record parse_state =
  p_include :: include_state
  p_function :: fn_state
  p_nesting :: nesting_state

definition init_parse :: parse_state where
  "init_parse = \<lparr>p_include = init_include_state, p_function = init_fn_state, p_nesting = init_nesting\<rparr>"

type_synonym extra_check = "string \<Rightarrow> cleansed_lines \<Rightarrow> nat \<Rightarrow> lint_act list py"

text \<open>The checks after \<open>CheckLanguage\<close>.\<close>

definition late_checks ::
  "extra_check list \<Rightarrow> string \<Rightarrow> cleansed_lines \<Rightarrow> nat \<Rightarrow> nesting_state \<Rightarrow> lint_act list py list" where
  "late_checks extra_check_functions filename cl line st =
     [reports (CheckForNonConstReference filename cl line st),
      reports (CheckForNonStandardConstructs filename cl line st),
      reports (CheckVlogArguments filename cl line),
      reports (CheckPosixThreading filename cl line),
      reports (CheckInvalidIncrement filename cl line),
      reports (CheckMakePairUsesDeduction filename cl line),
      reports (CheckRedundantVirtual filename cl line),
      reports (CheckRedundantOverrideOrFinal filename cl line)]
     @ map (\<lambda>check_fn. check_fn filename cl line) extra_check_functions"

definition ProcessLine ::
  "world \<Rightarrow> run_state \<Rightarrow> extra_check list \<Rightarrow> string \<Rightarrow> string \<Rightarrow> cleansed_lines \<Rightarrow> nat \<Rightarrow> parse_state
     \<Rightarrow> (parse_state \<times> lint_act list) py" where
  "ProcessLine w run extras filename file_extension cl line ps =
     py_bind (py_nth (raw_lines cl) (int line)) (\<lambda>raw.
     py_bind (NestingState_Update filename cl line (p_nesting ps)) (\<lambda>(st, ms1).
     py_bind (CheckForNamespaceIndentation filename st cl line) (\<lambda>ms2.
       let acts = ParseNolint raw (int line) # map Report (ms1 @ ms2) in
       if InAsmBlock st then Inr (ps\<lparr>p_nesting := st\<rparr>, acts)
       else
         py_bind (CheckForFunctionLengths (verbose_level (cstate (r_env run))) filename cl line (p_function ps)) (\<lambda>(fn, ms3).
         py_bind (CheckForMultilineCommentsAndStrings filename cl line) (\<lambda>ms4.
         py_bind (CheckStyle (r_fs run) (r_exts run) (r_line_length run) filename cl line file_extension st) (\<lambda>acts5.
         py_bind (CheckLanguage (w_order w) (r_exts run) (r_fs run) filename cl line file_extension (p_include ps)) (\<lambda>(inc, ms6).
         py_bind (run_checks (late_checks extras filename cl line st)) (\<lambda>acts7.
           Inr (\<lparr>p_include = inc, p_function = fn, p_nesting = st\<rparr>,
                acts @ map Report (ms3 @ ms4) @ acts5 @ map Report ms6 @ acts7))))))))) "

text \<open>The loop over the lines, with the handler.\<close>

fun process_lines ::
  "world \<Rightarrow> run_state \<Rightarrow> extra_check list \<Rightarrow> string \<Rightarrow> string \<Rightarrow> cleansed_lines \<Rightarrow> nat list
     \<Rightarrow> parse_state \<times> lint_env \<Rightarrow> (parse_state \<times> lint_env) py" where
  "process_lines w run extras filename file_extension cl [] (ps, env) = Inr (ps, env)"
| "process_lines w run extras filename file_extension cl (line # ls) (ps, env) =
     py_bind (ProcessLine w run extras filename file_extension cl line ps) (\<lambda>(ps', acts).
     py_bind (run_acts filename acts env) (\<lambda>env1.
     py_bind (FlagCxx11Features filename cl line) (\<lambda>ms.
     py_bind (report_all ms env1) (\<lambda>env2.
       process_lines w run extras filename file_extension cl ls (ps', env2)))))"

section \<open>ProcessFileData\<close>

text \<open>The replacement character is not a Latin-1 character, so the first test never succeeds here.\<close>

definition has_code :: "nat \<Rightarrow> string \<Rightarrow> bool" where
  "has_code k line \<longleftrightarrow> (\<exists>c \<in> set line. chr_code c = k)"

fun bad_characters :: "string \<Rightarrow> string list \<Rightarrow> nat \<Rightarrow> lint_msg list" where
  "bad_characters filename [] linenum = []"
| "bad_characters filename (line # ls) linenum =
     lint (has_code 65533 line) filename linenum ''readability/utf8'' 5
       ''Line contains invalid UTF-8 (or Unicode replacement character).''
     @ lint (has_code 0 line) filename linenum ''readability/nul'' 5 ''Line contains NUL byte.''
     @ bad_characters filename ls (linenum + 1)"

text \<open>For evaluation: no character has a code from 256 on.\<close>

lemma has_code_limit: "256 \<le> k \<Longrightarrow> \<not> has_code k line"
proof
  assume "256 \<le> k" and "has_code k line"
  then obtain c :: char where "256 \<le> (of_char c :: nat)" by (auto simp: has_code_def)
  with nat_of_char_less_256 [of c] show False by linarith
qed

lemma bad_characters_code [code]:
  "bad_characters f [] n = []"
  "bad_characters f (line # ls) n = lint (has_code 0 line) f n ''readability/nul'' 5 ''Line contains NUL byte.''
     @ bad_characters f ls (n + 1)"
  by (simp_all add: has_code_limit lint_def)

definition CheckForBadCharacters :: "string \<Rightarrow> string list \<Rightarrow> lint_msg list" where
  "CheckForBadCharacters filename ls = bad_characters filename ls 0"

definition marked_lines :: "string list \<Rightarrow> string list" where
  "marked_lines ls = [''// marker so line numbers and indices both start at 1''] @ ls @
     [''// marker so line numbers end in a known way'']"

text \<open>The checks of the whole file before and after the loop.\<close>

definition start_file :: "string \<Rightarrow> string list \<Rightarrow> lint_env \<Rightarrow> (string list \<times> lint_env) py" where
  "start_file filename ls env =
     py_bind (report_all (CheckForCopyright filename ls)
                (env\<lparr>nolint_tab := ResetNolintSuppressions (nolint_tab env)\<rparr>)) (\<lambda>env1.
       let env2 = env1\<lparr>nolint_tab := ProcessGlobalSuppresions ls (nolint_tab env1)\<rparr>;
           (ls', ms) = RemoveMultiLineComments filename ls
       in py_bind (report_all ms env2) (\<lambda>env3. Inr (ls', env3)))"

definition guard_acts :: "run_state \<Rightarrow> string \<Rightarrow> string \<Rightarrow> cleansed_lines \<Rightarrow> lint_act list py" where
  "guard_acts run filename file_extension cl =
     (if IsHeaderExtension (r_exts run) file_extension
      then terminating (CheckForHeaderGuard (r_fs run) filename cl) else Inr [])"

definition own_header_msgs :: "world \<Rightarrow> run_state \<Rightarrow> string \<Rightarrow> string \<Rightarrow> include_state \<Rightarrow> lint_msg list py" where
  "own_header_msgs w run filename file_extension st =
     (if IsSourceExtension (r_exts run) file_extension
      then terminating (CheckHeaderFileIncluded (r_fs run) (w_order w (GetHeaderExtensions (r_exts run))) filename st)
      else Inr [])"

definition final_checks ::
  "world \<Rightarrow> run_state \<Rightarrow> string \<Rightarrow> string \<Rightarrow> string list \<Rightarrow> cleansed_lines \<Rightarrow> parse_state \<Rightarrow> lint_msg list py" where
  "final_checks w run filename file_extension ls cl ps =
     py_bind (CheckForIncludeWhatYouUse (w_order w) (r_exts run) (r_fs run) (w_lines w) filename cl (p_include ps)) (\<lambda>ms1.
     py_bind (own_header_msgs w run filename file_extension (p_include ps)) (\<lambda>ms2.
       Inr (CheckCompletedBlocks filename (p_nesting ps) @ ms1 @ ms2
            @ CheckForBadCharacters filename ls @ CheckForNewlineAtEOF filename ls)))"

definition ProcessFileData ::
  "world \<Rightarrow> run_state \<Rightarrow> extra_check list \<Rightarrow> string \<Rightarrow> string \<Rightarrow> string list \<Rightarrow> lint_env py" where
  "ProcessFileData w run extras filename file_extension ls =
     py_bind (start_file filename (marked_lines ls) (r_env run)) (\<lambda>(ls', env1).
     py_bind (CleansedLines ls') (\<lambda>cl.
     py_bind (guard_acts run filename file_extension cl) (\<lambda>acts.
     py_bind (run_acts filename acts env1) (\<lambda>env2.
     py_bind (process_lines w run extras filename file_extension cl [0 ..< NumLines cl] (init_parse, env2)) (\<lambda>(ps, env3).
     py_bind (final_checks w run filename file_extension ls' cl ps) (\<lambda>ms.
       report_all ms env3))))))"

section \<open>ProcessConfigOverrides\<close>

text \<open>\<open>int(s)\<close>\<close>

fun int_digits :: "string \<Rightarrow> int \<Rightarrow> bool \<Rightarrow> int option" where
  "int_digits [] acc digit_before = (if digit_before then Some acc else None)"
| "int_digits (c # cs) acc digit_before =
     (if isdigit c then int_digits cs (10 * acc + (int (chr_code c) - 48)) True
      else if c = CHR ''_'' \<and> digit_before then int_digits cs acc False
      else None)"

definition py_int :: "string \<Rightarrow> int option" where
  "py_int s =
     (case strip s of
        [] \<Rightarrow> None
      | c # cs \<Rightarrow>
          if c = CHR ''-'' then map_option uminus (int_digits cs 0 False)
          else if c = CHR ''+'' then int_digits cs 0 False
          else int_digits (c # cs) 0 False)"

record cfg_scan =
  c_run :: run_state
  c_filters :: "string list"
  c_keep :: bool  \<comment> \<open>\<open>keep_looking\<close>\<close>

definition excluded_text :: "string \<Rightarrow> string \<Rightarrow> string \<Rightarrow> string \<Rightarrow> string" where
  \<open>excluded_text filename cfg_file base_name val =
     ''Ignoring "'' @ filename @ ''": file excluded by "'' @ cfg_file @ ''". File path component "'' @ base_name @
     ''" matches pattern "'' @ val @ ''"'' @ [newline]\<close>

text \<open>\<open>exclude_files\<close>; the result says whether the function returns \<open>False\<close>.\<close>

definition cfg_exclude ::
  "world \<Rightarrow> string \<Rightarrow> string \<Rightarrow> string \<Rightarrow> string \<Rightarrow> cfg_scan \<Rightarrow> (cfg_scan \<times> bool) py" where
  "cfg_exclude w filename cfg_file base_name val c =
     (if base_name = [] then Inr (c, False)
      else case w_compile w val of
        None \<Rightarrow> Inl ReError
      | Some pattern \<Rightarrow>
          if \<not> fits pattern base_name then Inr (c, False)
          else if quiet (cstate (r_env (c_run c))) then Inr (c, True)
          else Inr (c\<lparr>c_run := on_cstate (PrintInfo (excluded_text filename cfg_file base_name val)) (c_run c)\<rparr>, True))"

definition on_run :: "(run_state \<Rightarrow> run_state) \<Rightarrow> cfg_scan \<Rightarrow> cfg_scan" where
  "on_run f c = c\<lparr>c_run := f (c_run c)\<rparr>"

definition cfg_setting :: "string \<Rightarrow> string \<Rightarrow> string \<Rightarrow> cfg_scan \<Rightarrow> cfg_scan" where
  "cfg_setting cfg_file name val c =
     (if name = ''set noparent'' then c\<lparr>c_keep := False\<rparr>
      else if name = ''filter'' then c\<lparr>c_filters := c_filters c @ [val]\<rparr>
      else if name = ''linelength'' then
        (case py_int val of
           Some n \<Rightarrow> on_run (\<lambda>run. run\<lparr>r_line_length := n\<rparr>) c
         | None \<Rightarrow> on_run (on_cstate (PrintError ''Line length must be numeric.'')) c)
      else if name = ''extensions'' then on_run (\<lambda>run. run\<lparr>r_exts := ProcessExtensionsOption val (r_exts run)\<rparr>) c
      else if name = ''root'' then
        on_run (\<lambda>run. run\<lparr>r_fs := (r_fs run)\<lparr>opt_root := Some (path_join (path_dirname cfg_file) val)\<rparr>\<rparr>) c
      else if name = ''headers'' then on_run (\<lambda>run. run\<lparr>r_exts := ProcessHppHeadersOption val (r_exts run)\<rparr>) c
      else on_run (on_cstate (PrintError
             (''Invalid configuration option ('' @ name @ '') in file '' @ cfg_file @ [newline]))) c)"

definition cfg_line ::
  "world \<Rightarrow> string \<Rightarrow> string \<Rightarrow> string \<Rightarrow> string \<Rightarrow> cfg_scan \<Rightarrow> (cfg_scan \<times> bool) py" where
  "cfg_line w filename cfg_file base_name text c =
     (let line = takeWhile (\<lambda>x. x \<noteq> CHR ''#'') text in
      if strip line = [] then Inr (c, False)
      else
        let name = strip (takeWhile (\<lambda>x. x \<noteq> CHR ''='') line);
            val = strip (tl (dropWhile (\<lambda>x. x \<noteq> CHR ''='') line))
        in if name = ''exclude_files'' then cfg_exclude w filename cfg_file base_name val c
           else Inr (cfg_setting cfg_file name val c, False))"

fun cfg_lines ::
  "world \<Rightarrow> string \<Rightarrow> string \<Rightarrow> string \<Rightarrow> string list \<Rightarrow> cfg_scan \<Rightarrow> (cfg_scan \<times> bool) py" where
  "cfg_lines w filename cfg_file base_name [] c = Inr (c, False)"
| "cfg_lines w filename cfg_file base_name (l # ls) c =
     py_bind (cfg_line w filename cfg_file base_name l c) (\<lambda>(c', excluded).
       if excluded then Inr (c', True) else cfg_lines w filename cfg_file base_name ls c')"

definition cfg_unreadable_text :: "string \<Rightarrow> string" where
  "cfg_unreadable_text cfg_file =
     ''Skipping config file '' @ [squote] @ cfg_file @ [squote] @ '': Can'' @ [squote] @ ''t open for reading'' @ [newline]"

lemma path_dirname_lt:
  assumes "path_tail p \<noteq> []"
  shows "length (path_dirname p) < length p"
proof -
  obtain ys where "path_head p = rstrip_slash (path_head p) @ ys" using rstrip_slash_split [of "path_head p"] by blast
  from arg_cong [OF this, of length] have "length (rstrip_slash (path_head p)) \<le> length (path_head p)" by simp
  then have "length (path_dirname p) \<le> length (path_head p)" by (simp add: path_dirname_def Let_def)
  moreover have "length p = length (path_head p) + length (path_tail p)"
    using arg_cong [OF path_head_tail [of p], of length] by simp
  moreover have "0 < length (path_tail p)" using assms by simp
  ultimately show ?thesis by linarith
qed

function cfg_climb :: "world \<Rightarrow> string \<Rightarrow> string \<Rightarrow> cfg_scan \<Rightarrow> (cfg_scan \<times> bool) py" where
  "cfg_climb w filename abs_filename c =
     (if \<not> c_keep c \<or> path_tail abs_filename = [] then Inr (c, False)
      else
        let abs_path = path_dirname abs_filename; base_name = path_tail abs_filename;
            cfg_file = path_join abs_path ''CPPLINT.cfg''
        in if \<not> w_isfile w cfg_file then cfg_climb w filename abs_path c
           else case w_lines w cfg_file of
             None \<Rightarrow> Inr (on_run (on_cstate (PrintError (cfg_unreadable_text cfg_file))) (c\<lparr>c_keep := False\<rparr>), False)
           | Some ls \<Rightarrow>
               py_bind (cfg_lines w filename cfg_file base_name ls c) (\<lambda>(c', excluded).
                 if excluded then Inr (c', True) else cfg_climb w filename abs_path c'))"
  by pat_completeness auto
termination
  by (relation "measure (\<lambda>(w, filename, p, c). length p)") (auto simp: path_dirname_lt)

declare cfg_climb.simps [simp del]

fun add_filters :: "string list \<Rightarrow> run_state \<Rightarrow> run_state py" where
  "add_filters [] run = Inr run"
| "add_filters (f # fs) run =
     (case AddFilters f (cstate (r_env run)) of
        (st, None) \<Rightarrow> add_filters fs (on_cstate (\<lambda>_. st) run)
      | (st, Some e) \<Rightarrow> Inl e)"

definition ProcessConfigOverrides :: "world \<Rightarrow> string \<Rightarrow> run_state \<Rightarrow> (run_state \<times> bool) py" where
  "ProcessConfigOverrides w filename run =
     py_bind (cfg_climb w filename (path_abspath (fs_cwd (r_fs run)) filename)
                \<lparr>c_run = run, c_filters = [], c_keep = True\<rparr>) (\<lambda>(c, excluded).
       if excluded then Inr (c_run c, False)
       else py_bind (add_filters (rev (c_filters c)) (c_run c)) (\<lambda>run'. Inr (run', True)))"

section \<open>ProcessFile\<close>

definition cr :: char where "cr = CHR 0x0D"

definition rstrip_cr :: "string \<Rightarrow> string" where
  "rstrip_cr s = rev (dropWhile (\<lambda>c. c = cr) (rev s))"

definition strip_crs :: "string list \<Rightarrow> string list" where
  "strip_crs ls = map (\<lambda>l. if endswith l [cr] then rstrip_cr l else l) (butlast ls) @ [last ls]"

definition numbered :: "(string \<Rightarrow> bool) \<Rightarrow> string list \<Rightarrow> nat list" where
  "numbered P ls = map (\<lambda>i. i + 1) (filter (\<lambda>i. P (ls ! i)) [0 ..< length ls - 1])"

definition crlf_lines :: "string list \<Rightarrow> nat list" where
  "crlf_lines ls = numbered (\<lambda>l. endswith l [cr]) ls"

definition lf_lines :: "string list \<Rightarrow> nat list" where
  "lf_lines ls = numbered (\<lambda>l. \<not> endswith l [cr]) ls"

definition crlf_msgs :: "string \<Rightarrow> string list \<Rightarrow> lint_msg list" where
  "crlf_msgs filename ls =
     (if lf_lines ls \<noteq> [] then
        concat (map (\<lambda>n. lint True filename n ''whitespace/newline'' 1
          (''Unexpected '' @ [backslash] @ ''r (^M) found; better to use only '' @ [backslash] @ ''n'')) (crlf_lines ls))
      else [])"

text \<open>\<open>filename[filename.rfind('.') + 1:]\<close>\<close>

definition file_ext :: "string \<Rightarrow> string" where
  "file_ext filename = (case rfind_char (CHR ''.'') filename of None \<Rightarrow> filename | Some i \<Rightarrow> drop (i + 1) filename)"

definition unreadable_text :: "string \<Rightarrow> string" where
  "unreadable_text filename =
     ''Skipping input '' @ [squote] @ filename @ [squote] @ '': Can'' @ [squote] @ ''t open for reading'' @ [newline]"

definition ignoring_text :: "world \<Rightarrow> run_state \<Rightarrow> string \<Rightarrow> string" where
  "ignoring_text w run filename =
     ''Ignoring '' @ filename @ ''; not a valid file name ('' @ join '', '' (w_order w (GetAllExtensions (r_exts run))) @
     '')'' @ [newline]"

definition lint_text :: "world \<Rightarrow> extra_check list \<Rightarrow> string \<Rightarrow> string \<Rightarrow> run_state \<Rightarrow> run_state py" where
  "lint_text w extras filename text run =
     (let ls = split_on newline text; ext = file_ext filename in
      if filename \<noteq> ''-'' \<and> ext \<notin> GetAllExtensions (r_exts run)
      then Inr (on_cstate (PrintError (ignoring_text w run filename)) run)
      else py_bind (ProcessFileData w run extras filename ext (strip_crs ls)) (\<lambda>env.
           py_bind (report_all (crlf_msgs filename ls) env) (\<lambda>env'. Inr (run\<lparr>r_env := env'\<rparr>))))"

definition done_message :: "nat \<Rightarrow> string \<Rightarrow> run_state \<Rightarrow> run_state" where
  "done_message old_errors filename run =
     (if \<not> quiet (cstate (r_env run)) \<or> old_errors \<noteq> error_count (cstate (r_env run))
      then on_cstate (PrintInfo (''Done processing '' @ filename @ [newline])) run else run)"

definition ProcessFile :: "world \<Rightarrow> extra_check list \<Rightarrow> string \<Rightarrow> int \<Rightarrow> run_state \<Rightarrow> run_state py" where
  "ProcessFile w extras filename vlevel run =
     (let run1 = on_cstate (\<lambda>st. BackupFilters (fst (SetVerboseLevel vlevel st))) run;
          old_errors = error_count (cstate (r_env run1))
      in py_bind (ProcessConfigOverrides w filename run1) (\<lambda>(run2, go_on).
           if \<not> go_on then Inr (on_cstate RestoreFilters run2)
           else case w_text w filename of
             None \<Rightarrow> Inr (on_cstate (\<lambda>st. RestoreFilters (PrintError (unreadable_text filename) st)) run2)
           | Some text \<Rightarrow>
               py_bind (lint_text w extras filename text run2) (\<lambda>run3.
                 Inr (on_cstate RestoreFilters (done_message old_errors filename run3)))))"

end
