(* ===== verification/Command_Line.thy ===== *)
theory Command_Line
  imports Prelude
begin

text \<open>
  \<open>getopt.getopt\<close> of the Python library with long options only, which is how
  \<open>ParseArguments\<close> calls it.  An option is given as \<open>--name\<close>, \<open>--name=value\<close> or
  \<open>--name value\<close>, and a name may be cut short as long as it stays unambiguous.  The result
  \<open>None\<close> is the exception \<open>GetoptError\<close>.
\<close>

type_synonym option_table = "string list"  \<comment> \<open>a name that takes a value ends with \<open>=\<close>\<close>
type_synonym parsed = "(string \<times> string) list \<times> string list"

text \<open>\<open>long_has_args\<close>: whether the option takes a value, and its full name.\<close>

definition long_has_args :: "string \<Rightarrow> option_table \<Rightarrow> (bool \<times> string) option" where
  "long_has_args opt longopts =
     (let possibilities = filter (\<lambda>o'. startswith o' opt) longopts in
      if opt \<in> set possibilities then Some (False, opt)
      else if opt @ ''='' \<in> set possibilities then Some (True, opt)
      else case possibilities of
        [unique_match] \<Rightarrow>
          if endswith unique_match ''='' then Some (True, butlast unique_match) else Some (False, unique_match)
      | _ \<Rightarrow> None)"

text \<open>\<open>do_longs\<close>: the option with its value, and the arguments that are left.\<close>

definition do_longs ::
  "string \<Rightarrow> option_table \<Rightarrow> string list \<Rightarrow> ((string \<times> string) \<times> string list) option" where
  "do_longs text longopts args =
     (let (opt, optarg) = (case find_opt text ''='' of
            None \<Rightarrow> (text, None) | Some i \<Rightarrow> (take i text, Some (drop (i + 1) text)))
      in case long_has_args opt longopts of
           None \<Rightarrow> None
         | Some (has_arg, name) \<Rightarrow>
             (case optarg of
                Some v \<Rightarrow> if has_arg then Some ((''--'' @ name, v), args) else None
              | None \<Rightarrow>
                  if \<not> has_arg then Some ((''--'' @ name, []), args)
                  else (case args of [] \<Rightarrow> None | a # rest \<Rightarrow> Some ((''--'' @ name, a), rest))))"

lemma do_longs_shorter: "do_longs t lo args = Some (opt, rest) \<Longrightarrow> length rest \<le> length args"
  by (auto simp: do_longs_def Let_def split: option.splits if_splits list.splits)

lemma do_longs_suffix: "do_longs t lo args = Some (opt, rest) \<Longrightarrow> \<exists>used. args = used @ rest"
  by (auto simp: do_longs_def Let_def split: option.splits if_splits list.splits)

text \<open>With no short options, an argument such as \<open>-x\<close> is always an error.\<close>

function getopt :: "string list \<Rightarrow> option_table \<Rightarrow> parsed option" where
  "getopt [] longopts = Some ([], [])"
| "getopt (a # rest) longopts =
     (if \<not> startswith a ''-'' \<or> a = ''-'' then Some ([], a # rest)
      else if a = ''--'' then Some ([], rest)
      else if startswith a ''--'' then
        (case do_longs (drop 2 a) longopts rest of
           None \<Rightarrow> None
         | Some (opt, rest') \<Rightarrow> map_option (\<lambda>(opts, files). (opt # opts, files)) (getopt rest' longopts))
      else None)"
  by pat_completeness auto
termination
  by (relation "measure (\<lambda>(args, longopts). length args)") (auto dest: do_longs_shorter)

section \<open>What the parser returns\<close>

definition option_name :: "string \<Rightarrow> string" where
  "option_name o' = takeWhile (\<lambda>c. c \<noteq> CHR ''='') o'"

text \<open>The names of the table are distinct and hold no equality sign but the one at the end.\<close>

definition clean_table :: "option_table \<Rightarrow> bool" where
  "clean_table longopts \<longleftrightarrow> distinct (map option_name longopts)
     \<and> list_all (\<lambda>o'. option_name o' \<noteq> [] \<and> (o' = option_name o' \<or> o' = option_name o' @ ''='')) longopts"

text \<open>An option of the table, written out: its full name, with a value only if it takes one.\<close>

definition known_option :: "option_table \<Rightarrow> string \<times> string \<Rightarrow> bool" where
  "known_option longopts ov \<longleftrightarrow>
     (case ov of (opt, v) \<Rightarrow>
        startswith opt ''--'' \<and> CHR ''='' \<notin> set opt
        \<and> (drop 2 opt \<in> set longopts \<and> v = [] \<or> drop 2 opt @ ''='' \<in> set longopts))"

lemma option_name_no_eq: "CHR ''='' \<notin> set (option_name o')"
  by (auto simp: option_name_def dest: set_takeWhileD)

lemma option_name_id: "CHR ''='' \<notin> set n \<Longrightarrow> option_name n = n \<and> option_name (n @ ''='') = n"
  by (auto simp: option_name_def takeWhile_append takeWhile_eq_all_conv)

lemma clean_table_entry:
  assumes "clean_table lo"
  shows "name \<in> set lo \<Longrightarrow> CHR ''='' \<notin> set name \<Longrightarrow> name @ ''='' \<notin> set lo"
    and "name @ ''='' \<in> set lo \<Longrightarrow> CHR ''='' \<notin> set name"
    and "name \<in> set lo \<or> name @ ''='' \<in> set lo \<Longrightarrow> CHR ''='' \<notin> set name \<Longrightarrow> name \<noteq> []"
proof -
  have inj: "inj_on option_name (set lo)" using assms by (simp add: clean_table_def distinct_map)
  show "name @ ''='' \<notin> set lo" if "name \<in> set lo" "CHR ''='' \<notin> set name"
    using inj_onD [OF inj, of name "name @ ''=''"] that option_name_id [of name] by auto
  show "CHR ''='' \<notin> set name" if "name @ ''='' \<in> set lo"
  proof -
    from assms that have "name @ ''='' = option_name (name @ ''='') \<or> name @ ''='' = option_name (name @ ''='') @ ''=''"
      by (auto simp: clean_table_def list_all_iff)
    then show ?thesis using option_name_no_eq [of "name @ ''=''"]
      by (metis append_same_eq in_set_conv_decomp)
  qed
  show "name \<noteq> []" if "name \<in> set lo \<or> name @ ''='' \<in> set lo" "CHR ''='' \<notin> set name"
    using that assms option_name_id [of name] by (auto simp: clean_table_def list_all_iff)
qed

lemma long_has_args_unique:
  assumes "long_has_args opt lo = Some r"
  shows "opt \<in> set (filter (\<lambda>o'. startswith o' opt) lo)
    \<or> opt @ ''='' \<in> set (filter (\<lambda>o'. startswith o' opt) lo)
    \<or> (\<exists>u. filter (\<lambda>o'. startswith o' opt) lo = [u]
         \<and> r = (if endswith u ''='' then (True, butlast u) else (False, u)))"
  using assms unfolding long_has_args_def Let_def
  by (cases "filter (\<lambda>o'. startswith o' opt) lo" rule: list.exhaust)
    (simp_all split: if_split_asm list.split_asm del: filter.simps set_filter, blast+)

lemma long_has_args_known:
  assumes "long_has_args opt lo = Some (b, name)" and "clean_table lo" and "CHR ''='' \<notin> set opt"
  shows "CHR ''='' \<notin> set name \<and> (if b then name @ ''='' \<in> set lo else name \<in> set lo)"
proof -
  have unique: "u \<in> set lo" if "filter (\<lambda>o'. startswith o' opt) lo = [u]" for u
  proof -
    have "u \<in> set (filter (\<lambda>o'. startswith o' opt) lo)" using that by simp
    then show ?thesis by simp
  qed
  let ?ps = "filter (\<lambda>o'. startswith o' opt) lo"
  consider "opt \<in> set ?ps" | "opt \<notin> set ?ps" "opt @ ''='' \<in> set ?ps"
    | u where "opt \<notin> set ?ps" "opt @ ''='' \<notin> set ?ps" "?ps = [u]"
        "(b, name) = (if endswith u ''='' then (True, butlast u) else (False, u))"
    using long_has_args_unique [OF assms(1)] by blast
  then show ?thesis
  proof cases
    case 1
    with assms(1,3) show ?thesis by (auto simp: long_has_args_def Let_def)
  next
    case 2
    then have "long_has_args opt lo = Some (True, opt)" by (simp add: long_has_args_def Let_def)
    with 2 assms(1,3) show ?thesis by simp
  next
    case 3
    have u: "u \<in> set lo" using unique [OF 3(3)] .
    show ?thesis
    proof (cases "endswith u ''=''")
      case True
      then have "butlast u @ ''='' = u" by (auto simp: endswith_iff)
      then show ?thesis using True 3(4) u clean_table_entry(2) [OF assms(2), of "butlast u"] by simp
    next
      case False
      then have "u = option_name u" using u assms(2) by (auto simp: clean_table_def list_all_iff endswith_iff)
      then have "CHR ''='' \<notin> set u" using option_name_no_eq [of u] by simp
      then show ?thesis using False 3(4) u by simp
    qed
  qed
qed

lemma find_opt_notin: "c \<notin> set s \<Longrightarrow> find_opt s [c] = None"
  by (induction s) auto

lemma find_opt_char_first: "c \<notin> set s \<Longrightarrow> find_opt (s @ c # t) [c] = Some (length s)"
  by (induction s) auto

lemma find_opt_before: "find_opt s [c] = Some i \<Longrightarrow> c \<notin> set (take i s)"
  by (induction s arbitrary: i) (auto split: if_splits)

lemma find_opt_absent: "find_opt s [c] = None \<Longrightarrow> c \<notin> set s"
  by (induction s) (auto split: if_splits)

lemma do_longs_known:
  assumes "do_longs t lo args = Some (opt, rest)" and "clean_table lo"
  shows "known_option lo opt"
  using assms
  by (auto simp: do_longs_def Let_def known_option_def split: option.splits if_splits list.splits
      dest!: long_has_args_known dest: find_opt_before find_opt_absent)

lemma getopt_known:
  "clean_table lo \<Longrightarrow> getopt args lo = Some (opts, files) \<Longrightarrow> list_all (known_option lo) opts"
  by (induction args lo arbitrary: opts files rule: getopt.induct)
    (auto split: if_splits option.splits dest: do_longs_known)

lemma getopt_suffix: "getopt args lo = Some (opts, files) \<Longrightarrow> \<exists>used. args = used @ files"
proof (induction args lo arbitrary: opts files rule: getopt.induct)
  case (2 a rest lo)
  then show ?case
  proof (cases "startswith a ''--'' \<and> a \<noteq> ''--''")
    case True
    then have na: "startswith a ''-''" "a \<noteq> ''-''" by (auto simp: startswith_iff)
    with 2(2) True obtain opt rest' opts' where d: "do_longs (drop 2 a) lo rest = Some (opt, rest')"
      and g: "getopt rest' lo = Some (opts', files)"
      by (auto split: if_splits option.splits)
    from 2(1) [OF _ _ _ d refl g] na True obtain used where "rest' = used @ files" by auto
    with do_longs_suffix [OF d] show ?thesis by (metis append.assoc append_Cons)
  qed (auto split: if_splits)
qed simp

section \<open>Writing options\<close>

text \<open>An option as an argument, \<open>--name\<close> or \<open>--name=value\<close>.\<close>

definition show_option :: "option_table \<Rightarrow> string \<times> string \<Rightarrow> string" where
  "show_option longopts ov = (case ov of (opt, v) \<Rightarrow> if drop 2 opt @ ''='' \<in> set longopts then opt @ ''='' @ v else opt)"

definition no_option :: "string list \<Rightarrow> bool" where
  "no_option files \<longleftrightarrow> (case files of [] \<Rightarrow> True | f # fs \<Rightarrow> \<not> startswith f ''-'' \<or> f = ''-'')"

lemma long_has_args_exact:
  "name \<in> set lo \<Longrightarrow> long_has_args name lo = Some (False, name)"
  "name @ ''='' \<in> set lo \<Longrightarrow> name \<notin> set lo \<Longrightarrow> long_has_args name lo = Some (True, name)"
  by (auto simp: long_has_args_def Let_def startswith_iff)

lemma do_longs_show:
  assumes "clean_table lo" and "known_option lo (opt, v)"
  shows "do_longs (drop 2 (show_option lo (opt, v))) lo args = Some ((opt, v), args)"
proof -
  obtain name where name: "opt = ''--'' @ name" using assms(2) by (auto simp: known_option_def startswith_iff)
  with assms(2) have e: "CHR ''='' \<notin> set name" and c: "name \<in> set lo \<and> v = [] \<or> name @ ''='' \<in> set lo"
    by (auto simp: known_option_def)
  show ?thesis
  proof (cases "name @ ''='' \<in> set lo")
    case False
    with c name e show ?thesis
      by (simp add: show_option_def do_longs_def find_opt_notin long_has_args_exact)
  next
    case True
    then have "name \<notin> set lo" using clean_table_entry(1) [OF assms(1) _ e] by blast
    with True name e show ?thesis
      by (simp add: show_option_def do_longs_def find_opt_char_first long_has_args_exact)
  qed
qed

lemma getopt_show:
  assumes "clean_table lo" and "getopt files' lo = Some ([], files)"
  shows "list_all (known_option lo) opts \<Longrightarrow> getopt (map (show_option lo) opts @ files') lo = Some (opts, files)"
proof (induction opts)
  case Nil
  then show ?case using assms(2) by simp
next
  case (Cons ov opts)
  obtain opt v where ov: "ov = (opt, v)" by (cases ov)
  let ?a = "show_option lo (opt, v)"
  from Cons.prems ov obtain name where name: "opt = ''--'' @ name"
    by (auto simp: known_option_def startswith_iff)
  with Cons.prems ov have ne: "name \<noteq> []"
    using clean_table_entry(3) [OF assms(1), of name] by (auto simp: known_option_def)
  have a: "startswith ?a ''--''" "startswith ?a ''-''" "?a \<noteq> ''-''" "?a \<noteq> ''--''"
    using name ne by (auto simp: show_option_def)
  have "getopt (map (show_option lo) opts @ files') lo = Some (opts, files)" using Cons by simp
  then show ?case using a do_longs_show [OF assms(1), of opt v] Cons.prems ov by simp
qed

lemma getopt_stop:
  "no_option files \<Longrightarrow> getopt files lo = Some ([], files)" "getopt (''--'' # files) lo = Some ([], files)"
  by (cases files) (auto simp: no_option_def)

end
