(* ===== verification/Lint_Main.thy ===== *)
theory Lint_Main
  imports Process_File Command_Line
begin

text \<open>
  The command line of \<open>cpplint.py\<close>: \<open>ParseArguments\<close>, \<open>_ExpandDirectories\<close>,
  \<open>_FilterExcludedFiles\<close> and \<open>main\<close>.  A call of \<open>sys.exit\<close> is the exception
  \<^const>\<open>SystemExit\<close> with the exit status, and what was printed before it is not part of the
  result.  What the program asks of the file system is the record \<open>shell\<close>.
\<close>

record shell =
  sh_world :: world
  sh_glob :: "string \<Rightarrow> string list"
  sh_isdir :: "string \<Rightarrow> bool"
  sh_walk :: "string \<Rightarrow> (string \<times> string list) list"  \<comment> \<open>\<open>os.walk\<close>: directories with their files\<close>

text \<open>The module variables; the value \<open>None\<close> of \<open>_excludes\<close> is the empty set, as the code never
  tells them apart.\<close>

record cli_state =
  g_run :: run_state
  g_excludes :: "string set"

definition init_cli :: "(string \<Rightarrow> bool) \<Rightarrow> string \<Rightarrow> cli_state" where
  "init_cli exists cwd =
     \<lparr>g_run = \<lparr>r_env = init_env, r_exts = init_extensions,
        r_fs = \<lparr>fs_exists = exists, fs_cwd = cwd, opt_repository = None, opt_root = None\<rparr>,
        r_line_length = 80\<rparr>,
      g_excludes = {}\<rparr>"

section \<open>Leaving the program\<close>

definition PrintUsage :: "string option \<Rightarrow> 'a py" where
  "PrintUsage message = Inl (SystemExit (if message = None \<or> message = Some [] then 0 else 1))"

definition PrintVersion :: "'a py" where
  "PrintVersion = Inl (SystemExit 0)"

definition PrintCategories :: "'a py" where
  "PrintCategories = Inl (SystemExit 0)"

section \<open>Options\<close>

definition LINT_OPTIONS :: option_table where
  "LINT_OPTIONS = [''help'', ''output='', ''verbose='', ''v='', ''version'', ''counting='', ''filter='', ''root='',
     ''repository='', ''linelength='', ''extensions='', ''exclude='', ''recursive'', ''headers='', ''quiet'']"

record settings =
  o_state :: cli_state
  o_verbosity :: int
  o_format :: string
  o_filters :: string
  o_quiet :: bool
  o_counting :: string
  o_recursive :: bool

definition cli_cstate :: "cli_state \<Rightarrow> cpplint_state" where
  "cli_cstate st = cstate (r_env (g_run st))"

definition start_settings :: "cli_state \<Rightarrow> settings" where
  "start_settings st = \<lparr>o_state = st, o_verbosity = verbose_level (cli_cstate st),
     o_format = output_format (cli_cstate st), o_filters = [], o_quiet = quiet (cli_cstate st),
     o_counting = [], o_recursive = False\<rparr>"

definition set_run :: "(run_state \<Rightarrow> run_state) \<Rightarrow> settings \<Rightarrow> settings" where
  "set_run f s = s\<lparr>o_state := (o_state s)\<lparr>g_run := f (g_run (o_state s))\<rparr>\<rparr>"

definition add_excludes :: "string list \<Rightarrow> settings \<Rightarrow> settings" where
  "add_excludes fs s = s\<lparr>o_state := (o_state s)\<lparr>g_excludes := g_excludes (o_state s) \<union> set fs\<rparr>\<rparr>"

definition int_error_text :: "string \<Rightarrow> string" where
  "int_error_text val = ''invalid literal for int() with base 10: '' @ [squote] @ val @ [squote]"

definition apply_option :: "shell \<Rightarrow> string \<times> string \<Rightarrow> settings \<Rightarrow> settings py" where
  "apply_option sh ov s =
     (case ov of (opt, val) \<Rightarrow>
        if opt = ''--help'' then PrintUsage None
        else if opt = ''--version'' then PrintVersion
        else if opt = ''--output'' then
          if val \<notin> {''emacs'', ''vs7'', ''eclipse'', ''junit''}
          then PrintUsage (Some ''The only allowed output formats are emacs, vs7, eclipse and junit.'')
          else Inr (s\<lparr>o_format := val\<rparr>)
        else if opt = ''--quiet'' then Inr (s\<lparr>o_quiet := True\<rparr>)
        else if opt = ''--verbose'' \<or> opt = ''--v'' then
          (case py_int val of
             Some n \<Rightarrow> Inr (s\<lparr>o_verbosity := n\<rparr>)
           | None \<Rightarrow> Inl (ValueError (int_error_text val)))
        else if opt = ''--filter'' then
          if val = [] then PrintCategories else Inr (s\<lparr>o_filters := val\<rparr>)
        else if opt = ''--counting'' then
          if val \<notin> {''total'', ''toplevel'', ''detailed''}
          then PrintUsage (Some ''Valid counting options are total, toplevel, and detailed'')
          else Inr (s\<lparr>o_counting := val\<rparr>)
        else if opt = ''--root'' then
          Inr (set_run (\<lambda>run. run\<lparr>r_fs := (r_fs run)\<lparr>opt_root := Some val\<rparr>\<rparr>) s)
        else if opt = ''--repository'' then
          Inr (set_run (\<lambda>run. run\<lparr>r_fs := (r_fs run)\<lparr>opt_repository := Some val\<rparr>\<rparr>) s)
        else if opt = ''--linelength'' then
          (case py_int val of
             Some n \<Rightarrow> Inr (set_run (\<lambda>run. run\<lparr>r_line_length := n\<rparr>) s)
           | None \<Rightarrow> PrintUsage (Some ''Line length must be digits.''))
        else if opt = ''--exclude'' then Inr (add_excludes (sh_glob sh val) s)
        else if opt = ''--extensions'' then
          Inr (set_run (\<lambda>run. run\<lparr>r_exts := ProcessExtensionsOption val (r_exts run)\<rparr>) s)
        else if opt = ''--headers'' then
          Inr (set_run (\<lambda>run. run\<lparr>r_exts := ProcessHppHeadersOption val (r_exts run)\<rparr>) s)
        else if opt = ''--recursive'' then Inr (s\<lparr>o_recursive := True\<rparr>)
        else Inr s)"

fun apply_options :: "shell \<Rightarrow> (string \<times> string) list \<Rightarrow> settings \<Rightarrow> settings py" where
  "apply_options sh [] s = Inr s"
| "apply_options sh (ov # ovs) s = py_bind (apply_option sh ov s) (apply_options sh ovs)"

section \<open>File names\<close>

definition walk_files :: "shell \<Rightarrow> string \<Rightarrow> string list" where
  "walk_files sh dir =
     concat (map (\<lambda>(root, files). map (\<lambda>loopfile.
         let fullname = path_join root loopfile
         in if startswith fullname ''./'' then drop 2 fullname else fullname) files)
       (sh_walk sh dir))"

definition expanded_files :: "shell \<Rightarrow> string list \<Rightarrow> string set" where
  "expanded_files sh filenames =
     set (concat (map (\<lambda>filename. if \<not> sh_isdir sh filename then [filename] else walk_files sh filename) filenames))"

definition ExpandDirectories :: "shell \<Rightarrow> ext_state \<Rightarrow> string list \<Rightarrow> string list" where
  "ExpandDirectories sh exts filenames =
     filter (\<lambda>filename. tl (snd (path_splitext filename)) \<in> GetAllExtensions exts)
       (w_order (sh_world sh) (expanded_files sh filenames))"

definition FilterExcludedFiles :: "string \<Rightarrow> string set \<Rightarrow> string list \<Rightarrow> string list" where
  "FilterExcludedFiles cwd excludes filenames =
     filter (\<lambda>f. path_abspath cwd f \<notin> path_abspath cwd ` excludes) filenames"

section \<open>ParseArguments\<close>

definition store_settings :: "settings \<Rightarrow> cli_state py" where
  "store_settings s =
     (let st = SetVerboseLevel (o_verbosity s)
                 (fst (SetQuiet (o_quiet s) (SetOutputFormat (o_format s) (cli_cstate (o_state s)))))
      in case SetFilters (o_filters s) (fst st) of
           (st', None) \<Rightarrow>
             Inr ((o_state s)\<lparr>g_run := on_cstate (\<lambda>_. SetCountingStyle (o_counting s) st') (g_run (o_state s))\<rparr>)
         | (_, Some e) \<Rightarrow> Inl e)"

definition chosen_files :: "shell \<Rightarrow> settings \<Rightarrow> string list \<Rightarrow> string list" where
  "chosen_files sh s filenames =
     (let filenames =
            (if o_recursive s then ExpandDirectories sh (r_exts (g_run (o_state s))) filenames else filenames)
      in if g_excludes (o_state s) \<noteq> {}
         then FilterExcludedFiles (fs_cwd (r_fs (g_run (o_state s)))) (g_excludes (o_state s)) filenames
         else filenames)"

definition ParseArguments :: "shell \<Rightarrow> string list \<Rightarrow> cli_state \<Rightarrow> (cli_state \<times> string list) py" where
  "ParseArguments sh args st =
     (case getopt args LINT_OPTIONS of
        None \<Rightarrow> PrintUsage (Some ''Invalid arguments.'')
      | Some (opts, filenames) \<Rightarrow>
          py_bind (apply_options sh opts (start_settings st)) (\<lambda>s.
            if filenames = [] then PrintUsage (Some ''No files were specified.'')
            else py_bind (store_settings s) (\<lambda>st'. Inr (st', chosen_files sh s filenames))))"

section \<open>main\<close>

fun lint_files :: "world \<Rightarrow> string list \<Rightarrow> run_state \<Rightarrow> run_state py" where
  "lint_files w [] run = Inr run"
| "lint_files w (filename # fs) run =
     py_bind (ProcessFile w [] filename (verbose_level (cstate (r_env run))) run) (lint_files w fs)"

definition final_report :: "cpplint_state \<Rightarrow> cpplint_state" where
  "final_report st =
     (let st1 = (if \<not> quiet st \<or> error_count st > 0 then PrintErrorCounts st else st)
      in if output_format st1 = ''junit'' then write_stderr (FormatJUnitXML st1) st1 else st1)"

text \<open>\<open>main\<close>: the final state and the argument of the last \<open>sys.exit\<close> as an exit status.\<close>

definition lint_main :: "shell \<Rightarrow> string list \<Rightarrow> cli_state \<Rightarrow> (cpplint_state \<times> int) py" where
  "lint_main sh args st =
     py_bind (ParseArguments sh args st) (\<lambda>(st1, filenames).
     py_bind (lint_files (sh_world sh) filenames (on_cstate ResetErrorCounts (g_run st1))) (\<lambda>run.
       let final = final_report (cstate (r_env run))
       in Inr (final, if error_count final > 0 then 1 else 0)))"

text \<open>The exit status of the process: an uncaught exception other than \<open>SystemExit\<close> gives 1, and
  a run that does not end has none.\<close>

definition exit_status :: "('a \<times> int) py \<Rightarrow> int option" where
  "exit_status r =
     (case r of Inr (_, code) \<Rightarrow> Some code | Inl (SystemExit code) \<Rightarrow> Some code | Inl NoReturn \<Rightarrow> None | Inl _ \<Rightarrow> Some 1)"

end
