(* ===== verification/Process_Laws.thy ===== *)
theory Process_Laws
  imports Lint_Main
begin

text \<open>
  Invariants of a run.  The state \<open>_cpplint_state\<close> is only written by the error handler, the
  two printing functions and the functions on verbosity and filters, so a predicate that
  these keep holds after any number of files.  The locale \<open>report_invariant\<close> carries a predicate
  that reporting and adding filters keep through \<open>ProcessFileData\<close> and \<open>ProcessConfigOverrides\<close>,
  and its extension \<open>run_invariant\<close> through \<open>ProcessFile\<close> and the loop over the files.
\<close>

definition run_cstate :: "run_state \<Rightarrow> cpplint_state" where
  "run_cstate run = cstate (r_env run)"

lemma run_cstate_simps [simp]:
  "run_cstate (on_cstate f run) = f (run_cstate run)"
  "run_cstate (run\<lparr>r_line_length := n\<rparr>) = run_cstate run"
  "run_cstate (run\<lparr>r_exts := e\<rparr>) = run_cstate run"
  "run_cstate (run\<lparr>r_fs := fs\<rparr>) = run_cstate run"
  "run_cstate (run\<lparr>r_env := env\<rparr>) = cstate env"
  by (simp_all add: run_cstate_def on_cstate_def)

lemma on_cstate_frame:
  "r_exts (on_cstate f r) = r_exts r" "r_fs (on_cstate f r) = r_fs r" "r_line_length (on_cstate f r) = r_line_length r"
  by (simp_all add: on_cstate_def)

locale report_invariant =
  fixes I :: "cpplint_state \<Rightarrow> bool"
  assumes I_report: "I st \<Longrightarrow> I (emit m (IncrementErrorCount (l_cat m) st))"
    and I_info: "I st \<Longrightarrow> I (PrintInfo t st)"
    and I_print: "I st \<Longrightarrow> I (PrintError t st)"
    and I_add: "I st \<Longrightarrow> AddFilters fs st = (st', None) \<Longrightarrow> I st'"
begin

lemma Error_inv: "Error m env = Inr env' \<Longrightarrow> I (cstate env) \<Longrightarrow> I (cstate env')"
  by (auto simp: Error_def py_bind_Inr_iff I_report split: if_splits)

lemma report_all_inv: "report_all ms env = Inr env' \<Longrightarrow> I (cstate env) \<Longrightarrow> I (cstate env')"
  by (induction ms arbitrary: env) (auto simp: py_bind_Inr_iff dest: Error_inv)

lemma run_acts_inv: "run_acts f acts env = Inr env' \<Longrightarrow> I (cstate env) \<Longrightarrow> I (cstate env')"
proof (induction f acts env rule: run_acts.induct)
  case (3 f raw n acts env)
  obtain tab ms where p: "ParseNolintSuppressions f raw n (nolint_tab env) = (tab, ms)" by fastforce
  with 3(2) obtain env1 where "report_all ms (env\<lparr>nolint_tab := tab\<rparr>) = Inr env1"
    and "run_acts f acts env1 = Inr env'" by (auto simp: py_bind_Inr_iff)
  moreover have "I (cstate (env\<lparr>nolint_tab := tab\<rparr>))" using 3(3) by simp
  ultimately show ?case using report_all_inv 3(1) [OF refl p [symmetric]] by blast
qed (auto simp: py_bind_Inr_iff dest: Error_inv)

lemma process_lines_inv:
  "process_lines w run extras f ext cl ls (ps, env) = Inr (ps', env') \<Longrightarrow> I (cstate env) \<Longrightarrow> I (cstate env')"
proof (induction ls arbitrary: ps env)
  case (Cons line ls)
  then obtain ps1 acts env1 ms env2 where "run_acts f acts env = Inr env1" and "report_all ms env1 = Inr env2"
    and "process_lines w run extras f ext cl ls (ps1, env2) = Inr (ps', env')"
    by (auto simp: py_bind_Inr_iff)
  with Cons.IH Cons.prems(2) run_acts_inv report_all_inv show ?case by blast
qed simp

lemma start_file_inv: "start_file f ls env = Inr (ls', env') \<Longrightarrow> I (cstate env) \<Longrightarrow> I (cstate env')"
  by (cases "RemoveMultiLineComments f ls")
    (auto simp: start_file_def py_bind_Inr_iff Let_def dest!: report_all_inv)

lemma ProcessFileData_inv:
  "ProcessFileData w run extras f ext ls = Inr env \<Longrightarrow> I (run_cstate run) \<Longrightarrow> I (cstate env)"
  unfolding ProcessFileData_def run_cstate_def
  by (auto simp: py_bind_Inr_iff dest!: start_file_inv run_acts_inv process_lines_inv report_all_inv)

lemma cfg_setting_inv: "I (run_cstate (c_run c)) \<Longrightarrow> I (run_cstate (c_run (cfg_setting cfg name val c)))"
  by (simp add: cfg_setting_def on_run_def I_print split: option.split)

lemma cfg_exclude_inv:
  assumes "cfg_exclude w f cfg base val c = Inr (c', b)" and "I (run_cstate (c_run c))"
  shows "I (run_cstate (c_run c'))"
proof (cases "base = []")
  case True
  with assms show ?thesis by (simp add: cfg_exclude_def)
next
  case False
  with assms obtain r where "w_compile w val = Some r" by (auto simp: cfg_exclude_def split: option.splits)
  with assms False show ?thesis by (auto simp: cfg_exclude_def I_info split: if_splits)
qed

lemma cfg_line_inv:
  assumes "cfg_line w f cfg base l c = Inr (c', b)" and "I (run_cstate (c_run c))"
  shows "I (run_cstate (c_run c'))"
proof -
  from assms(1) obtain name val where "c' = c \<or> cfg_exclude w f cfg base val c = Inr (c', b)
      \<or> c' = cfg_setting cfg name val c"
    unfolding cfg_line_def Let_def by (auto split: if_splits)
  with assms(2) show ?thesis using cfg_exclude_inv cfg_setting_inv by metis
qed

lemma cfg_lines_inv:
  "cfg_lines w f cfg base ls c = Inr (c', b) \<Longrightarrow> I (run_cstate (c_run c)) \<Longrightarrow> I (run_cstate (c_run c'))"
  by (induction ls arbitrary: c) (auto simp: py_bind_Inr_iff split: if_splits dest: cfg_line_inv)

lemma cfg_climb_inv:
  "cfg_climb w f p c = Inr (c', b) \<Longrightarrow> I (run_cstate (c_run c)) \<Longrightarrow> I (run_cstate (c_run c'))"
proof (induction w f p c arbitrary: c' b rule: cfg_climb.induct)
  case (1 w f p c)
  let ?dir = "path_dirname p" let ?cfg = "path_join ?dir ''CPPLINT.cfg''"
  show ?case
  proof (cases "\<not> c_keep c \<or> path_tail p = []")
    case True
    with 1 show ?thesis by (simp add: cfg_climb.simps [of w f p c])
  next
    case go: False
    show ?thesis
    proof (cases "w_isfile w ?cfg")
      case False
      with go 1 show ?thesis by (simp add: cfg_climb.simps [of w f p c] Let_def)
    next
      case isfile: True
      show ?thesis
      proof (cases "w_lines w ?cfg")
        case None
        with go isfile 1(3,4) show ?thesis
          by (auto simp: cfg_climb.simps [of w f p c] Let_def on_run_def I_print)
      next
        case (Some ls)
        with go isfile 1(3) obtain c1 b1 where l: "cfg_lines w f ?cfg (path_tail p) ls c = Inr (c1, b1)"
          and r: "(if b1 then Inr (c1, True) else cfg_climb w f ?dir c1) = Inr (c', b)"
          by (auto simp: cfg_climb.simps [of w f p c] Let_def py_bind_Inr_iff)
        from cfg_lines_inv [OF l 1(4)] have "I (run_cstate (c_run c1))" .
        with r 1(2) [OF go refl refl refl _ Some] isfile show ?thesis by (auto split: if_splits)
      qed
    qed
  qed
qed

lemma add_filters_inv:
  "add_filters fs run = Inr run' \<Longrightarrow> I (run_cstate run) \<Longrightarrow> I (run_cstate run')"
proof (induction fs arbitrary: run)
  case (Cons f fs)
  obtain st e where a: "AddFilters f (cstate (r_env run)) = (st, e)" by fastforce
  with Cons.prems(1) have "e = None" and r: "add_filters fs (on_cstate (\<lambda>_. st) run) = Inr run'"
    by (auto split: option.splits)
  with I_add a Cons.prems(2) have "I st" by (auto simp: run_cstate_def)
  with Cons.IH [OF r] show ?case by simp
qed simp

lemma ProcessConfigOverrides_inv:
  "ProcessConfigOverrides w f run = Inr (run', b) \<Longrightarrow> I (run_cstate run) \<Longrightarrow> I (run_cstate run')"
  by (auto simp: ProcessConfigOverrides_def py_bind_Inr_iff split: if_splits
      dest!: cfg_climb_inv add_filters_inv)

lemma lint_text_inv:
  "lint_text w ex f t run = Inr run' \<Longrightarrow> I (run_cstate run) \<Longrightarrow> I (run_cstate run')"
  by (auto simp: lint_text_def Let_def py_bind_Inr_iff I_print split: if_splits
      dest!: ProcessFileData_inv report_all_inv)

end

text \<open>A predicate that also survives what \<open>ProcessFile\<close> does around the file.\<close>

locale run_invariant = report_invariant +
  assumes I_level: "I st \<Longrightarrow> I (fst (SetVerboseLevel v st))"
    and I_backup: "I st \<Longrightarrow> I (BackupFilters st)"
    and I_restore: "I st \<Longrightarrow> I (RestoreFilters st)"
begin

lemma ProcessFile_inv:
  assumes "ProcessFile w ex f v run = Inr run'" and "I (run_cstate run)"
  shows "I (run_cstate run')"
proof -
  let ?run1 = "on_cstate (\<lambda>st. BackupFilters (fst (SetVerboseLevel v st))) run"
  have i1: "I (run_cstate ?run1)" using assms(2) by (simp add: I_level I_backup)
  from assms(1) obtain run2 b where c: "ProcessConfigOverrides w f ?run1 = Inr (run2, b)"
    by (auto simp: ProcessFile_def Let_def py_bind_Inr_iff)
  note i2 = ProcessConfigOverrides_inv [OF c i1]
  from assms(1) c show ?thesis
    by (auto simp: ProcessFile_def Let_def py_bind_Inr_iff done_message_def i2 I_print I_info I_restore
        split: if_splits option.splits dest!: lint_text_inv)
qed

lemma lint_files_inv:
  "lint_files w fs run = Inr run' \<Longrightarrow> I (run_cstate run) \<Longrightarrow> I (run_cstate run')"
  by (induction fs arbitrary: run) (auto simp: py_bind_Inr_iff dest: ProcessFile_inv)

end

section \<open>Interpretations\<close>

lemma print_frame [simp]:
  "filters (PrintInfo t st) = filters st" "filters_backup (PrintInfo t st) = filters_backup st"
  "error_count (PrintInfo t st) = error_count st" "junit_failures (PrintInfo t st) = junit_failures st"
  "output_format (PrintInfo t st) = output_format st" "quiet (PrintInfo t st) = quiet st"
  "counting (PrintInfo t st) = counting st" "errors_by_category (PrintInfo t st) = errors_by_category st"
  "verbose_level (PrintInfo t st) = verbose_level st" "junit_errors (PrintInfo t st) = junit_errors st"
  "filters (PrintError t st) = filters st" "filters_backup (PrintError t st) = filters_backup st"
  "error_count (PrintError t st) = error_count st" "junit_failures (PrintError t st) = junit_failures st"
  "output_format (PrintError t st) = output_format st" "quiet (PrintError t st) = quiet st"
  "counting (PrintError t st) = counting st" "errors_by_category (PrintError t st) = errors_by_category st"
  "verbose_level (PrintError t st) = verbose_level st"
  by (simp_all add: PrintInfo_def PrintError_def)

lemma emit_frame [simp]:
  "filters_backup (emit m st) = filters_backup st" "quiet (emit m st) = quiet st"
  "filters_backup (IncrementErrorCount c st) = filters_backup st" "quiet (IncrementErrorCount c st) = quiet st"
  "junit_failures (IncrementErrorCount c st) = junit_failures st"
  by (simp_all add: emit_def PrintError_def write_stderr_def AddJUnitFailure_def IncrementErrorCount_def Let_def)

lemma setting_frame:
  "SetVerboseLevel v st = (st\<lparr>verbose_level := v\<rparr>, verbose_level st)"
  "BackupFilters st = st\<lparr>filters_backup := filters st\<rparr>" "RestoreFilters st = st\<lparr>filters := filters_backup st\<rparr>"
  by (simp_all add: SetVerboseLevel_def BackupFilters_def RestoreFilters_def)

lemma AddFilters_frame:
  "AddFilters fs st = (st', e) \<Longrightarrow> st' = st\<lparr>filters := filters st @ filter_parts fs\<rparr>"
  using fst_AddFilters [of fs st] by simp

text \<open>The counters by category add up to the total.\<close>

interpretation counted: run_invariant counts_ok
proof unfold_locales
  fix st st' :: cpplint_state and m t v fs
  assume c: "counts_ok st"
  show "counts_ok (emit m (IncrementErrorCount (l_cat m) st))"
    using c by (simp add: counts_ok_emit counts_ok_increment)
  show "counts_ok (PrintInfo t st)" and "counts_ok (PrintError t st)" using c by (simp_all add: counts_ok_def)
  show "counts_ok (fst (SetVerboseLevel v st))" and "counts_ok (BackupFilters st)"
    and "counts_ok (RestoreFilters st)" using c by (simp_all add: counts_ok_def setting_frame)
  show "AddFilters fs st = (st', None) \<Longrightarrow> counts_ok st'" using c AddFilters_frame [of fs st st' None]
    by (simp add: counts_ok_def)
qed

text \<open>Every filter carries a sign, in the list in force and in its backup.\<close>

definition filters_signed :: "cpplint_state \<Rightarrow> bool" where
  "filters_signed st \<longleftrightarrow> filters_ok st \<and> (\<forall>f \<in> set (filters_backup st). filter_ok f)"

interpretation signed: run_invariant filters_signed
proof unfold_locales
  fix st st' :: cpplint_state and m t v fs
  assume c: "filters_signed st"
  show "filters_signed (emit m (IncrementErrorCount (l_cat m) st))" "filters_signed (PrintInfo t st)"
    "filters_signed (PrintError t st)" using c by (simp_all add: filters_signed_def filters_ok_def)
  show "filters_signed (fst (SetVerboseLevel v st))" "filters_signed (BackupFilters st)"
    "filters_signed (RestoreFilters st)"
    using c by (simp_all add: filters_signed_def filters_ok_def setting_frame)
  show "AddFilters fs st = (st', None) \<Longrightarrow> filters_signed st'"
    using c snd_AddFilters [of fs st]
    by (auto simp: filters_signed_def filters_ok_def dest!: AddFilters_frame)
qed

text \<open>In the JUnit format every counted message is a failure of the report.\<close>

definition junit_exact :: "cpplint_state \<Rightarrow> bool" where
  "junit_exact st \<longleftrightarrow> (output_format st = ''junit'' \<longrightarrow> length (junit_failures st) = error_count st)"

interpretation junit: run_invariant junit_exact
proof unfold_locales
  fix st st' :: cpplint_state and m t v fs
  assume c: "junit_exact st"
  show "junit_exact (emit m (IncrementErrorCount (l_cat m) st))"
    using c by (simp add: junit_exact_def) (simp add: emit_def AddJUnitFailure_def)
  show "junit_exact (PrintInfo t st)" "junit_exact (PrintError t st)" using c by (simp_all add: junit_exact_def)
  show "junit_exact (fst (SetVerboseLevel v st))" "junit_exact (BackupFilters st)" "junit_exact (RestoreFilters st)"
    using c by (simp_all add: junit_exact_def setting_frame)
  show "AddFilters fs st = (st', None) \<Longrightarrow> junit_exact st'" using c
    by (auto simp: junit_exact_def dest!: AddFilters_frame)
qed

text \<open>The settings of the command line stay as they are.\<close>

definition settings_are :: "bool \<Rightarrow> string \<Rightarrow> string \<Rightarrow> cpplint_state \<Rightarrow> bool" where
  "settings_are q fmt style st \<longleftrightarrow> quiet st = q \<and> output_format st = fmt \<and> counting st = style"

interpretation unchanged: run_invariant "settings_are q fmt style" for q fmt style
proof unfold_locales
  fix st st' :: cpplint_state and m t v fs
  assume c: "settings_are q fmt style st"
  show "settings_are q fmt style (emit m (IncrementErrorCount (l_cat m) st))"
    "settings_are q fmt style (PrintInfo t st)" "settings_are q fmt style (PrintError t st)"
    using c by (simp_all add: settings_are_def)
  show "settings_are q fmt style (fst (SetVerboseLevel v st))" "settings_are q fmt style (BackupFilters st)"
    "settings_are q fmt style (RestoreFilters st)"
    using c by (simp_all add: settings_are_def setting_frame)
  show "AddFilters fs st = (st', None) \<Longrightarrow> settings_are q fmt style st'" using c
    by (auto simp: settings_are_def dest!: AddFilters_frame)
qed

text \<open>The number of errors never falls.\<close>

interpretation growing: run_invariant "\<lambda>st. n \<le> error_count st" for n
  by unfold_locales (auto simp: setting_frame dest!: AddFilters_frame)


text \<open>While a file is processed, the backup of the filters and the verbosity stay as they are.\<close>

interpretation framed: report_invariant "\<lambda>st. filters_backup st = fs \<and> verbose_level st = v" for fs v
  by unfold_locales (auto dest!: AddFilters_frame)

section \<open>What a file leaves behind\<close>

lemma lint_text_settings:
  assumes "lint_text w ex f t run = Inr run'"
  shows "r_exts run' = r_exts run \<and> r_fs run' = r_fs run \<and> r_line_length run' = r_line_length run"
  using assms by (auto simp: lint_text_def Let_def py_bind_Inr_iff on_cstate_def split: if_splits)

lemma done_message_settings:
  "r_exts (done_message n f run) = r_exts run \<and> r_fs (done_message n f run) = r_fs run
   \<and> r_line_length (done_message n f run) = r_line_length run"
  by (simp add: done_message_def on_cstate_def)

text \<open>What \<open>ProcessFile\<close> restores, and what it leaves as the configuration files set it.\<close>

lemma ProcessFile_frame:
  assumes "ProcessFile w ex f v run = Inr run'"
  shows "filters (run_cstate run') = filters (run_cstate run)
    \<and> verbose_level (run_cstate run') = v
    \<and> (\<exists>run2 go_on. ProcessConfigOverrides w f
            (on_cstate (\<lambda>st. BackupFilters (fst (SetVerboseLevel v st))) run) = Inr (run2, go_on)
         \<and> r_exts run' = r_exts run2 \<and> r_fs run' = r_fs run2 \<and> r_line_length run' = r_line_length run2)"
proof -
  let ?run1 = "on_cstate (\<lambda>st. BackupFilters (fst (SetVerboseLevel v st))) run"
  let ?K = "\<lambda>st. filters_backup st = filters (run_cstate run) \<and> verbose_level st = v"
  from assms obtain run2 b where c: "ProcessConfigOverrides w f ?run1 = Inr (run2, b)"
    by (auto simp: ProcessFile_def Let_def py_bind_Inr_iff)
  have "?K (run_cstate ?run1)" by (simp add: setting_frame)
  from framed.ProcessConfigOverrides_inv [OF c this] have k2: "?K (run_cstate run2)" .
  have "?K (run_cstate run') \<and> filters (run_cstate run') = filters (run_cstate run)
      \<and> r_exts run' = r_exts run2 \<and> r_fs run' = r_fs run2 \<and> r_line_length run' = r_line_length run2"
  proof (cases "b \<and> w_text w f \<noteq> None")
    case False
    with assms c have "\<exists>t. run' = on_cstate RestoreFilters run2
        \<or> run' = on_cstate (\<lambda>st. RestoreFilters (PrintError t st)) run2"
      by (cases b) (auto simp: ProcessFile_def Let_def py_bind_Inr_iff)
    then show ?thesis using k2 by (auto simp: setting_frame) (simp_all add: on_cstate_def)
  next
    case True
    then obtain t where "w_text w f = Some t" by blast
    with True assms c obtain run3 n where l: "lint_text w ex f t run2 = Inr run3"
      and r: "run' = on_cstate RestoreFilters (done_message n f run3)"
      by (auto simp: ProcessFile_def Let_def py_bind_Inr_iff)
    from framed.lint_text_inv [OF l k2] have "?K (run_cstate run3)" .
    moreover have "?K (run_cstate (done_message n f run3))" using calculation by (simp add: done_message_def)
    ultimately show ?thesis using lint_text_settings [OF l] done_message_settings [of n f run3]
      by (auto simp: r setting_frame) (simp_all add: on_cstate_def)
  qed
  then show ?thesis using c by blast
qed

text \<open>
  C5.  What \<open>ProcessFile\<close> leaves behind.  The filters are those that were in force before, whatever
  the configuration files add, the verbosity is the one given, and the number of errors does
  not fall.  The other settings of the configuration files are not taken back: the known
  extensions, the root directory and the line length are after the file as
  \<open>ProcessConfigOverrides\<close> has set them.
\<close>

theorem ProcessFile_settings:
  assumes "ProcessFile w ex f v run = Inr run'"
  shows "filters (run_cstate run') = filters (run_cstate run)
    \<and> verbose_level (run_cstate run') = v \<and> error_count (run_cstate run) \<le> error_count (run_cstate run')
    \<and> (\<exists>run2 go_on. ProcessConfigOverrides w f
            (on_cstate (\<lambda>st. BackupFilters (fst (SetVerboseLevel v st))) run) = Inr (run2, go_on)
         \<and> r_exts run' = r_exts run2 \<and> r_fs run' = r_fs run2 \<and> r_line_length run' = r_line_length run2)"
  using ProcessFile_frame [OF assms] growing.ProcessFile_inv [OF assms, of "error_count (run_cstate run)"] by simp

text \<open>A world with one configuration file, next to the file that is checked.\<close>

definition config_world :: "string list \<Rightarrow> world" where
  "config_world config =
     \<lparr>w_order = sorted_list_of_set, w_compile = (\<lambda>_. None),
      w_text = (\<lambda>f. if f = ''a.txt'' then Some [] else None),
      w_lines = (\<lambda>f. if f = ''/CPPLINT.cfg'' then Some config else None),
      w_isfile = (\<lambda>f. f = ''/CPPLINT.cfg'')\<rparr>"

theorem ProcessFile_settings_witness:
  "\<exists>run'. ProcessFile (config_world [''linelength=100'', ''filter=-build'']) [] ''a.txt'' 1
        (g_run (init_cli (\<lambda>_. False) ''/'')) = Inr run'
     \<and> r_line_length run' = 100 \<and> filters (run_cstate run') = DEFAULT_FILTERS"
proof -
  let ?r = "ProcessFile (config_world [''linelength=100'', ''filter=-build'']) [] ''a.txt'' 1
        (g_run (init_cli (\<lambda>_. False) ''/''))"
  have "map_sum (\<lambda>_. ()) r_line_length ?r = Inr 100" by code_simp
  then obtain run' where r: "?r = Inr run'" and n: "r_line_length run' = 100" by (cases ?r) auto
  have "filters (run_cstate (g_run (init_cli (\<lambda>_. False) ''/''))) = DEFAULT_FILTERS" by code_simp
  with ProcessFile_settings [OF r] r n show ?thesis by simp
qed

end
