(* ===== verification/Lint_Main_Laws.thy ===== *)
theory Lint_Main_Laws
  imports Process_Laws
begin

text \<open>
  Properties of the command line and of \<open>main\<close>: the options that \<open>getopt\<close> hands over, what
  \<open>ParseArguments\<close> establishes and how it fails, and the exit status of a run.
\<close>

section \<open>Options\<close>

lemma clean_LINT_OPTIONS: "clean_table LINT_OPTIONS"
  by code_simp



section \<open>ParseArguments\<close>

text \<open>What the options may not change, and what they change only to allowed values.\<close>

definition settings_fine :: "cli_state \<Rightarrow> settings \<Rightarrow> bool" where
  "settings_fine st s \<longleftrightarrow> cli_cstate (o_state s) = cli_cstate st
     \<and> o_format s \<in> {output_format (cli_cstate st), ''emacs'', ''vs7'', ''eclipse'', ''junit''}
     \<and> o_counting s \<in> {[], ''total'', ''toplevel'', ''detailed''}"

lemma outcome_exits:
  "E (SystemExit 1) \<Longrightarrow> outcome E P (PrintUsage (Some (c # cs)))"
  "E (SystemExit 0) \<Longrightarrow> outcome E P (PrintUsage None)"
  "E (SystemExit 0) \<Longrightarrow> outcome E P PrintVersion" "E (SystemExit 0) \<Longrightarrow> outcome E P PrintCategories"
  by (simp_all add: outcome_def PrintUsage_def PrintVersion_def PrintCategories_def)

text \<open>How an option may end the program.\<close>

definition info_request :: "string \<times> string \<Rightarrow> bool" where
  "info_request ov \<longleftrightarrow> fst ov = ''--help'' \<or> fst ov = ''--version'' \<or> (fst ov = ''--filter'' \<and> snd ov = [])"

definition ends_with :: "bool \<Rightarrow> py_error \<Rightarrow> bool" where
  "ends_with info e \<longleftrightarrow> e = SystemExit 1 \<or> (\<exists>t. e = ValueError t) \<or> e = SystemExit 0 \<and> info"

lemma ends_with_rules:
  "ends_with info (SystemExit 1)" "ends_with info (ValueError t)" "info \<Longrightarrow> ends_with info (SystemExit 0)"
  by (simp_all add: ends_with_def)

lemma info_request_rules:
  "opt = ''--help'' \<Longrightarrow> info_request (opt, v)" "opt = ''--version'' \<Longrightarrow> info_request (opt, v)"
  "opt = ''--filter'' \<Longrightarrow> v = [] \<Longrightarrow> info_request (opt, v)"
  by (simp_all add: info_request_def)

lemma run_env_updates:
  "r_env (run\<lparr>r_fs := fs\<rparr>) = r_env run" "r_env (run\<lparr>r_exts := e\<rparr>) = r_env run"
  "r_env (run\<lparr>r_line_length := n\<rparr>) = r_env run"
  by simp_all

lemma settings_fine_updates:
  assumes "settings_fine st s"
  shows "settings_fine st (s\<lparr>o_quiet := b\<rparr>)" "settings_fine st (s\<lparr>o_verbosity := n\<rparr>)"
    "settings_fine st (s\<lparr>o_filters := t\<rparr>)" "settings_fine st (s\<lparr>o_recursive := b\<rparr>)"
    "settings_fine st (add_excludes fs s)"
    "\<not> val \<notin> {''emacs'', ''vs7'', ''eclipse'', ''junit''} \<Longrightarrow> settings_fine st (s\<lparr>o_format := val\<rparr>)"
    "\<not> val \<notin> {''total'', ''toplevel'', ''detailed''} \<Longrightarrow> settings_fine st (s\<lparr>o_counting := val\<rparr>)"
    "(\<And>run. r_env (f run) = r_env run) \<Longrightarrow> settings_fine st (set_run f s)"
  using assms by (auto simp: settings_fine_def add_excludes_def cli_cstate_def set_run_def)

lemma apply_option_outcome:
  assumes "settings_fine st s"
  shows "outcome (ends_with (info_request (opt, val))) (settings_fine st) (apply_option sh (opt, val) s)"
  unfolding apply_option_def prod.case
  by (intro outcome_rules outcome_exits outcome_option settings_fine_updates run_env_updates ends_with_rules assms;
      (assumption | (rule info_request_rules; assumption)))

lemma apply_options_outcome:
  "settings_fine st s \<Longrightarrow>
   outcome (ends_with (\<exists>ov \<in> set ovs. info_request ov)) (settings_fine st) (apply_options sh ovs s)"
proof (induction ovs arbitrary: s)
  case Nil
  then show ?case by (simp add: outcome_def)
next
  case (Cons ov ovs)
  obtain opt val where ov: "ov = (opt, val)" by (cases ov)
  have "outcome (ends_with (\<exists>ov \<in> set ((opt, val) # ovs). info_request ov)) (settings_fine st) (apply_option sh (opt, val) s)"
    by (rule outcome_weaken [OF apply_option_outcome [OF Cons.prems]]) (auto simp: ends_with_def)
  moreover have "outcome (ends_with (\<exists>ov \<in> set ((opt, val) # ovs). info_request ov)) (settings_fine st)
      (apply_options sh ovs s')" if "settings_fine st s'" for s'
    by (rule outcome_weaken [OF Cons.IH [OF that]]) (auto simp: ends_with_def)
  ultimately show ?case unfolding ov apply_options.simps by (blast intro: outcome_bind)
qed

lemma start_settings_fine: "settings_fine st (start_settings st)"
  by (simp add: settings_fine_def start_settings_def)


text \<open>The state that \<open>ParseArguments\<close> leaves.\<close>

definition parsed_state :: "cli_state \<Rightarrow> cli_state \<Rightarrow> bool" where
  "parsed_state st st' \<longleftrightarrow>
     filters_ok (cli_cstate st') \<and> (\<exists>fs. filters (cli_cstate st') = DEFAULT_FILTERS @ filter_parts fs)
     \<and> output_format (cli_cstate st') \<in> {output_format (cli_cstate st), ''emacs'', ''vs7'', ''eclipse'', ''junit''}
     \<and> counting (cli_cstate st') \<in> {[], ''total'', ''toplevel'', ''detailed''}
     \<and> (let a = cli_cstate st; b = cli_cstate st' in
          error_count b = error_count a \<and> errors_by_category b = errors_by_category a
          \<and> filters_backup b = filters_backup a \<and> junit_failures b = junit_failures a
          \<and> junit_errors b = junit_errors a \<and> sys_stdout b = sys_stdout a \<and> sys_stderr b = sys_stderr a)"

lemma store_settings_outcome:
  assumes "settings_fine st s"
  shows "outcome (ends_with info) (parsed_state st) (store_settings s)"
proof -
  let ?st = "(cli_cstate (o_state s))\<lparr>output_format := o_format s, quiet := o_quiet s, verbose_level := o_verbosity s\<rparr>"
  obtain st' e where f: "SetFilters (o_filters s) ?st = (st', e)" by fastforce
  from SetFilters_spec [of "o_filters s" ?st] f
  have ok: "filters st' = DEFAULT_FILTERS @ filter_parts (o_filters s)" "filters_ok st' \<longleftrightarrow> e = None"
    "\<And>x. e = Some x \<Longrightarrow> \<exists>t. x = ValueError t" by auto
  have st': "st' = ?st\<lparr>filters := DEFAULT_FILTERS @ filter_parts (o_filters s)\<rparr>"
    using f fst_AddFilters [of "o_filters s" "?st\<lparr>filters := DEFAULT_FILTERS\<rparr>"] by (simp add: SetFilters_def)
  show ?thesis
  proof (cases e)
    case None
    with f have "store_settings s = Inr ((o_state s)\<lparr>g_run := on_cstate (\<lambda>_. SetCountingStyle (o_counting s) st')
        (g_run (o_state s))\<rparr>)"
      by (simp add: store_settings_def SetVerboseLevel_def SetQuiet_def SetOutputFormat_def)
    with ok None assms show ?thesis
      by (auto simp: outcome_def parsed_state_def cli_cstate_def on_cstate_def SetCountingStyle_def
          filters_ok_def settings_fine_def st' Let_def)
  next
    case (Some x)
    with f ok(3) [OF Some] show ?thesis
      by (auto simp: store_settings_def SetVerboseLevel_def SetQuiet_def SetOutputFormat_def outcome_def ends_with_def)
  qed
qed

lemma ParseArguments_parsed:
  "outcome (ends_with (\<exists>opts files. getopt args LINT_OPTIONS = Some (opts, files) \<and> (\<exists>ov \<in> set opts. info_request ov)))
     (\<lambda>(st', files). parsed_state st st' \<and> (\<exists>opts named. getopt args LINT_OPTIONS = Some (opts, named) \<and> named \<noteq> []))
     (ParseArguments sh args st)"
proof (cases "getopt args LINT_OPTIONS")
  case None
  then show ?thesis by (simp add: ParseArguments_def PrintUsage_def ends_with_def)
next
  case (Some r)
  obtain opts named where r: "r = (opts, named)" by (cases r)
  let ?E = "ends_with (\<exists>ov \<in> set opts. info_request ov)"
  have "outcome ?E (\<lambda>(st', files). parsed_state st st' \<and> named \<noteq> []) (ParseArguments sh args st)"
    unfolding ParseArguments_def Some r option.case prod.case
    by (intro outcome_bind [OF apply_options_outcome [OF start_settings_fine]] outcome_rules outcome_exits
        outcome_bind [OF store_settings_outcome] ends_with_rules)
      (simp_all add: outcome_def)
  then show ?thesis using Some r by simp
qed

text \<open>
  C9.  How \<open>ParseArguments\<close> ends.  It exits with status 0 only if the options that were understood
  ask for information (\<open>--help\<close>, \<open>--version\<close> or an empty \<open>--filter\<close>), with status 1 for a
  command line that is not understood, names no file or has a value that is not allowed, or
  it raises \<open>ValueError\<close>.  Otherwise there is at least one file name on the command line, every
  filter in force carries a sign and comes after the default ones, output format and counting
  style are known ones, and no counter and no output is touched.
\<close>

theorem ParseArguments_outcome:
  "(case ParseArguments sh args st of
      Inl e \<Rightarrow> e = SystemExit 1 \<or> (\<exists>t. e = ValueError t)
        \<or> e = SystemExit 0 \<and> (\<exists>opts files. getopt args LINT_OPTIONS = Some (opts, files)
              \<and> (\<exists>ov \<in> set opts. info_request ov))
    | Inr (st', files) \<Rightarrow> parsed_state st st'
        \<and> (\<exists>opts named. getopt args LINT_OPTIONS = Some (opts, named) \<and> named \<noteq> []))"
  using ParseArguments_parsed [of args st sh]
  by (cases "ParseArguments sh args st") (auto simp: ends_with_def)

section \<open>The exit status\<close>

lemma fold_PrintInfo:
  "fold (\<lambda>(c, n). PrintInfo (t c n)) xs st = fold PrintInfo (map (\<lambda>(c, n). t c n) xs) st"
  "PrintInfo u (fold PrintInfo ts st) = fold PrintInfo (ts @ [u]) st"
  by (induction xs arbitrary: st) auto

lemma PrintErrorCounts_prints: "\<exists>ts. PrintErrorCounts st = fold PrintInfo ts st"
proof (cases "error_count st > 0")
  case True
  then show ?thesis unfolding PrintErrorCounts_def Let_def fold_PrintInfo(1)
    by (simp only: if_True) (rule exI, rule fold_PrintInfo(2))
next
  case False
  then show ?thesis unfolding PrintErrorCounts_def Let_def fold_PrintInfo(1)
    by (simp only: if_False) (rule exI, rule refl)
qed

lemma fold_PrintInfo_frame:
  "(\<And>t st. g (PrintInfo t st) = g st) \<Longrightarrow> g (fold PrintInfo ts st) = g st"
  by (induction ts arbitrary: st) simp_all

lemma PrintErrorCounts_frame [simp]:
  "error_count (PrintErrorCounts st) = error_count st" "junit_failures (PrintErrorCounts st) = junit_failures st"
  "output_format (PrintErrorCounts st) = output_format st" "counting (PrintErrorCounts st) = counting st"
  "errors_by_category (PrintErrorCounts st) = errors_by_category st" "junit_errors (PrintErrorCounts st) = junit_errors st"
proof -
  obtain ts where "PrintErrorCounts st = fold PrintInfo ts st" using PrintErrorCounts_prints by blast
  then show "error_count (PrintErrorCounts st) = error_count st" "junit_failures (PrintErrorCounts st) = junit_failures st"
    "output_format (PrintErrorCounts st) = output_format st" "counting (PrintErrorCounts st) = counting st"
    "errors_by_category (PrintErrorCounts st) = errors_by_category st" "junit_errors (PrintErrorCounts st) = junit_errors st"
    by (simp_all add: fold_PrintInfo_frame)
qed

lemma final_report_frame:
  "error_count (final_report st) = error_count st" "junit_failures (final_report st) = junit_failures st"
  "output_format (final_report st) = output_format st" "counting (final_report st) = counting st"
  "errors_by_category (final_report st) = errors_by_category st"
  by (simp_all add: final_report_def Let_def write_stderr_def)

lemma FormatJUnitXML_cong:
  "junit_errors a = junit_errors b \<Longrightarrow> junit_failures a = junit_failures b \<Longrightarrow> FormatJUnitXML a = FormatJUnitXML b"
  by (simp add: FormatJUnitXML_def junit_testsuite_def Let_def)

lemma final_report_junit:
  assumes "output_format st = ''junit''"
  shows "last (sys_stderr (final_report st)) = FormatJUnitXML st"
proof -
  have "FormatJUnitXML (PrintErrorCounts st) = FormatJUnitXML st" by (rule FormatJUnitXML_cong) simp_all
  with assms show ?thesis by (simp add: final_report_def Let_def write_stderr_def)
qed

text \<open>
  C1.  The exit status of a run from the start of the program to its last \<open>sys.exit\<close>: it is 1 if
  errors were counted in some file and 0 otherwise.  The counters by category add up to the
  total, and in the JUnit format the report, the last thing that is written, has exactly one
  failure per counted error, so its failures decide the exit status.
\<close>

theorem lint_main_exit:
  assumes "lint_main sh args (init_cli exists cwd) = Inr (final, code)"
  shows "code = (if error_count final = 0 then 0 else 1) \<and> counts_ok final
    \<and> (output_format final = ''junit'' \<longrightarrow>
         length (junit_failures final) = error_count final
         \<and> last (sys_stderr final) = FormatJUnitXML final)"
proof -
  let ?st = "init_cli exists cwd"
  from assms obtain st1 files run where p: "ParseArguments sh args ?st = Inr (st1, files)"
    and l: "lint_files (sh_world sh) files (on_cstate ResetErrorCounts (g_run st1)) = Inr run"
    and final: "final = final_report (run_cstate run)" and code: "code = (if error_count final > 0 then 1 else 0)"
    by (auto simp: lint_main_def py_bind_Inr_iff run_cstate_def Let_def)
  let ?run0 = "on_cstate ResetErrorCounts (g_run st1)"
  from ParseArguments_parsed [where sh = sh and args = args and st = ?st] p have "parsed_state ?st st1" by simp
  then have "junit_failures (run_cstate (g_run st1)) = []"
    by (simp add: parsed_state_def cli_cstate_def Let_def init_cli_def init_env_def init_cpplint_state_def run_cstate_def)
  then have "junit_exact (run_cstate ?run0)" by (simp add: junit_exact_def ResetErrorCounts_def)
  from junit.lint_files_inv [OF l this] have j: "junit_exact (run_cstate run)" .
  have "counts_ok (run_cstate ?run0)" by (simp add: counts_ok_reset)
  from counted.lint_files_inv [OF l this] have "counts_ok (run_cstate run)" .
  then have "counts_ok final" by (simp only: final counts_ok_def final_report_frame)
  moreover have "length (junit_failures final) = error_count final" if "output_format final = ''junit''"
    using j that by (simp add: final final_report_frame junit_exact_def)
  moreover have "last (sys_stderr final) = FormatJUnitXML final" if "output_format final = ''junit''"
  proof -
    have "FormatJUnitXML final = FormatJUnitXML (run_cstate run)"
      by (rule FormatJUnitXML_cong)
        (simp_all add: final final_report_def Let_def write_stderr_def)
    then show ?thesis using final_report_junit [of "run_cstate run"] that by (simp add: final final_report_frame)
  qed
  ultimately show ?thesis using code by simp
qed

definition demo_shell :: shell where
  "demo_shell = \<lparr>sh_world = config_world [], sh_glob = (\<lambda>f. [f]), sh_isdir = (\<lambda>_. False), sh_walk = (\<lambda>_. [])\<rparr>"

theorem lint_main_exit_witness:
  "\<exists>final. lint_main demo_shell [''--output=junit'', ''a.txt''] (init_cli (\<lambda>_. False) ''/'') = Inr (final, 0)
     \<and> junit_failures final = [] \<and> junit_errors final \<noteq> []"
proof -
  let ?r = "lint_main demo_shell [''--output=junit'', ''a.txt''] (init_cli (\<lambda>_. False) ''/'')"
  have "map_sum (\<lambda>_. ()) (\<lambda>(st, code). (code, output_format st, junit_errors st = [])) ?r = Inr (0, ''junit'', False)"
    by code_simp
  then obtain final where r: "?r = Inr (final, 0)" and f: "output_format final = ''junit''" "junit_errors final \<noteq> []"
    by (cases ?r) auto
  from lint_main_exit [OF r] f have "length (junit_failures final) = 0" by (simp split: if_split_asm)
  with r f show ?thesis by simp
qed

end
