(* ===== verification/Regex_Facts.thy ===== *)
theory Regex_Facts
  imports Lint_Check
begin

text \<open>
  Facts about the matches of patterns that the checks rely on: where the first group of a
  match ends, and that a search succeeds where a match exists.
\<close>

lemma re_search_hit: "rm r (rev a, b, []) st' \<Longrightarrow> re_search r (a @ b) \<noteq> None"
  unfolding re_search_def search_from_None_iff match_at_None_iff by (metis append.right_neutral)

lemma re_search_SomeD:
  assumes "re_search r s = Some m"
  obtains a b s' where "s = a @ m_text m @ s'" "b = m_text m @ s'" "m_start m = length a"
    "rm r (rev a, b, []) (rev (m_text m) @ rev a, s', m_caps m)"
proof -
  from assms obtain a b where ab: "s = a @ b" and m: "match_at r (rev a) b = Some m"
    using search_from_SomeD [of r "[]" s m] by (auto simp: re_search_def)
  from match_at_SomeD [OF m] obtain s' where "b = m_text m @ s'" "m_start m = length a"
    "rm r (rev a, b, []) (rev (m_text m) @ rev a, s', m_caps m)" by auto
  with ab that show thesis by blast
qed

lemma re_search_end: "re_search r s = Some m \<Longrightarrow> minw r \<le> length (m_text m) \<and> m_end m \<le> length s"
proof -
  assume a: "re_search r s = Some m"
  obtain x b s' where s: "s = x @ m_text m @ s'" "b = m_text m @ s'" "m_start m = length x"
    "rm r (rev x, b, []) (rev (m_text m) @ rev x, s', m_caps m)" by (rule re_search_SomeD [OF a])
  from rm_minw [OF s(4)] s(2) have "minw r \<le> length (m_text m)" by simp
  moreover have "m_end m \<le> length s" using arg_cong [OF s(1), of length] s(3) by (simp add: m_end_def)
  ultimately show ?thesis by blast
qed

text \<open>A pattern that ends with a one-character text: the last character of its match.\<close>

lemma re_search_last_char:
  assumes "re_search r s = Some m" and "r = Seqs (rs @ [Str [c]])"
  shows "0 < m_end m \<and> m_end m \<le> length s \<and> s ! (m_end m - 1) = c"
proof -
  obtain x b s' where s: "s = x @ m_text m @ s'" "b = m_text m @ s'" "m_start m = length x"
    "rm r (rev x, b, []) (rev (m_text m) @ rev x, s', m_caps m)" by (rule re_search_SomeD [OF assms(1)])
  have last: "rm (Seqs (rs @ [Str [c]])) st (p', t', c') \<Longrightarrow> \<exists>q. p' = c # q \<and> length (fst st) < length p'" for st p' t' c'
  proof (induction rs arbitrary: st)
    case Nil
    then show ?case by (cases st) (auto simp: rm_Str_iff)
  next
    case (Cons r rs)
    then obtain st1 where a: "rm r st st1" and b: "rm (Seqs (rs @ [Str [c]])) st1 (p', t', c')"
      by (cases "rs @ [Str [c]]") (auto simp: rm_Seq_iff)
    from rm_consumes [OF a] have "length (fst st) \<le> length (fst st1)" by auto
    with Cons.IH [OF b] show ?case by auto
  qed
  from last [of "(rev x, b, [])" "rev (m_text m) @ rev x" s' "m_caps m"] s(4) assms(2)
  obtain q where q: "rev (m_text m) @ rev x = c # q" and len: "0 < length (m_text m)" by auto
  then obtain w where w: "m_text m = w @ [c]" by (cases "m_text m" rule: rev_cases) auto
  then have "s ! (m_end m - 1) = c" unfolding s(1) m_end_def s(3) by (simp add: nth_append)
  with len s re_search_end [OF assms(1)] show ?thesis by (simp add: m_end_def)
qed

text \<open>The first group of a pattern that starts with it, when the rest has no group.\<close>

lemma first_group_split:
  assumes "match_at r p s = Some m" and "r = Seq (Grp n q) rest" and "grp_free rest" and "0 < n"
  obtains u t c st where "s = u @ t" "group_text m n = u" "rm q (p, u @ t, []) (rev u @ p, t, c)"
    "rm rest (rev u @ p, t, (n, length p, u) # c) st"
proof -
  from match_at_SomeD [OF assms(1)] assms(2) obtain s' where
    rm: "rm (Seq (Grp n q) rest) (p, s, []) (rev (m_text m) @ p, s', m_caps m)" by auto
  from rm obtain u t c1 where s: "s = u @ t" and g: "rm (Grp n q) (p, u @ t, []) (rev u @ p, t, c1)"
    and r: "rm rest (rev u @ p, t, c1) (rev (m_text m) @ p, s', m_caps m)" by (rule rm_SeqE)
  from g obtain c where c: "rm q (p, u @ t, []) (rev u @ p, t, c)" "c1 = (n, length p, u) # c" by (rule rm_GrpE)
  have "m_caps m = c1" using rm_grp_freeD [OF r assms(3)] by simp
  with c(2) assms(4) have "group_text m n = u" by (simp add: group_text_def group_def)
  with that s c r show thesis by blast
qed

end
