(* ===== verification/Check_Laws.thy ===== *)
theory Check_Laws
  imports Check_Braces Regex_Facts
begin

text \<open>
  The contract of the checks of \<open>CheckStyle\<close> and of the checks of constructs: on a line of the
  file a check returns, and its messages name that file, a line of it, a registered category
  and a confidence from 0 to 5 (the predicate \<^const>\<open>checked\<close>).  The one exception is the
  constructor check, which may raise \<open>IndexError\<close>.
\<close>

section \<open>Bracket matching stays within the file\<close>

lemma end_step_in_line: "end_step line i st = Return p \<Longrightarrow> i < length line \<Longrightarrow> p \<le> int (length line)"
  using end_step_bounds [of line i st p] by auto

lemma FindEnd_in_line:
  "FindEndOfExpressionInLine line i st = (p, stk) \<Longrightarrow> p \<le> int (length line) \<and> -1 \<le> p"
proof (induction line i st rule: FindEndOfExpressionInLine.induct)
  case (1 line i st)
  note step = FindEndOfExpressionInLine.simps [of line i st]
  show ?case
  proof (cases "i < length line")
    case False
    with 1 step show ?thesis by simp
  next
    case True
    show ?thesis
    proof (cases "end_step line i st")
      case (Return q)
      with 1 step True end_step_in_line [OF Return] end_step_bounds [OF Return] show ?thesis by auto
    next
      case (Go st')
      with 1 step True show ?thesis by simp
    qed
  qed
qed

text \<open>What a successful search returns: a later place in the file, and the line it is on.\<close>

definition place_after :: "cleansed_lines \<Rightarrow> nat \<Rightarrow> string \<times> nat \<times> int \<Rightarrow> bool" where
  "place_after cl n r \<longleftrightarrow>
     (case r of (l, n', e) \<Rightarrow>
        if e = -1 then n' = NumLines cl
        else 0 < e \<and> e \<le> int (length l) \<and> n \<le> n' \<and> n' < NumLines cl \<and> l = elided cl ! n')"

lemma place_after_mono: "place_after cl m r \<Longrightarrow> n \<le> m \<Longrightarrow> place_after cl n r"
  by (auto simp: place_after_def split: if_splits)

lemma close_lines_place:
  "sized cl \<Longrightarrow> close_lines cl line n stk = Inr r \<Longrightarrow> place_after cl n r"
proof (induction "NumLines cl - n" arbitrary: n line stk rule: less_induct)
  case less
  show ?case
  proof (cases "stk \<noteq> None \<and> stk \<noteq> Some [] \<and> int n < int (NumLines cl) - 1")
    case False
    then have "close_lines cl line n stk = Inr (line, NumLines cl, -1)" by (subst close_lines.simps) auto
    with less.prems show ?thesis by (auto simp: place_after_def)
  next
    case True
    then have n: "n + 1 < NumLines cl" by simp
    let ?l = "elided cl ! (n + 1)"
    have l: "py_nth (elided cl) (int (n + 1)) = Inr ?l"
      by (rule py_nth_of_nat) (use n less.prems(1) in \<open>simp add: sized_def\<close>)
    obtain e stk' where f: "FindEndOfExpressionInLine ?l 0 (the stk) = (e, stk')" by fastforce
    have "close_lines cl line n stk =
        (if e > -1 then Inr (?l, n + 1, e) else close_lines cl ?l (n + 1) stk')"
      using True close_lines.simps [of cl line n stk] by (simp only: l f py_bind_simps Let_def prod.case) simp
    moreover have "e \<le> int (length ?l)" "e \<noteq> -1 \<Longrightarrow> 0 < e"
      using FindEnd_in_line [OF f] FindEnd_bounds [OF f] by auto
    moreover have "place_after cl n r" if "close_lines cl ?l (n + 1) stk' = Inr r"
      by (rule place_after_mono [OF less.hyps [OF _ less.prems(1) that]]) (use n in simp_all)
    ultimately show ?thesis using less.prems n
      by (cases "e > -1") (auto simp: place_after_def)
  qed
qed

lemma CloseExpression_place:
  assumes "sized cl" and "n < NumLines cl" and "p < length (elided cl ! n)"
  shows "\<exists>r. CloseExpression cl n p = Inr r \<and> place_after cl n r"
proof -
  let ?l = "elided cl ! n"
  have l: "py_nth (elided cl) (int n) = Inr ?l" using assms by (simp add: sized_def)
  obtain e stk where f: "FindEndOfExpressionInLine ?l p [] = (e, stk)" by fastforce
  from CloseExpression_returns [OF assms] obtain r where r: "CloseExpression cl n p = Inr r" by (auto simp: returns_def)
  moreover have "place_after cl n r"
    using r l f FindEnd_in_line [OF f] FindEnd_bounds [OF f] assms close_lines_place [OF assms(1)]
    by (auto simp: CloseExpression_def place_after_def split: if_splits)
  ultimately show ?thesis by blast
qed

text \<open>The backward search, which returns line 0 if it finds nothing.\<close>

definition place_before :: "cleansed_lines \<Rightarrow> nat \<Rightarrow> string \<times> nat \<times> int \<Rightarrow> bool" where
  "place_before cl n r \<longleftrightarrow>
     (case r of (l, n', e) \<Rightarrow>
        n' \<le> n \<and> -1 \<le> e \<and> (e \<noteq> -1 \<longrightarrow> e < int (length l) \<and> l = elided cl ! n'))"

lemma start_step_bounds: "start_step line i st = BReturn p \<Longrightarrow> p = -1 \<or> p = int i"
  by (auto simp: start_step_def Let_def split: if_splits list.splits)

lemma FindStart_in_line:
  "i < int (length line) \<Longrightarrow>
   \<exists>p stk. FindStartOfExpressionInLine line i st = Inr (p, stk) \<and> p < int (length line) \<and> -1 \<le> p"
proof (induction line i st rule: FindStartOfExpressionInLine.induct)
  case (1 line i st)
  note step = FindStartOfExpressionInLine.simps [of line i st]
  show ?case
  proof (cases "0 \<le> i")
    case False
    with 1 step show ?thesis by simp
  next
    case True
    show ?thesis
    proof (cases "start_step line (nat i) st")
      case (BReturn q)
      with 1 step True start_step_bounds [OF BReturn] show ?thesis by auto
    next
      case (BGo k st')
      with 1 step True show ?thesis by simp
    qed
  qed
qed

lemma open_lines_place:
  "sized cl \<Longrightarrow> n < NumLines cl \<Longrightarrow> \<exists>r. open_lines cl line n stk = Inr r \<and> place_before cl n r"
proof (induction n arbitrary: line stk)
  case 0
  then show ?case by (subst open_lines.simps) (simp add: place_before_def)
next
  case (Suc n)
  show ?case
  proof (cases "stk \<noteq> None \<and> stk \<noteq> Some []")
    case False
    then show ?thesis by (subst open_lines.simps) (auto simp: place_before_def)
  next
    case True
    let ?l = "elided cl ! n"
    have l: "py_nth (elided cl) (int n) = Inr ?l" using Suc.prems by (simp add: sized_def)
    obtain p stk' where f: "FindStartOfExpressionInLine ?l (int (length ?l) - 1) (the stk) = Inr (p, stk')"
      and p: "p < int (length ?l)" "-1 \<le> p" using FindStart_in_line [of "int (length ?l) - 1" ?l] by fastforce
    have "open_lines cl line (Suc n) stk = (if p > -1 then Inr (?l, n, p) else open_lines cl ?l n stk')"
      using True open_lines.simps [of cl line "Suc n" stk] l f by simp
    moreover obtain r where "open_lines cl ?l n stk' = Inr r" "place_before cl n r"
      using Suc.IH [of ?l stk'] Suc.prems by auto
    ultimately show ?thesis using p by (auto simp: place_before_def)
  qed
qed

lemma ReverseCloseExpression_place:
  assumes "sized cl" and "n < NumLines cl" and "p < length (elided cl ! n)"
  shows "\<exists>r. ReverseCloseExpression cl n p = Inr r \<and> place_before cl n r"
proof -
  let ?l = "elided cl ! n"
  have l: "py_nth (elided cl) (int n) = Inr ?l" using assms by (simp add: sized_def)
  have c: "py_nth ?l (int p) = Inr (?l ! p)" using assms(3) by simp
  obtain e stk where f: "FindStartOfExpressionInLine ?l (int p) [] = Inr (e, stk)"
    and e: "e < int (length ?l)" "-1 \<le> e" using FindStart_in_line [of "int p" ?l "[]"] assms(3) by auto
  obtain r where "open_lines cl ?l n stk = Inr r" "place_before cl n r"
    using open_lines_place [OF assms(1,2)] by blast
  then show ?thesis using l c f e by (auto simp: ReverseCloseExpression_def place_before_def)
qed

section \<open>Rules for the contract\<close>

lemma checked_option:
  "(x = None \<Longrightarrow> checked f cl m) \<Longrightarrow> (\<And>a. x = Some a \<Longrightarrow> checked f cl (k a))
     \<Longrightarrow> checked f cl (case x of None \<Rightarrow> m | Some a \<Rightarrow> k a)"
  by (cases x) simp_all

lemma checked_triple:
  "(\<And>a b c. x = (a, b, c) \<Longrightarrow> checked f cl (k a b c)) \<Longrightarrow> checked f cl (case x of (a, b, c) \<Rightarrow> k a b c)"
  by (cases x) simp

lemma checked_close:
  assumes "full cl" and "n < NumLines cl" and "p < length (elided cl ! n)"
    and "\<And>l n' e. place_after cl n (l, n', e) \<Longrightarrow> checked f cl (k (l, n', e))"
  shows "checked f cl (py_bind (CloseExpression cl n p) k)"
  using CloseExpression_place [OF full_sized [OF assms(1)] assms(2,3)] assms(4) by auto

lemma checked_open:
  assumes "full cl" and "n < NumLines cl" and "p < length (elided cl ! n)"
    and "\<And>l n' e. place_before cl n (l, n', e) \<Longrightarrow> checked f cl (k (l, n', e))"
  shows "checked f cl (py_bind (ReverseCloseExpression cl n p) k)"
  using ReverseCloseExpression_place [OF full_sized [OF assms(1)] assms(2,3)] assms(4) by auto

lemma full_nth [simp]:
  assumes "full cl" and "n < NumLines cl"
  shows "py_nth (elided cl) (int n) = Inr (elided cl ! n)" "py_nth (raw_lines cl) (int n) = Inr (raw_lines cl ! n)"
    "py_nth (lines cl) (int n) = Inr (lines cl ! n)"
  using assms by (simp_all add: full_def sized_def)

lemma msgs_ok_err [simp]:
  "msg_ok f cl (err_at f (int n) cat conf t) \<longleftrightarrow>
     n < NumLines cl \<and> wf_cat cat \<and> (0 \<le> conf \<or> cat = ''readability/fn_size'') \<and> conf \<le> 5"
  by (auto simp: msg_ok_def)

section \<open>Checks of one line\<close>

lemma MultilineCommentsAndStrings_checked:
  "full cl \<Longrightarrow> n < NumLines cl \<Longrightarrow> checked f cl (CheckForMultilineCommentsAndStrings f cl n)"
  by (simp add: CheckForMultilineCommentsAndStrings_def Let_def)

lemma VlogArguments_checked:
  "full cl \<Longrightarrow> n < NumLines cl \<Longrightarrow> checked f cl (CheckVlogArguments f cl n)"
  by (simp add: CheckVlogArguments_def)

lemma InvalidIncrement_checked:
  "full cl \<Longrightarrow> n < NumLines cl \<Longrightarrow> checked f cl (CheckInvalidIncrement f cl n)"
  by (simp add: CheckInvalidIncrement_def)

lemma PosixThreading_checked:
  "full cl \<Longrightarrow> n < NumLines cl \<Longrightarrow> checked f cl (CheckPosixThreading f cl n)"
  by (auto simp: CheckPosixThreading_def split_beta)

section \<open>Function lengths\<close>

lemma fn_decl_parts:
  assumes "re_match re_fn_decl line = Some m"
  shows "\<exists>x xs t. group_text m 1 = x # xs \<and> isword x \<and> line = group_text m 1 @ CHR ''('' # t"
proof -
  have r: "re_fn_decl = Seq (Grp 1 (Seq Wrd (Star (Grp 2 (Alts [Wrd, Str ''::'', Str ''*'', Str ''&'', Spc]))))) (Str ''('')"
    by (simp add: re_fn_decl_def)
  obtain u t c st where s: "line = u @ t" "group_text m 1 = u"
    and q: "rm (Seq Wrd (Star (Grp 2 (Alts [Wrd, Str ''::'', Str ''*'', Str ''&'', Spc])))) ([], u @ t, []) (rev u @ [], t, c)"
    and tl: "rm (Str ''('') (rev u @ [], t, (1, length [], u) # c) st"
    by (rule first_group_split [OF assms [unfolded re_match_def] r]) auto
  from q obtain v s1 c1 where v: "u @ t = v @ s1" "rm Wrd ([], v @ s1, []) (rev v @ [], s1, c1)"
    and rest: "rm (Star (Grp 2 (Alts [Wrd, Str ''::'', Str ''*'', Str ''&'', Spc]))) (rev v @ [], s1, c1) (rev u @ [], t, c)"
    by (rule rm_SeqE)
  from v(2) obtain x where x: "v = [x]" "isword x" by (auto simp: rm_Cls_iff)
  from rm_split [OF rest] x obtain w where "rev u = rev w @ [x]" by auto
  then have "u = x # rev (rev w)" by (metis append.simps rev_append rev_rev_ident rev_singleton_conv)
  moreover obtain t' where "t = CHR ''('' # t'" using tl by (auto simp: rm_Str_iff)
  ultimately show ?thesis using s x(2) by auto
qed

lemma split_ws_word: "isword x \<Longrightarrow> split_ws (x # xs) \<noteq> []"
  by (subst split_ws.simps) (auto simp: Let_def lstrip_def isword_def isalnum_def isspace_def)

lemma starts_function_returns: "\<exists>b. starts_function line = Inr b \<and> (b \<longrightarrow> CHR ''('' \<in> set line)"
proof (cases "re_match re_fn_decl line")
  case None
  then have "starts_function line = Inr False" by (simp add: starts_function_def)
  then show ?thesis by blast
next
  case (Some m)
  from fn_decl_parts [OF Some] obtain x xs t where g: "group_text m 1 = x # xs" "isword x"
    "line = group_text m 1 @ CHR ''('' # t" by blast
  have "split_ws (group_text m 1) \<noteq> []" using g split_ws_word by simp
  then have "py_nth (split_ws (group_text m 1)) (-1) = Inr (last (split_ws (group_text m 1)))"
    by (cases "split_ws (group_text m 1)") (auto simp: py_nth_def last_conv_nth)
  moreover have "CHR ''('' \<in> set line" by (subst g(3)) simp
  ultimately show ?thesis using Some by (simp add: starts_function_def)
qed

lemma fn_name_hit:
  assumes "CHR ''('' \<in> set line"
  shows "re_search re_fn_name line \<noteq> None"
proof -
  from assms obtain a b where line: "line = a @ CHR ''('' # b" by (auto simp: in_set_conv_decomp)
  have r: "re_fn_name = Seq (Grp 1 (Star (Grp 2 (Alts [Wrd, Str '':''])))) (Str ''('')" by (simp add: re_fn_name_def)
  have "rm (Grp 1 (Star (Grp 2 (Alts [Wrd, Str '':''])))) (rev a, CHR ''('' # b, []) (rev a, CHR ''('' # b, [(1, length (rev a), [])])"
    using rm_Grp [OF rm_Star0 [of _ "(rev a, CHR ''('' # b, [])"], of 1] by simp
  moreover have "rm (Str ''('') (rev a, CHR ''('' # b, [(1, length (rev a), [])]) (rev ''('' @ rev a, b, [(1, length (rev a), [])])"
    using rm_Str [of "''(''" "rev a" b] by simp
  ultimately have "rm re_fn_name (rev a, CHR ''('' # b, []) (rev ''('' @ rev a, b, [(1, length (rev a), [])])"
    unfolding r by (rule rm_Seq)
  from re_search_hit [OF this] show ?thesis by (simp add: line)
qed

lemma find_body_returns: "CHR ''('' \<in> set line \<Longrightarrow> returns (find_body line ls joined st)"
proof (induction line ls joined st rule: find_body.induct)
  case (2 line start_line rest joined st)
  from fn_name_hit [OF 2(2)] obtain m where "re_search re_fn_name line = Some m" by blast
  with 2 show ?case by (auto simp: Let_def function_title_def split: option.split)
qed simp

text \<open>The contract of a check that also returns a state.\<close>

definition checked_with :: "string \<Rightarrow> cleansed_lines \<Rightarrow> ('a \<times> lint_msg list) py \<Rightarrow> bool" where
  "checked_with f cl r \<longleftrightarrow> (\<exists>st ms. r = Inr (st, ms) \<and> msgs_ok f cl ms)"

lemma checked_with_Inr [simp]: "checked_with f cl (Inr (st, ms)) \<longleftrightarrow> msgs_ok f cl ms"
  by (auto simp: checked_with_def)

lemma Check_msgs_ok: "n < NumLines cl \<Longrightarrow> msgs_ok f cl (Check v f (int n) st)"
  by (simp add: Check_def Let_def fn_error_level_def)

lemma FunctionLengths_checked:
  assumes "full cl" and "n < NumLines cl"
  shows "checked_with f cl (CheckForFunctionLengths v f cl n st)"
proof -
  obtain b where s: "starts_function (lines cl ! n) = Inr b" and b: "b \<longrightarrow> CHR ''('' \<in> set (lines cl ! n)"
    using starts_function_returns by blast
  show ?thesis
  proof (cases b)
    case True
    then obtain st' found where "find_body (lines cl ! n) (take (NumLines cl - n) (drop n (lines cl))) [] st = Inr (st', found)"
      using find_body_returns b by (fastforce simp: returns_def)
    with True s assms show ?thesis
      by (auto simp: CheckForFunctionLengths_def checked_with_def)
  next
    case False
    with s assms show ?thesis by (auto simp: CheckForFunctionLengths_def checked_with_def Check_msgs_ok)
  qed
qed

section \<open>Constructs\<close>

lemma NamespaceIndentation_checked:
  assumes "full cl" and "n < NumLines cl"
  shows "checked f cl (CheckForNamespaceIndentation f st cl n)"
proof -
  have p: "returns (py_nth (elided cl) (int n - 1))" using at_previous(1) [OF assms] by (simp add: elided_at_def)
  have "returns (IsMacroDefinition (elided cl) n)"
    using assms p by (auto simp: IsMacroDefinition_def returns_def)
  moreover have "returns (IsForwardClassDeclaration (elided cl) n)" using assms by (simp add: IsForwardClassDeclaration_def)
  ultimately have should: "returns (ShouldCheckNamespaceIndentation st b (elided cl) n)" for b
    by (auto simp: ShouldCheckNamespaceIndentation_def returns_def)
  have item: "checked f cl (CheckItemIndentationInNamespace f (elided cl) n)"
    using assms by (simp add: CheckItemIndentationInNamespace_def msgs_ok_lint)
  show ?thesis unfolding CheckForNamespaceIndentation_def
    by (intro checked_bind [OF should] checked_split item) simp
qed

text \<open>Joining pieces may run out of pieces, and cannot fail otherwise.\<close>

lemma collapse_from_outcome: "outcome (\<lambda>e. e = IndexError) (\<lambda>args. args \<noteq> []) (collapse_from a bs)"
proof (induction a bs rule: collapse_from.induct)
  case (2 a b bs)
  then show ?case by (cases "arg_open a") (auto intro: outcome_bind)
qed simp

lemma collapse_args_outcome: "outcome (\<lambda>e. e = IndexError) (\<lambda>_. True) (collapse_args args)"
  using outcome_weaken [OF collapse_from_outcome] by (cases args) (auto simp: collapse_args_def)

lemma explicit_msgs_ok: "n < NumLines cl \<Longrightarrow> msgs_ok f cl (explicit_msgs f n base marked args)"
  unfolding explicit_msgs_def Let_def by (intro msgs_ok_rules; (assumption | rule wf_categories | simp))

lemma nonstandard_strings_ok: "n < NumLines cl \<Longrightarrow> msgs_ok f cl (nonstandard_strings f n line)"
  unfolding nonstandard_strings_def by (intro msgs_ok_rules; (assumption | rule wf_categories | simp))

lemma nonstandard_code_ok: "n < NumLines cl \<Longrightarrow> msgs_ok f cl (nonstandard_code f n line)"
  unfolding nonstandard_code_def by (intro msgs_ok_rules; (assumption | rule wf_categories | simp))

lemma NonStandardConstructs_outcome:
  assumes "full cl" and "n < NumLines cl"
  shows "outcome (\<lambda>e. e = IndexError) (msgs_ok f cl) (CheckForNonStandardConstructs f cl n st)"
proof -
  have c: "outcome (\<lambda>e. e = IndexError) (msgs_ok f cl) (check_constructor f n line name)" for line name
    unfolding check_constructor_def Let_def
    by (intro outcome_option outcome_rules outcome_bind [OF collapse_args_outcome] explicit_msgs_ok assms) simp
  have "outcome (\<lambda>e. e = IndexError) (msgs_ok f cl)
      (case InnermostClass st of Some b \<Rightarrow> if seen_open_brace b
         then check_constructor f n line (class_name_of b) else Inr [] | None \<Rightarrow> Inr [])" for line
    using c by (simp split: option.split)
  then show ?thesis
    unfolding CheckForNonStandardConstructs_def using assms
    by (auto intro!: outcome_bind simp: nonstandard_strings_ok nonstandard_code_ok)
qed

section \<open>Spacing\<close>

lemma SpacingForFunctionCall_checked:
  "full cl \<Longrightarrow> n < NumLines cl \<Longrightarrow> checked f cl (CheckSpacingForFunctionCall f cl n)"
  by (auto simp: CheckSpacingForFunctionCall_def Let_def)

lemma CheckComment_ok: "n < NumLines cl \<Longrightarrow> msgs_ok f cl (CheckComment line f n k)"
  by (auto simp: CheckComment_def todo_msgs_def Let_def split: option.split)

lemma initializer_start_ok: "k \<le> length els \<Longrightarrow> \<exists>j \<le> k. initializer_start els k = Inr j"
  by (induction els k rule: initializer_start.induct) (auto intro: le_SucI)

lemma blank_exception_returns:
  assumes "full cl" and "n < NumLines cl"
  shows "returns (blank_exception cl n l)"
proof -
  have "n - 1 \<le> length (elided cl)" using assms by (simp add: full_def sized_def)
  from initializer_start_ok [OF this] obtain j where j: "j \<le> n - 1" "initializer_start (elided cl) (n - 1) = Inr j" by blast
  have "j - 1 < NumLines cl" using j(1) assms(2) by linarith
  with j assms(1) show ?thesis by (simp add: blank_exception_def)
qed

lemma CheckSpacing_checked:
  assumes "full cl" and "n < NumLines cl"
  shows "checked f cl (CheckSpacing f cl n st)"
proof -
  have start: "checked f cl (blank_start f cl n l)" for l
    unfolding blank_start_def
    by (intro checked_option checked_split checked_bind [OF blank_exception_returns [OF assms]])
      (auto simp: assms)
  have "checked f cl (blank_end f cl n)" using assms(1) by (auto simp: blank_end_def)
  moreover have "msgs_ok f cl (blank_section f n l)" for l
    using assms(2) by (auto simp: blank_section_def split: option.split)
  ultimately have blank: "checked f cl (blank_line_msgs f cl n)"
    using start by (auto simp: blank_line_msgs_def intro!: checked_bind [OF at_previous(1) [OF assms]] checked_app)
  moreover have "returns (next_line_indent cl n)" using assms(1) by (auto simp: next_line_indent_def)
  ultimately show ?thesis using assms
    by (auto simp: CheckSpacing_def CheckComment_ok intro!: checked_app checked_bind [of "next_line_indent cl n"])
qed

lemma first_group_before:
  "re_match re_tight_lt s = Some m \<Longrightarrow> length (group_text m 1) < length s"
  "re_match re_tight_gt s = Some m \<Longrightarrow> length (group_text m 1) < length s"
  "re_match re_tight_brace s = Some m \<Longrightarrow> length (group_text m 1) < length s"
  by ((erule re_match_segsE [OF _ re_tight_lt_def] re_match_segsE [OF _ re_tight_gt_def]
      re_match_segsE [OF _ re_tight_brace_def], simp), elim seg_ConsE, auto simp: group_text_def group_def)+

lemma hide_operators_length: "length (hide_operators line) \<le> length line"
proof (induction line rule: hide_operators.induct)
  case (1 line)
  show ?case
  proof (cases "re_match re_operator_method line")
    case None
    then show ?thesis by (simp add: hide_operators.simps)
  next
    case (Some m)
    from operator_method_parts [OF Some] obtain t where
      "line = group_text m 1 @ group_text m 2 @ group_text m 3 @ t" by blast
    from arg_cong [OF this, of length] 1 [OF Some] show ?thesis
      by (subst hide_operators.simps) (simp add: Some)
  qed
qed

lemma OperatorSpacing_checked:
  assumes "full cl" and "n < NumLines cl"
  shows "checked f cl (CheckOperatorSpacing f cl n)"
proof -
  let ?l = "hide_operators (elided cl ! n)"
  have len: "k < length (elided cl ! n)" if "k < length ?l" for k
    using that hide_operators_length [of "elided cl ! n"] by linarith
  have "checked f cl (tight_lt f cl n ?l)" "checked f cl (tight_gt f cl n ?l)"
    unfolding tight_lt_def tight_gt_def
    by (intro checked_option checked_close checked_open assms len first_group_before; auto simp: assms)+
  then have "checked f cl (comparison_msgs f cl n ?l)"
    using assms(2) by (auto simp: comparison_msgs_def split: option.split intro!: checked_app)
  moreover have "msgs_ok f cl (shift_msgs f n ?l)"
    using assms(2) by (auto simp: shift_msgs_def split: option.split)
  ultimately show ?thesis using assms
    by (auto simp: CheckOperatorSpacing_def Let_def intro!: checked_app)
qed

lemma ParenthesisSpacing_checked:
  "full cl \<Longrightarrow> n < NumLines cl \<Longrightarrow> checked f cl (CheckParenthesisSpacing f cl n)"
  by (auto simp: CheckParenthesisSpacing_def paren_balance_def split: option.split)

lemma CommaSpacing_checked:
  "full cl \<Longrightarrow> n < NumLines cl \<Longrightarrow> checked f cl (CheckCommaSpacing f cl n)"
  by (auto simp: CheckCommaSpacing_def)

end
