(* ===== verification/Check_Braces_Laws.thy ===== *)
theory Check_Braces_Laws
  imports Check_Laws
begin

text \<open>
  The contract of the remaining checks of \<open>CheckStyle\<close>: types and braces, sections, blocks,
  trailing semicolons, empty bodies, the \<open>CHECK\<close> macros and alternative operators; and of
  \<open>CheckStyle\<close> as a whole, which returns on every line of a file whose header guard is defined.
\<close>

section \<open>Types and sections\<close>

lemma template_line_ok:
  "k \<le> length els \<Longrightarrow> \<exists>r. template_line els start k = Inr r \<and> (\<forall>i. r = Some i \<longrightarrow> i < k)"
proof (induction els start k rule: template_line.induct)
  case (2 els start i)
  then have "contains (els ! i) ''template'' \<or> i < start
      \<or> (\<exists>r. template_line els start i = Inr r \<and> (\<forall>j. r = Some j \<longrightarrow> j < i))" by auto
  with 2(2) show ?case by (auto intro: less_SucI)
qed simp

lemma any_line_returns: "\<forall>i \<in> set is. i < length els \<Longrightarrow> returns (any_line P els is)"
  by (induction "is") auto

lemma join_lines_returns: "\<forall>i \<in> set is. i < length els \<Longrightarrow> returns (join_lines els is)"
  by (induction "is") (auto intro!: returns_bind)

lemma is_template_type_returns:
  "\<forall>b \<in> set bs. starting_linenum b < length (elided cl) \<Longrightarrow> returns (is_template_type cl token bs)"
proof (induction cl token bs rule: is_template_type.induct)
  case (2 cl token b bs)
  let ?s = "case bs of [] \<Rightarrow> 0 | b' # _ \<Rightarrow> starting_linenum b'"
  have "starting_linenum b + 1 \<le> length (elided cl)" using 2(3) by simp
  from template_line_ok [OF this] obtain r where
    r: "template_line (elided cl) ?s (starting_linenum b + 1) = Inr r" "\<forall>i. r = Some i \<longrightarrow> i < starting_linenum b + 1"
    by blast
  have rest: "returns (is_template_type cl token bs)" if "\<not> is_namespace b"
    using 2 that r by (cases r) (auto simp: Let_def)
  have any: "returns (any_line (hit (re_typename token)) (elided cl) [i ..< starting_linenum b + 1])" for i
    by (rule any_line_returns) (use 2(3) in auto)
  show ?case
  proof (cases "is_namespace b")
    case False
    show ?thesis
    proof (cases r)
      case None
      with r False rest show ?thesis by (simp add: Let_def)
    next
      case (Some i)
      have "returns (py_bind (any_line (hit (re_typename token)) (elided cl) [i ..< starting_linenum b + 1])
          (\<lambda>found. if found then Inr True else is_template_type cl token bs))"
        by (rule returns_bind [OF any]) (use rest [OF False] in auto)
      with Some r False show ?thesis by (simp only: is_template_type.simps Let_def py_bind_simps option.case if_False)
    qed
  qed simp
qed simp

lemma IsType_returns:
  assumes "full cl" and "n < NumLines cl" and "starts_by n st"
  shows "returns (IsType cl st expr)"
proof -
  have "\<forall>b \<in> set (stack st). starting_linenum b < length (elided cl)"
    using assms by (auto simp: starts_by_def full_def sized_def intro: le_less_trans)
  from is_template_type_returns [OF this] show ?thesis by (simp add: IsType_def Let_def)
qed

lemma BracesSpacing_checked:
  assumes "full cl" and "n < NumLines cl" and "starts_by n st"
  shows "checked f cl (CheckBracesSpacing f cl n st)"
proof -
  have join: "returns (join_lines (elided cl) [e + 1 ..< min (e + 3) (NumLines cl - 1)])" for e
    by (rule join_lines_returns) (use assms in \<open>auto simp: full_def sized_def\<close>)
  have "checked f cl (tight_brace f cl n st (elided cl ! n))"
    unfolding tight_brace_def Let_def
    by (intro checked_option checked_close checked_split assms(1,2) first_group_before,
        simp, assumption, simp only: prod.case,
        intro checked_bind [OF join] checked_split checked_bind [OF IsType_returns [OF assms]])
      (use assms(2) in \<open>simp_all add: msgs_ok_lint\<close>)
  moreover have "msgs_ok f cl (semicolon_msgs f n l)" for l
    unfolding semicolon_msgs_def by (intro msgs_ok_rules; (rule assms(2) wf_categories | simp))
  ultimately show ?thesis
    unfolding CheckBracesSpacing_def using assms
    by (auto intro!: checked_app)
qed

lemma end_class_head_returns:
  "full cl \<Longrightarrow> \<forall>i \<in> set is. i < NumLines cl \<Longrightarrow> returns (end_class_head cl start is)"
  by (induction "is") auto

lemma section_spacing_checked:
  assumes "full cl" and "n < NumLines cl"
  shows "checked f cl (section_spacing f cl n st)"
proof -
  have "returns (end_class_head cl s [s ..< n])" for s
    by (rule end_class_head_returns) (use assms in auto)
  then have "checked f cl (CheckSectionSpacing f cl s c n)" for s c
    unfolding CheckSectionSpacing_def using assms
    by (auto intro!: checked_option checked_bind [OF at_previous(2)] checked_bind [of "end_class_head _ _ _"])
  then show ?thesis
    by (auto simp: section_spacing_def split: option.split block_kind.split)
qed

section \<open>CheckBraces\<close>

lemma previous_line_ok:
  "k \<le> length els \<Longrightarrow> \<exists>l i. previous_line_from els k = Inr (l, i) \<and> i < int k"
proof (induction k)
  case (Suc k)
  then obtain l i where "previous_line_from els k = Inr (l, i)" "i < int k" by auto
  with Suc.prems show ?case by (cases "IsBlankLine (els ! k)") auto
qed simp

lemma checked_previous:
  assumes "full cl" and "n < NumLines cl" and "\<And>l i. checked f cl (k (l, i))"
  shows "checked f cl (py_bind (GetPreviousNonBlankLine cl n) k)"
proof -
  have "n \<le> length (elided cl)" using assms(1,2) by (simp add: full_def sized_def)
  from previous_line_ok [OF this] assms(3) show ?thesis by (auto simp: GetPreviousNonBlankLine_def)
qed

lemma find_after_bounds:
  assumes "find_after s p k = Some i" and "p \<noteq> []"
  shows "k \<le> i \<and> i < length s"
proof -
  from assms(1) obtain j where j: "find_opt (drop k s) p = Some j" "i = k + j" by (auto simp: find_after_def)
  from find_opt_Some [OF j(1)] assms(2) have "j + length p \<le> length s - k" "0 < length p" by simp_all
  with j(2) show ?thesis by linarith
qed

lemma braces_alone_checked:
  "full cl \<Longrightarrow> n < NumLines cl \<Longrightarrow> checked f cl (braces_alone w f cl n line)"
  unfolding braces_alone_def by (auto intro!: checked_previous)

lemma braces_else_newline_checked:
  "full cl \<Longrightarrow> n < NumLines cl \<Longrightarrow> checked f cl (braces_else_newline f cl n line)"
  unfolding braces_else_newline_def by (auto intro!: checked_previous)

lemma braces_else_sides_checked:
  assumes "full cl" and "n < NumLines cl"
  shows "checked f cl (braces_else_sides f cl n (elided cl ! n))"
proof -
  have "find_after (elided cl ! n) ''('' k = Some p \<Longrightarrow> p < length (elided cl ! n)" for k p
    using find_after_bounds by blast
  then show ?thesis
    unfolding braces_else_sides_def Let_def using assms
    by (intro checked_split checked_option checked_close) (auto split: option.splits)
qed

lemma semicolon_line_bounds: "semicolon_line ls n = Some (i, l) \<Longrightarrow> n \<le> i \<and> i < n + length ls"
proof (induction ls n rule: semicolon_line.induct)
  case (2 x ls n)
  show ?case
  proof (cases "contains x '';''")
    case False
    with 2 show ?thesis by fastforce
  qed (use 2(2) in auto)
qed simp

lemma statement_end_bounds: "statement_end cl n e = Some i \<Longrightarrow> n \<le> i \<and> i < length (elided cl)"
proof -
  assume a: "statement_end cl n e = Some i"
  then obtain x ls l where d: "drop n (elided cl) = x # ls" "semicolon_line (py_from x e # ls) n = Some (i, l)"
    by (auto simp: statement_end_def split: list.splits)
  from semicolon_line_bounds [OF d(2)] arg_cong [OF d(1), of length] show ?thesis by auto
qed

lemma body_msgs_checked:
  assumes "full cl" and "n < NumLines cl" and "i < length (elided cl)"
  shows "checked f cl (body_msgs f cl n k b i)"
proof -
  have len: "NumLines cl = length (elided cl)" using assms(1) by (simp add: full_def sized_def)
  have at: "elided_at cl (int i) = Inr (elided cl ! i)" using assms(1,3) len by simp
  have at2: "elided_at cl (int (i + 1)) = Inr (elided cl ! (i + 1))" if "i + 1 < length (elided cl)"
    by (rule at_line) (use that assms(1) len in simp_all)
  show ?thesis
    unfolding body_msgs_def at py_bind_simps Let_def
    by (intro checked_split)
      (simp_all only: checked_Inr at2 py_bind_simps msgs_ok_simps,
       (intro msgs_ok_rules; (rule assms(2) wf_categories | simp))+)
qed

lemma braces_bodies_checked:
  assumes "full cl" and "n < NumLines cl"
  shows "checked f cl (braces_bodies f cl n (elided cl ! n))"
proof -
  let ?l = "elided cl ! n"
  have len: "NumLines cl = length (elided cl)" using assms(1) by (simp add: full_def sized_def)
  have start: "returns (case re_search re_if_paren ?l of None \<Rightarrow> Inr (?l, n, e)
      | Some m \<Rightarrow> CloseExpression cl n (m_end m - 1))" for e
  proof (cases "re_search re_if_paren ?l")
    case (Some m)
    have "re_if_paren = Seqs ([Wordb, Str ''if'', Star Spc] @ [Str ''('']) " by (simp add: re_if_paren_def)
    from re_search_last_char [OF Some this] have "m_end m - 1 < length ?l" by linarith
    from CloseExpression_place [OF full_sized [OF assms(1)] assms(2) this] Some show ?thesis by auto
  qed simp
  have following: "returns (if b \<and> i + 1 < length (elided cl)
      then py_bind (elided_at cl (int (i + 1))) (\<lambda>l. Inr (fits re_open_start l)) else Inr False)" for b i
    using assms(1) len by auto
  show ?thesis
    unfolding braces_bodies_def Let_def
    by (intro checked_option checked_split checked_bind [OF start] checked_triple checked_bind [OF following]
        body_msgs_checked assms)
      (auto dest: statement_end_bounds)
qed

lemma CheckBraces_checked:
  assumes "full cl" and "n < NumLines cl"
  shows "checked f cl (CheckBraces w f cl n)"
  unfolding CheckBraces_def at_line(1) [OF assms] py_bind_simps
  by (intro checked_app braces_alone_checked braces_else_newline_checked braces_else_sides_checked
      braces_bodies_checked assms)
    (use assms(2) in \<open>simp add: msgs_ok_lint\<close>)

section \<open>CheckTrailingSemicolon\<close>

text \<open>The contract of a check that also asks for \<open>NOLINT\<close> comments to be read.\<close>

definition act_ok :: "string \<Rightarrow> cleansed_lines \<Rightarrow> lint_act \<Rightarrow> bool" where
  "act_ok f cl a \<longleftrightarrow>
     (case a of Report m \<Rightarrow> msg_ok f cl m
      | ParseNolint raw i \<Rightarrow> raw \<in> set (raw_lines cl) \<and> -1 \<le> i \<and> i < int (NumLines cl))"

definition checked_acts :: "string \<Rightarrow> cleansed_lines \<Rightarrow> lint_act list py \<Rightarrow> bool" where
  "checked_acts f cl r \<longleftrightarrow> (\<exists>as. r = Inr as \<and> (\<forall>a \<in> set as. act_ok f cl a))"

lemma act_ok_simps [simp]: "act_ok f cl (Report m) \<longleftrightarrow> msg_ok f cl m"
  "act_ok f cl (ParseNolint raw i) \<longleftrightarrow> raw \<in> set (raw_lines cl) \<and> -1 \<le> i \<and> i < int (NumLines cl)"
  by (simp_all add: act_ok_def)

lemma checked_acts_reports: "checked f cl r \<Longrightarrow> checked_acts f cl (reports r)"
  by (auto simp: checked_def checked_acts_def reports_def msgs_ok_def)

lemma run_checks_acts: "\<forall>r \<in> set rs. checked_acts f cl r \<Longrightarrow> checked_acts f cl (run_checks rs)"
proof (induction rs)
  case (Cons r rs)
  then obtain as bs where "r = Inr as" "\<forall>a \<in> set as. act_ok f cl a"
    "run_checks rs = Inr bs" "\<forall>a \<in> set bs. act_ok f cl a" by (auto simp: checked_acts_def)
  then show ?case by (auto simp: checked_acts_def)
qed (simp add: checked_acts_def)

lemma block_heads:
  "re_match re_paren_open s = Some m \<Longrightarrow> length (group_text m 1) < length s"
  "re_match re_else_const_open s = Some m \<Longrightarrow> length (group_text m 1) < length s"
  "re_match re_indent_open s = Some m \<Longrightarrow> length (group_text m 1) < length s"
  by ((erule re_match_segsE [OF _ re_paren_open_def] re_match_segsE [OF _ re_else_const_open_def]
      re_match_segsE [OF _ re_indent_open_def], simp), elim seg_ConsE, auto simp: group_text_def group_def)+

lemma rfind_char_bounds: "rfind_char c s = Some i \<Longrightarrow> i < length s"
  by (induction s arbitrary: i) (auto split: option.splits if_splits)

lemma block_column_ok:
  assumes "full cl" and "n < NumLines cl"
  shows "\<exists>c. block_column cl n (elided cl ! n) = Inr c \<and> (\<forall>p. c = Some p \<longrightarrow> p < length (elided cl ! n))"
    (is "\<exists>c. _ \<and> ?P c")
proof (cases "re_match re_paren_open (elided cl ! n)")
  case None
  show ?thesis
  proof (cases "re_match re_else_const_open (elided cl ! n)")
    case (Some m)
    with None block_heads(2) show ?thesis by (auto simp: block_column_def)
  next
    assume else: "re_match re_else_const_open (elided cl ! n) = None"
    have "n \<le> length (elided cl)" using assms by (simp add: full_def sized_def)
    from previous_line_ok [OF this] obtain l i where "GetPreviousNonBlankLine cl n = Inr (l, i)"
      by (auto simp: GetPreviousNonBlankLine_def)
    with None else block_heads(3) show ?thesis by (auto simp: block_column_def)
  qed
next
  case (Some m)
  let ?h = "group_text m 1"
  from block_heads(1) [OF Some] have h: "length ?h < length (elided cl ! n)" .
  show ?thesis
  proof (cases "rfind_char (CHR '')'') ?h")
    assume "rfind_char (CHR '')'') ?h = None"
    with Some show ?thesis by (auto simp: block_column_def block_after_paren_def)
  next
    fix p assume p: "rfind_char (CHR '')'') ?h = Some p"
    from rfind_char_bounds [OF p] h have "p < length (elided cl ! n)" by linarith
    from ReverseCloseExpression_place [OF full_sized [OF assms(1)] assms(2) this]
    obtain l k e where r: "ReverseCloseExpression cl n p = Inr (l, k, e)" and k: "k \<le> n"
      by (auto simp: place_before_def)
    have "k - 1 < NumLines cl" using k assms(2) by linarith
    with Some p r h assms(1) show ?thesis by (auto simp: block_column_def block_after_paren_def)
  qed
qed

lemma TrailingSemicolon_checked:
  assumes "full cl" and "n < NumLines cl"
  shows "checked_acts f cl (CheckTrailingSemicolon f cl n)"
proof -
  obtain c where c: "block_column cl n (elided cl ! n) = Inr c" "\<And>p. c = Some p \<Longrightarrow> p < length (elided cl ! n)"
    using block_column_ok [OF assms] by blast
  show ?thesis
  proof (cases c)
    case None
    with c assms show ?thesis by (simp add: CheckTrailingSemicolon_def checked_acts_def)
  next
    case (Some p)
    from CloseExpression_place [OF full_sized [OF assms(1)] assms(2) c(2) [OF Some]]
    obtain l k e where r: "CloseExpression cl n p = Inr (l, k, e)" and k: "place_after cl n (l, k, e)" by auto
    show ?thesis
    proof (cases "e > -1")
      case False
      with c Some r assms show ?thesis by (simp add: CheckTrailingSemicolon_def checked_acts_def)
    next
      case True
      then have k: "k < NumLines cl" using k by (auto simp: place_after_def)
      have "length (raw_lines cl) = NumLines cl" using assms(1) by (simp add: full_def sized_def)
      with k have "\<exists>x \<in> set (raw_lines cl). py_nth (raw_lines cl) (int k - 1) = Inr x" "raw_lines cl ! k \<in> set (raw_lines cl)"
        by (auto simp: py_nth_def)
      with c Some r assms k show ?thesis
        by (auto simp: CheckTrailingSemicolon_def checked_acts_def)
    qed
  qed
qed

section \<open>CheckEmptyBlockBody\<close>

lemma find_opt_char: "c \<in> set s \<Longrightarrow> \<exists>i. find_opt s [c] = Some i \<and> i < length s"
  by (induction s) auto

lemma brace_first_found:
  assumes "hit re_brace_first s"
  obtains i where "find_opt s ''{'' = Some i" "i < length s"
proof -
  from assms obtain m where m: "re_search re_brace_first s = Some m" by (auto simp: hit_def)
  have "re_brace_first = Seqs ([Bol, Star Spc] @ [Str ''{''])" by (simp add: re_brace_first_def)
  from re_search_last_char [OF m this] have "0 < m_end m" "m_end m \<le> length s" "s ! (m_end m - 1) = CHR ''{''" by auto
  moreover from this have "m_end m - 1 < length s" by linarith
  ultimately have "CHR ''{'' \<in> set s" by (metis nth_mem)
  from find_opt_char [OF this] that show thesis by blast
qed

lemma opening_brace_bounds:
  assumes "opening_brace fragment n rest = Some (k, s)"
  shows "hit re_brace_first s \<and> n \<le> k \<and> k \<le> n + length rest
    \<and> (k = n \<longrightarrow> s = fragment) \<and> (n < k \<longrightarrow> s = rest ! (k - n - 1))"
  using assms
proof (induction fragment n rest rule: opening_brace.induct)
  case (1 fragment n rest)
  note step = opening_brace.simps [of fragment n rest]
  show ?case
  proof (cases "hit re_brace_first fragment \<or> hit re_not_blank fragment \<or> rest = []")
    case True
    with 1(2) step show ?thesis by (auto split: if_splits)
  next
    case False
    then obtain l ls where rest: "rest = l # ls" by (cases rest) auto
    have "opening_brace l (n + 1) ls = Some (k, s)" using 1(2) step False rest by simp
    from 1(1) [OF _ _ rest this] False have
      "hit re_brace_first s" "n + 1 \<le> k" "k \<le> n + 1 + length ls"
      "k = n + 1 \<longrightarrow> s = l" "n + 1 < k \<longrightarrow> s = ls ! (k - (n + 1) - 1)" by auto
    moreover have "s = rest ! (k - n - 1)"
    proof (cases "k = n + 1")
      case False
      with calculation have "n + 1 < k" by simp
      then have "k - n - 1 = Suc (k - (n + 1) - 1)" by simp
      with calculation \<open>n + 1 < k\<close> rest show ?thesis by simp
    qed (use calculation rest in simp)
    ultimately show ?thesis using rest by simp
  qed
qed

lemma block_text_returns:
  "full cl \<Longrightarrow> c < NumLines cl \<Longrightarrow> returns (block_text cl l k p c e)"
  by (simp add: block_text_def)

lemma empty_if_body_checked:
  assumes "full cl" and "n < NumLines cl"
  shows "checked f cl (empty_if_body f cl (elided cl ! n) n e)"
proof -
  let ?l = "elided cl ! n"
  have len: "NumLines cl = length (elided cl)" using assms(1) by (simp add: full_def sized_def)
  show ?thesis unfolding empty_if_body_def
  proof (rule checked_option)
    fix a assume a: "opening_brace (drop e ?l) n (drop (n + 1) (elided cl)) = Some a"
    obtain k s where ks: "a = (k, s)" by (cases a)
    from opening_brace_bounds [OF a [unfolded ks]] len assms(2) have
      b: "hit re_brace_first s" "n \<le> k" "k < NumLines cl" "k = n \<longrightarrow> s = drop e ?l"
      "n < k \<longrightarrow> s = elided cl ! k" by (auto simp: min_def)
    from b(1) obtain i where i: "find_opt s ''{'' = Some i" "i < length s" by (rule brace_first_found)
    let ?p = "i + (if k = n then e else 0)"
    have "?p < length (elided cl ! k)" using i b by (cases "k = n") auto
    then have "checked f cl (py_bind (CloseExpression cl k ?p) K)"
      if "\<And>l n' e. place_after cl k (l, n', e) \<Longrightarrow> checked f cl (K (l, n', e))" for K
      by (rule checked_close [OF assms(1) b(3)]) (rule that)
    note close = this
    show "checked f cl (case a of (opening_linenum, fragment) \<Rightarrow>
          py_bind (elided_at cl (int opening_linenum)) (\<lambda>opening_line.
            let opening_pos = (case find_opt fragment ''{'' of None \<Rightarrow> 0 | Some i \<Rightarrow> i)
                              + (if opening_linenum = n then e else 0) in
            py_bind (CloseExpression cl opening_linenum opening_pos) (\<lambda>(closing_line, closing_linenum, closing_pos).
              if closing_pos < 0 then Inr []
              else py_bind (py_nth (raw_lines cl) (int opening_linenum)) (\<lambda>raw.
                if raw \<noteq> CleanseComments raw then Inr []
                else py_bind (block_text cl opening_line opening_linenum opening_pos closing_linenum (nat closing_pos))
                  (\<lambda>body.
                    Inr (lint (hit re_blank body
                               \<and> \<not> followed_by_else (drop (nat closing_pos) closing_line)
                                     (drop (closing_linenum + 1) (elided cl)))
                           f n ''whitespace/empty_if_body'' 4
                           ''If statement had no body and no else clause''))))))"
      unfolding ks prod.case at_line(1) [OF assms(1) b(3)] py_bind_simps Let_def i(1) option.case
        full_nth(2) [OF assms(1) b(3)]
    proof (rule close, simp only: prod.case, intro checked_split checked_bind)
      fix l n' c
      assume "place_after cl k (l, n', c)" "\<not> c < 0"
      then have "n' < NumLines cl" by (auto simp: place_after_def split: if_splits)
      from block_text_returns [OF assms(1) this]
      show "returns (block_text cl (elided cl ! k) k ?p n' (nat c))" .
    qed (use assms(2) in \<open>simp_all add: msgs_ok_lint\<close>)
  qed simp
qed

lemma EmptyBlockBody_checked:
  assumes "full cl" and "n < NumLines cl"
  shows "checked f cl (CheckEmptyBlockBody f cl n)"
proof -
  let ?l = "elided cl ! n"
  have body: "msgs_ok f cl (empty_body_text f k w)" if "k < NumLines cl" for k w
    unfolding empty_body_text_def by (intro msgs_ok_rules; (rule that wf_categories | simp))
  show ?thesis
  proof (cases "re_match re_loop_head ?l = None \<or> find_opt ?l ''('' = None")
    case True
    with assms show ?thesis by (auto simp: CheckEmptyBlockBody_def split: option.split)
  next
    case False
    then obtain m p where mp: "re_match re_loop_head ?l = Some m" "find_opt ?l ''('' = Some p" by auto
    from find_opt_Some [OF mp(2)] have "p < length ?l" by auto
    then show ?thesis
      unfolding CheckEmptyBlockBody_def at_line(1) [OF assms] py_bind_simps mp prod.case option.case
    proof (rule checked_close [OF assms], simp only: prod.case, intro checked_split)
      fix l n' c
      assume place: "place_after cl n (l, n', c)" and c: "0 \<le> c"
      then have n': "n' < NumLines cl" "l = elided cl ! n'" by (auto simp: place_after_def split: if_splits)
      have "checked f cl (if group_text m 1 = ''if'' then empty_if_body f cl l n' (nat c) else Inr [])"
        using empty_if_body_checked [OF assms(1) n'(1)] n'(2) by simp
      then show "checked f cl (py_bind (if group_text m 1 = ''if'' then empty_if_body f cl l n' (nat c) else Inr [])
          (\<lambda>ms. Inr ((if fits re_semi_first (drop (nat c) l) then empty_body_text f n' (group_text m 1) else []) @ ms)))"
        by (rule checked_app) (simp add: body n'(1))
    qed simp
  qed
qed

section \<open>CheckCheck\<close>

lemma find_macro_ok:
  "find_macro ms line = Some (macro, p) \<Longrightarrow> macro \<in> set ms \<and> p < length line"
proof (induction ms line rule: find_macro.induct)
  case (2 x ms line)
  have "length (group_text m 1) < length line" if "re_match (re_macro_call x) line = Some m" for m
    by (rule re_match_segsE [OF that re_macro_call_def], simp)
      (elim seg_ConsE, auto simp: group_text_def group_def)
  with 2 show ?case by (auto split: if_splits option.splits)
qed simp

lemma seg_ok_Alt: "seg_ok (Alt a b) u \<longleftrightarrow> seg_ok a u \<or> seg_ok b u"
  by (auto simp: seg_ok_def rm_Alt_iff)

lemma check_token_text:
  assumes "re_match re_check_token s = Some m"
  shows "group_text m 1 \<in> fst ` set CHECK_OPS \<union>
    {''('', ''&&'', ''||'', ''<<'', ''<<='', ''>>'', ''>>='', ''->*'', ''->''}"
  by (rule re_match_segsE [OF assms re_check_token_def], simp)
    (elim seg_ConsE, auto simp: group_text_def group_def seg_ok_Alt seg_oks CHECK_OPS_def)

lemma parse_check_operator:
  "parse_check e lhs = Some (l, Some op, r) \<Longrightarrow> op \<in> fst ` set CHECK_OPS"
proof (induction e lhs rule: parse_check.induct)
  case (1 e lhs)
  note step = parse_check.simps [of e lhs]
  show ?case
  proof (cases "e = []")
    case False
    show ?thesis
    proof (cases "re_match re_check_token e")
      case None
      with False 1 step show ?thesis by (auto split: option.splits)
    next
      case (Some m)
      let ?t = "group_text m 1"
      consider "?t = ''(''" | "?t = ''&&'' \<or> ?t = ''||''"
        | "?t \<in> {''<<'', ''<<='', ''>>'', ''>>='', ''->*'', ''->''}" "?t \<noteq> ''(''" "?t \<noteq> ''&&''" "?t \<noteq> ''||''"
        | "?t \<in> fst ` set CHECK_OPS" "?t \<noteq> ''(''" "\<not> (?t = ''&&'' \<or> ?t = ''||'')"
            "?t \<notin> {''<<'', ''<<='', ''>>'', ''>>='', ''->*'', ''->''}"
        using check_token_text [OF Some] by blast
      then show ?thesis
      proof cases
        case 1
        obtain k stk where f: "FindEndOfExpressionInLine (group_text m 2) 0 [CHR ''(''] = (k, stk)" by fastforce
        with "1.IH"(3) [OF False Some refl refl 1 f [symmetric]] "1.prems" step False Some 1 show ?thesis
          by (auto simp: Let_def split: if_splits)
      next
        case 2
        with "1.prems" step False Some show ?thesis by (auto simp: Let_def)
      next
        case 3
        from "1.IH"(4) [OF False Some refl refl 3(2)] 3 "1.prems" step False Some show ?thesis
          by (simp only: if_False option.case Let_def if_True) simp
      next
        case 4
        with "1.prems" step False Some show ?thesis
          by (simp only: if_False option.case Let_def) simp
      qed
    qed
  qed (use 1 step in simp)
qed

lemma CHECK_REPLACEMENT_returns:
  assumes "macro \<in> set CHECK_MACROS" and "op \<in> fst ` set CHECK_OPS"
  shows "returns (CHECK_REPLACEMENT macro op)"
proof -
  have "\<forall>macro \<in> set CHECK_MACROS. \<forall>op \<in> set (map fst CHECK_OPS). CHECK_REPLACEMENT macro op \<in> range Inr"
    by (simp add: CHECK_MACROS_def CHECK_OPS_def CHECK_REPLACEMENT_def)
  with assms show ?thesis by (auto simp: returns_def)
qed

lemma CheckCheck_checked:
  assumes "full cl" and "n < NumLines cl"
  shows "checked f cl (CheckCheck f cl n)"
proof (cases "FindCheckMacro (elided cl ! n)")
  case None
  with assms show ?thesis by (simp add: CheckCheck_def)
next
  case (Some a)
  obtain macro p where a: "a = (macro, p)" by (cases a)
  from find_macro_ok [OF Some [unfolded a FindCheckMacro_def]] have m: "macro \<in> set CHECK_MACROS" "p < length (elided cl ! n)"
    by auto
  have len: "NumLines cl = length (elided cl)" using assms(1) by (simp add: full_def sized_def)
  have expr: "returns (check_expression cl n p l k e)" if "k < NumLines cl" for l k e
    unfolding check_expression_def at_line(1) [OF assms] py_bind_simps
    by (auto intro!: returns_bind [OF join_lines_returns] simp: that [unfolded len] less_trans)
  have sugg: "checked f cl (check_suggestion f n macro e)" for e
  proof (cases "\<exists>l op r. parse_check e [] = Some (l, Some op, r)")
    case True
    then obtain l op r where p: "parse_check e [] = Some (l, Some op, r)" by blast
    from CHECK_REPLACEMENT_returns [OF m(1) parse_check_operator [OF p]] p assms(2) show ?thesis
      unfolding check_suggestion_def p option.case prod.case
      by (intro checked_split checked_bind) (simp_all add: msgs_ok_lint)
  qed (auto simp: check_suggestion_def split: option.split)
  show ?thesis
    unfolding CheckCheck_def at_line(1) [OF assms] py_bind_simps Some a option.case prod.case
  proof (rule checked_close [OF assms m(2)], simp only: prod.case, intro checked_split checked_bind sugg)
    fix l k e
    assume "place_after cl n (l, k, e)" "\<not> (e < 0 \<or> \<not> fits re_semi_ws (drop (nat e) l))"
    then have "k < NumLines cl" by (auto simp: place_after_def split: if_splits)
    then show "returns (check_expression cl n p l k (nat e))" by (rule expr)
  qed simp
qed

section \<open>CheckAltTokens\<close>

lemma finditer_match: "m \<in> set (finditer_from r p s) \<Longrightarrow> \<exists>p' s'. match_at r p' s' = Some m"
proof (induction r p s rule: finditer_from.induct)
  case (1 r p s)
  show ?case
  proof (cases s)
    case (Cons x xs)
    show ?thesis
    proof (cases "match_at r p s")
      case (Some m')
      with 1 Cons show ?thesis
        by (subst (asm) (3) finditer_from.simps) (auto split: if_splits)
    qed (use 1 Cons in \<open>subst (asm) (3) finditer_from.simps, auto\<close>)
  qed (use 1 in \<open>simp add: finditer_from.simps\<close>)
qed

lemma alt_token_known:
  assumes "match_at ALT_TOKEN_REPLACEMENT_PATTERN p s = Some m"
  shows "map_of ALT_TOKEN_REPLACEMENT (group_text m 1) \<noteq> None"
proof -
  from match_at_SomeD [OF assms] obtain s' where
    "rm ALT_TOKEN_REPLACEMENT_PATTERN (p, s, []) (rev (m_text m) @ p, s', m_caps m)" by blast
  from rm_Seqs_segments [OF this [unfolded ALT_TOKEN_REPLACEMENT_PATTERN_def]] show ?thesis
    by (simp, elim exE conjE)
      (elim seg_ConsE, auto simp: group_text_def group_def seg_ok_Alt seg_oks ALT_TOKEN_REPLACEMENT_def)
qed

lemma AltTokens_checked:
  assumes "full cl" and "n < NumLines cl"
  shows "checked f cl (CheckAltTokens f cl n)"
proof -
  have "\<forall>m \<in> set ms. map_of ALT_TOKEN_REPLACEMENT (group_text m 1) \<noteq> None \<Longrightarrow> checked f cl (alt_msgs f n ms)" for ms
    using assms(2) by (induction ms) (auto intro!: checked_app)
  moreover have "\<forall>m \<in> set (finditer_from ALT_TOKEN_REPLACEMENT_PATTERN [] l).
      map_of ALT_TOKEN_REPLACEMENT (group_text m 1) \<noteq> None" for l
    using finditer_match alt_token_known by metis
  ultimately show ?thesis unfolding CheckAltTokens_def at_line(1) [OF assms] py_bind_simps
    by (intro checked_split) simp_all
qed

section \<open>CheckStyle\<close>

text \<open>
  The checks of a line that take the file name into account: they need the header guard, which
  is not defined under a directory with \<open>.svn\<close> up to the root.
\<close>

lemma line_style_outcome:
  assumes "full cl" and "n < NumLines cl"
  shows "outcome (\<lambda>e. e = NoReturn \<and> IsHeaderExtension exts ext \<and> GetHeaderGuardCPPVariable fs f = None)
    (msgs_ok f cl) (line_style fs exts w f cl n ext)"
proof -
  have prev: "returns (if 0 < n then raw_at cl (int n - 1) else Inr [])"
  proof (cases n)
    case (Suc k)
    then have "raw_at cl (int n - 1) = raw_at cl (int k)" by simp
    with assms Suc show ?thesis by simp
  qed simp
  have guard: "outcome (\<lambda>e. e = NoReturn \<and> IsHeaderExtension exts ext \<and> GetHeaderGuardCPPVariable fs f = None)
      (\<lambda>_. True) (header_guard_line fs exts f ext l)" for l
    by (auto simp: header_guard_line_def split: option.split)
  obtain l k where "GetPreviousNonBlankLine cl n = Inr (l, k)"
    using previous_line_ok [of n "elided cl"] assms by (auto simp: GetPreviousNonBlankLine_def full_def sized_def)
  note previous = this
  obtain pv where pv: "(if 0 < n then raw_at cl (int n - 1) else Inr []) = Inr pv" using prev by (auto simp: returns_def)
  have msgs: "msgs_ok f cl (lint a f n ''whitespace/tab'' 1 t1 @ indent_msgs f n l1 l2 l3 l4
        @ lint b f n ''whitespace/end_of_line'' 4 t2 @ long_line_msgs w f n c l5
        @ lint d f n ''whitespace/newline'' 0 t3)" for a t1 l1 l2 l3 l4 b t2 c l5 d t3
    unfolding indent_msgs_def long_line_msgs_def
    by (intro msgs_ok_rules; (rule assms(2) wf_categories | simp))
  show ?thesis
    unfolding line_style_def at_line [OF assms] full_nth [OF assms] py_bind_simps
      previous prod.case pv
    by (rule outcome_bind [OF guard], simp only: outcome_simps, rule msgs)
qed

lemma style_checks_ok:
  assumes "full cl" and "n < NumLines cl" and "starts_by n st"
  shows "\<forall>r \<in> set (style_checks w f cl n st). checked_acts f cl r"
  unfolding style_checks_def list.set
  by (intro ballI; elim insertE emptyE; hypsubst;
    (rule TrailingSemicolon_checked | rule checked_acts_reports,
      (rule CheckBraces_checked EmptyBlockBody_checked CheckSpacing_checked OperatorSpacing_checked
        ParenthesisSpacing_checked CommaSpacing_checked BracesSpacing_checked
        SpacingForFunctionCall_checked CheckCheck_checked AltTokens_checked section_spacing_checked)); rule assms)

definition acts_ok :: "string \<Rightarrow> cleansed_lines \<Rightarrow> lint_act list \<Rightarrow> bool" where
  "acts_ok f cl as \<longleftrightarrow> (\<forall>a \<in> set as. act_ok f cl a)"

lemma CheckStyle_outcome:
  assumes "full cl" and "n < NumLines cl" and "starts_by n st"
  shows "outcome (\<lambda>e. e = NoReturn \<and> IsHeaderExtension exts ext \<and> GetHeaderGuardCPPVariable fs f = None)
    (acts_ok f cl) (CheckStyle fs exts w f cl n ext st)"
proof -
  let ?E = "\<lambda>e. e = NoReturn \<and> IsHeaderExtension exts ext \<and> GetHeaderGuardCPPVariable fs f = None"
  have first: "outcome ?E (acts_ok f cl) (reports (line_style fs exts w f cl n ext))"
    unfolding reports_def
    by (rule outcome_bind [OF line_style_outcome [OF assms(1,2)]]) (auto simp: acts_ok_def msgs_ok_def)
  obtain bs where bs: "run_checks (style_checks w f cl n st) = Inr bs" "acts_ok f cl bs"
    using run_checks_acts [OF style_checks_ok [OF assms, where f = f and w = w]] by (auto simp: checked_acts_def acts_ok_def)
  show ?thesis
    unfolding CheckStyle_def run_checks.simps bs(1) py_bind_simps
    by (rule outcome_bind [OF first]) (use bs(2) in \<open>auto simp: acts_ok_def\<close>)
qed

end
