(* ===== verification/Check_Language_Laws.thy ===== *)
theory Check_Language_Laws
  imports Check_Language Check_Braces_Laws
begin

text \<open>
  The contract of the include checks and of the language checks.  What can go wrong on a line is
  \<open>line_error\<close>: an index out of range, or a call of \<open>RepositoryName\<close> that does not return.
  The assertions of \<open>_GetTextInside\<close> and the missing match of \<open>CheckFormatStrings\<close> are
  impossible, and an include list is never empty.
\<close>

text \<open>A configuration file may have set the root directory, so that \<open>stuck\<close> leaves it open.\<close>

definition stuck :: "file_sys \<Rightarrow> bool" where
  "stuck fs \<longleftrightarrow> (\<exists>root filename. RepositoryName (fs\<lparr>opt_root := root\<rparr>) filename = None)"

lemma stuckI: "RepositoryName fs filename = None \<Longrightarrow> stuck fs"
  unfolding stuck_def by (rule exI [of _ "opt_root fs"]) auto

lemma stuck_root [simp]: "stuck (fs\<lparr>opt_root := root\<rparr>) = stuck fs"
  by (simp add: stuck_def)

definition line_error :: "file_sys \<Rightarrow> py_error \<Rightarrow> bool" where
  "line_error fs e \<longleftrightarrow> e = IndexError \<or> e = NoReturn \<and> stuck fs"

lemma line_error_Index [simp]: "line_error fs IndexError"
  by (simp add: line_error_def)

lemma checked_outcome: "checked f cl r \<Longrightarrow> outcome E (msgs_ok f cl) r"
  by (auto simp: checked_def)

lemma returns_outcome: "returns r \<Longrightarrow> outcome E (\<lambda>_. True) r"
  by (auto simp: returns_def)

section \<open>Names of files\<close>

lemma terminating_outcome:
  "outcome (line_error fs) (\<lambda>_. True) (terminating (RepositoryName fs f))"
  "outcome (line_error fs) (\<lambda>_. True) (terminating (BaseName fs f))"
  "outcome (line_error fs) (\<lambda>_. True) (terminating (Extension fs f))"
  by (auto simp: terminating_def line_error_def BaseName_def Extension_def Split_def split: option.split intro: stuckI)

lemma foreign_source_outcome: "outcome (line_error fs) (\<lambda>_. True) (foreign_source fs f i exts)"
  by (induction exts) (auto intro!: outcome_bind [OF terminating_outcome(1)])

lemma third_src_header_outcome: "outcome (line_error fs) (\<lambda>_. True) (third_src_header fs f i exts)"
  by (induction exts)
    (auto simp: Let_def intro!: outcome_bind [OF terminating_outcome(1)] outcome_bind [OF terminating_outcome(3)])

lemma ClassifyInclude_outcome: "outcome (line_error fs) (\<lambda>_. True) (ClassifyInclude ord exts fs f i s)"
  by (auto simp: ClassifyInclude_def intro!: outcome_bind [OF terminating_outcome(1)])

section \<open>Includes\<close>

definition include_result :: "string \<Rightarrow> cleansed_lines \<Rightarrow> include_state \<times> lint_msg list \<Rightarrow> bool" where
  "include_result f cl r \<longleftrightarrow> include_list (fst r) \<noteq> [] \<and> msgs_ok f cl (snd r)"

lemma CheckNextIncludeOrder_list [simp]:
  "CheckNextIncludeOrder h st = (st', msg) \<Longrightarrow> include_list st' = include_list st"
  by (cases h) (auto simp: CheckNextIncludeOrder_def Let_def split: if_splits)

lemma IsInAlphabeticalOrder_returns:
  assumes "full cl" and "n < NumLines cl"
  shows "returns (IsInAlphabeticalOrder st (elided cl) (int n) h)"
  using at_previous(1) [OF assms] by (auto simp: IsInAlphabeticalOrder_def elided_at_def returns_def)

lemma order_msgs_outcome:
  "n < NumLines cl \<Longrightarrow> outcome (line_error fs) (msgs_ok f cl) (order_msgs fs f n msg)"
  unfolding order_msgs_def
  by (intro outcome_rules outcome_bind [OF terminating_outcome(2)]) (simp_all add: msgs_ok_lint)

lemma record_include_outcome:
  assumes "full cl" and "n < NumLines cl" and "include_list st \<noteq> []"
  shows "outcome (line_error fs) (include_result f cl) (record_include ord exts fs f cl n i s st)"
proof -
  obtain st1 where st1: "add_include i n st = Inr st1" "include_list st1 \<noteq> []"
    using assms(3) by (auto simp: add_include_def)
  show ?thesis unfolding record_include_def st1(1) py_bind_simps
  proof (rule outcome_bind [OF ClassifyInclude_outcome])
    fix h
    obtain st2 msg where o: "CheckNextIncludeOrder h st1 = (st2, msg)" by fastforce
    with st1(2) have l: "include_list st2 \<noteq> []" by simp
    let ?c = "CanonicalizeAlphabeticalOrder i"
    obtain b where b: "IsInAlphabeticalOrder st2 (elided cl) (int n) ?c = Inr b"
      using IsInAlphabeticalOrder_returns [OF assms(1,2)] by (auto simp: returns_def)
    show \<open>outcome (line_error fs) (include_result f cl)
       (let (st2, error_message) = CheckNextIncludeOrder h st1; canonical_include = ?c
        in py_bind (order_msgs fs f n error_message) (\<lambda>ms1.
           py_bind (IsInAlphabeticalOrder st2 (elided cl) (int n) canonical_include) (\<lambda>in_order.
             Inr (SetLastHeader canonical_include st2,
                  ms1 @ lint (\<not> in_order) f n ''build/include_alpha'' 4
                      (''Include "'' @ i @ ''" not in alphabetical order'')))))\<close>
      unfolding o Let_def prod.case b py_bind_simps
      by (rule outcome_bind [OF order_msgs_outcome [OF assms(2)]])
        (use l assms(2) in \<open>simp add: include_result_def SetLastHeader_def msgs_ok_lint\<close>)
  qed
qed

lemma CheckIncludeLine_outcome:
  assumes "full cl" and "n < NumLines cl" and "include_list st \<noteq> []"
  shows "outcome (line_error fs) (include_result f cl) (CheckIncludeLine ord exts fs f cl n st)"
proof -
  have sub: "msgs_ok f cl (subdir_msgs f n l)" for l
    unfolding subdir_msgs_def by (intro msgs_ok_rules; (rule assms(2) wf_categories | simp))
  have dup: "include_result f cl (st, lint True f n ''build/include'' 4 t)" for t
    using assms by (simp add: include_result_def msgs_ok_lint)
  have "outcome (line_error fs) (include_result f cl) (include_checks ord exts fs f cl n i s st)" for i s
    unfolding include_checks_def Let_def
    by (intro outcome_rules dup outcome_bind [OF foreign_source_outcome] outcome_option
        outcome_bind [OF third_src_header_outcome] record_include_outcome assms)
      (use assms in \<open>simp add: include_result_def\<close>)
  note checks = this
  show ?thesis
    unfolding CheckIncludeLine_def at_line(2) [OF assms(1,2)] py_bind_simps
    by (intro outcome_option outcome_rules outcome_bind [OF checks])
      (use sub assms(3) in \<open>auto simp: include_result_def\<close>)
qed

lemma ResetSection_ok:
  "include_list st \<noteq> [] \<Longrightarrow> \<exists>st'. ResetSection d st = Inr st' \<and> include_list st' \<noteq> []"
  by (auto simp: ResetSection_def Let_def)

section \<open>Format strings\<close>

lemma wf_cat_literals [simp]: "wf_cat ''build/namespaces_literals''"
  by code_simp

lemma chr_lower_paren: "chr_lower c = CHR ''('' \<Longrightarrow> c = CHR ''(''"
proof -
  assume l: "chr_lower c = CHR ''(''"
  let ?n = "chr_code c"
  have "(char_of (?n + 32) :: char) \<noteq> CHR ''(''" if "65 \<le> ?n \<and> ?n \<le> 90 \<or> 192 \<le> ?n \<and> ?n \<le> 222"
  proof
    assume "(char_of (?n + 32) :: char) = CHR ''(''"
    then have "of_char (char_of (?n + 32) :: char) = (40 :: nat)" by simp
    with that show False by (simp only: of_char_of) auto
  qed
  with l show ?thesis by (auto simp: chr_lower_def Let_def split: if_splits)
qed

lemma printf_start_paren:
  assumes "re_search re_printf_start (lower line) = Some m"
  shows "0 < m_end m \<and> line ! (m_end m - 1) = CHR ''(''"
proof -
  have "re_printf_start = Seqs ([Wordb, Opt (Grp 1 (Str ''string'')), Str ''printf'', Star Spc] @ [Str ''(''])"
    by (simp add: re_printf_start_def)
  from re_search_last_char [OF assms this] have
    "0 < m_end m" "m_end m \<le> length line" "lower line ! (m_end m - 1) = CHR ''(''" by (auto simp: lower_def)
  then show ?thesis using chr_lower_paren by (auto simp: lower_def)
qed

lemma GetTextInside_returns: "returns (GetTextInside line re_printf_start)"
proof (cases "re_search re_printf_start (lower line)")
  case (Some m)
  from printf_start_paren [OF Some] Some show ?thesis
    by (simp add: GetTextInside_def Let_def closing_punctuation_def)
qed (simp add: GetTextInside_def)

lemma GetTextInside_search:
  "GetTextInside line r = Inr (Some t) \<Longrightarrow> re_search r (lower line) \<noteq> None"
  by (cases "re_search r (lower line)") (simp_all add: GetTextInside_def)

lemma printf_patterns:
  assumes "rm re_printf_start (p, s, c) st"
  shows "\<exists>st. rm re_printf_name (p, s, []) st"
proof -
  from assms obtain u1 s1 c1 u2 s2 c2 u3 s3 c3 u4 s4 c4 where
    1: "s = u1 @ s1" "rm Wordb (p, u1 @ s1, c) (rev u1 @ p, s1, c1)"
    and 2: "s1 = u2 @ s2" "rm (Opt (Grp 1 (Str ''string''))) (rev u1 @ p, u2 @ s2, c1) (rev u2 @ rev u1 @ p, s2, c2)"
    and 3: "s2 = u3 @ s3" "rm (Str ''printf'') (rev u2 @ rev u1 @ p, u3 @ s3, c2) (rev u3 @ rev u2 @ rev u1 @ p, s3, c3)"
    and 4: "s3 = u4 @ s4" "rm (Star Spc) (rev u3 @ rev u2 @ rev u1 @ p, u4 @ s4, c3) (rev u4 @ rev u3 @ rev u2 @ rev u1 @ p, s4, c4)"
    and 5: "rm (Str ''('') (rev u4 @ rev u3 @ rev u2 @ rev u1 @ p, s4, c4) st"
    unfolding re_printf_start_def Seqs.simps by (elim rm_SeqE)
  from 1(2) have u1: "u1 = []" and b: "at_wordb p s1" by (auto simp: rm_Wordb_iff)
  from 2(2) have u2: "u2 = ''string'' \<or> u2 = []" by (auto simp: rm_iffs)
  from 3(2) have u3: "u3 = ''printf''" by (simp add: rm_Str_iff)
  from 4(2) have u4: "\<forall>x \<in> set u4. in_items x [CSpace]" by (auto simp: rm_Star_Cls)
  from 5 obtain t where s4: "s4 = ''('' @ t" by (auto simp: rm_Str_iff)
  let ?w = "u2 @ ''printf''"
  have s: "s = ?w @ u4 @ ''('' @ t" using 1(1) 2(1) 3(1) 4(1) u1 u3 s4 by simp
  have "rm (Opt (Str ''string'')) (p, u2 @ ''printf'' @ u4 @ ''('' @ t, []) (rev u2 @ p, ''printf'' @ u4 @ ''('' @ t, [])"
    using u2 by (auto simp: rm_iffs)
  then have "rm (Seqs [Opt (Str ''string''), Str ''printf'']) (p, s, []) (rev ?w @ p, u4 @ ''('' @ t, [])"
    unfolding Seqs.simps s append_assoc rev_append by (rule rm_Seq) (simp add: rm_Str_iff)
  from rm_Grp [of _ p s "[]" _ _ _ 1, OF this] have
    g: "rm (Grp 1 (Seqs [Opt (Str ''string''), Str ''printf''])) (p, s, []) (rev ?w @ p, u4 @ ''('' @ t, [(1, length p, take (length s - length (u4 @ ''('' @ t)) s)])"
    by simp
  let ?c = "[(1, length p, take (length s - length (u4 @ ''('' @ t)) s)]"
  have w: "rm Wordb (p, s, []) (p, s, [])" using b 1(1) u1 by (simp add: rm_Wordb_iff)
  have z: "rm (Star Spc) (rev ?w @ p, u4 @ ''('' @ t, ?c) (rev u4 @ rev ?w @ p, ''('' @ t, ?c)"
    using u4 by (auto simp: rm_Star_Cls)
  have e: "rm (Str ''('') (rev u4 @ rev ?w @ p, ''('' @ t, ?c) (rev ''('' @ rev u4 @ rev ?w @ p, t, ?c)"
    by (simp add: rm_Str_iff)
  show ?thesis unfolding re_printf_name_def Seqs.simps (2-3)
    by (rule exI) (rule rm_Seq [OF w rm_Seq [OF g [unfolded Seqs.simps] rm_Seq [OF z e]]])
qed

lemma printf_name_returns:
  assumes "re_search re_printf_start (lower line) \<noteq> None"
  shows "returns (printf_name line)"
proof -
  from assms obtain m where "re_search re_printf_start (lower line) = Some m" by blast
  then obtain a b s' where l: "lower line = a @ m_text m @ s'" "b = m_text m @ s'"
    "rm re_printf_start (rev a, b, []) (rev (m_text m) @ rev a, s', m_caps m)" by (rule re_search_SomeD)
  from printf_patterns [OF l(3)] obtain st where "rm re_printf_name (rev a, b, []) st" by blast
  from re_search_hit [OF this] l obtain n where n: "re_search re_printf_name (lower line) = Some n" by auto
  then obtain a b s' where "rm re_printf_name (rev a, b, []) (rev (m_text n) @ rev a, s', m_caps n)"
    by (rule re_search_SomeD)
  from rm_Seqs_segments [OF this [unfolded re_printf_name_def]] have "map_of (m_caps n) 1 \<noteq> None"
    by (simp, elim exE conjE) (elim seg_ConsE, auto)
  with n show ?thesis by (auto simp: printf_name_def)
qed

lemma format_msgs_checked:
  assumes "n < NumLines cl"
  shows "checked f cl (format_msgs f n line)"
  unfolding format_msgs_def
proof (rule checked_bind [OF GetTextInside_returns], intro checked_option)
  fix t args m
  assume t: "GetTextInside line re_printf_start = Inr t" "t = Some args"
  from printf_name_returns [OF GetTextInside_search [OF t(1) [unfolded t(2)]]]
  show "checked f cl (if group_text m 1 = ''__VA_ARGS__'' then Inr []
      else py_bind (printf_name line) (\<lambda>function_name.
        Inr (lint True f n ''runtime/printf'' 4 (''Potential format string bug. Do '' @ function_name @
          [CHR ''('', dquote, CHR ''%'', CHR ''s'', dquote, CHR '','', CHR '' ''] @ group_text m 1 @ '') instead.''))))"
    by (intro checked_split checked_bind) (simp_all add: assms msgs_ok_lint)
qed simp_all

lemma int_msgs_ok: "n < NumLines cl \<Longrightarrow> msgs_ok f cl (int_msgs f n line)"
  unfolding int_msgs_def by (intro msgs_ok_rules; (assumption | rule wf_categories | simp))

lemma memset_msgs_ok: "n < NumLines cl \<Longrightarrow> msgs_ok f cl (memset_msgs f n line)"
  unfolding memset_msgs_def by (intro msgs_ok_rules; (assumption | rule wf_categories | simp))

lemma using_msgs_ok: "n < NumLines cl \<Longrightarrow> msgs_ok f cl (using_msgs f n line)"
  unfolding using_msgs_def by (intro msgs_ok_rules; (assumption | simp))

lemma array_msgs_ok: "n < NumLines cl \<Longrightarrow> msgs_ok f cl (array_msgs f n line)"
  unfolding array_msgs_def by (intro msgs_ok_rules; (assumption | rule wf_categories | simp))

section \<open>Global variables and printf\<close>

lemma GlobalStatic_checked:
  assumes "full cl" and "n < NumLines cl"
  shows "checked f cl (CheckGlobalStatic f cl n)"
proof -
  have "returns (joined_declaration cl n)" using assms by (auto simp: joined_declaration_def)
  then show ?thesis unfolding CheckGlobalStatic_def
    by (rule checked_bind, unfold checked_Inr)
      (intro msgs_ok_rules; (rule assms(2) wf_categories | simp))
qed

lemma Printf_checked:
  assumes "full cl" and "n < NumLines cl"
  shows "checked f cl (CheckPrintf f cl n)"
  unfolding CheckPrintf_def at_line(1) [OF assms] py_bind_simps checked_Inr
  by (intro msgs_ok_rules; (rule assms(2) wf_categories | simp))

section \<open>Casts\<close>

lemma at_two_before:
  assumes "full cl" and "n < NumLines cl" and "2 \<le> n"
  shows "elided_at cl (int n - 2) = Inr (elided cl ! (n - 2))"
proof -
  have "n - 2 < NumLines cl" using assms by linarith
  from at_line(1) [OF assms(1) this] assms(3) show ?thesis by (simp add: of_nat_diff)
qed

lemma ExpectingFunctionArgs_returns:
  assumes "full cl" and "n < NumLines cl"
  shows "returns (ExpectingFunctionArgs cl n)"
proof -
  have "n - 1 < NumLines cl" using assms(2) by linarith
  with assms at_two_before [OF assms] show ?thesis by (auto simp: ExpectingFunctionArgs_def)
qed

lemma join_elided_returns:
  "full cl \<Longrightarrow> \<forall>i \<in> set is. i < NumLines cl \<Longrightarrow> returns (join_lines (elided cl) is)"
  by (rule join_lines_returns) (simp add: full_def sized_def)

lemma lines_back_less: "i \<in> set (lines_back n k) \<Longrightarrow> i < n"
  by (auto simp: lines_back_def)

lemma CStyleCast_checked:
  assumes "full cl" and "n < NumLines cl"
  shows "checked_with f cl (CheckCStyleCast f cl n ty r)"
proof -
  have "returns (join_lines (elided cl) (rev (lines_back n 5)))"
    by (rule join_elided_returns) (use assms lines_back_less in \<open>auto intro: less_trans\<close>)
  then have "returns (cast_context cl n c)" for c by (auto simp: cast_context_def returns_def)
  then obtain g where g: "cast_context cl n c = Inr (g c)" for c unfolding returns_def by metis
  have m: "msgs_ok f cl (lint True f n ''readability/casting'' 4 t)" for t
    by (rule msgs_ok_lint) (simp_all add: assms(2))
  show ?thesis
    unfolding CheckCStyleCast_def at_line(1) [OF assms] py_bind_simps Let_def g
    by (cases "re_search r (elided cl ! n)") (simp_all add: m)
qed

lemma c_style_casts_checked:
  assumes "full cl" and "n < NumLines cl"
  shows "checked f cl (c_style_casts f cl n b)"
proof -
  have "\<exists>x ms. CheckCStyleCast f cl n ty r = Inr (x, ms) \<and> msgs_ok f cl ms" for ty r
    using CStyleCast_checked [OF assms] by (simp add: checked_with_def)
  then obtain x ms where c: "CheckCStyleCast f cl n ty r = Inr (x ty r, ms ty r)" "msgs_ok f cl (ms ty r)" for ty r
    by metis
  show ?thesis unfolding c_style_casts_def c(1)
    by (cases b; cases "x ''const_cast'' re_const_cast") (simp_all add: c(2))
qed

lemma address_named_cast_length:
  "re_match re_address_named_cast s = Some m \<Longrightarrow> length (group_text m 1) < length s"
  by (erule re_match_segsE [OF _ re_address_named_cast_def], simp)
    (elim seg_ConsE, auto simp: group_text_def group_def)

lemma cast_dereferenced_outcome:
  assumes "full cl" and "n < NumLines cl"
  shows "outcome (\<lambda>e. e = IndexError) (\<lambda>_. True) (cast_dereferenced cl n (elided cl ! n))"
proof -
  let ?l = "elided cl ! n"
  have inner: "outcome (\<lambda>e. e = IndexError) (\<lambda>_. True) (py_bind (py_nth l1 (int x)) (\<lambda>c.
      if c \<noteq> CHR ''('' then Inr False
      else py_bind (CloseExpression cl y x) (\<lambda>(_, y2, x2).
        if x2 < 0 then Inr False
        else py_bind (elided_at cl (int y2)) (\<lambda>line2.
          py_bind (if y2 + 1 < NumLines cl then elided_at cl (int (y2 + 1)) else Inr []) (\<lambda>after.
            Inr (fits re_arrow_bracket (drop (nat x2) line2 @ after)))))))"
    if y: "y < NumLines cl" and l1: "l1 = elided cl ! y" for x y l1
  proof (cases "x < length l1")
    case False
    then show ?thesis by (simp add: py_nth_def)
  next
    case True
    with l1 obtain l2 y2 x2 where c: "CloseExpression cl y x = Inr (l2, y2, x2)" "place_after cl y (l2, y2, x2)"
      using CloseExpression_place [OF full_sized [OF assms(1)] y, of x] by auto
    from c(2) have "0 \<le> x2 \<Longrightarrow> y2 < NumLines cl" by (auto simp: place_after_def)
    with True c(1) assms(1) show ?thesis by auto
  qed
  show ?thesis
  proof (cases "re_match re_address_named_cast ?l")
    case (Some m)
    from CloseExpression_place [OF full_sized [OF assms(1)] assms(2) address_named_cast_length [OF Some]]
    obtain l1 y1 x1 where c: "CloseExpression cl n (length (group_text m 1)) = Inr (l1, y1, x1)"
      "place_after cl n (l1, y1, x1)" by auto
    show ?thesis
    proof (cases "x1 < 0")
      case False
      with c(2) have "y1 < NumLines cl" by (auto simp: place_after_def)
      from inner [OF this refl, of "nat x1"] False c(1) Some this assms(1) show ?thesis
        by (simp add: cast_dereferenced_def)
    qed (use c Some in \<open>simp add: cast_dereferenced_def\<close>)
  qed (simp add: cast_dereferenced_def)
qed

lemma address_msgs_outcome:
  assumes "full cl" and "n < NumLines cl"
  shows "outcome (line_error fs) (msgs_ok f cl) (address_msgs f cl n (elided cl ! n))"
  unfolding address_msgs_def
  by (intro outcome_rules outcome_bind [OF outcome_weaken [OF cast_dereferenced_outcome [OF assms]]] msgs_ok_rules;
    (assumption | rule TrueI assms(2) wf_categories | simp))

lemma function_cast_ok: "n < NumLines cl \<Longrightarrow> function_cast f n line m = Some ms \<Longrightarrow> msgs_ok f cl ms"
  by (auto simp: function_cast_def Let_def split: if_splits)

lemma CheckCasts_outcome:
  assumes "full cl" and "n < NumLines cl"
  shows "outcome (line_error fs) (msgs_ok f cl) (CheckCasts f cl n)"
proof -
  obtain b where b: "ExpectingFunctionArgs cl n = Inr b"
    using ExpectingFunctionArgs_returns [OF assms] by (auto simp: returns_def)
  let ?first = "case re_search re_fn_cast (elided cl ! n) of None \<Rightarrow> Some []
      | Some m \<Rightarrow> if b then Some [] else function_cast f n (elided cl ! n) m"
  have first: "msgs_ok f cl ms" if "?first = Some ms" for ms
    using that function_cast_ok [OF assms(2)] by (auto split: option.splits if_splits)
  show ?thesis
    unfolding CheckCasts_def at_line(1) [OF assms] py_bind_simps b
    by (intro outcome_option outcome_rules outcome_bind [OF checked_outcome [OF c_style_casts_checked [OF assms]]]
        outcome_bind [OF address_msgs_outcome [OF assms]] msgs_ok_append)
      (simp_all add: first)
qed

section \<open>CheckLanguage\<close>

lemma plain_language_outcome:
  assumes "full cl" and "n < NumLines cl"
  shows "outcome (line_error fs) (msgs_ok f cl) (plain_language exts f cl n ext line)"
  unfolding plain_language_def
  by (intro outcome_bind [OF CheckCasts_outcome [OF assms]]
      outcome_bind [OF checked_outcome [OF GlobalStatic_checked [OF assms]]]
      outcome_bind [OF checked_outcome [OF Printf_checked [OF assms]]]
      outcome_bind [OF checked_outcome [OF format_msgs_checked [OF assms(2)]]]
      outcome_rules(1) msgs_ok_append int_msgs_ok memset_msgs_ok using_msgs_ok array_msgs_ok msgs_ok_lint;
    (assumption | rule assms(2) wf_categories | simp))

lemma CheckLanguage_outcome:
  assumes "full cl" and "n < NumLines cl" and "include_list st \<noteq> []"
  shows "outcome (line_error fs) (include_result f cl) (CheckLanguage ord exts fs f cl n ext st)"
proof -
  have reset: "outcome (line_error fs) (\<lambda>st'. include_list st' \<noteq> [])
      (case re_match re_pp_conditional l of None \<Rightarrow> Inr st | Some m \<Rightarrow> ResetSection (group_text m 1) st)" for l
  proof (cases "re_match re_pp_conditional l")
    case (Some m)
    with ResetSection_ok [OF assms(3), of "group_text m 1"] show ?thesis by auto
  qed (simp add: assms(3))
  show ?thesis
    unfolding CheckLanguage_def at_line(1) [OF assms(1,2)] py_bind_simps
    by (intro outcome_rules CheckIncludeLine_outcome assms outcome_bind [OF reset]
        outcome_bind [OF plain_language_outcome [OF assms(1,2)]])
      (simp_all add: include_result_def assms(3))
qed

section \<open>Non-const references\<close>

lemma fn_open_length: "re_match re_fn_open s = Some m \<Longrightarrow> length (group_text m 1) < length s"
  by (erule re_match_segsE [OF _ re_fn_open_def], simp)
    (elim seg_ConsE, auto simp: group_text_def group_def)

lemma derived_from_returns:
  assumes "full cl"
  shows "\<forall>i \<in> set is. i < NumLines cl \<Longrightarrow> returns (derived_from cl is)"
proof (induction "is")
  case (Cons i "is")
  then have i: "i < NumLines cl" and rest: "returns (derived_from cl is)" by auto
  show ?case
  proof (cases "re_match re_fn_open (elided cl ! i)")
    case (Some m)
    from CloseExpression_place [OF full_sized [OF assms] i fn_open_length [OF Some]]
    obtain l k e where "CloseExpression cl i (length (group_text m 1)) = Inr (l, k, e)" by auto
    with Some i assms show ?thesis by simp
  qed (use i rest assms in simp)
qed simp

lemma ten_back_le: "i \<in> set (ten_back n) \<Longrightarrow> i \<le> n"
  by (auto simp: ten_back_def)

lemma out_of_line_returns:
  "full cl \<Longrightarrow> \<forall>i \<in> set is. i < NumLines cl \<Longrightarrow> returns (out_of_line_from cl is)"
  by (induction "is") auto

lemma initializer_from_returns:
  "full cl \<Longrightarrow> \<forall>i \<in> set is. i < NumLines cl \<Longrightarrow> returns (initializer_from cl n is)"
  by (induction "is") (auto simp: Let_def)

lemma initializer_before_returns:
  "full cl \<Longrightarrow> \<forall>i \<in> set is. i < NumLines cl \<Longrightarrow> returns (initializer_before cl is)"
  by (induction "is") auto

lemma join_stripped_returns: "\<forall>i \<in> set is. i < length els \<Longrightarrow> returns (join_stripped els is)"
  by (induction "is") (auto intro!: returns_bind)

lemma rejoin_type_returns:
  assumes "full cl" and "n < NumLines cl"
  shows "returns (rejoin_type cl n (elided cl ! n))"
proof (cases "n \<le> 1")
  case False
  have "n - 1 < NumLines cl" using assms(2) by linarith
  with False assms(1) have before: "elided_at cl (int n - 1) = Inr (elided cl ! (n - 1))" by simp
  show ?thesis
  proof (cases "split_type_prefix (elided cl ! n) (elided cl ! (n - 1)) = None
      \<and> rfind_char (CHR ''>'') (elided cl ! n) \<noteq> None")
    case True
    then obtain p where p: "rfind_char (CHR ''>'') (elided cl ! n) = Some p" by blast
    from ReverseCloseExpression_place [OF full_sized [OF assms(1)] assms(2) rfind_char_bounds [OF p]]
    obtain l k e where r: "ReverseCloseExpression cl n p = Inr (l, k, e)" by auto
    have "returns (join_stripped (elided cl) [k ..< n + 1])"
      by (rule join_stripped_returns) (use assms in \<open>auto simp: full_def sized_def\<close>)
    with False before True p r show ?thesis by (auto simp: rejoin_type_def)
  qed (use False before in \<open>auto simp: rejoin_type_def split: option.split\<close>)
qed (simp add: rejoin_type_def)

lemma whitelisted_returns:
  assumes "full cl" and "n < NumLines cl"
  shows "returns (whitelisted cl n line)"
proof -
  have "n - 1 < NumLines cl" using assms(2) by linarith
  with assms at_two_before [OF assms] show ?thesis by (auto simp: whitelisted_def)
qed

lemma reference_msgs_ok: "n < NumLines cl \<Longrightarrow> msgs_ok f cl (reference_msgs f n line)"
  unfolding reference_msgs_def by (auto simp: Let_def)

lemma NonConstReference_checked:
  assumes "full cl" and "n < NumLines cl"
  shows "checked f cl (CheckForNonConstReference f cl n st)"
proof -
  have "returns (IsDerivedFunction cl n)" unfolding IsDerivedFunction_def
    by (rule derived_from_returns [OF assms(1)]) (use assms(2) ten_back_le in \<open>auto intro: le_less_trans\<close>)
  moreover have "returns (IsOutOfLineMethodDefinition cl n)" unfolding IsOutOfLineMethodDefinition_def
    by (rule out_of_line_returns [OF assms(1)]) (use assms(2) ten_back_le in \<open>auto intro: le_less_trans\<close>)
  moreover have "returns (IsInitializerList cl n)" unfolding IsInitializerList_def
    by (rule initializer_from_returns [OF assms(1)]) (use assms(2) in auto)
  moreover have "returns (initializer_before cl (lines_back n 10))"
    by (rule initializer_before_returns [OF assms(1)]) (use assms(2) lines_back_less in \<open>auto intro: less_trans\<close>)
  moreover from calculation have "returns (reference_allowed cl n l st)" for l
    using whitelisted_returns [OF assms, of l] by (auto simp: reference_allowed_def returns_def)
  ultimately show ?thesis
    unfolding CheckForNonConstReference_def at_line(1) [OF assms] py_bind_simps
    by (intro checked_split checked_bind rejoin_type_returns assms) (simp_all add: reference_msgs_ok assms(2))
qed

section \<open>Virtual, override and final\<close>

lemma param_list_length: "re_match re_param_list s = Some m \<Longrightarrow> length (group_text m 1) < length s"
  by (erule re_match_segsE [OF _ re_param_list_def], simp)
    (elim seg_ConsE, auto simp: group_text_def group_def)

lemma parameter_end_ok:
  assumes "full cl"
  shows "\<forall>i \<in> set is. i < NumLines cl \<Longrightarrow>
    \<exists>r. parameter_end cl is c = Inr r \<and> (\<forall>k e. r = Some (k, e) \<longrightarrow> k < NumLines cl)"
proof (induction "is" arbitrary: c)
  case (Cons i "is")
  then have i: "i < NumLines cl" by simp
  show ?case
  proof (cases "re_match re_param_list (drop c (elided cl ! i))")
    case None
    with Cons i assms show ?thesis by simp
  next
    case (Some m)
    have "c + length (group_text m 1) < length (elided cl ! i)"
      using param_list_length [OF Some] by simp
    from CloseExpression_place [OF full_sized [OF assms] i this]
    obtain l k e where r: "CloseExpression cl i (c + length (group_text m 1)) = Inr (l, k, e)"
      "place_after cl i (l, k, e)" by auto
    then have "e < 0 \<or> k < NumLines cl" by (auto simp: place_after_def split: if_splits)
    with r(1) Some i assms show ?thesis by auto
  qed
qed simp

lemma redundant_msgs_checked:
  assumes "full cl" and "n < NumLines cl"
  shows "\<forall>i \<in> set is. i < NumLines cl \<Longrightarrow> checked f cl (redundant_msgs f cl n is c)"
proof (induction "is" arbitrary: c)
  case (Cons i "is")
  then have i: "i < NumLines cl" by simp
  have ms: "msgs_ok f cl (case re_search re_override_final l of None \<Rightarrow> []
      | Some m \<Rightarrow> lint True f n ''readability/inheritance'' 4 (t m))" for l t
    using assms(2) by (auto split: option.split)
  show ?case
    unfolding redundant_msgs.simps at_line(1) [OF assms(1) i] py_bind_simps Let_def
    by (intro checked_split checked_app [OF Cons.IH]) (use Cons.prems ms in simp_all)
qed simp

lemma RedundantVirtual_checked:
  assumes "full cl" and "n < NumLines cl"
  shows "checked f cl (CheckRedundantVirtual f cl n)"
proof -
  have "\<forall>i \<in> set [n ..< min (n + 3) (NumLines cl)]. i < NumLines cl" by auto
  from parameter_end_ok [OF assms(1) this]
  have p: "\<exists>r. parameter_end cl [n ..< min (n + 3) (NumLines cl)] c = Inr r" for c by blast
  have m: "checked f cl (redundant_msgs f cl n [k ..< min (k + 3) (NumLines cl)] c)" for k c
    by (rule redundant_msgs_checked [OF assms]) auto
  show ?thesis
    unfolding CheckRedundantVirtual_def at_line(1) [OF assms] py_bind_simps
    by (intro checked_option checked_split checked_bind) (use p m in \<open>auto simp: returns_def split: option.split\<close>)
qed

lemma RedundantOverride_checked:
  assumes "full cl" and "n < NumLines cl"
  shows "checked f cl (CheckRedundantOverrideOrFinal f cl n)"
proof -
  have "n - 1 < NumLines cl" using assms(2) by linarith
  then have "returns (override_fragment cl n l)" for l
    using assms(1) by (auto simp: override_fragment_def split: option.split)
  then show ?thesis
    unfolding CheckRedundantOverrideOrFinal_def at_line(1) [OF assms] py_bind_simps
    by (intro checked_bind checked_option) (use assms(2) in \<open>simp_all add: msgs_ok_lint\<close>)
qed

end
