(* ===== verification/Process_Safety.thy ===== *)
theory Process_Safety
  imports Lint_Main_Laws Check_Language_Laws
begin

text \<open>
  Which exceptions a run can end with.  On a line of a file only an index out of range is
  possible, or a call of \<open>RepositoryName\<close> that does not return; a file adds the exceptions of its
  configuration files, and the program those of its command line.  All messages of a line are
  well formed.
\<close>

section \<open>Messages of the nesting state\<close>

lemma disallow_loop_checked:
  "full cl \<Longrightarrow> k \<le> NumLines cl \<Longrightarrow> checked f cl (disallow_loop f cl name start k b)"
  by (induction k arbitrary: b) (auto simp: disallow_msg_def split: option.split)

lemma CheckEnd_checked:
  assumes "full cl" and "n < NumLines cl"
  shows "checked f cl (CheckEnd f cl n b)"
proof (cases "kind b")
  case (ClassKind c)
  have "checked f cl (disallow_loop f cl (c_name c) (starting_linenum b) n False)"
    by (rule disallow_loop_checked) (use assms in simp_all)
  with ClassKind assms show ?thesis
    by (auto simp: CheckEnd_def ClassInfo_CheckEnd_def intro!: checked_app split: option.split)
next
  case (NamespaceKind name)
  with assms show ?thesis by (simp add: CheckEnd_def NamespaceInfo_CheckEnd_def ns_msg_def)
qed (simp_all add: CheckEnd_def)

lemma brace_token_checked:
  assumes "full cl" and "n < NumLines cl"
  shows "checked_with f cl (brace_token f cl n line t st)"
proof -
  obtain ms where "CheckEnd f cl n b = Inr (ms b)" "msgs_ok f cl (ms b)" for b
    using CheckEnd_checked [OF assms, where f = f] unfolding checked_def by metis
  then show ?thesis by (auto simp: brace_token_def close_brace_def split: list.split)
qed

lemma brace_loop_checked:
  assumes "full cl" and "n < NumLines cl"
  shows "checked_with f cl (brace_loop f cl n line st)"
proof (induction "length line" arbitrary: line st rule: less_induct)
  case less
  note step = brace_loop.simps [of f cl n line st]
  show ?case
  proof (cases "re_match re_brace_token line")
    case (Some m)
    obtain st1 ms where "brace_token f cl n line (group_text m 1) st = Inr (st1, ms)" "msgs_ok f cl ms"
      using brace_token_checked [OF assms] unfolding checked_with_def by metis
    moreover obtain st2 ms2 where "brace_loop f cl n (group_text m 2) st1 = Inr (st2, ms2)" "msgs_ok f cl ms2"
      using less [OF re_brace_token_shorter [OF Some]] unfolding checked_with_def by metis
    ultimately show ?thesis unfolding step using Some by simp
  qed (simp add: step)
qed

lemma access_step_ok: "n < NumLines cl \<Longrightarrow> access_step f n line st = (st', ms) \<Longrightarrow> msgs_ok f cl ms"
  by (auto simp: access_step_def Let_def split: list.splits block_kind.splits option.splits if_splits)

lemma Update_checked:
  assumes "full cl" and "n < NumLines cl"
  shows "checked_with f cl (NestingState_Update f cl n st)"
proof -
  let ?l = "elided cl ! n"
  let ?st1 = "count_parens ?l (UpdatePreprocessor ?l (remember_top st))"
  obtain l2 st2 where ns: "namespace_loop n ?l ?st1 = (l2, st2)" by fastforce
  obtain l3 st3 where c: "class_step cl n l2 st2 = Inr (l3, st3)"
    using class_step_returns [OF full_sized [OF assms(1)] assms(2)] unfolding returns_def by fastforce
  obtain st4 where b: "begin_step cl n st3 = Inr st4"
    using begin_step_returns [OF full_sized [OF assms(1)] assms(2)] unfolding returns_def by blast
  obtain st5 ms5 where a: "access_step f n l3 st4 = (st5, ms5)" by fastforce
  obtain st6 ms6 where r: "brace_loop f cl n l3 st5 = Inr (st6, ms6)" "msgs_ok f cl ms6"
    using brace_loop_checked [OF assms] unfolding checked_with_def by metis
  have "NestingState_Update f cl n st = Inr (st6, ms5 @ ms6)"
    unfolding NestingState_Update_def full_nth(1) [OF assms] py_bind_simps Let_def ns prod.case c b a r(1) ..
  with access_step_ok [OF assms(2) a] r(2) show ?thesis by simp
qed

section \<open>One line\<close>

lemma MakePair_checked: "full cl \<Longrightarrow> n < NumLines cl \<Longrightarrow> checked f cl (CheckMakePairUsesDeduction f cl n)"
  by (simp add: CheckMakePairUsesDeduction_def msgs_ok_lint)

lemma FlagCxx11Features_checked:
  assumes "full cl" and "n < NumLines cl"
  shows "checked f cl (FlagCxx11Features f cl n)"
  using assms by (auto simp: FlagCxx11Features_def split: option.split)

text \<open>The contract of the check functions that a caller of \<open>ProcessFile\<close> adds.\<close>

definition extras_ok :: "file_sys \<Rightarrow> string \<Rightarrow> extra_check list \<Rightarrow> bool" where
  "extras_ok fs f extras \<longleftrightarrow>
     (\<forall>check \<in> set extras. \<forall>cl n. full cl \<longrightarrow> n < NumLines cl \<longrightarrow> outcome (line_error fs) (acts_ok f cl) (check f cl n))"

lemma run_checks_outcome:
  "\<forall>r \<in> set rs. outcome E (acts_ok f cl) r \<Longrightarrow> outcome E (acts_ok f cl) (run_checks rs)"
  by (induction rs) (auto simp: acts_ok_def intro!: outcome_bind)

lemma reports_outcome: "outcome E (msgs_ok f cl) r \<Longrightarrow> outcome E (acts_ok f cl) (reports r)"
  unfolding reports_def by (rule outcome_bind) (auto simp: acts_ok_def msgs_ok_def)

lemma late_checks_outcome:
  assumes "full cl" and "n < NumLines cl" and "extras_ok fs f extras"
  shows "outcome (line_error fs) (acts_ok f cl) (run_checks (late_checks extras f cl n st))"
proof (rule run_checks_outcome, intro ballI)
  fix r assume "r \<in> set (late_checks extras f cl n st)"
  then consider "r = reports (CheckForNonStandardConstructs f cl n st)"
    | r' where "r = reports r'" "checked f cl r'" | check where "check \<in> set extras" "r = check f cl n"
    unfolding late_checks_def
    using NonConstReference_checked [OF assms(1,2)] VlogArguments_checked [OF assms(1,2)]
      PosixThreading_checked [OF assms(1,2)] InvalidIncrement_checked [OF assms(1,2)] MakePair_checked [OF assms(1,2)]
      RedundantVirtual_checked [OF assms(1,2)] RedundantOverride_checked [OF assms(1,2)]
    by auto
  then show "outcome (line_error fs) (acts_ok f cl) r"
  proof cases
    case 1
    then show ?thesis
      by (simp only:) (rule reports_outcome, rule outcome_weaken [OF NonStandardConstructs_outcome [OF assms(1,2)]], simp_all)
  next
    case 2
    then show ?thesis using reports_outcome checked_outcome by blast
  next
    case 3
    with assms show ?thesis by (simp add: extras_ok_def)
  qed
qed

text \<open>What holds of the parser state before a line and after it.\<close>

definition line_ready :: "nat \<Rightarrow> parse_state \<Rightarrow> bool" where
  "line_ready n ps \<longleftrightarrow> starts_by n (p_nesting ps) \<and> include_list (p_include ps) \<noteq> []"

lemma ProcessLine_outcome:
  assumes "full cl" and "n < NumLines cl" and "line_ready n ps" and "extras_ok (r_fs run) f extras"
  shows "outcome (line_error (r_fs run)) (\<lambda>(ps', acts). line_ready n ps' \<and> acts_ok f cl acts)
    (ProcessLine w run extras f ext cl n ps)"
proof -
  obtain st ms1 where u: "NestingState_Update f cl n (p_nesting ps) = Inr (st, ms1)" "msgs_ok f cl ms1"
    using Update_checked [OF assms(1,2)] unfolding checked_with_def by metis
  have "n < length (elided cl)" using assms(1,2) by (simp add: full_def sized_def)
  from starts_by_Update [OF u(1) this] assms(3) have st: "starts_by n st" by (simp add: line_ready_def)
  obtain ms2 where ns: "CheckForNamespaceIndentation f st cl n = Inr ms2" "msgs_ok f cl ms2"
    using NamespaceIndentation_checked [OF assms(1,2)] unfolding checked_def by metis
  obtain fn ms3 where fl: "CheckForFunctionLengths (verbose_level (cstate (r_env run))) f cl n (p_function ps) = Inr (fn, ms3)"
    "msgs_ok f cl ms3" using FunctionLengths_checked [OF assms(1,2)] unfolding checked_with_def by metis
  obtain ms4 where ml: "CheckForMultilineCommentsAndStrings f cl n = Inr ms4" "msgs_ok f cl ms4"
    using MultilineCommentsAndStrings_checked [OF assms(1,2)] unfolding checked_def by metis
  have style: "outcome (line_error (r_fs run)) (acts_ok f cl)
      (CheckStyle (r_fs run) (r_exts run) (r_line_length run) f cl n ext st)"
    by (rule outcome_weaken [OF CheckStyle_outcome [OF assms(1,2) st]])
      (auto simp: line_error_def GetHeaderGuardCPPVariable_def Let_def intro: stuckI)
  have inc: "include_list (p_include ps) \<noteq> []" using assms(3) by (simp add: line_ready_def)
  have raw: "raw_lines cl ! n \<in> set (raw_lines cl)" using assms(1,2) by (simp add: full_def sized_def)
  have acts: "acts_ok f cl (ParseNolint (raw_lines cl ! n) (int n) # map Report (ms1 @ ms2))"
    using u(2) ns(2) raw assms(2) by (auto simp: acts_ok_def msgs_ok_def)
  show ?thesis
    unfolding ProcessLine_def full_nth(2) [OF assms(1,2)] py_bind_simps u(1) prod.case ns(1) Let_def fl(1) ml(1)
  proof (intro outcome_rules(3) outcome_bind [OF style])
    assume "InAsmBlock st"
    show "outcome (line_error (r_fs run)) (\<lambda>(ps', acts). line_ready n ps' \<and> acts_ok f cl acts)
        (Inr (ps\<lparr>p_nesting := st\<rparr>, ParseNolint (raw_lines cl ! n) (int n) # map Report (ms1 @ ms2)))"
      using acts st inc by (simp add: line_ready_def)
  next
    fix acts5 assume "acts_ok f cl acts5"
    then show "outcome (line_error (r_fs run)) (\<lambda>(ps', acts). line_ready n ps' \<and> acts_ok f cl acts)
       (py_bind (CheckLanguage (w_order w) (r_exts run) (r_fs run) f cl n ext (p_include ps)) (\<lambda>(inc, ms6).
         py_bind (run_checks (late_checks extras f cl n st)) (\<lambda>acts7.
           Inr (\<lparr>p_include = inc, p_function = fn, p_nesting = st\<rparr>,
                (ParseNolint (raw_lines cl ! n) (int n) # map Report (ms1 @ ms2)) @ map Report (ms3 @ ms4)
                @ acts5 @ map Report ms6 @ acts7))))"
      using acts st fl(2) ml(2) u(2) ns(2)
      by (intro outcome_bind [OF CheckLanguage_outcome [OF assms(1,2) inc]])
        (auto simp: line_ready_def include_result_def acts_ok_def msgs_ok_def
          intro!: outcome_bind [OF late_checks_outcome [OF assms(1,2,4)]])
  qed
qed

section \<open>The lines of a file\<close>

lemma Error_returns:
  "filters_ok (cstate env) \<Longrightarrow> \<exists>env'. Error m env = Inr env' \<and> filters_ok (cstate env')"
  by (auto simp: Error_def ShouldPrintError_ok filters_ok_def)

lemma report_all_returns:
  "filters_ok (cstate env) \<Longrightarrow> \<exists>env'. report_all ms env = Inr env' \<and> filters_ok (cstate env')"
proof (induction ms arbitrary: env)
  case (Cons m ms)
  from Error_returns [OF Cons.prems, of m] obtain env1 where "Error m env = Inr env1" "filters_ok (cstate env1)" by blast
  with Cons.IH [of env1] show ?case by simp
qed simp

lemma run_acts_returns:
  "filters_ok (cstate env) \<Longrightarrow> \<exists>env'. run_acts f acts env = Inr env' \<and> filters_ok (cstate env')"
proof (induction f acts env rule: run_acts.induct)
  case (2 f m acts env)
  from Error_returns [OF 2(2), of m] obtain env1 where "Error m env = Inr env1" "filters_ok (cstate env1)" by blast
  with 2(1) show ?case by simp
next
  case (3 f raw n acts env)
  obtain tab ms where p: "ParseNolintSuppressions f raw n (nolint_tab env) = (tab, ms)" by fastforce
  have "filters_ok (cstate (env\<lparr>nolint_tab := tab\<rparr>))" using 3(2) by simp
  from report_all_returns [OF this, of ms] obtain env1 where
    "report_all ms (env\<lparr>nolint_tab := tab\<rparr>) = Inr env1" "filters_ok (cstate env1)" by blast
  with 3(1) [OF refl p [symmetric]] p show ?case by simp
qed simp

lemma process_lines_outcome:
  assumes "full cl" and "extras_ok (r_fs run) f extras"
  shows "m \<le> NumLines cl \<Longrightarrow> line_ready k ps \<Longrightarrow> filters_ok (cstate env) \<Longrightarrow>
    outcome (line_error (r_fs run)) (\<lambda>(ps', env'). filters_ok (cstate env'))
      (process_lines w run extras f ext cl [k ..< m] (ps, env))"
proof (induction "m - k" arbitrary: k ps env)
  case 0
  then show ?case by simp
next
  case (Suc d)
  then have k: "k < m" "k < NumLines cl" and d: "d = m - Suc k" by simp_all
  have rest: "outcome (line_error (r_fs run)) (\<lambda>(ps', env'). filters_ok (cstate env'))
      (py_bind (run_acts f acts env) (\<lambda>env1. py_bind (FlagCxx11Features f cl k) (\<lambda>ms.
         py_bind (report_all ms env1) (\<lambda>env2. process_lines w run extras f ext cl [Suc k ..< m] (ps', env2)))))"
    if "line_ready k ps'" for ps' acts
  proof -
    obtain env1 where 1: "run_acts f acts env = Inr env1" "filters_ok (cstate env1)"
      using run_acts_returns [OF Suc.prems(3)] by blast
    obtain ms where 2: "FlagCxx11Features f cl k = Inr ms"
      using FlagCxx11Features_checked [OF assms(1) k(2)] unfolding checked_def by blast
    obtain env2 where 3: "report_all ms env1 = Inr env2" "filters_ok (cstate env2)"
      using report_all_returns [OF 1(2)] by blast
    have "line_ready (Suc k) ps'" using that by (auto simp: line_ready_def intro: starts_by_mono)
    from Suc.hyps(1) [OF d Suc.prems(1) this 3(2)] show ?thesis by (simp add: 1(1) 2 3(1))
  qed
  show ?case
    unfolding upt_conv_Cons [OF k(1)] process_lines.simps
    by (rule outcome_bind [OF ProcessLine_outcome [OF assms(1) k(2) Suc.prems(2) assms(2)]]) (use rest in auto)
qed

section \<open>One file\<close>

lemma read_headers_outcome: "outcome (line_error fs) (\<lambda>_. True) (read_headers fs exts rd a hs b d)"
proof -
  have same: "outcome (line_error fs) (\<lambda>_. True) (FilesBelongToSameModule fs exts x y)" for x y
    unfolding FilesBelongToSameModule_def module_of_source_def Let_def
    by (auto intro!: outcome_bind [OF terminating_outcome(3)] outcome_bind [OF outcome_bind [OF terminating_outcome(2)]]
        split: option.split)
  show ?thesis
    by (induction hs arbitrary: b d) (auto simp: Let_def split_beta intro!: outcome_bind [OF same])
qed

lemma terminatingI: "(x = None \<Longrightarrow> stuck fs) \<Longrightarrow> outcome (line_error fs) (\<lambda>_. True) (terminating x)"
  by (cases x) (auto simp: terminating_def line_error_def)

lemma guard_stuck: "CheckForHeaderGuard fs f cl = None \<Longrightarrow> stuck fs"
  by (auto simp: CheckForHeaderGuard_def GetHeaderGuardCPPVariable_def Let_def split: if_splits intro: stuckI)

lemma own_header_stuck: "CheckHeaderFileIncluded fs exts f st = None \<Longrightarrow> stuck fs"
proof -
  have loop: "own_header_loop fs f name b incs exts = None \<Longrightarrow> stuck fs" for name b incs
    by (induction exts) (auto simp: Let_def split: if_splits option.splits intro: stuckI)
  show "CheckHeaderFileIncluded fs exts f st = None \<Longrightarrow> stuck fs"
    by (auto simp: CheckHeaderFileIncluded_def Split_def split: option.splits prod.splits if_splits
        intro: stuckI loop)
qed

lemma final_checks_outcome:
  "outcome (line_error (r_fs run)) (\<lambda>_. True) (final_checks w run f ext ls cl ps)"
proof -
  have iwyu: "outcome (line_error (r_fs run)) (\<lambda>_. True)
      (CheckForIncludeWhatYouUse ord exts (r_fs run) rd f cl st)" for ord exts rd st
    unfolding CheckForIncludeWhatYouUse_def Let_def
    by (rule outcome_bind [OF read_headers_outcome]) (auto simp: outcome_def)
  have own: "outcome (line_error (r_fs run)) (\<lambda>_. True) (own_header_msgs w run f ext st)" for st
    unfolding own_header_msgs_def by (intro outcome_rules TrueI terminatingI own_header_stuck)
  show ?thesis unfolding final_checks_def
    by (intro outcome_bind [OF iwyu] outcome_bind [OF own] outcome_rules TrueI)
qed

lemma start_file_returns:
  assumes "filters_ok (cstate env)"
  shows "\<exists>ls' env'. start_file f ls env = Inr (ls', env') \<and> filters_ok (cstate env')"
proof -
  let ?env = "env\<lparr>nolint_tab := ResetNolintSuppressions (nolint_tab env)\<rparr>"
  obtain env1 where 1: "report_all (CheckForCopyright f ls) ?env = Inr env1" "filters_ok (cstate env1)"
    using report_all_returns [of ?env] assms by auto
  obtain ls' ms where r: "RemoveMultiLineComments f ls = (ls', ms)" by fastforce
  let ?env2 = "env1\<lparr>nolint_tab := ProcessGlobalSuppresions ls (nolint_tab env1)\<rparr>"
  obtain env3 where "report_all ms ?env2 = Inr env3" "filters_ok (cstate env3)"
    using report_all_returns [of ?env2] 1(2) by auto
  then show ?thesis by (simp add: start_file_def 1(1) r)
qed

lemma ProcessFileData_outcome:
  assumes "filters_ok (cstate (r_env run))" and "extras_ok (r_fs run) f extras"
  shows "outcome (line_error (r_fs run)) (\<lambda>env. filters_ok (cstate env)) (ProcessFileData w run extras f ext ls)"
proof -
  obtain ls' env1 where 1: "start_file f (marked_lines ls) (r_env run) = Inr (ls', env1)" "filters_ok (cstate env1)"
    using start_file_returns [OF assms(1)] by blast
  obtain cl where cl: "CleansedLines ls' = Inr cl" "full cl"
    by (rule CleansedLines_result [of ls']) (auto simp: full_def sized_def dest: list_all2_lengthD)
  have guard: "outcome (line_error (r_fs run)) (\<lambda>_. True) (guard_acts run f ext cl)"
    unfolding guard_acts_def by (intro outcome_rules TrueI terminatingI guard_stuck)
  have ready: "line_ready 0 init_parse"
    by (simp add: line_ready_def init_parse_def init_nesting_def init_include_state_def starts_by_def pp_blocks_def)
  have report: "outcome (line_error (r_fs run)) (\<lambda>env. filters_ok (cstate env)) (report_all ms env)"
    if "filters_ok (cstate env)" for ms env using report_all_returns [OF that, of ms] by auto
  have lines: "outcome (line_error (r_fs run)) (\<lambda>env. filters_ok (cstate env))
      (py_bind (process_lines w run extras f ext cl [0 ..< NumLines cl] (init_parse, env2)) (\<lambda>(ps, env3).
         py_bind (final_checks w run f ext ls' cl ps) (\<lambda>ms. report_all ms env3)))"
    if "filters_ok (cstate env2)" for env2
    by (rule outcome_bind [OF process_lines_outcome [OF cl(2) assms(2) le_refl ready that]])
      (auto intro!: outcome_bind [OF final_checks_outcome] report)
  show ?thesis
    unfolding ProcessFileData_def 1(1) py_bind_simps prod.case cl(1)
  proof (rule outcome_bind [OF guard])
    fix acts
    obtain env2 where "run_acts f acts env1 = Inr env2" "filters_ok (cstate env2)"
      using run_acts_returns [OF 1(2)] by blast
    with lines show "outcome (line_error (r_fs run)) (\<lambda>env. filters_ok (cstate env))
      (py_bind (run_acts f acts env1) (\<lambda>env2.
         py_bind (process_lines w run extras f ext cl [0 ..< NumLines cl] (init_parse, env2)) (\<lambda>(ps, env3).
           py_bind (final_checks w run f ext ls' cl ps) (\<lambda>ms. report_all ms env3))))" by simp
  qed
qed

text \<open>The loop over the lines, with the actions of the checks instead of the handler.\<close>

fun parse_lines ::
  "world \<Rightarrow> run_state \<Rightarrow> extra_check list \<Rightarrow> string \<Rightarrow> string \<Rightarrow> cleansed_lines \<Rightarrow> nat list \<Rightarrow> parse_state
     \<Rightarrow> (parse_state \<times> lint_act list) py" where
  "parse_lines w run extras f ext cl [] ps = Inr (ps, [])"
| "parse_lines w run extras f ext cl (n # ns) ps =
     py_bind (ProcessLine w run extras f ext cl n ps) (\<lambda>(ps', acts).
     py_bind (parse_lines w run extras f ext cl ns ps') (\<lambda>(ps'', acts'). Inr (ps'', acts @ acts')))"

lemma parse_lines_outcome:
  assumes "full cl" and "extras_ok (r_fs run) f extras"
  shows "m \<le> NumLines cl \<Longrightarrow> line_ready k ps \<Longrightarrow>
    outcome (line_error (r_fs run)) (\<lambda>(ps', acts). acts_ok f cl acts)
      (parse_lines w run extras f ext cl [k ..< m] ps)"
proof (induction "m - k" arbitrary: k ps)
  case 0
  then show ?case by (simp add: acts_ok_def)
next
  case (Suc d)
  then have k: "k < m" "k < NumLines cl" and d: "d = m - Suc k" by simp_all
  have rest: "outcome (line_error (r_fs run)) (\<lambda>(ps', acts). acts_ok f cl acts)
      (py_bind (parse_lines w run extras f ext cl [Suc k ..< m] ps') (\<lambda>(ps'', acts'). Inr (ps'', acts @ acts')))"
    if "line_ready k ps'" "acts_ok f cl acts" for ps' acts
  proof -
    have "line_ready (Suc k) ps'" using that(1) by (auto simp: line_ready_def intro: starts_by_mono)
    from Suc.hyps(1) [OF d Suc.prems(1) this] show ?thesis
      by (rule outcome_bind) (use that(2) in \<open>auto simp: acts_ok_def\<close>)
  qed
  show ?case
    unfolding upt_conv_Cons [OF k(1)] parse_lines.simps
    by (rule outcome_bind [OF ProcessLine_outcome [OF assms(1) k(2) Suc.prems(2) assms(2)]]) (use rest in auto)
qed

text \<open>
  C3.  All checks of all lines of any file.  Starting from the state at the start of a file,
  \<open>ProcessLine\<close> on the lines in order returns, unless an index is out of range (which the
  constructor check and the cast check can cause) or \<open>RepositoryName\<close> does not return.  No other
  exception is possible: no failed assertion, no missing key, no attribute of \<open>None\<close>.  Every
  message names the file, one of its lines, a registered category and a confidence of at
  most 5, which is negative only for function lengths.
\<close>

theorem file_lines_safe:
  "\<exists>cl. CleansedLines ls = Inr cl \<and> raw_lines cl = ls \<and> NumLines cl = length ls \<and>
     (case parse_lines w run [] f ext cl [0 ..< NumLines cl] init_parse of
        Inl e \<Rightarrow> e = IndexError \<or> e = NoReturn \<and> stuck (r_fs run)
      | Inr (ps, acts) \<Rightarrow> list_all (act_ok f cl) acts)"
proof -
  obtain cl where cl: "CleansedLines ls = Inr cl" "raw_lines cl = ls" "full cl" "NumLines cl = length ls"
    by (rule CleansedLines_result [of ls]) (auto simp: full_def sized_def dest: list_all2_lengthD)
  have ready: "line_ready 0 init_parse"
    by (simp add: line_ready_def init_parse_def init_nesting_def init_include_state_def starts_by_def pp_blocks_def)
  have ex: "extras_ok (r_fs run) f []" by (simp add: extras_ok_def)
  have "outcome (line_error (r_fs run)) (\<lambda>(ps', acts). acts_ok f cl acts)
      (parse_lines w run [] f ext cl [0 ..< NumLines cl] init_parse)"
    by (rule parse_lines_outcome [OF cl(3) ex le_refl ready])
  with cl show ?thesis
    by (cases "parse_lines w run [] f ext cl [0 ..< NumLines cl] init_parse")
      (auto simp: line_error_def acts_ok_def list_all_iff)
qed

text \<open>A file of one line, without literals or comments.\<close>

definition one_line :: "string \<Rightarrow> cleansed_lines" where
  "one_line l = \<lparr>elided = [l], lines = [l], raw_lines = [l], num_lines = 1, lines_without_raw_strings = [l]\<rparr>"

text \<open>
  Both sources of \<open>IndexError\<close> are real.  The constructor check fails for a constructor whose
  default argument is a comparison, and the cast check for the address of a cast at the end of
  a line.
\<close>

lemma checks_can_raise:
  "check_constructor f 0 ''  Foo(bool b = x < y);'' ''Foo'' = Inl IndexError
   \<and> CheckCasts f (one_line ''p = &static_cast<T*>'') 0 = Inl IndexError"
  by code_simp

end
