(* ===== verification/Run_Safety.thy ===== *)
theory Run_Safety
  imports Process_Safety
begin

text \<open>
  Which exceptions a run over several files, with their configuration files and the command
  line, can end with, and its exit status.
\<close>

section \<open>Configuration files\<close>

text \<open>What a configuration file, and a file with its configuration, can raise.\<close>

definition config_error :: "world \<Rightarrow> py_error \<Rightarrow> bool" where
  "config_error w e \<longleftrightarrow> e = ReError \<and> (\<exists>val. w_compile w val = None) \<or> (\<exists>t. e = ValueError t)"

definition file_error :: "world \<Rightarrow> file_sys \<Rightarrow> py_error \<Rightarrow> bool" where
  "file_error w fs e \<longleftrightarrow> line_error fs e \<or> config_error w e"

text \<open>Only the root directory changes in the description of the file system.\<close>

definition same_place :: "file_sys \<Rightarrow> run_state \<Rightarrow> bool" where
  "same_place fs run \<longleftrightarrow> (\<exists>root. r_fs run = fs\<lparr>opt_root := root\<rparr>)"

lemma same_place_refl: "same_place (r_fs run) run"
  unfolding same_place_def by (rule exI [of _ "opt_root (r_fs run)"]) simp

lemma same_place_on_cstate [simp]: "same_place fs (on_cstate f run) = same_place fs run"
  by (simp add: same_place_def on_cstate_def)

lemma same_place_trans: "same_place fs run \<Longrightarrow> same_place (r_fs run) run' \<Longrightarrow> same_place fs run'"
  by (auto simp: same_place_def)

lemma line_error_place: "same_place fs run \<Longrightarrow> line_error (r_fs run) e \<Longrightarrow> line_error fs e"
  by (auto simp: same_place_def line_error_def)

lemma cfg_setting_place: "same_place fs (c_run c) \<Longrightarrow> same_place fs (c_run (cfg_setting cfg name val c))"
  by (auto simp: cfg_setting_def on_run_def same_place_def on_cstate_def split: option.split)

lemma cfg_exclude_outcome:
  assumes "same_place fs (c_run c)"
  shows "outcome (config_error w) (\<lambda>(c', b). same_place fs (c_run c')) (cfg_exclude w f cfg base val c)"
  unfolding cfg_exclude_def
  by (intro outcome_rules outcome_option) (use assms in \<open>auto simp: config_error_def\<close>)

lemma cfg_line_outcome:
  assumes "same_place fs (c_run c)"
  shows "outcome (config_error w) (\<lambda>(c', b). same_place fs (c_run c')) (cfg_line w f cfg base l c)"
  unfolding cfg_line_def Let_def
  by (intro outcome_rules(3) cfg_exclude_outcome assms) (simp_all add: assms cfg_setting_place)

lemma cfg_lines_outcome:
  "same_place fs (c_run c) \<Longrightarrow>
   outcome (config_error w) (\<lambda>(c', b). same_place fs (c_run c')) (cfg_lines w f cfg base ls c)"
proof (induction ls arbitrary: c)
  case (Cons l ls)
  show ?case unfolding cfg_lines.simps
    by (rule outcome_bind [OF cfg_line_outcome [OF Cons.prems]]) (auto intro: Cons.IH)
qed simp

lemma cfg_climb_outcome:
  "same_place fs (c_run c) \<Longrightarrow>
   outcome (config_error w) (\<lambda>(c', b). same_place fs (c_run c')) (cfg_climb w f p c)"
proof (induction w f p c rule: cfg_climb.induct)
  case (1 w f p c)
  let ?dir = "path_dirname p" let ?cfg = "path_join ?dir ''CPPLINT.cfg''"
  note step = cfg_climb.simps [of w f p c]
  show ?case
  proof (cases "\<not> c_keep c \<or> path_tail p = []")
    case True
    with 1(3) show ?thesis by (simp add: step)
  next
    case go: False
    show ?thesis
    proof (cases "w_isfile w ?cfg")
      case False
      with 1(1) [OF go refl refl refl] 1(3) go show ?thesis by (simp add: step Let_def)
    next
      case isfile: True
      show ?thesis
      proof (cases "w_lines w ?cfg")
        case None
        with go isfile 1(3) show ?thesis by (simp add: step Let_def on_run_def)
      next
        case (Some ls)
        with go isfile have e: "cfg_climb w f p c = py_bind (cfg_lines w f ?cfg (path_tail p) ls c) (\<lambda>(c', excluded).
            if excluded then Inr (c', True) else cfg_climb w f ?dir c')" by (simp add: step Let_def)
        show ?thesis unfolding e
          by (rule outcome_bind [OF cfg_lines_outcome [OF 1(3)]])
            (use 1(2) [OF go refl refl refl _ Some] isfile in auto)
      qed
    qed
  qed
qed

lemma add_filters_outcome:
  "same_place fs run \<Longrightarrow> outcome (config_error w) (same_place fs) (add_filters fts run)"
proof (induction fts arbitrary: run)
  case (Cons f fts)
  obtain st e where a: "AddFilters f (cstate (r_env run)) = (st, e)" by fastforce
  show ?case
  proof (cases e)
    case None
    with a Cons.IH [of "on_cstate (\<lambda>_. st) run"] Cons.prems show ?thesis by simp
  next
    case (Some x)
    with a have "\<exists>t. x = ValueError t" by (auto simp: AddFilters_def Let_def split: option.splits)
    with a Some show ?thesis by (auto simp: config_error_def)
  qed
qed simp

lemma ProcessConfigOverrides_outcome:
  "outcome (config_error w) (\<lambda>(run', b). same_place (r_fs run) run') (ProcessConfigOverrides w f run)"
  unfolding ProcessConfigOverrides_def
  by (rule outcome_bind [OF cfg_climb_outcome [where fs = "r_fs run"]])
    (auto simp: same_place_refl intro!: outcome_bind [OF add_filters_outcome])

section \<open>Processing of files\<close>

text \<open>The filters of a state, and of its backup, carry a sign: \<^const>\<open>filters_signed\<close>.\<close>

definition extras_anywhere :: "file_sys \<Rightarrow> string \<Rightarrow> extra_check list \<Rightarrow> bool" where
  "extras_anywhere fs f extras \<longleftrightarrow> (\<forall>root. extras_ok (fs\<lparr>opt_root := root\<rparr>) f extras)"

lemma lint_text_outcome:
  assumes "filters_ok (run_cstate run)" and "extras_ok (r_fs run) f extras"
  shows "outcome (line_error (r_fs run)) (same_place (r_fs run)) (lint_text w extras f t run)"
proof -
  have "outcome (line_error (r_fs run)) (same_place (r_fs run))
      (py_bind (report_all ms env) (\<lambda>env'. Inr (run\<lparr>r_env := env'\<rparr>)))" if "filters_ok (cstate env)" for ms env
    using report_all_returns [OF that, of ms] same_place_refl [of run] by (auto simp: same_place_def)
  then show ?thesis
    unfolding lint_text_def Let_def
    by (intro outcome_rules(3) outcome_bind [OF ProcessFileData_outcome])
      (use assms same_place_refl in \<open>auto simp: run_cstate_def\<close>)
qed

lemma ProcessFile_errors:
  assumes "filters_signed (run_cstate run)" and "extras_anywhere (r_fs run) f extras"
  shows "outcome (file_error w (r_fs run)) (same_place (r_fs run)) (ProcessFile w extras f v run)"
proof -
  let ?run1 = "on_cstate (\<lambda>st. BackupFilters (fst (SetVerboseLevel v st))) run"
  have fs1: "r_fs ?run1 = r_fs run" by (simp add: on_cstate_def)
  have s1: "filters_signed (run_cstate ?run1)"
    using assms(1) signed.I_level signed.I_backup by simp
  show ?thesis unfolding ProcessFile_def Let_def
  proof (rule outcome_bind)
    show "outcome (file_error w (r_fs run)) (\<lambda>(run', b). same_place (r_fs run) run') (ProcessConfigOverrides w f ?run1)"
      by (rule outcome_weaken [OF ProcessConfigOverrides_outcome [of w ?run1 f, unfolded fs1]])
        (auto simp: file_error_def)
  next
    fix x assume c: "ProcessConfigOverrides w f ?run1 = Inr x" and p: "case x of (run', b) \<Rightarrow> same_place (r_fs run) run'"
    obtain run2 go_on where x: "x = (run2, go_on)" by (cases x)
    from p x have p2: "same_place (r_fs run) run2" by simp
    have s2: "filters_ok (run_cstate run2)"
      using signed.ProcessConfigOverrides_inv [OF c [unfolded x] s1] by (simp add: filters_signed_def)
    have e2: "extras_ok (r_fs run2) f extras" using p2 assms(2) by (auto simp: same_place_def extras_anywhere_def)
    have lint: "outcome (file_error w (r_fs run)) (same_place (r_fs run)) (lint_text w extras f t run2)" for t
      by (rule outcome_weaken [OF lint_text_outcome [OF s2 e2]])
        (use p2 in \<open>auto simp: file_error_def intro: line_error_place same_place_trans\<close>)
    show "outcome (file_error w (r_fs run)) (same_place (r_fs run))
       (case x of (run2, go_on) \<Rightarrow>
          if \<not> go_on then Inr (on_cstate RestoreFilters run2)
          else case w_text w f of
             None \<Rightarrow> Inr (on_cstate (\<lambda>st. RestoreFilters (PrintError (unreadable_text f) st)) run2)
           | Some text \<Rightarrow>
               py_bind (lint_text w extras f text run2) (\<lambda>run3.
                 Inr (on_cstate RestoreFilters
                   (done_message (error_count (cstate (r_env ?run1))) f run3))))"
      unfolding x prod.case
      by (intro outcome_rules outcome_option outcome_bind [OF lint])
        (use p2 in \<open>auto simp: done_message_def\<close>)
  qed
qed

lemma lint_files_errors:
  "filters_signed (run_cstate run) \<Longrightarrow>
   outcome (file_error w (r_fs run)) (\<lambda>_. True) (lint_files w fs run)"
proof (induction fs arbitrary: run)
  case (Cons f fs)
  have ex: "extras_anywhere (r_fs run) f []" by (simp add: extras_anywhere_def extras_ok_def)
  show ?case unfolding lint_files.simps
  proof (rule outcome_bind [OF ProcessFile_errors [OF Cons.prems ex]])
    fix run' assume p: "ProcessFile w [] f (verbose_level (cstate (r_env run))) run = Inr run'"
      and place: "same_place (r_fs run) run'"
    from signed.ProcessFile_inv [OF p Cons.prems] have "filters_signed (run_cstate run')" .
    from Cons.IH [OF this] show "outcome (file_error w (r_fs run)) (\<lambda>_. True) (lint_files w fs run')"
      by (rule outcome_weaken) (use place in \<open>auto simp: file_error_def intro: line_error_place\<close>)
  qed
qed simp



section \<open>The program\<close>

text \<open>No option touches the files or the working directory.\<close>

definition same_disk :: "(string \<Rightarrow> bool) \<Rightarrow> string \<Rightarrow> cli_state \<Rightarrow> bool" where
  "same_disk exists cwd st \<longleftrightarrow> fs_exists (r_fs (g_run st)) = exists \<and> fs_cwd (r_fs (g_run st)) = cwd"

lemma same_disk_updates:
  assumes "same_disk ex cwd (o_state s)"
  shows "same_disk ex cwd (o_state (s\<lparr>o_quiet := b\<rparr>))" "same_disk ex cwd (o_state (s\<lparr>o_verbosity := n\<rparr>))"
    "same_disk ex cwd (o_state (s\<lparr>o_filters := t\<rparr>))" "same_disk ex cwd (o_state (s\<lparr>o_recursive := b\<rparr>))"
    "same_disk ex cwd (o_state (s\<lparr>o_format := t\<rparr>))" "same_disk ex cwd (o_state (s\<lparr>o_counting := t\<rparr>))"
    "same_disk ex cwd (o_state (add_excludes fs s))"
    "(\<And>run. fs_exists (r_fs (g run)) = fs_exists (r_fs run) \<and> fs_cwd (r_fs (g run)) = fs_cwd (r_fs run)) \<Longrightarrow>
       same_disk ex cwd (o_state (set_run g s))"
  using assms by (simp_all add: same_disk_def add_excludes_def set_run_def)

lemma apply_option_disk:
  assumes "same_disk ex cwd (o_state s)"
  shows "outcome (\<lambda>_. True) (\<lambda>s'. same_disk ex cwd (o_state s')) (apply_option sh ov s)"
  unfolding apply_option_def
  by (cases ov, simp only: prod.case)
    (intro outcome_rules outcome_exits outcome_option same_disk_updates assms TrueI; simp)

lemma apply_options_disk:
  "same_disk ex cwd (o_state s) \<Longrightarrow>
   outcome (\<lambda>_. True) (\<lambda>s'. same_disk ex cwd (o_state s')) (apply_options sh ovs s)"
  by (induction ovs arbitrary: s) (auto intro: outcome_bind [OF apply_option_disk])

lemma store_settings_disk:
  "same_disk ex cwd (o_state s) \<Longrightarrow> outcome (\<lambda>_. True) (same_disk ex cwd) (store_settings s)"
  by (auto simp: store_settings_def Let_def same_disk_def on_cstate_def outcome_def split: sum.split prod.split option.split)

lemma ParseArguments_disk:
  assumes "same_disk ex cwd st" and "ParseArguments sh args st = Inr (st', files)"
  shows "same_disk ex cwd st'"
proof -
  from assms(2) obtain opts named where g: "getopt args LINT_OPTIONS = Some (opts, named)"
    by (auto simp: ParseArguments_def PrintUsage_def split: option.splits)
  with assms(2) obtain s where o: "apply_options sh opts (start_settings st) = Inr s"
    by (auto simp: ParseArguments_def py_bind_Inr_iff)
  from g o assms(2) have s: "store_settings s = Inr st'"
    by (auto simp: ParseArguments_def py_bind_Inr_iff PrintUsage_def split: if_splits)
  have "same_disk ex cwd (o_state (start_settings st))" using assms(1) by (simp add: start_settings_def)
  from apply_options_disk [OF this, of sh opts] o have "same_disk ex cwd (o_state s)" by simp
  from store_settings_disk [OF this] s show ?thesis by simp
qed

lemma parsed_filters_signed:
  assumes "parsed_state (init_cli ex cwd) st"
  shows "filters_signed (run_cstate (on_cstate ResetErrorCounts (g_run st)))"
proof -
  have "filters_backup (cli_cstate st) = DEFAULT_FILTERS" "filters_ok (cli_cstate st)"
    using assms by (simp_all add: parsed_state_def Let_def cli_cstate_def init_cli_def init_env_def init_cpplint_state_def)
  then show ?thesis
    by (simp add: filters_signed_def filters_ok_def ResetErrorCounts_def cli_cstate_def run_cstate_def on_cstate_def
        DEFAULT_FILTERS_def filter_ok_def)
qed


end
