(* ===== verification/Lockstep.thy ===== *)
theory Lockstep
  imports Lint_Main_Laws
begin

text \<open>
  What the output options cannot change.  Two runs whose states agree on everything that the
  checks and the handler read stay in step: a relation between the two states that reporting
  and the settings keep, whatever each of them prints, is kept by a whole run, and the runs end
  in the same way.  The locale \<open>lockstep\<close> carries such a relation through; it is interpreted for
  the relation that leaves output format and quietness open, and for the one that also leaves
  the counting style open.
\<close>

section \<open>Runs in step\<close>

text \<open>
  Within a file the suppressions have to agree as well; between two files they need not, since
  every file starts by clearing them.
\<close>

definition env_step :: "(cpplint_state \<Rightarrow> cpplint_state \<Rightarrow> bool) \<Rightarrow> lint_env \<Rightarrow> lint_env \<Rightarrow> bool" where
  "env_step R e e' \<longleftrightarrow> nolint_tab e = nolint_tab e' \<and> R (cstate e) (cstate e')"

definition run_step :: "(cpplint_state \<Rightarrow> cpplint_state \<Rightarrow> bool) \<Rightarrow> run_state \<Rightarrow> run_state \<Rightarrow> bool" where
  "run_step R r r' \<longleftrightarrow> R (run_cstate r) (run_cstate r') \<and> r_exts r = r_exts r' \<and> r_fs r = r_fs r'
     \<and> r_line_length r = r_line_length r'"

definition cfg_step :: "(cpplint_state \<Rightarrow> cpplint_state \<Rightarrow> bool) \<Rightarrow> cfg_scan \<Rightarrow> cfg_scan \<Rightarrow> bool" where
  "cfg_step R c c' \<longleftrightarrow> run_step R (c_run c) (c_run c') \<and> c_filters c = c_filters c' \<and> c_keep c = c_keep c'"

definition paired :: "('a \<Rightarrow> 'b \<Rightarrow> bool) \<Rightarrow> 'a \<times> 'c \<Rightarrow> 'b \<times> 'c \<Rightarrow> bool" where
  "paired Q x y \<longleftrightarrow> Q (fst x) (fst y) \<and> snd x = snd y"

lemma paired_pair: "paired Q (a, c) (b, d) \<longleftrightarrow> Q a b \<and> c = d"
  by (simp add: paired_def)

lemma pairedE: "paired Q x y \<Longrightarrow> (\<And>a b c. x = (a, c) \<Longrightarrow> y = (b, c) \<Longrightarrow> Q a b \<Longrightarrow> thesis) \<Longrightarrow> thesis"
  by (cases x; cases y) (simp add: paired_def)

lemma rel_bind:
  "rel_sum (=) Q m m' \<Longrightarrow> (\<And>x y. Q x y \<Longrightarrow> rel_sum (=) P (k x) (k' y)) \<Longrightarrow> rel_sum (=) P (py_bind m k) (py_bind m' k')"
  by (cases m; cases m') auto

lemma rel_bind_eq:
  "m = m' \<Longrightarrow> (\<And>x. m = Inr x \<Longrightarrow> rel_sum (=) P (k x) (k' x)) \<Longrightarrow> rel_sum (=) P (py_bind m k) (py_bind m' k')"
  by (cases m) auto

lemma rel_split:
  "(b \<longleftrightarrow> b') \<Longrightarrow> (b \<Longrightarrow> rel_sum (=) P x x') \<Longrightarrow> (\<not> b \<Longrightarrow> rel_sum (=) P y y')
     \<Longrightarrow> rel_sum (=) P (if b then x else y) (if b' then x' else y')"
  by simp

lemma run_step_nolint: "env_step R e e' \<Longrightarrow> env_step R (e\<lparr>nolint_tab := t\<rparr>) (e'\<lparr>nolint_tab := t\<rparr>)"
  by (simp add: env_step_def)

declare on_cstate_frame [simp]

lemma run_step_updates:
  assumes "run_step R r r'"
  shows "run_step R (r\<lparr>r_exts := x\<rparr>) (r'\<lparr>r_exts := x\<rparr>)" "run_step R (r\<lparr>r_fs := fs\<rparr>) (r'\<lparr>r_fs := fs\<rparr>)"
    "run_step R (r\<lparr>r_line_length := n\<rparr>) (r'\<lparr>r_line_length := n\<rparr>)"
    "env_step R e e' \<Longrightarrow> run_step R (r\<lparr>r_env := e\<rparr>) (r'\<lparr>r_env := e'\<rparr>)"
    "(\<And>a b. R a b \<Longrightarrow> R (f a) (g b)) \<Longrightarrow> run_step R (on_cstate f r) (on_cstate g r')"
  using assms by (auto simp: run_step_def env_step_def)

text \<open>
  Between two files the backup of the filters does not matter either.
\<close>

definition between :: "(cpplint_state \<Rightarrow> cpplint_state \<Rightarrow> bool) \<Rightarrow> cpplint_state \<Rightarrow> cpplint_state \<Rightarrow> bool" where
  "between R a b \<longleftrightarrow> R (BackupFilters a) (BackupFilters b)"

locale lockstep =
  fixes R :: "cpplint_state \<Rightarrow> cpplint_state \<Rightarrow> bool"
  assumes R_read: "R a b \<Longrightarrow> verbose_level a = verbose_level b \<and> filters a = filters b"
    and R_report: "R a b \<Longrightarrow> R (emit m (IncrementErrorCount c a)) (emit m (IncrementErrorCount c b))"
    and R_info: "R a b \<Longrightarrow> R (PrintInfo t a) b" "R a b \<Longrightarrow> R a (PrintInfo t b)"
    and R_print: "R a b \<Longrightarrow> R (PrintError t a) (PrintError u b)"
    and R_add: "R a b \<Longrightarrow> R (fst (AddFilters fs a)) (fst (AddFilters fs b))"
    and R_level: "R a b \<Longrightarrow> R (fst (SetVerboseLevel v a)) (fst (SetVerboseLevel v b))"
    and R_backup: "R a b \<Longrightarrow> R (BackupFilters a) (BackupFilters b)"
    and R_restore: "R a b \<Longrightarrow> R (RestoreFilters a) (RestoreFilters b)"
begin

lemma R_between: "R a b \<Longrightarrow> between R a b"
  by (simp add: between_def R_backup)

lemma R_enter: "between R a b \<Longrightarrow> R (BackupFilters (fst (SetVerboseLevel v a))) (BackupFilters (fst (SetVerboseLevel v b)))"
  using R_backup [OF R_level [of "BackupFilters a" "BackupFilters b" v]] by (simp add: between_def setting_frame)

lemma between_read: "between R a b \<Longrightarrow> verbose_level a = verbose_level b"
  using R_read [of "BackupFilters a" "BackupFilters b"] by (simp add: between_def setting_frame)

lemma Error_step: "env_step R e e' \<Longrightarrow> rel_sum (=) (env_step R) (Error m e) (Error m e')"
proof -
  assume s: "env_step R e e'"
  have "ShouldPrintError c k n e = ShouldPrintError c k n e'" for c k n
    by (rule ShouldPrintError_cong) (use s R_read in \<open>auto simp: env_step_def\<close>)
  then show ?thesis unfolding Error_def
    by (intro rel_bind_eq) (use s in \<open>auto simp: env_step_def R_report\<close>)
qed

lemma report_all_step: "env_step R e e' \<Longrightarrow> rel_sum (=) (env_step R) (report_all ms e) (report_all ms e')"
  by (induction ms arbitrary: e e') (auto intro: rel_bind [OF Error_step])

lemma run_acts_step: "env_step R e e' \<Longrightarrow> rel_sum (=) (env_step R) (run_acts f acts e) (run_acts f acts e')"
proof (induction acts arbitrary: e e')
  case (Cons a acts)
  show ?case
  proof (cases a)
    case (Report m)
    with Cons show ?thesis by (auto intro: rel_bind [OF Error_step])
  next
    case (ParseNolint raw n)
    obtain tab ms where p: "ParseNolintSuppressions f raw n (nolint_tab e) = (tab, ms)" by fastforce
    with Cons.prems have "ParseNolintSuppressions f raw n (nolint_tab e') = (tab, ms)" by (simp add: env_step_def)
    with p ParseNolint Cons.IH show ?thesis
      by (auto intro!: rel_bind [OF report_all_step [OF run_step_nolint [OF Cons.prems]]])
  qed
qed simp

section \<open>A file\<close>

lemma ProcessLine_step:
  assumes "run_step R r r'"
  shows "ProcessLine w r ex f ext cl n ps = ProcessLine w r' ex f ext cl n ps"
proof -
  have "R (cstate (r_env r)) (cstate (r_env r'))" using assms by (simp add: run_step_def run_cstate_def)
  from R_read [OF this] have v: "verbose_level (cstate (r_env r)) = verbose_level (cstate (r_env r'))" by blast
  have "r_exts r = r_exts r'" "r_fs r = r_fs r'" "r_line_length r = r_line_length r'"
    using assms by (simp_all add: run_step_def)
  then show ?thesis unfolding ProcessLine_def v by (simp only:)
qed

lemma process_lines_step:
  assumes "run_step R r r'"
  shows "env_step R e e' \<Longrightarrow>
    rel_sum (=) (\<lambda>x y. fst x = fst y \<and> env_step R (snd x) (snd y))
      (process_lines w r ex f ext cl ls (ps, e)) (process_lines w r' ex f ext cl ls (ps, e'))"
proof (induction ls arbitrary: ps e e')
  case (Cons n ls)
  show ?case unfolding process_lines.simps ProcessLine_step [OF assms]
  proof (rule rel_bind_eq [OF refl], simp only: split_beta)
    fix x
    show "rel_sum (=) (\<lambda>x y. fst x = fst y \<and> env_step R (snd x) (snd y))
       (py_bind (run_acts f (snd x) e) (\<lambda>env1. py_bind (FlagCxx11Features f cl n) (\<lambda>ms.
          py_bind (report_all ms env1) (\<lambda>env2. process_lines w r ex f ext cl ls (fst x, env2)))))
       (py_bind (run_acts f (snd x) e') (\<lambda>env1. py_bind (FlagCxx11Features f cl n) (\<lambda>ms.
          py_bind (report_all ms env1) (\<lambda>env2. process_lines w r' ex f ext cl ls (fst x, env2)))))"
      by (intro rel_bind [OF run_acts_step [OF Cons.prems]] rel_bind_eq [OF refl] rel_bind [OF report_all_step] Cons.IH)
  qed
qed simp

lemma start_file_step:
  assumes "R (cstate e) (cstate e')"
  shows "rel_sum (=) (\<lambda>x y. fst x = fst y \<and> env_step R (snd x) (snd y)) (start_file f ls e) (start_file f ls e')"
proof -
  obtain ls' ms where r: "RemoveMultiLineComments f ls = (ls', ms)" by fastforce
  have "env_step R (e\<lparr>nolint_tab := ResetNolintSuppressions (nolint_tab e)\<rparr>)
      (e'\<lparr>nolint_tab := ResetNolintSuppressions (nolint_tab e')\<rparr>)"
    using assms by (simp add: env_step_def ResetNolintSuppressions_def)
  then show ?thesis unfolding start_file_def r Let_def prod.case
  proof (rule rel_bind [OF report_all_step])
    fix e1 e1' assume s: "env_step R e1 e1'"
    then have "nolint_tab e1 = nolint_tab e1'" by (simp add: env_step_def)
    then show "rel_sum (=) (\<lambda>x y. fst x = fst y \<and> env_step R (snd x) (snd y))
       (py_bind (report_all ms (e1\<lparr>nolint_tab := ProcessGlobalSuppresions ls (nolint_tab e1)\<rparr>)) (\<lambda>env3. Inr (ls', env3)))
       (py_bind (report_all ms (e1'\<lparr>nolint_tab := ProcessGlobalSuppresions ls (nolint_tab e1')\<rparr>)) (\<lambda>env3. Inr (ls', env3)))"
      by (simp only:) (rule rel_bind [OF report_all_step [OF run_step_nolint [OF s]]], simp)
  qed
qed

lemma ProcessFileData_step:
  assumes "run_step R r r'"
  shows "rel_sum (=) (env_step R) (ProcessFileData w r ex f ext ls) (ProcessFileData w r' ex f ext ls)"
proof -
  have e: "R (cstate (r_env r)) (cstate (r_env r'))" using assms by (simp add: run_step_def run_cstate_def)
  have g: "guard_acts r f ext cl = guard_acts r' f ext cl" for cl
    using assms by (simp add: guard_acts_def run_step_def)
  have c: "final_checks w r f ext ls' cl ps = final_checks w r' f ext ls' cl ps" for ls' cl ps
    using assms by (simp add: final_checks_def own_header_msgs_def run_step_def)
  show ?thesis unfolding ProcessFileData_def g c split_beta
    by (rule rel_bind [OF start_file_step [OF e]], simp only:,
        intro rel_bind_eq [OF refl] rel_bind [OF run_acts_step] rel_bind [OF process_lines_step [OF assms]],
        auto intro!: rel_bind_eq report_all_step)
qed

section \<open>Configuration files\<close>

lemma cfg_setting_step: "cfg_step R c c' \<Longrightarrow> cfg_step R (cfg_setting cfg name val c) (cfg_setting cfg name val c')"
  by (auto simp: cfg_step_def cfg_setting_def on_run_def run_step_def R_print
      split: option.split)

lemma cfg_exclude_step:
  assumes "cfg_step R c c'"
  shows "rel_sum (=) (paired (cfg_step R)) (cfg_exclude w f cfg base val c) (cfg_exclude w f cfg base val c')"
proof -
  have info: "cfg_step R (c\<lparr>c_run := on_cstate (PrintInfo t) (c_run c)\<rparr>) c'"
    "cfg_step R c (c'\<lparr>c_run := on_cstate (PrintInfo t) (c_run c')\<rparr>)"
    "cfg_step R (c\<lparr>c_run := on_cstate (PrintInfo t) (c_run c)\<rparr>) (c'\<lparr>c_run := on_cstate (PrintInfo t) (c_run c')\<rparr>)" for t
    using assms R_info by (auto simp: cfg_step_def run_step_def)
  show ?thesis
    by (cases "base = []"; cases "w_compile w val")
      (auto simp: cfg_exclude_def paired_def assms info)
qed

lemma cfg_line_step:
  assumes "cfg_step R c c'"
  shows "rel_sum (=) (paired (cfg_step R)) (cfg_line w f cfg base l c) (cfg_line w f cfg base l c')"
  unfolding cfg_line_def Let_def
  by (intro rel_split refl cfg_exclude_step assms) (simp_all add: paired_def assms cfg_setting_step)

lemma cfg_lines_step:
  "cfg_step R c c' \<Longrightarrow>
   rel_sum (=) (paired (cfg_step R)) (cfg_lines w f cfg base ls c) (cfg_lines w f cfg base ls c')"
proof (induction ls arbitrary: c c')
  case (Cons l ls)
  show ?case unfolding cfg_lines.simps
    by (rule rel_bind [OF cfg_line_step [OF Cons.prems]]) (auto simp: paired_def split_beta intro: Cons.IH [unfolded paired_def])
qed (simp add: paired_def)

lemma cfg_climb_step:
  "cfg_step R c c' \<Longrightarrow> rel_sum (=) (paired (cfg_step R)) (cfg_climb w f p c) (cfg_climb w f p c')"
proof (induction w f p c arbitrary: c' rule: cfg_climb.induct)
  case (1 w f p c)
  let ?dir = "path_dirname p" let ?cfg = "path_join ?dir ''CPPLINT.cfg''"
  note step = cfg_climb.simps [of w f p c] cfg_climb.simps [of w f p c']
  have keep: "c_keep c' = c_keep c" using 1(3) by (simp add: cfg_step_def)
  show ?case
  proof (cases "\<not> c_keep c \<or> path_tail p = []")
    case True
    with 1(3) keep show ?thesis by (simp add: step paired_def)
  next
    case go: False
    show ?thesis
    proof (cases "w_isfile w ?cfg")
      case False
      with 1(1) [OF go refl refl refl _ 1(3)] go keep show ?thesis by (simp add: step Let_def)
    next
      case isfile: True
      show ?thesis
      proof (cases "w_lines w ?cfg")
        case None
        with go keep isfile 1(3) show ?thesis
          by (simp add: step Let_def paired_def cfg_step_def on_run_def run_step_def R_print)
      next
        case (Some ls)
        have e: "cfg_climb w f p d = py_bind (cfg_lines w f ?cfg (path_tail p) ls d) (\<lambda>(d', excluded).
            if excluded then Inr (d', True) else cfg_climb w f ?dir d')" if "c_keep d" for d
          using cfg_climb.simps [of w f p d] that go isfile Some by (simp add: Let_def)
        have ih: "rel_sum (=) (paired (cfg_step R)) (cfg_climb w f ?dir a) (cfg_climb w f ?dir b)" if "cfg_step R a b" for a b
          using 1(2) [OF go refl refl refl _ Some] isfile that by auto
        have "c_keep c" "c_keep c'" using go keep by simp_all
        then show ?thesis unfolding e [OF \<open>c_keep c\<close>] e [OF \<open>c_keep c'\<close>]
          by (intro rel_bind [OF cfg_lines_step [OF 1(3)]]) (auto elim!: pairedE simp: paired_pair ih)
      qed
    qed
  qed
qed

lemma add_filters_step:
  "run_step R r r' \<Longrightarrow> rel_sum (=) (run_step R) (add_filters fs r) (add_filters fs r')"
proof (induction fs arbitrary: r r')
  case (Cons x fs)
  obtain a e where a: "AddFilters x (cstate (r_env r)) = (a, e)" by fastforce
  obtain b d where b: "AddFilters x (cstate (r_env r')) = (b, d)" by fastforce
  have R: "R (cstate (r_env r)) (cstate (r_env r'))" using Cons.prems by (simp add: run_step_def run_cstate_def)
  from R_read [OF R] a b have e: "e = d" by (auto simp: AddFilters_def Let_def split: option.splits)
  from R_add [OF R, of x] a b have "R a b" by simp
  with Cons.prems have "run_step R (on_cstate (\<lambda>_. a) r) (on_cstate (\<lambda>_. b) r')"
    by (simp add: run_step_def)
  from Cons.IH [OF this] a b e show ?case by (cases d) auto
qed simp

lemma ProcessConfigOverrides_step:
  assumes "run_step R r r'"
  shows "rel_sum (=) (paired (run_step R)) (ProcessConfigOverrides w f r) (ProcessConfigOverrides w f r')"
proof -
  have "cfg_step R \<lparr>c_run = r, c_filters = [], c_keep = True\<rparr> \<lparr>c_run = r', c_filters = [], c_keep = True\<rparr>"
    using assms by (simp add: cfg_step_def)
  note climb = cfg_climb_step [OF this]
  have "r_fs r = r_fs r'" using assms by (simp add: run_step_def)
  then show ?thesis unfolding ProcessConfigOverrides_def split_beta
    by (simp only:, intro rel_bind [OF climb] rel_split rel_bind [OF add_filters_step])
      (auto simp: paired_def cfg_step_def intro!: rel_bind [OF add_filters_step])
qed

section \<open>The run\<close>

lemma lint_text_step:
  assumes "run_step R r r'"
  shows "rel_sum (=) (run_step R) (lint_text w ex f t r) (lint_text w ex f t r')"
proof -
  have eq: "r_exts r = r_exts r'" using assms by (simp add: run_step_def)
  have ign: "ignoring_text w r f = ignoring_text w r' f" by (simp add: ignoring_text_def eq)
  show ?thesis unfolding lint_text_def Let_def eq ign
    by (intro rel_split refl rel_bind [OF ProcessFileData_step [OF assms]] rel_bind [OF report_all_step])
      (auto intro!: run_step_updates assms R_print)
qed

lemma done_message_step:
  assumes "run_step R r r'"
  shows "run_step R (done_message n f r) (done_message n' f r')"
  using assms R_info by (auto simp: done_message_def run_step_def)

lemma ProcessFile_step:
  assumes "run_step (between R) r r'"
  shows "rel_sum (=) (run_step R) (ProcessFile w ex f v r) (ProcessFile w ex f v r')"
proof -
  let ?g = "on_cstate (\<lambda>st. BackupFilters (fst (SetVerboseLevel v st)))"
  let ?n = "error_count (cstate (r_env (?g r)))" and ?n' = "error_count (cstate (r_env (?g r')))"
  have s: "run_step R (?g r) (?g r')" using assms R_enter
    by (auto simp: run_step_def)
  show ?thesis unfolding ProcessFile_def Let_def split_beta
  proof (rule rel_bind [OF ProcessConfigOverrides_step [OF s]])
    fix x y :: "run_state \<times> bool" assume "paired (run_step R) x y"
    then have xy: "run_step R (fst x) (fst y)" "snd x = snd y" by (auto simp: paired_def)
    let ?after = "\<lambda>n r. if \<not> snd x then Inr (on_cstate RestoreFilters r)
         else case w_text w f of
            None \<Rightarrow> Inr (on_cstate (\<lambda>st. RestoreFilters (PrintError (unreadable_text f) st)) r)
          | Some text \<Rightarrow> py_bind (lint_text w ex f text r) (\<lambda>run3. Inr (on_cstate RestoreFilters (done_message n f run3)))"
    have "rel_sum (=) (run_step R) (?after ?n (fst x)) (?after ?n' (fst y))"
    proof (cases "w_text w f")
      case None
      with xy(1) show ?thesis by (auto intro!: run_step_updates(5) R_restore R_print)
    next
      case (Some t)
      have "rel_sum (=) (run_step R)
          (py_bind (lint_text w ex f t (fst x)) (\<lambda>run3. Inr (on_cstate RestoreFilters (done_message ?n f run3))))
          (py_bind (lint_text w ex f t (fst y)) (\<lambda>run3. Inr (on_cstate RestoreFilters (done_message ?n' f run3))))"
        by (rule rel_bind [OF lint_text_step [OF xy(1)]])
          (auto intro!: run_step_updates(5) R_restore done_message_step)
      with Some xy(1) show ?thesis by (auto intro!: run_step_updates(5) R_restore)
    qed
    then show "rel_sum (=) (run_step R)
       (if \<not> snd x then Inr (on_cstate RestoreFilters (fst x))
         else case w_text w f of
            None \<Rightarrow> Inr (on_cstate (\<lambda>st. RestoreFilters (PrintError (unreadable_text f) st)) (fst x))
          | Some text \<Rightarrow> py_bind (lint_text w ex f text (fst x)) (\<lambda>run3. Inr (on_cstate RestoreFilters (done_message ?n f run3))))
       (if \<not> snd y then Inr (on_cstate RestoreFilters (fst y))
         else case w_text w f of
            None \<Rightarrow> Inr (on_cstate (\<lambda>st. RestoreFilters (PrintError (unreadable_text f) st)) (fst y))
          | Some text \<Rightarrow> py_bind (lint_text w ex f text (fst y)) (\<lambda>run3. Inr (on_cstate RestoreFilters (done_message ?n' f run3))))"
      unfolding xy(2) .
  qed
qed

lemma lint_files_step:
  "run_step (between R) r r' \<Longrightarrow> rel_sum (=) (run_step (between R)) (lint_files w fs r) (lint_files w fs r')"
proof (induction fs arbitrary: r r')
  case (Cons f fs)
  have "between R (cstate (r_env r)) (cstate (r_env r'))" using Cons.prems by (simp add: run_step_def run_cstate_def)
  note v = between_read [OF this]
  have "rel_sum (=) (run_step (between R)) (lint_files w fs x) (lint_files w fs y)" if "run_step R x y" for x y
    by (rule Cons.IH) (use that R_between in \<open>simp add: run_step_def\<close>)
  then show ?case unfolding lint_files.simps v by (rule rel_bind [OF ProcessFile_step [OF Cons.prems]])
qed simp

end

section \<open>What the output options leave open\<close>

text \<open>States that agree on everything but what is printed and how.\<close>

definition same_verdict :: "cpplint_state \<Rightarrow> cpplint_state \<Rightarrow> bool" where
  "same_verdict a b \<longleftrightarrow> verbose_level a = verbose_level b \<and> filters a = filters b
     \<and> filters_backup a = filters_backup b \<and> error_count a = error_count b
     \<and> counting a = counting b \<and> errors_by_category a = errors_by_category b"

text \<open>States that may also count in different ways.\<close>

definition same_total :: "cpplint_state \<Rightarrow> cpplint_state \<Rightarrow> bool" where
  "same_total a b \<longleftrightarrow> verbose_level a = verbose_level b \<and> filters a = filters b
     \<and> filters_backup a = filters_backup b \<and> error_count a = error_count b"

lemma fst_AddFilters_frame:
  "verbose_level (fst (AddFilters fs st)) = verbose_level st" "error_count (fst (AddFilters fs st)) = error_count st"
  "filters_backup (fst (AddFilters fs st)) = filters_backup st" "counting (fst (AddFilters fs st)) = counting st"
  "errors_by_category (fst (AddFilters fs st)) = errors_by_category st"
  "filters (fst (AddFilters fs st)) = filters st @ filter_parts fs"
  by (simp_all add: fst_AddFilters)

interpretation verdict: lockstep same_verdict
  by unfold_locales
    (auto simp: same_verdict_def setting_frame fst_AddFilters_frame IncrementErrorCount_def Let_def)

interpretation total: lockstep same_total
  by unfold_locales
    (auto simp: same_total_def setting_frame fst_AddFilters_frame IncrementErrorCount_def Let_def)

section \<open>Options that do not matter\<close>

text \<open>
  The options \<open>--output\<close> and \<open>--quiet\<close>, and \<open>--counting\<close> unless \<open>c\<close> holds, do not matter; what
  the others set is the \<open>heart\<close> of the settings.
\<close>

definition matters :: "bool \<Rightarrow> string \<times> string \<Rightarrow> bool" where
  "matters c ov \<longleftrightarrow> fst ov \<noteq> ''--output'' \<and> fst ov \<noteq> ''--quiet'' \<and> (c \<or> fst ov \<noteq> ''--counting'')"

definition heart :: "bool \<Rightarrow> settings \<Rightarrow> cli_state \<times> int \<times> string \<times> bool \<times> string" where
  "heart c s = (o_state s, o_verbosity s, o_filters s, o_recursive s, if c then o_counting s else [])"

lemma heart_updates:
  assumes "heart c s = heart c s'"
  shows "heart c (s\<lparr>o_verbosity := n\<rparr>) = heart c (s'\<lparr>o_verbosity := n\<rparr>)"
    "heart c (s\<lparr>o_filters := t\<rparr>) = heart c (s'\<lparr>o_filters := t\<rparr>)"
    "heart c (s\<lparr>o_recursive := b\<rparr>) = heart c (s'\<lparr>o_recursive := b\<rparr>)"
    "heart c (s\<lparr>o_format := t\<rparr>) = heart c (s'\<lparr>o_format := t'\<rparr>)"
    "heart c (s\<lparr>o_quiet := b\<rparr>) = heart c (s'\<lparr>o_quiet := b'\<rparr>)"
    "heart c (s\<lparr>o_counting := t\<rparr>) = heart c (s'\<lparr>o_counting := t\<rparr>)"
    "heart c (add_excludes fs s) = heart c (add_excludes fs s')" "heart c (set_run g s) = heart c (set_run g s')"
  using assms by (auto simp: heart_def add_excludes_def set_run_def)

lemma rel_option:
  "(x = None \<Longrightarrow> rel_sum (=) P m m') \<Longrightarrow> (\<And>a. x = Some a \<Longrightarrow> rel_sum (=) P (k a) (k' a))
     \<Longrightarrow> rel_sum (=) P (case x of None \<Rightarrow> m | Some a \<Rightarrow> k a) (case x of None \<Rightarrow> m' | Some a \<Rightarrow> k' a)"
  by (cases x) simp_all

lemma rel_exits:
  "rel_sum (=) P (PrintUsage u) (PrintUsage u)" "rel_sum (=) P PrintVersion PrintVersion"
  "rel_sum (=) P PrintCategories PrintCategories" "rel_sum (=) P (Inl e) (Inl e)"
  by (simp_all add: PrintUsage_def PrintVersion_def PrintCategories_def)

lemma apply_option_heart:
  assumes "heart c s = heart c s'"
  shows "rel_sum (=) (\<lambda>a b. heart c a = heart c b) (apply_option sh ov s) (apply_option sh ov s')"
  unfolding apply_option_def
  by (cases ov, simp only: prod.case)
    (intro rel_split refl rel_exits rel_option rel_sum_simps(4) [THEN iffD2] heart_updates assms)

lemma apply_option_output:
  assumes "\<not> matters c ov" and "apply_option sh ov s = Inr s'"
  shows "heart c s' = heart c s"
proof -
  consider "fst ov = ''--output''" | "fst ov = ''--quiet''" | "fst ov = ''--counting''" "\<not> c"
    using assms(1) by (auto simp: matters_def)
  then show ?thesis using assms(2)
    by cases (cases ov; auto simp: apply_option_def heart_def PrintUsage_def split: if_splits)+
qed

lemma apply_options_heart:
  "apply_options sh ovs s = Inr t \<Longrightarrow> heart c s = heart c s' \<Longrightarrow>
   \<exists>t'. apply_options sh (filter (matters c) ovs) s' = Inr t' \<and> heart c t = heart c t'"
proof (induction ovs arbitrary: s s')
  case (Cons ov ovs)
  from Cons.prems(1) obtain s1 where o: "apply_option sh ov s = Inr s1" "apply_options sh ovs s1 = Inr t"
    by (auto simp: py_bind_Inr_iff)
  show ?case
  proof (cases "matters c ov")
    case False
    with apply_option_output [OF False o(1)] Cons.prems(2) Cons.IH [OF o(2), of s'] show ?thesis by simp
  next
    case True
    from apply_option_heart [OF Cons.prems(2), of sh ov] o(1) obtain s1' where
      "apply_option sh ov s' = Inr s1'" "heart c s1 = heart c s1'" by (cases "apply_option sh ov s'") auto
    with Cons.IH [OF o(2), of s1'] True show ?thesis by simp
  qed
qed simp

text \<open>The states that \<open>ParseArguments\<close> leaves from settings with the same heart.\<close>

definition agree :: "bool \<Rightarrow> cpplint_state \<Rightarrow> cpplint_state \<Rightarrow> bool" where
  "agree c a b \<longleftrightarrow> (if c then same_verdict a b else same_total a b)"

lemma store_settings_step:
  assumes "heart c s = heart c s'" and "store_settings s = Inr st" and "store_settings s' = Inr st'"
  shows "run_step (agree c) (g_run st) (g_run st') \<and> chosen_files sh s fs = chosen_files sh s' fs"
proof -
  from assms(1) have h: "o_state s = o_state s'" "o_verbosity s = o_verbosity s'" "o_filters s = o_filters s'"
    "o_recursive s = o_recursive s'" "c \<Longrightarrow> o_counting s = o_counting s'" by (auto simp: heart_def)
  have r: "\<exists>fmt q. g_run st = on_cstate (\<lambda>_. SetCountingStyle (o_counting s)
      (fst (SetFilters (o_filters s) ((cli_cstate (o_state s))\<lparr>output_format := fmt, quiet := q, verbose_level := o_verbosity s\<rparr>))))
      (g_run (o_state s))" if "store_settings s = Inr st" for s st
  proof -
    let ?st = "(cli_cstate (o_state s))\<lparr>output_format := o_format s, quiet := o_quiet s, verbose_level := o_verbosity s\<rparr>"
    have "g_run st = on_cstate (\<lambda>_. SetCountingStyle (o_counting s) (fst (SetFilters (o_filters s) ?st))) (g_run (o_state s))"
      using that by (auto simp: store_settings_def SetVerboseLevel_def SetQuiet_def SetOutputFormat_def
          split: option.splits prod.splits)
    then show ?thesis by (intro exI)
  qed
  obtain f1 q1 where 1: "g_run st = on_cstate (\<lambda>_. SetCountingStyle (o_counting s)
      (fst (SetFilters (o_filters s) ((cli_cstate (o_state s))\<lparr>output_format := f1, quiet := q1, verbose_level := o_verbosity s\<rparr>))))
      (g_run (o_state s))" using r [OF assms(2)] by blast
  obtain f2 q2 where 2: "g_run st' = on_cstate (\<lambda>_. SetCountingStyle (o_counting s')
      (fst (SetFilters (o_filters s') ((cli_cstate (o_state s'))\<lparr>output_format := f2, quiet := q2, verbose_level := o_verbosity s'\<rparr>))))
      (g_run (o_state s'))" using r [OF assms(3)] by blast
  have "run_step (agree c) (g_run st) (g_run st')"
    unfolding 1 2 h(1-3)
    by (auto simp: run_step_def agree_def same_verdict_def same_total_def
        SetCountingStyle_def SetFilters_def fst_AddFilters h(5))
  moreover have "chosen_files sh s fs = chosen_files sh s' fs" by (simp add: chosen_files_def h)
  ultimately show ?thesis by blast
qed

lemma agree_lint_files: "run_step (agree c) r r' \<Longrightarrow> rel_sum (=) (run_step (between (agree c))) (lint_files w fs r) (lint_files w fs r')"
  using verdict.lint_files_step [of r r' w fs] total.lint_files_step [of r r' w fs] verdict.R_between total.R_between
  by (cases c) (simp_all add: agree_def [abs_def] run_step_def)

text \<open>
  C10.  How the result is printed does not change it: two command lines whose options agree, in
  their order, on everything but \<open>--output\<close> and \<open>--quiet\<close>, and with the same files, give the same
  exit status, the same number of errors and the same numbers by category; the exit status and
  the number of errors do not depend on \<open>--counting\<close> either (\<open>c\<close> is false).
\<close>

theorem output_options_irrelevant:
  assumes "getopt args LINT_OPTIONS = Some (opts, files)" and "getopt args' LINT_OPTIONS = Some (opts', files)"
    and "filter (matters c) opts = filter (matters c) opts'"
    and "lint_main sh args st = Inr (final, code)" and "lint_main sh args' st = Inr (final', code')"
  shows "code = code' \<and> error_count final = error_count final'
    \<and> (c \<longrightarrow> errors_by_category final = errors_by_category final')"
proof -
  let ?run = "\<lambda>st1. on_cstate ResetErrorCounts (g_run st1)"
  have parts: "\<exists>s st1 run. apply_options sh opts (start_settings st) = Inr s \<and> store_settings s = Inr st1
      \<and> lint_files (sh_world sh) (chosen_files sh s files) (?run st1) = Inr run
      \<and> final = final_report (run_cstate run) \<and> code = (if error_count final > 0 then 1 else 0)"
    if "getopt args LINT_OPTIONS = Some (opts, files)" "lint_main sh args st = Inr (final, code)" for args opts final code
    using that by (auto simp: lint_main_def ParseArguments_def PrintUsage_def py_bind_Inr_iff run_cstate_def Let_def
        split: if_splits)
  obtain s st1 run where a: "apply_options sh opts (start_settings st) = Inr s" "store_settings s = Inr st1"
    "lint_files (sh_world sh) (chosen_files sh s files) (?run st1) = Inr run"
    "final = final_report (run_cstate run)" "code = (if error_count final > 0 then 1 else 0)"
    using parts [OF assms(1,4)] by blast
  obtain s' st1' run' where b: "apply_options sh opts' (start_settings st) = Inr s'" "store_settings s' = Inr st1'"
    "lint_files (sh_world sh) (chosen_files sh s' files) (?run st1') = Inr run'"
    "final' = final_report (run_cstate run')" "code' = (if error_count final' > 0 then 1 else 0)"
    using parts [OF assms(2,5)] by blast
  have "heart c s = heart c s'"
    using apply_options_heart [OF a(1) refl, of c] apply_options_heart [OF b(1) refl, of c] assms(3) by auto
  from store_settings_step [OF this a(2) b(2)] have r: "run_step (agree c) (g_run st1) (g_run st1')"
    and f: "chosen_files sh s files = chosen_files sh s' files" by blast+
  have "run_step (agree c) (?run st1) (?run st1')"
    by (rule run_step_updates(5) [OF r])
      (auto simp: agree_def same_verdict_def same_total_def ResetErrorCounts_def)
  from agree_lint_files [OF this, of "sh_world sh" "chosen_files sh s files"] a(3) b(3) f
  have "between (agree c) (run_cstate run) (run_cstate run')" by (simp add: run_step_def)
  then show ?thesis using a(4,5) b(4,5)
    by (auto simp: between_def setting_frame agree_def same_verdict_def same_total_def final_report_frame split: if_splits)
qed

theorem output_options_irrelevant_witness:
  "\<exists>final final'. lint_main demo_shell [''--output=junit'', ''--quiet'', ''--v=3'', ''a.txt''] (init_cli (\<lambda>_. False) ''/'') = Inr (final, 0)
     \<and> lint_main demo_shell [''--v=3'', ''--output=vs7'', ''a.txt''] (init_cli (\<lambda>_. False) ''/'') = Inr (final', 0)
     \<and> output_format final \<noteq> output_format final' \<and> errors_by_category final = errors_by_category final'"
proof -
  let ?a = "[''--output=junit'', ''--quiet'', ''--v=3'', ''a.txt'']" and ?b = "[''--v=3'', ''--output=vs7'', ''a.txt'']"
  let ?r = "lint_main demo_shell ?a (init_cli (\<lambda>_. False) ''/'')" and ?r' = "lint_main demo_shell ?b (init_cli (\<lambda>_. False) ''/'')"
  have "map_sum (\<lambda>_. ()) (\<lambda>(st, code). (code, output_format st)) ?r = Inr (0, ''junit'')" by code_simp
  then obtain final where r: "?r = Inr (final, 0)" "output_format final = ''junit''" by (cases ?r) auto
  have "map_sum (\<lambda>_. ()) (\<lambda>(st, code). (code, output_format st)) ?r' = Inr (0, ''vs7'')" by code_simp
  then obtain final' where r': "?r' = Inr (final', 0)" "output_format final' = ''vs7''" by (cases ?r') auto
  have "getopt ?a LINT_OPTIONS = Some ([(''--output'', ''junit''), (''--quiet'', []), (''--v'', ''3'')], [''a.txt''])"
    by code_simp
  moreover have "getopt ?b LINT_OPTIONS = Some ([(''--v'', ''3''), (''--output'', ''vs7'')], [''a.txt''])" by code_simp
  moreover have "filter (matters True) [(''--output'', ''junit''), (''--quiet'', []), (''--v'', ''3'')]
      = filter (matters True) [(''--v'', ''3''), (''--output'', ''vs7'')]" by code_simp
  ultimately have "errors_by_category final = errors_by_category final'"
    using output_options_irrelevant [where c = True, OF _ _ _ r(1) r'(1)] by blast
  with r r' show ?thesis by simp
qed

end
