(* ===== verification/Independence.thy ===== *)
theory Independence
  imports Lockstep "HOL-Library.Multiset"
begin

text \<open>
  The files of a run are checked independently.  A run over more files is in step with a run over
  the later ones alone, for a relation that lets the first be ahead by what the earlier files
  reported; so the reports of a run are put together from those of its parts.
\<close>

section \<open>A run that is ahead\<close>

definition category_count :: "string \<Rightarrow> cpplint_state \<Rightarrow> nat" where
  "category_count c st = (case map_of (errors_by_category st) c of None \<Rightarrow> 0 | Some n \<Rightarrow> n)"

text \<open>
  The state \<open>a\<close> has over \<open>b\<close> what \<open>q\<close> has over \<open>p\<close>; everything that decides what is reported, and
  how it is counted, is the same.
\<close>

definition ahead :: "cpplint_state \<Rightarrow> cpplint_state \<Rightarrow> cpplint_state \<Rightarrow> cpplint_state \<Rightarrow> bool" where
  "ahead p q a b \<longleftrightarrow> verbose_level a = verbose_level b \<and> filters a = filters b
     \<and> filters_backup a = filters_backup b \<and> counting a = counting b \<and> output_format a = output_format b
     \<and> error_count a + error_count p = error_count q + error_count b
     \<and> (\<forall>c. category_count c a + category_count c p = category_count c q + category_count c b)
     \<and> (\<exists>new. junit_failures b = junit_failures p @ new \<and> junit_failures a = junit_failures q @ new)"

lemma category_count_frame [simp]:
  "category_count c (emit m st) = category_count c st"
  "category_count c (PrintInfo t st) = category_count c st" "category_count c (PrintError t st) = category_count c st"
  "category_count c (st\<lparr>filters := fs\<rparr>) = category_count c st"
  "category_count c (st\<lparr>filters_backup := fs\<rparr>) = category_count c st"
  "category_count c (st\<lparr>verbose_level := v\<rparr>) = category_count c st"
  by (simp_all add: category_count_def)

text \<open>The category under which the counting style counts a message.\<close>

definition counted_as :: "string \<Rightarrow> string \<Rightarrow> string option" where
  "counted_as style c =
     (if style = ''detailed'' then Some c
      else if style = ''toplevel'' then Some (hd (split_on (CHR ''/'') c)) else None)"

lemma category_count_increment [simp]:
  "category_count c (IncrementErrorCount k st) =
     category_count c st + (if counted_as (counting st) k = Some c then 1 else 0)"
  by (auto simp: category_count_def IncrementErrorCount_def counted_as_def Let_def map_of_dict_incr split: option.split)

lemma junit_emit: "\<exists>new. \<forall>st. output_format st = fmt \<longrightarrow> junit_failures (emit m st) = junit_failures st @ new"
  by (cases "fmt = ''junit''")
    (auto simp: emit_def AddJUnitFailure_def write_stderr_def PrintError_def)

lemma ahead_emit:
  assumes "ahead p q a b"
  shows "ahead p q (emit m (IncrementErrorCount c a)) (emit m (IncrementErrorCount c b))"
proof -
  obtain new where "\<forall>st. output_format st = output_format a \<longrightarrow> junit_failures (emit m st) = junit_failures st @ new"
    using junit_emit by blast
  with assms show ?thesis by (auto simp: ahead_def algebra_simps)
qed

interpretation ahead: lockstep "ahead p q" for p q
  by unfold_locales
    (auto simp: ahead_emit, auto simp: ahead_def setting_frame fst_AddFilters)

section \<open>A run over more files\<close>

lemma lint_files_append: "lint_files w (fs @ fs') run = py_bind (lint_files w fs run) (lint_files w fs')"
proof (induction fs arbitrary: run)
  case (Cons f fs)
  show ?case
    by (cases "ProcessFile w [] f (verbose_level (cstate (r_env run))) run") (simp_all add: Cons.IH)
qed simp

text \<open>The settings of the handler are after the files as they were before.\<close>

lemma lint_files_frame:
  "lint_files w fs run = Inr run' \<Longrightarrow>
   filters (run_cstate run') = filters (run_cstate run) \<and> verbose_level (run_cstate run') = verbose_level (run_cstate run)
   \<and> counting (run_cstate run') = counting (run_cstate run)
   \<and> output_format (run_cstate run') = output_format (run_cstate run)"
proof (induction fs arbitrary: run)
  case (Cons f fs)
  then obtain run1 where p: "ProcessFile w [] f (verbose_level (run_cstate run)) run = Inr run1"
    and l: "lint_files w fs run1 = Inr run'" by (auto simp: py_bind_Inr_iff run_cstate_def)
  have "settings_are (quiet (run_cstate run)) (output_format (run_cstate run)) (counting (run_cstate run)) (run_cstate run1)"
    by (rule unchanged.ProcessFile_inv [OF p]) (simp add: settings_are_def)
  with Cons.IH [OF l] ProcessFile_frame [OF p] show ?case by (simp add: settings_are_def)
qed simp

lemma run_step_ahead:
  assumes "lint_files w fs run = Inr run1"
    and "r_exts run1 = r_exts run" and "r_fs run1 = r_fs run" and "r_line_length run1 = r_line_length run"
  shows "run_step (between (ahead (run_cstate run) (run_cstate run1))) run1 run"
  using lint_files_frame [OF assms(1)] assms(2-)
  by (auto simp: run_step_def between_def ahead_def setting_frame)

lemma lint_files_parts:
  assumes "lint_files w fs run = Inr run1"
    and "r_exts run1 = r_exts run" and "r_fs run1 = r_fs run" and "r_line_length run1 = r_line_length run"
  shows "rel_sum (=) (run_step (between (ahead (run_cstate run) (run_cstate run1))))
    (lint_files w (fs @ fs') run) (lint_files w fs' run)"
  using ahead.lint_files_step [OF run_step_ahead [OF assms], of w fs'] by (simp add: lint_files_append assms(1))

lemma between_aheadD:
  assumes "between (ahead p q) a b"
  shows "error_count a + error_count p = error_count q + error_count b"
    and "category_count c a + category_count c p = category_count c q + category_count c b"
    and "\<exists>new. junit_failures b = junit_failures p @ new \<and> junit_failures a = junit_failures q @ new"
  using assms by (auto simp: between_def ahead_def setting_frame)

text \<open>Without configuration files nothing but the state of the handler changes.\<close>

lemma cfg_climb_none:
  "(\<And>f. \<not> w_isfile w f) \<Longrightarrow> cfg_climb w f p c = Inr (c, False)"
proof (induction "length p" arbitrary: p rule: less_induct)
  case less
  show ?case
  proof (cases "\<not> c_keep c \<or> path_tail p = []")
    case False
    with less.hyps [of "path_dirname p"] less.prems path_dirname_lt [of p] show ?thesis
      by (simp add: cfg_climb.simps [of w f p c] Let_def)
  qed (simp add: cfg_climb.simps [of w f p c])
qed

lemma lint_files_no_config:
  assumes "\<And>f. \<not> w_isfile w f"
  shows "lint_files w fs run = Inr run' \<Longrightarrow>
    r_exts run' = r_exts run \<and> r_fs run' = r_fs run \<and> r_line_length run' = r_line_length run"
proof (induction fs arbitrary: run)
  case (Cons f fs)
  let ?v = "verbose_level (cstate (r_env run))"
  let ?g = "on_cstate (\<lambda>st. BackupFilters (fst (SetVerboseLevel ?v st))) run"
  from Cons.prems obtain run1 where p: "ProcessFile w [] f ?v run = Inr run1" and l: "lint_files w fs run1 = Inr run'"
    by (auto simp: py_bind_Inr_iff)
  have "ProcessConfigOverrides w f ?g = Inr (?g, True)"
    by (simp add: ProcessConfigOverrides_def cfg_climb_none assms)
  with ProcessFile_frame [OF p] Cons.IH [OF l] show ?case by auto
qed simp

text \<open>
  C6.  The files are checked independently of the files before them, provided that the
  configuration files of these have not changed extensions, root directory or line length.  What
  happens on the later files \<open>fs'\<close> happens as if they were checked alone: the same exception, or
  the numbers of errors, in total and by category, add up to those of the parts, and the failures
  of the JUnit report are those of the first part followed by those of the second.
\<close>

theorem files_checked_independently:
  assumes "lint_files w fs run = Inr run1"
    and "r_exts run1 = r_exts run" and "r_fs run1 = r_fs run" and "r_line_length run1 = r_line_length run"
  shows "case lint_files w fs' run of
      Inl e \<Rightarrow> lint_files w (fs @ fs') run = Inl e
    | Inr run2 \<Rightarrow> (\<exists>run3. lint_files w (fs @ fs') run = Inr run3
        \<and> error_count (run_cstate run3) + error_count (run_cstate run) = error_count (run_cstate run1) + error_count (run_cstate run2)
        \<and> (\<forall>c. category_count c (run_cstate run3) + category_count c (run_cstate run)
              = category_count c (run_cstate run1) + category_count c (run_cstate run2))
        \<and> (\<exists>new. junit_failures (run_cstate run2) = junit_failures (run_cstate run) @ new
              \<and> junit_failures (run_cstate run3) = junit_failures (run_cstate run1) @ new))"
proof -
  note parts = lint_files_parts [OF assms, of fs']
  show ?thesis
  proof (cases "lint_files w fs' run")
    case (Inl e)
    with parts show ?thesis by (cases "lint_files w (fs @ fs') run") auto
  next
    case (Inr run2)
    with parts obtain run3 where "lint_files w (fs @ fs') run = Inr run3"
      and "between (ahead (run_cstate run) (run_cstate run1)) (run_cstate run3) (run_cstate run2)"
      by (cases "lint_files w (fs @ fs') run") (auto simp: run_step_def)
    with Inr show ?thesis using between_aheadD by simp
  qed
qed

text \<open>A world of empty files, without configuration files.\<close>

definition blank_world :: world where
  "blank_world = \<lparr>w_order = sorted_list_of_set, w_compile = (\<lambda>_. None), w_text = (\<lambda>_. Some []),
     w_lines = (\<lambda>_. None), w_isfile = (\<lambda>_. False)\<rparr>"

definition first_run :: run_state where
  "first_run = g_run (init_cli (\<lambda>_. False) ''/'')"

lemma blank_run:
  obtains run where "lint_files blank_world [''a.cc''] first_run = Inr run" "error_count (run_cstate run) = 1"
    "run_cstate first_run = init_cpplint_state"
proof -
  have "map_sum (\<lambda>_. ()) (\<lambda>r. error_count (run_cstate r)) (lint_files blank_world [''a.cc''] first_run) = Inr 1"
    by code_simp
  moreover have "run_cstate first_run = init_cpplint_state"
    by (simp add: first_run_def init_cli_def init_env_def run_cstate_def)
  ultimately show thesis using that by (cases "lint_files blank_world [''a.cc''] first_run") auto
qed

theorem files_checked_independently_witness:
  "\<exists>run. lint_files blank_world ([''a.cc''] @ [''a.cc'']) first_run = Inr run \<and> error_count (run_cstate run) = 2"
proof -
  obtain run1 where r: "lint_files blank_world [''a.cc''] first_run = Inr run1" "error_count (run_cstate run1) = 1"
    and i: "run_cstate first_run = init_cpplint_state" by (rule blank_run)
  have "r_exts run1 = r_exts first_run \<and> r_fs run1 = r_fs first_run \<and> r_line_length run1 = r_line_length first_run"
    by (rule lint_files_no_config [OF _ r(1)]) (simp add: blank_world_def)
  with files_checked_independently [OF r(1), of "[''a.cc'']"] r i show ?thesis
    by (auto simp: init_cpplint_state_def)
qed

section \<open>The order of the files\<close>

text \<open>Numbers that a part of a run adds to what the run had before.\<close>

definition additive :: "(cpplint_state \<Rightarrow> int) \<Rightarrow> bool" where
  "additive g \<longleftrightarrow> (\<forall>p q a b. between (ahead p q) a b \<longrightarrow> g a + g p = g q + g b)"

lemma additive_counters:
  "additive (\<lambda>st. int (error_count st))" "additive (\<lambda>st. int (category_count c st))"
  "additive (\<lambda>st. int (count (mset (junit_failures st)) x))"
  unfolding additive_def using between_aheadD(1,2) between_aheadD(3) by (fastforce simp flip: of_nat_add)+

definition alone :: "world \<Rightarrow> run_state \<Rightarrow> string \<Rightarrow> run_state" where
  "alone w run f = (case lint_files w [f] run of Inl _ \<Rightarrow> run | Inr r \<Rightarrow> r)"

lemma lint_files_split:
  assumes "\<And>f. \<not> w_isfile w f"
  shows "(\<exists>run1. lint_files w fs run = Inr run1) \<longleftrightarrow> list_all (\<lambda>f. \<exists>r. lint_files w [f] run = Inr r) fs"
    and "lint_files w fs run = Inr run1 \<Longrightarrow> additive g \<Longrightarrow>
      g (run_cstate run1) = g (run_cstate run) + (\<Sum>f\<leftarrow>fs. g (run_cstate (alone w run f)) - g (run_cstate run))"
proof (induction fs arbitrary: run1 rule: rev_induct)
  case (snoc f fs)
  have parts: "rel_sum (=) (run_step (between (ahead (run_cstate run) (run_cstate r))))
      (lint_files w (fs @ [f]) run) (lint_files w [f] run)" if "lint_files w fs run = Inr r" for r
    using lint_files_parts [OF that] lint_files_no_config [OF assms that] by blast
  {
    case 1
    show ?case
    proof (cases "lint_files w fs run")
      case (Inl e)
      with snoc.IH(1) show ?thesis by (simp add: lint_files_append)
    next
      case (Inr r)
      with snoc.IH(1) have "list_all (\<lambda>f. \<exists>r. lint_files w [f] run = Inr r) fs" by blast
      with parts [OF Inr] show ?thesis
        by (cases "lint_files w (fs @ [f]) run"; cases "lint_files w [f] run") auto
    qed
  next
    case 2
    from 2(1) obtain r where r: "lint_files w fs run = Inr r"
      by (cases "lint_files w fs run") (simp_all add: lint_files_append)
    from parts [OF r] 2(1) obtain r' where r': "lint_files w [f] run = Inr r'"
      and "between (ahead (run_cstate run) (run_cstate r)) (run_cstate run1) (run_cstate r')"
      by (cases "lint_files w [f] run") (auto simp: run_step_def)
    with 2(2) have "g (run_cstate run1) + g (run_cstate run) = g (run_cstate r) + g (run_cstate r')"
      by (simp add: additive_def)
    moreover have "alone w run f = r'" using r' by (simp only: alone_def sum.case)
    ultimately show ?case using snoc.IH(2) [OF r 2(2)] by simp
  }
qed simp_all

text \<open>
  C13.  The order of the files on the command line does not matter when there are no configuration
  files: if a run in one order returns, it returns in every other, with the same numbers of
  errors, in total and by category, and with the same failures in the JUnit report up to order.
\<close>

theorem file_order_irrelevant:
  assumes "\<And>f. \<not> w_isfile w f" and "mset fs = mset fs'" and "lint_files w fs run = Inr run1"
  shows "\<exists>run2. lint_files w fs' run = Inr run2
    \<and> error_count (run_cstate run2) = error_count (run_cstate run1)
    \<and> (\<forall>c. category_count c (run_cstate run2) = category_count c (run_cstate run1))
    \<and> mset (junit_failures (run_cstate run2)) = mset (junit_failures (run_cstate run1))"
proof -
  from lint_files_split(1) [OF assms(1), of fs run] assms(3) have "list_all (\<lambda>f. \<exists>r. lint_files w [f] run = Inr r) fs'"
    unfolding list_all_iff mset_eq_setD [OF assms(2), symmetric] by blast
  with lint_files_split(1) [OF assms(1), of fs' run] obtain run2 where r: "lint_files w fs' run = Inr run2" by blast
  have "g (run_cstate run2) = g (run_cstate run1)" if g: "additive g" for g
  proof -
    have "sum_list (map h fs) = sum_list (map h fs')" for h :: "string \<Rightarrow> int"
      using assms(2) by (metis mset_map sum_mset_sum_list)
    with lint_files_split(2) [OF assms(1) assms(3) g] lint_files_split(2) [OF assms(1) r g] show ?thesis by simp
  qed
  note same = this [OF additive_counters(1)] this [OF additive_counters(2)] this [OF additive_counters(3)]
  show ?thesis using r same by (auto simp: multiset_eq_iff)
qed

theorem file_order_irrelevant_witness:
  "\<exists>run. lint_files blank_world [''b.txt'', ''a.cc''] first_run = Inr run \<and> error_count (run_cstate run) = 1"
proof -
  have "map_sum (\<lambda>_. ()) (\<lambda>r. error_count (run_cstate r)) (lint_files blank_world [''a.cc'', ''b.txt''] first_run) = Inr 1"
    by code_simp
  then obtain run1 where r: "lint_files blank_world [''a.cc'', ''b.txt''] first_run = Inr run1"
    and n: "error_count (run_cstate run1) = 1"
    by (cases "lint_files blank_world [''a.cc'', ''b.txt''] first_run") auto
  have "mset [''a.cc'', ''b.txt''] = mset [''b.txt'', ''a.cc'']" by simp
  from file_order_irrelevant [OF _ this r] n show ?thesis by (auto simp: blank_world_def)
qed

end
