(* ===== verification/Reports.thy ===== *)
theory Reports
  imports Process_Laws
begin

text \<open>
  What a file reports.  The messages that reach the output while a file is processed form one
  list: each of them was accepted by the handler, so it has the confidence and the category
  that verbosity and filters ask for, and no NOLINT comment read before covers it.
\<close>

section \<open>Traces of accepted messages\<close>

definition emit_all :: "lint_msg list \<Rightarrow> cpplint_state \<Rightarrow> cpplint_state" where
  "emit_all ms st = fold (\<lambda>m s. emit m (IncrementErrorCount (l_cat m) s)) ms st"

lemma emit_all_simps [simp]:
  "emit_all [] st = st" "emit_all (m # ms) st = emit_all ms (emit m (IncrementErrorCount (l_cat m) st))"
  "emit_all (ms @ ms') st = emit_all ms' (emit_all ms st)"
  by (simp_all add: emit_all_def)

lemma emit_all_frame [simp]:
  "filters (emit_all ms st) = filters st" "verbose_level (emit_all ms st) = verbose_level st"
  "error_count (emit_all ms st) = error_count st + length ms"
  by (induction ms arbitrary: st) simp_all

text \<open>Suppressions are only added while a file is processed.\<close>

definition suppresses_more :: "nolint_state \<Rightarrow> nolint_state \<Rightarrow> bool" where
  "suppresses_more tab tab' \<longleftrightarrow> (\<forall>c n. IsErrorSuppressedByNolint tab c n \<longrightarrow> IsErrorSuppressedByNolint tab' c n)"

lemma suppresses_more_refl [simp]: "suppresses_more tab tab"
  by (simp add: suppresses_more_def)

lemma suppresses_more_trans: "suppresses_more a b \<Longrightarrow> suppresses_more b c \<Longrightarrow> suppresses_more a c"
  by (simp add: suppresses_more_def)

lemma suppresses_more_parse: "suppresses_more tab (fst (ParseNolintSuppressions f raw n tab))"
  by (auto simp: suppresses_more_def ParseNolintSuppressions_directive suppressed_add_suppression split: option.split)

lemma suppresses_more_global: "suppresses_more tab (ProcessGlobalSuppresions ls tab)"
  unfolding suppresses_more_def IsErrorSuppressedByNolint_def ProcessGlobalSuppresions_lines
  by (auto simp: ProcessGlobalSuppresions_lookup)

text \<open>The messages \<open>ms\<close> lead from one environment to the other, and the first accepts them all.\<close>

definition reports_from :: "lint_env \<Rightarrow> lint_msg list \<Rightarrow> lint_env \<Rightarrow> bool" where
  "reports_from e ms e' \<longleftrightarrow> cstate e' = emit_all ms (cstate e) \<and> list_all (error_accepts e) ms
     \<and> suppresses_more (nolint_tab e) (nolint_tab e')"

lemma error_accepts_mono:
  assumes "error_accepts e' m" and "suppresses_more (nolint_tab e) (nolint_tab e')"
    and "filters (cstate e') = filters (cstate e)" and "verbose_level (cstate e') = verbose_level (cstate e)"
  shows "error_accepts e m"
  using assms by (auto simp: error_accepts_def ShouldPrintError_def suppresses_more_def split: if_splits)

lemma reports_from_refl: "reports_from e [] e"
  by (simp add: reports_from_def)

lemma reports_from_trans:
  assumes "reports_from e ms e1" and "reports_from e1 ms' e2"
  shows "reports_from e (ms @ ms') e2"
proof -
  have "error_accepts e m" if "error_accepts e1 m" for m
    by (rule error_accepts_mono [OF that]) (use assms(1) in \<open>auto simp: reports_from_def\<close>)
  then have "list_all (error_accepts e) ms'"
    using assms(2) by (auto simp: reports_from_def list_all_iff)
  with assms show ?thesis using suppresses_more_trans by (auto simp: reports_from_def)
qed

definition reporting :: "lint_env \<Rightarrow> lint_env \<Rightarrow> bool" where
  "reporting e e' \<longleftrightarrow> (\<exists>ms. reports_from e ms e')"

lemma reporting_refl [simp]: "reporting e e"
  using reports_from_refl by (auto simp: reporting_def)

lemma reporting_trans [trans]: "reporting e e1 \<Longrightarrow> reporting e1 e2 \<Longrightarrow> reporting e e2"
  unfolding reporting_def using reports_from_trans by blast

lemma reporting_nolint: "suppresses_more (nolint_tab e) tab \<Longrightarrow> reporting e (e\<lparr>nolint_tab := tab\<rparr>)"
  unfolding reporting_def reports_from_def by (rule exI [of _ "[]"]) simp

section \<open>A file\<close>

lemma Error_reporting:
  assumes "Error m e = Inr e'"
  shows "reporting e e'"
proof (cases "error_accepts e m")
  case True
  with assms have "reports_from e [m] e'" by (auto simp: Error_def error_accepts_def reports_from_def)
  then show ?thesis by (auto simp: reporting_def)
next
  case False
  with assms have "e' = e" by (auto simp: Error_def error_accepts_def py_bind_Inr_iff split: if_splits)
  then show ?thesis by simp
qed

lemma report_all_reporting: "report_all ms e = Inr e' \<Longrightarrow> reporting e e'"
  by (induction ms arbitrary: e) (auto simp: py_bind_Inr_iff intro: reporting_trans Error_reporting)

lemma run_acts_reporting: "run_acts f acts e = Inr e' \<Longrightarrow> reporting e e'"
proof (induction f acts e rule: run_acts.induct)
  case (3 f raw n acts e)
  obtain tab ms where p: "ParseNolintSuppressions f raw n (nolint_tab e) = (tab, ms)" by fastforce
  with 3(2) obtain e1 where r: "report_all ms (e\<lparr>nolint_tab := tab\<rparr>) = Inr e1" "run_acts f acts e1 = Inr e'"
    by (auto simp: py_bind_Inr_iff)
  have "reporting e (e\<lparr>nolint_tab := tab\<rparr>)"
    using suppresses_more_parse [of "nolint_tab e" f raw n] by (simp add: reporting_nolint p)
  also have "reporting (e\<lparr>nolint_tab := tab\<rparr>) e1" by (rule report_all_reporting [OF r(1)])
  also have "reporting e1 e'" using 3(1) [OF refl p [symmetric] r(2)] .
  finally show ?case .
qed (auto simp: py_bind_Inr_iff intro: reporting_trans Error_reporting)

lemma process_lines_reporting:
  "process_lines w run ex f ext cl ls (ps, e) = Inr (ps', e') \<Longrightarrow> reporting e e'"
proof (induction ls arbitrary: ps e)
  case (Cons n ls)
  then obtain ps1 acts e1 ms e2 where "run_acts f acts e = Inr e1" "report_all ms e1 = Inr e2"
    and "process_lines w run ex f ext cl ls (ps1, e2) = Inr (ps', e')" by (auto simp: py_bind_Inr_iff)
  with Cons.IH show ?case using run_acts_reporting report_all_reporting reporting_trans by metis
qed simp

lemma start_file_reporting:
  assumes "start_file f ls e = Inr (ls', e')"
  shows "reporting (e\<lparr>nolint_tab := ResetNolintSuppressions (nolint_tab e)\<rparr>) e'"
proof -
  let ?e = "e\<lparr>nolint_tab := ResetNolintSuppressions (nolint_tab e)\<rparr>"
  obtain ls1 ms where r: "RemoveMultiLineComments f ls = (ls1, ms)" by fastforce
  from assms r obtain e1 where 1: "report_all (CheckForCopyright f ls) ?e = Inr e1"
    and 2: "report_all ms (e1\<lparr>nolint_tab := ProcessGlobalSuppresions ls (nolint_tab e1)\<rparr>) = Inr e'"
    by (auto simp: start_file_def Let_def py_bind_Inr_iff)
  have "reporting ?e e1" by (rule report_all_reporting [OF 1])
  also have "reporting e1 (e1\<lparr>nolint_tab := ProcessGlobalSuppresions ls (nolint_tab e1)\<rparr>)"
    by (rule reporting_nolint) (rule suppresses_more_global)
  also have "reporting \<dots> e'" by (rule report_all_reporting [OF 2])
  finally show ?thesis .
qed

lemma ProcessFileData_reporting:
  assumes "ProcessFileData w run ex f ext ls = Inr e'"
  shows "reporting ((r_env run)\<lparr>nolint_tab := ResetNolintSuppressions (nolint_tab (r_env run))\<rparr>) e'"
proof -
  from assms obtain ls' e1 acts e2 cl ps e3 ms where "start_file f (marked_lines ls) (r_env run) = Inr (ls', e1)"
    and "run_acts f acts e1 = Inr e2"
    and "process_lines w run ex f ext cl [0 ..< NumLines cl] (init_parse, e2) = Inr (ps, e3)"
    and "report_all ms e3 = Inr e'"
    by (auto simp: ProcessFileData_def py_bind_Inr_iff)
  then show ?thesis
    using start_file_reporting run_acts_reporting process_lines_reporting report_all_reporting reporting_trans by metis
qed

section \<open>Properties\<close>

text \<open>
  C8.  What a file reports: one list of messages, each counted and written once, in order; every
  one of them has at least the confidence that the verbosity asks for, and the last filter that
  applies to its category, if there is one, is not a minus filter.
\<close>

theorem file_reports_allowed:
  assumes "ProcessFileData w run ex f ext ls = Inr e" and "filters_ok (cstate (r_env run))"
  shows "\<exists>ms. cstate e = emit_all ms (cstate (r_env run))
    \<and> error_count (cstate e) = error_count (cstate (r_env run)) + length ms
    \<and> list_all (\<lambda>m. verbose_level (cstate (r_env run)) \<le> l_conf m
        \<and> \<not> filtered_out (filters (cstate (r_env run))) (l_cat m) False) ms"
proof -
  let ?e = "(r_env run)\<lparr>nolint_tab := ResetNolintSuppressions (nolint_tab (r_env run))\<rparr>"
  from ProcessFileData_reporting [OF assms(1)] obtain ms
    where m: "cstate e = emit_all ms (cstate ?e)" "list_all (error_accepts ?e) ms"
    by (auto simp: reporting_def reports_from_def)
  have "error_accepts ?e x \<Longrightarrow> verbose_level (cstate (r_env run)) \<le> l_conf x
      \<and> \<not> filtered_out (filters (cstate (r_env run))) (l_cat x) False" for x
    using assms(2) by (simp add: error_accepts_def ShouldPrintError_ok)
  with m show ?thesis by (intro exI [of _ ms]) (auto simp: list_all_iff)
qed

theorem file_reports_allowed_witness:
  "\<exists>ms e. ProcessFileData (config_world []) (g_run (init_cli (\<lambda>_. False) ''/'')) [] ''a.txt'' ''txt'' [] = Inr e
     \<and> cstate e = emit_all ms init_cpplint_state \<and> length ms = 2 \<and> list_all (\<lambda>m. 1 \<le> l_conf m) ms"
proof -
  let ?run = "g_run (init_cli (\<lambda>_. False) ''/'')"
  let ?r = "ProcessFileData (config_world []) ?run [] ''a.txt'' ''txt'' []"
  have "map_sum (\<lambda>_. ()) (\<lambda>e. error_count (cstate e)) ?r = Inr 2" by code_simp
  then obtain e where r: "?r = Inr e" and n: "error_count (cstate e) = 2" by (cases ?r) auto
  have i: "cstate (r_env ?run) = init_cpplint_state" by (simp add: init_cli_def init_env_def)
  have ok: "filters_ok (cstate (r_env ?run))" unfolding i by code_simp
  have v: "error_count init_cpplint_state = 0" "verbose_level init_cpplint_state = 1" by (simp_all add: init_cpplint_state_def)
  from file_reports_allowed [OF r ok] n show ?thesis unfolding i v by (auto simp: r list_all_iff)
qed

text \<open>
  C7.  A NOLINT comment silences its line: from the moment the loop reaches a line with such a
  comment for a category, or for all of them, up to the end of the file, whatever is printed and
  counted is of another category or on another line, whichever line's check reports it.
\<close>

theorem nolint_line_silent:
  assumes "raw_lines cl ! n = raw" and "nolint_directive raw = Some (False, k)" and "k = None \<or> k = Some c"
    and "process_lines w run ex f ext cl (n # ls) (ps, e) = Inr (ps', e1)" and "report_all last_msgs e1 = Inr e'"
  shows "\<exists>ms. cstate e' = emit_all ms (cstate e) \<and> list_all (\<lambda>m. l_cat m \<noteq> c \<or> l_line m \<noteq> Some (int n)) ms"
proof -
  from assms(4) obtain ps1 acts a e2 where p: "ProcessLine w run ex f ext cl n ps = Inr (ps1, acts)"
    and a: "run_acts f acts e = Inr a" and rest: "reporting a e1"
    by (auto simp: py_bind_Inr_iff dest!: report_all_reporting process_lines_reporting intro: reporting_trans)
  from p obtain x acts' where "py_nth (raw_lines cl) (int n) = Inr x" and "acts = ParseNolint x (int n) # acts'"
    by (auto simp: ProcessLine_def py_bind_Inr_iff Let_def split: if_splits)
  with assms(1) have acts: "acts = ParseNolint raw (int n) # acts'"
    by (simp add: py_nth_def split: if_splits)
  define tab where "tab = add_suppression k (int n) (nolint_tab e)"
  have "fst (ParseNolintSuppressions f raw (int n) (nolint_tab e)) = tab"
    using assms(2) by (simp add: ParseNolintSuppressions_directive directive_line_def tab_def)
  moreover have "snd (ParseNolintSuppressions f raw (int n) (nolint_tab e)) = []"
    using ParseNolintSuppressions_msgs [of f raw "int n" "nolint_tab e"] assms(2) by auto
  ultimately have "run_acts f acts' (e\<lparr>nolint_tab := tab\<rparr>) = Inr a"
    using a by (simp add: acts split: prod.splits)
  note run_acts_reporting [OF this]
  also note rest
  also have "reporting e1 e'" by (rule report_all_reporting [OF assms(5)])
  finally obtain ms where "cstate e' = emit_all ms (cstate e)"
    and acc: "list_all (error_accepts (e\<lparr>nolint_tab := tab\<rparr>)) ms"
    by (auto simp: reporting_def reports_from_def)
  moreover have "error_accepts (e\<lparr>nolint_tab := tab\<rparr>) m \<Longrightarrow> l_cat m \<noteq> c \<or> l_line m \<noteq> Some (int n)" for m
    using assms(3) by (auto simp: error_accepts_def ShouldPrintError_def tab_def suppressed_add_suppression)
  ultimately show ?thesis by (intro exI [of _ ms]) (auto simp: list_all_iff)
qed

text \<open>A line with a tab, a comment about it and a space at its end.\<close>

definition silenced_line :: string where
  "silenced_line = [CHR 0x09] @ ''// NOLINT(whitespace/tab) ''"

definition silenced_file :: cleansed_lines where
  "silenced_file = (case CleansedLines [silenced_line] of Inr cl \<Rightarrow> cl)"

theorem nolint_line_silent_witness:
  "\<exists>ms ps e. process_lines (config_world []) (g_run (init_cli (\<lambda>_. False) ''/'')) [] ''a.txt'' ''txt''
        silenced_file [0] (init_parse, init_env) = Inr (ps, e)
     \<and> cstate e = emit_all ms init_cpplint_state \<and> length ms = 1
     \<and> list_all (\<lambda>m. l_cat m \<noteq> ''whitespace/tab'' \<or> l_line m \<noteq> Some 0) ms"
proof -
  let ?run = "g_run (init_cli (\<lambda>_. False) ''/'')"
  let ?r = "process_lines (config_world []) ?run [] ''a.txt'' ''txt'' silenced_file [0] (init_parse, init_env)"
  have "map_sum (\<lambda>_. ()) (\<lambda>(_, e). error_count (cstate e)) ?r = Inr 1" by code_simp
  then obtain ps e where r: "?r = Inr (ps, e)" and n: "error_count (cstate e) = 1" by (cases ?r) auto
  have raw: "raw_lines silenced_file ! 0 = silenced_line" by code_simp
  have d: "nolint_directive silenced_line = Some (False, Some ''whitespace/tab'')" by code_simp
  have "report_all [] e = Inr e" by simp
  from nolint_line_silent [OF raw d _ r this, of "''whitespace/tab''"] obtain ms
    where m: "cstate e = emit_all ms init_cpplint_state"
      "list_all (\<lambda>m. l_cat m \<noteq> ''whitespace/tab'' \<or> l_line m \<noteq> Some 0) ms" by (auto simp: init_env_def)
  with n have "length ms = 1" by (simp add: init_cpplint_state_def)
  with r m show ?thesis by blast
qed

end
