(* ===== verification/Config_Laws.thy ===== *)
theory Config_Laws
  imports Process_Laws
begin

text \<open>
  What the configuration files of a directory and of those above it do to a file: the settings
  that \<open>ProcessConfigOverrides\<close> leaves are a function of the lines it reads, in the order from the
  innermost directory to the outermost.
\<close>

section \<open>The settings that are read\<close>

text \<open>The name and the value of a line that is not blank.\<close>

definition cfg_entry :: "string \<Rightarrow> (string \<times> string) option" where
  "cfg_entry text =
     (let line = takeWhile (\<lambda>x. x \<noteq> CHR ''#'') text in
      if strip line = [] then None
      else Some (strip (takeWhile (\<lambda>x. x \<noteq> CHR ''='') line), strip (tl (dropWhile (\<lambda>x. x \<noteq> CHR ''='') line))))"

definition cfg_entries :: "string list \<Rightarrow> (string \<times> string) list" where
  "cfg_entries ls = List.map_filter cfg_entry ls"

definition no_parent :: "(string \<times> string) list \<Rightarrow> bool" where
  "no_parent es \<longleftrightarrow> list_ex (\<lambda>e. fst e = ''set noparent'') es"

text \<open>The entries of the files for a path, up to one that sets \<open>noparent\<close> or cannot be read.\<close>

function config_entries :: "world \<Rightarrow> string \<Rightarrow> (string \<times> string) list list" where
  "config_entries w p =
     (if path_tail p = [] then []
      else
        let dir = path_dirname p; cfg_file = path_join dir ''CPPLINT.cfg''
        in if \<not> w_isfile w cfg_file then config_entries w dir
           else case w_lines w cfg_file of
             None \<Rightarrow> []
           | Some ls \<Rightarrow> cfg_entries ls # (if no_parent (cfg_entries ls) then [] else config_entries w dir))"
  by pat_completeness auto
termination
  by (relation "measure (\<lambda>(w, p). length p)") (auto simp: path_dirname_lt)

declare config_entries.simps [simp del]

section \<open>Their effect\<close>

definition filter_values :: "(string \<times> string) list \<Rightarrow> string list" where
  "filter_values es = map snd (filter (\<lambda>e. fst e = ''filter'') es)"

definition line_length_after :: "(string \<times> string) list \<Rightarrow> int \<Rightarrow> int" where
  "line_length_after es n =
     fold (\<lambda>e n. case py_int (snd e) of Some m \<Rightarrow> m | None \<Rightarrow> n) (filter (\<lambda>e. fst e = ''linelength'') es) n"

definition extensions_after :: "(string \<times> string) list \<Rightarrow> ext_state \<Rightarrow> ext_state" where
  "extensions_after es x =
     fold (\<lambda>e x. if fst e = ''extensions'' then ProcessExtensionsOption (snd e) x
        else if fst e = ''headers'' then ProcessHppHeadersOption (snd e) x else x) es x"

definition cfg_effect :: "(string \<times> string) list \<Rightarrow> cfg_scan \<Rightarrow> cfg_scan \<Rightarrow> bool" where
  "cfg_effect es c c' \<longleftrightarrow> c_filters c' = c_filters c @ filter_values es
     \<and> filters (run_cstate (c_run c')) = filters (run_cstate (c_run c))
     \<and> r_line_length (c_run c') = line_length_after es (r_line_length (c_run c))
     \<and> r_exts (c_run c') = extensions_after es (r_exts (c_run c))"

lemma cfg_effect_refl: "cfg_effect [] c c"
  by (simp add: cfg_effect_def filter_values_def line_length_after_def extensions_after_def)

lemma cfg_effect_trans: "cfg_effect es c c1 \<Longrightarrow> cfg_effect es' c1 c2 \<Longrightarrow> cfg_effect (es @ es') c c2"
  by (simp add: cfg_effect_def filter_values_def line_length_after_def extensions_after_def)

lemmas effect_defs = cfg_effect_def filter_values_def line_length_after_def extensions_after_def

declare on_cstate_frame [simp]

lemma cfg_setting_effect:
  "cfg_effect [(name, val)] c (cfg_setting cfg name val c) \<and> (c_keep (cfg_setting cfg name val c) \<longleftrightarrow> c_keep c \<and> name \<noteq> ''set noparent'')"
  by (simp add: cfg_setting_def effect_defs on_run_def split: option.split)

lemma cfg_exclude_effect:
  assumes "cfg_exclude w f cfg base val c = Inr (c', False)"
  shows "c' = c"
  using assms by (auto simp: cfg_exclude_def split: if_splits option.splits)

lemma cfg_line_effect:
  assumes "cfg_line w f cfg base l c = Inr (c', False)"
  shows "cfg_effect (cfg_entries [l]) c c' \<and> (c_keep c' \<longleftrightarrow> c_keep c \<and> \<not> no_parent (cfg_entries [l]))"
proof (cases "cfg_entry l")
  case None
  with assms have "c' = c" by (auto simp: cfg_line_def cfg_entry_def Let_def split: if_splits)
  with None show ?thesis by (simp add: cfg_entries_def map_filter_simps cfg_effect_refl no_parent_def)
next
  case (Some e)
  obtain name val where e: "e = (name, val)" by fastforce
  have entries: "cfg_entries [l] = [(name, val)]" using Some e by (simp add: cfg_entries_def map_filter_simps)
  from assms Some e consider "name = ''exclude_files''" "c' = c" | "name \<noteq> ''exclude_files''" "c' = cfg_setting cfg name val c"
    by (auto simp: cfg_line_def cfg_entry_def Let_def split: if_splits dest: cfg_exclude_effect)
  then show ?thesis
    by cases (simp_all add: entries cfg_setting_effect no_parent_def, simp add: effect_defs)
qed

lemma cfg_lines_effect:
  "cfg_lines w f cfg base ls c = Inr (c', False) \<Longrightarrow>
   cfg_effect (cfg_entries ls) c c' \<and> (c_keep c' \<longleftrightarrow> c_keep c \<and> \<not> no_parent (cfg_entries ls))"
proof (induction ls arbitrary: c)
  case Nil
  then show ?case by (simp add: cfg_entries_def map_filter_simps cfg_effect_refl no_parent_def)
next
  case (Cons l ls)
  from Cons.prems obtain c1 where 1: "cfg_line w f cfg base l c = Inr (c1, False)"
    and 2: "cfg_lines w f cfg base ls c1 = Inr (c', False)"
    by (auto simp: py_bind_Inr_iff split: if_splits)
  have "cfg_entries (l # ls) = cfg_entries [l] @ cfg_entries ls"
    by (simp add: cfg_entries_def map_filter_simps split: option.split)
  with cfg_line_effect [OF 1] Cons.IH [OF 2] show ?case
    by (auto simp: no_parent_def intro: cfg_effect_trans)
qed

lemma cfg_climb_effect:
  "cfg_climb w f p c = Inr (c', False) \<Longrightarrow> c_keep c \<Longrightarrow> cfg_effect (concat (config_entries w p)) c c'"
proof (induction w f p c rule: cfg_climb.induct)
  case (1 w f p c)
  let ?dir = "path_dirname p" let ?cfg = "path_join ?dir ''CPPLINT.cfg''"
  note step = cfg_climb.simps [of w f p c] config_entries.simps [of w p]
  show ?case
  proof (cases "path_tail p = []")
    case True
    with 1(3,4) show ?thesis by (simp add: step cfg_effect_refl)
  next
    case ne: False
    with 1(4) have go: "\<not> (\<not> c_keep c \<or> path_tail p = [])" by simp
    show ?thesis
    proof (cases "w_isfile w ?cfg")
      case False
      with 1(1) [OF go refl refl refl] 1(3,4) ne show ?thesis by (simp add: step Let_def)
    next
      case isfile: True
      show ?thesis
      proof (cases "w_lines w ?cfg")
        case None
        with ne isfile 1(3,4) show ?thesis by (auto simp: step Let_def on_run_def effect_defs)
      next
        case (Some ls)
        with ne isfile 1(3,4) obtain c1 where l: "cfg_lines w f ?cfg (path_tail p) ls c = Inr (c1, False)"
          and r: "cfg_climb w f ?dir c1 = Inr (c', False)"
          by (auto simp: step(1) Let_def py_bind_Inr_iff split: if_splits)
        from cfg_lines_effect [OF l] 1(4) have eff: "cfg_effect (cfg_entries ls) c c1"
          and keep: "c_keep c1 \<longleftrightarrow> \<not> no_parent (cfg_entries ls)" by simp_all
        show ?thesis
        proof (cases "no_parent (cfg_entries ls)")
          case True
          with r keep have "c' = c1" by (simp add: cfg_climb.simps [of w f ?dir c1])
          with eff True Some ne isfile show ?thesis by (simp add: step(2) Let_def)
        next
          case False
          have "\<not> \<not> w_isfile w ?cfg" "\<not> False" using isfile by simp_all
          from 1(2) [OF go refl refl refl this(1) Some this(2) r] keep False
          have "cfg_effect (concat (config_entries w ?dir)) c1 c'" by simp
          from cfg_effect_trans [OF eff this] False Some ne isfile show ?thesis by (simp add: step(2) Let_def)
        qed
      qed
    qed
  qed
qed

lemma add_filters_effect:
  "add_filters fs run = Inr run' \<Longrightarrow>
   filters (run_cstate run') = filters (run_cstate run) @ concat (map filter_parts fs)
   \<and> r_exts run' = r_exts run \<and> r_line_length run' = r_line_length run"
proof (induction fs arbitrary: run)
  case (Cons x fs)
  obtain st e where a: "AddFilters x (cstate (r_env run)) = (st, e)" by fastforce
  with Cons.prems have "e = None" and r: "add_filters fs (on_cstate (\<lambda>_. st) run) = Inr run'"
    by (auto split: option.splits)
  from a have "filters st = filters (run_cstate run) @ filter_parts x"
    using fst_AddFilters [of x "cstate (r_env run)"] by (simp add: run_cstate_def)
  with Cons.IH [OF r] show ?case by simp
qed simp

section \<open>Property\<close>

text \<open>
  C11.  The settings that configuration files give to a file.  The filters of the outermost file
  come first, so those of an inner one, which are looked at later, take precedence; with the line
  length and the extensions it is the other way round: they are set file by file on the way out,
  so the outermost file that sets them wins.
\<close>

theorem config_precedence:
  assumes "ProcessConfigOverrides w f run = Inr (run', True)"
  shows "let es = concat (config_entries w (path_abspath (fs_cwd (r_fs run)) f)) in
    filters (run_cstate run') = filters (run_cstate run) @ concat (map filter_parts (rev (filter_values es)))
    \<and> r_line_length run' = line_length_after es (r_line_length run)
    \<and> r_exts run' = extensions_after es (r_exts run)"
proof -
  from assms obtain c where c: "cfg_climb w f (path_abspath (fs_cwd (r_fs run)) f)
      \<lparr>c_run = run, c_filters = [], c_keep = True\<rparr> = Inr (c, False)"
    and a: "add_filters (rev (c_filters c)) (c_run c) = Inr run'"
    by (auto simp: ProcessConfigOverrides_def py_bind_Inr_iff split: if_splits)
  from cfg_climb_effect [OF c] add_filters_effect [OF a] show ?thesis by (simp add: cfg_effect_def Let_def)
qed

text \<open>Two configuration files, of a directory and of the one above it.\<close>

definition nested_configs :: world where
  "nested_configs =
     \<lparr>w_order = sorted_list_of_set, w_compile = (\<lambda>_. None), w_text = (\<lambda>_. None),
      w_lines = (\<lambda>f. if f = ''/w/CPPLINT.cfg'' then Some [''filter=+build'', ''linelength=100'']
                     else if f = ''/w/sub/CPPLINT.cfg'' then Some [''filter=-build'', ''linelength=120'']
                     else None),
      w_isfile = (\<lambda>f. f = ''/w/CPPLINT.cfg'' \<or> f = ''/w/sub/CPPLINT.cfg'')\<rparr>"

theorem config_precedence_witness:
  "\<exists>run'. ProcessConfigOverrides nested_configs ''/w/sub/a.cc'' (g_run (init_cli (\<lambda>_. False) ''/'')) = Inr (run', True)
     \<and> filters (run_cstate run') = DEFAULT_FILTERS @ [''+build'', ''-build''] \<and> r_line_length run' = 100"
proof -
  let ?run = "g_run (init_cli (\<lambda>_. False) ''/'')"
  let ?r = "ProcessConfigOverrides nested_configs ''/w/sub/a.cc'' ?run"
  have "map_sum (\<lambda>_. ()) snd ?r = Inr True" by code_simp
  then obtain run' where r: "?r = Inr (run', True)" by (cases ?r) auto
  let ?es = "concat (config_entries nested_configs (path_abspath (fs_cwd (r_fs ?run)) ''/w/sub/a.cc''))"
  have "concat (map filter_parts (rev (filter_values ?es))) = [''+build'', ''-build'']"
    and "line_length_after ?es (r_line_length ?run) = 100" and "filters (run_cstate ?run) = DEFAULT_FILTERS"
    by code_simp+
  with config_precedence [OF r] r show ?thesis by (simp add: Let_def)
qed

end
