(* ===== verification/Spec2Isabelle.thy ===== *)
theory Spec2Isabelle
  imports Error_Report Extensions Cleanse_Laws Brackets_Back File_Info_Laws File_Checks_Laws
    Nesting_Laws Clang_Tidy_Laws Clang_Format Run_Safety
    Independence Reports Config_Laws Usage
begin

text \<open>
  A verification library for the Python programs of FalconLink, the build-support scripts under
  \<open>src/build_support\<close>: the style checker \<open>cpplint.py\<close>, the parallel \<open>clang-tidy\<close> runner
  \<open>run_clang_tidy.py\<close> with \<open>run_clang_tidy_extra.py\<close>, and the \<open>clang-format\<close> runner
  \<open>run_clang_format.py\<close>.

  \<^bold>\<open>The programs.\<close>  \<open>cpplint.py\<close> reads a C++ file, cleans it (\<open>CleansedLines\<close>), follows the
  nesting of its blocks (\<open>NestingState\<close>), runs checks over the lines and hands what they
  find to one error handler (\<open>Error\<close>), which consults the NOLINT suppressions and the filters
  before it counts and prints a message.  \<open>main\<close> reads the command line, processes one file
  after the other and turns the number of errors into the exit status.  \<open>run_clang_tidy.py\<close> reads the compilation database
  and lets a pool of threads take file names from a bounded queue.  \<open>run_clang_format.py\<close>
  walks directories and compares each file with its formatted text.

  \<^bold>\<open>Conventions.\<close>  Text is a \<^typ>\<open>string\<close> (Latin-1); an exception is the left side of
  \<^typ>\<open>'a py\<close>; a call of the handler \<open>error(...)\<close> is a value of type \<open>lint_msg\<close>, and a
  check returns the list of the calls it makes, in order (\<open>lint_act\<close> where it also reads NOLINT
  comments); a loop that may not end is a
  \<open>partial_function\<close> into \<open>option\<close>, whose value \<open>None\<close> is a run that does not return.  The
  file system, the order in which a set is iterated, the compiler of patterns in configuration
  files, the tools that are run and the \<open>yaml\<close> module are parameters.  Inside \<open>'a py\<close> a call that
  does not return is the value \<^const>\<open>NoReturn\<close>, and \<open>sys.exit\<close> is \<^const>\<open>SystemExit\<close>.

  \<^bold>\<open>The theories.\<close>
  \<^item> \<open>Prelude\<close>: Python values, exceptions, indexing and string methods.
  \<^item> \<open>Py_Regex\<close>: a backtracking matcher that gives the matches of a pattern in the order of
    Python's \<open>re\<close>, a relation \<open>rm\<close> that says what a match is, their equivalence, and
    \<open>match\<close>, \<open>search\<close> and \<open>sub\<close> on top.  \<open>Py_Regex_Syntax\<close>: the parser from pattern
    texts and the cache of \<open>Match\<close>, \<open>Search\<close> and \<open>ReplaceAll\<close>, shown to be transparent.
    \<open>Patterns\<close>, \<open>Patterns_Constructs\<close>, \<open>Patterns_Spacing\<close>, \<open>Patterns_Braces\<close>, \<open>Patterns_Include\<close>,
    \<open>Patterns_Language\<close>: the patterns of the source as syntax trees, each with a lemma that the
    text in the source parses to it.  \<open>Regex_Facts\<close>: where a match ends, and when there is one.
  \<^item> \<open>Diagnostics\<close>, \<open>Extensions\<close>: the tables of categories and extensions.
  \<^item> \<open>Suppressions\<close>: \<open>ParseNolintSuppressions\<close> and the queries; which messages a file
    suppresses.  \<open>Include_State\<close>: \<open>_IncludeState\<close>; the includes that pass are in section order.
    \<open>Lint_State\<close>: \<open>_CppLintState\<close>; filters, counters, the JUnit report.  \<open>Function_State\<close>:
    \<open>_FunctionState\<close>.  \<open>Error_Report\<close>: \<open>_ShouldPrintError\<close> and \<open>Error\<close> over these states; what is
    reported and counted.
  \<^item> \<open>Cleanse\<close> and \<open>Cleanse_Laws\<close>: raw strings, comments and literals.  No line function
    raises, the multi-line comment remover equals a reference definition, comment and
    literal text does not survive.
  \<^item> \<open>Brackets\<close>, \<open>Brackets_Laws\<close>, \<open>Brackets_Back\<close>: \<open>CloseExpression\<close> and
    \<open>ReverseCloseExpression\<close> find exactly the well-nested expressions, and the second inverts
    the first.
  \<^item> \<open>File_Info\<close>, \<open>File_Info_Laws\<close>: POSIX paths, \<open>FileInfo\<close>, header guards.
    \<open>File_Checks\<close>, \<open>File_Checks_Laws\<close>: checks over whole files and single lines.
  \<^item> \<open>Nesting\<close>, \<open>Nesting_Laws\<close>: blocks with object identity and \<open>NestingState.Update\<close>.  Update
    never raises, it counts braces, conditional branches leave no trace, no block is shared by
    mistake.  The locale \<open>stack_invariant\<close> carries an invariant of the three writes to the
    stack through \<open>Update\<close>; it is interpreted for the identity of blocks, for the preprocessor
    stack and for the lines the blocks start on.
  \<^item> \<open>Lint_Check\<close>: the vocabulary of the checks and their contract: a check returns, and its
    messages name the file, one of its lines, a registered category and a confidence.
    \<open>Check_Constructs\<close>: \<open>CheckForNonStandardConstructs\<close>, \<open>CheckForFunctionLengths\<close>, indentation in
    namespaces.  \<open>Check_Spacing\<close> and \<open>Check_Braces\<close>: the checks that \<open>CheckStyle\<close> calls, and
    \<open>CheckStyle\<close>.  \<open>Check_Include\<close>: the include checks up to \<open>CheckForIncludeWhatYouUse\<close>.
    \<open>Check_Language\<close>: \<open>CheckLanguage\<close> with casts, references, \<open>virtual\<close> and \<open>override\<close>.
    \<open>Check_Laws\<close>, \<open>Check_Braces_Laws\<close>, \<open>Check_Language_Laws\<close>: every one of these checks keeps
    the contract, but for an \<open>IndexError\<close> in two of them and the header guard of a file.
  \<^item> \<open>Process_File\<close>: \<open>ProcessLine\<close>, \<open>ProcessFileData\<close>, \<open>ProcessConfigOverrides\<close>, \<open>ProcessFile\<close>.
    \<open>Command_Line\<close>: \<open>getopt\<close> with long options.  \<open>Lint_Main\<close>: \<open>ParseArguments\<close>, the selection of
    files, \<open>main\<close>.
  \<^item> \<open>Process_Laws\<close>: the locales \<open>report_invariant\<close> and \<open>run_invariant\<close> carry a predicate on the
    state \<open>_cpplint_state\<close> through a file and through the run; they are interpreted for the
    counters, the signs of the filters, the JUnit report, the settings, the number of errors
    and what a file must not change.  \<open>Lint_Main_Laws\<close>: what \<open>ParseArguments\<close> establishes, and the
    exit status.  \<open>Process_Safety\<close> and \<open>Run_Safety\<close>: which exceptions a line, a file and the program
    can end with.  \<open>Lockstep\<close>: the options that choose how messages are printed do not change
    the result; the locale \<open>lockstep\<close> carries a relation between two runs through both of them, and
    is interpreted for the relation with the numbers by category and for the one without.
    \<open>Independence\<close>: its third interpretation, for a run that is ahead by what the earlier files
    reported; files are checked independently, and in any order.
  \<^item> \<open>Reports\<close>: the messages that a file prints as one list; what verbosity, filters and NOLINT
    comments let through.  \<open>Config_Laws\<close>: the settings that configuration files give to a file, as a
    function of their lines.  \<open>Usage\<close>: the usage text and what is written before the program is left.
  \<^item> \<open>Task_Queue\<close>: \<open>queue.Queue\<close> and its contract, the locale \<open>bounded_queue\<close>.  \<open>Clang_Tidy\<close>,
    \<open>Clang_Tidy_Laws\<close>: the runner, with its threads as a step relation.  The result does not
    depend on the schedule; the run ends if every file passes the filter, and otherwise never.
  \<^item> \<open>Clang_Format\<close>: the format checker, \<open>fnmatch\<close> and \<open>splitlines\<close>.

  \<^bold>\<open>Bounds.\<close>  The only fuel is in the parser of pattern texts (\<open>compile_re\<close>): twice the length
  of the text plus four, which suffices for every pattern of the source, as the lemmas of
  \<open>Patterns\<close> evaluate.

  \<^bold>\<open>Not modelled.\<close>  The C++ library itself, which is not Python.  In \<open>cpplint.py\<close>: characters
  beyond Latin-1, so that the width of a line is its length and the replacement character is
  never seen; messages that were printed before an exception ends the run; the branches for
  Python 2.  In \<open>run_clang_tidy.py\<close>: \<open>update_progress\<close>, which is never called, and an interrupt
  before or after the run of the threads, which ends the program with its traceback.  The parsers
  that \<open>argparse\<close> builds are represented by the records of the parsed arguments.
\<close>

end
